(* ===== verification/Ariel_Prelude.thy ===== *)
theory Ariel_Prelude
  imports Complex_Main "HOL-Library.AList" "HOL-Library.Char_ord" "HOL-Library.List_Lexorder"
begin

text \<open>
  What every component of the model shares: Python strings and their methods, the JSON values the
  runtime passes around, dictionaries, and results that carry a rejection code or an uncaught
  exception. Nothing here models a file of the repository; it models the part of Python's
  built-in types that the repository uses.

  A Python \<open>str\<close> is an Isabelle \<open>string\<close> whose characters are the code points U+0000 to U+00FF,
  one \<open>char\<close> each, so \<open>length\<close> is Python's \<open>len\<close>. Text outside that range is not modelled.
\<close>

named_theorems result_simps \<open>when a chain of checks accepts\<close>
named_theorems text_simps \<open>laws of strip, lower and their kin\<close>

section \<open>Exceptions and results\<close>

datatype exn = TypeError | ValueError | OverflowError | KeyError | IntegrityError | RuntimeError string

text \<open>
  A validator returns a pair \<open>(dict | None, str | None)\<close>: \<open>Inr d\<close> is \<open>(d, None)\<close>,
  \<open>Inl (Rejected c)\<close> is \<open>(None, c)\<close>, and \<open>Inl (Raised e)\<close> is an exception that leaves it.
\<close>

datatype verror = Rejected string | Raised exn

type_synonym 'a vres = "verror + 'a"

definition reject :: "string \<Rightarrow> 'a vres" where
  "reject c = Inl (Rejected c)"

definition schema_invalid :: "'a vres" where
  "schema_invalid = reject ''schema_invalid''"

text \<open>\<open>if not b: return None, "schema_invalid"\<close>, then the rest.\<close>

definition guard :: "bool \<Rightarrow> 'a vres \<Rightarrow> 'a vres" where
  "guard b r = (if b then r else schema_invalid)"

text \<open>\<open>if x is None: return None, "schema_invalid"\<close>, then the rest with its value.\<close>

definition require :: "'a option \<Rightarrow> ('a \<Rightarrow> 'b vres) \<Rightarrow> 'b vres" where
  "require x k = (case x of None \<Rightarrow> schema_invalid | Some v \<Rightarrow> k v)"

text \<open>A call that may raise: an exception propagates to the caller.\<close>

definition call :: "exn + 'a \<Rightarrow> ('a \<Rightarrow> 'b vres) \<Rightarrow> 'b vres" where
  "call r k = (case r of Inl e \<Rightarrow> Inl (Raised e) | Inr v \<Rightarrow> k v)"

definition then_do :: "'a vres \<Rightarrow> ('a \<Rightarrow> 'b vres) \<Rightarrow> 'b vres" where
  "then_do r k = (case r of Inl e \<Rightarrow> Inl e | Inr v \<Rightarrow> k v)"

lemma guard_Inr [simp, result_simps]: "guard b r = Inr y \<longleftrightarrow> b \<and> r = Inr y"
  by (simp add: guard_def schema_invalid_def reject_def)

lemma require_Inr [simp, result_simps]: "require x k = Inr y \<longleftrightarrow> (\<exists>v. x = Some v \<and> k v = Inr y)"
  by (simp add: require_def schema_invalid_def reject_def split: option.split)

lemma call_Inr [simp, result_simps]: "call r k = Inr y \<longleftrightarrow> (\<exists>v. r = Inr v \<and> k v = Inr y)"
  by (simp add: call_def split: sum.split)

lemma then_do_Inr [simp, result_simps]: "then_do r k = Inr y \<longleftrightarrow> (\<exists>v. r = Inr v \<and> k v = Inr y)"
  by (simp add: then_do_def split: sum.split)

lemma reject_Inr [simp, result_simps]: "reject c \<noteq> Inr y" "schema_invalid \<noteq> Inr y"
  by (simp_all add: reject_def schema_invalid_def)

lemma if_Inr [result_simps]: "(if b then r else r') = Inr y \<longleftrightarrow> (b \<and> r = Inr y \<or> \<not> b \<and> r' = Inr y)"
  by simp

lemma require_simps [simp]: "require None k = schema_invalid" "require (Some v) k = k v"
  by (simp_all add: require_def)

lemma call_simps [simp]: "call (Inl e) k = Inl (Raised e)" "call (Inr v) k = k v"
  by (simp_all add: call_def)

lemma then_do_simps [simp]: "then_do (Inl e) k = Inl e" "then_do (Inr v) k = k v"
  by (simp_all add: then_do_def)

section \<open>Python strings\<close>

definition py_space :: "char list" where
  "py_space = [CHR 0x09, CHR 0x0A, CHR 0x0B, CHR 0x0C, CHR 0x0D, CHR 0x1C, CHR 0x1D, CHR 0x1E,
     CHR 0x1F, CHR '' '', CHR 0x85, CHR 0xA0]"

definition is_space :: "char \<Rightarrow> bool" where
  "is_space c \<longleftrightarrow> List.member py_space c"

text \<open>\<open>str.lower\<close> on Latin-1: A to Z, and U+00C0 to U+00DE except the multiplication sign.\<close>

definition lower_char :: "char \<Rightarrow> char" where
  "lower_char c =
     (let n = (of_char c :: nat)
      in if 65 \<le> n \<and> n \<le> 90 \<or> 192 \<le> n \<and> n \<le> 222 \<and> n \<noteq> 215 then char_of (n + 32) else c)"

definition lower :: "string \<Rightarrow> string" where
  "lower s = map lower_char s"

definition lstrip :: "string \<Rightarrow> string" where
  "lstrip s = dropWhile is_space s"

definition rstrip :: "string \<Rightarrow> string" where
  "rstrip s = rev (dropWhile is_space (rev s))"

definition strip :: "string \<Rightarrow> string" where
  "strip s = rstrip (lstrip s)"

fun starts_with :: "string \<Rightarrow> string \<Rightarrow> bool" where
  "starts_with [] s = True"
| "starts_with (p # ps) [] = False"
| "starts_with (p # ps) (c # cs) = (p = c \<and> starts_with ps cs)"

text \<open>\<open>needle in s\<close>\<close>

fun has_sub :: "string \<Rightarrow> string \<Rightarrow> bool" where
  "has_sub p [] = (p = [])"
| "has_sub p (c # cs) = (starts_with p (c # cs) \<or> has_sub p cs)"

text \<open>
  \<open>s.partition(sep)\<close> for a one-character separator: \<open>None\<close> when the separator does not occur
  (Python then returns \<open>(s, "", "")\<close>).
\<close>

fun partition_at :: "char \<Rightarrow> string \<Rightarrow> (string \<times> string) option" where
  "partition_at c [] = None"
| "partition_at c (d # ds) =
     (if d = c then Some ([], ds)
      else map_option (\<lambda>(a, b). (d # a, b)) (partition_at c ds))"

text \<open>\<open>s.replace(old, new)\<close> for a nonempty \<open>old\<close>: leftmost, non-overlapping.\<close>

fun replace_fuel :: "nat \<Rightarrow> string \<Rightarrow> string \<Rightarrow> string \<Rightarrow> string" where
  "replace_fuel 0 old new s = s"
| "replace_fuel (Suc n) old new [] = []"
| "replace_fuel (Suc n) old new (c # cs) =
     (if starts_with old (c # cs) then new @ replace_fuel n old new (drop (length old) (c # cs))
      else c # replace_fuel n old new cs)"

definition replace :: "string \<Rightarrow> string \<Rightarrow> string \<Rightarrow> string" where
  "replace old new s = replace_fuel (length s) old new s"

lemma is_space_lower [text_simps, simp]: "is_space (lower_char c) = is_space c"
proof (cases c)
  case (Char b0 b1 b2 b3 b4 b5 b6 b7)
  show ?thesis
    unfolding Char
    by (cases b0; cases b1; cases b2; cases b3; cases b4; cases b5; cases b6; cases b7)
      (simp_all add: is_space_def lower_char_def py_space_def Let_def of_char_def char_of_def)
qed

lemma lower_char_idem [simp]: "lower_char (lower_char c) = lower_char c"
proof (cases c)
  case (Char b0 b1 b2 b3 b4 b5 b6 b7)
  show ?thesis
    unfolding Char
    by (cases b0; cases b1; cases b2; cases b3; cases b4; cases b5; cases b6; cases b7)
      (simp_all add: lower_char_def Let_def of_char_def char_of_def)
qed

lemma lower_idem [simp, text_simps]: "lower (lower s) = lower s"
  by (simp add: lower_def)

lemma length_lower [simp]: "length (lower s) = length s"
  by (simp add: lower_def)

lemma lower_Nil [simp]: "lower s = [] \<longleftrightarrow> s = []"
  by (simp add: lower_def)

lemma dropWhile_map_lower: "dropWhile is_space (map lower_char s) = map lower_char (dropWhile is_space s)"
  by (induction s) simp_all

lemma strip_lower [simp, text_simps]: "strip (lower s) = lower (strip s)"
  by (simp add: strip_def lower_def lstrip_def rstrip_def dropWhile_map_lower rev_map)

lemma dropWhile_hd: "s \<noteq> [] \<Longrightarrow> \<not> P (hd s) \<Longrightarrow> dropWhile P s = s"
  by (cases s) simp_all

lemma rstrip_idem [simp]: "rstrip (rstrip s) = rstrip s"
  by (simp add: rstrip_def)

lemma lstrip_idem [simp]: "lstrip (lstrip s) = lstrip s"
  by (simp add: lstrip_def)

lemma rstrip_prefix: "\<exists>t. s = rstrip s @ t"
proof -
  have "rev s = takeWhile is_space (rev s) @ dropWhile is_space (rev s)" by simp
  then have "s = rev (dropWhile is_space (rev s)) @ rev (takeWhile is_space (rev s))"
    by (metis rev_append rev_rev_ident)
  then show ?thesis unfolding rstrip_def by blast
qed

lemma lstrip_rstrip: "lstrip s = s \<Longrightarrow> lstrip (rstrip s) = rstrip s"
proof -
  assume s: "lstrip s = s"
  obtain t where t: "s = rstrip s @ t" using rstrip_prefix by blast
  show ?thesis
  proof (cases "rstrip s")
    case Nil
    then show ?thesis by (simp add: lstrip_def)
  next
    case (Cons c cs)
    then have "hd s = c" using t by (metis append_Cons list.sel(1))
    moreover have "s \<noteq> []" using Cons t by auto
    ultimately have "\<not> is_space c" using s unfolding lstrip_def
      by (metis hd_dropWhile)
    then show ?thesis using Cons by (simp add: lstrip_def)
  qed
qed

lemma strip_idem [simp, text_simps]: "strip (strip s) = strip s"
  by (simp add: strip_def lstrip_rstrip)

lemma length_lstrip: "length (lstrip s) \<le> length s"
  by (simp add: lstrip_def length_dropWhile_le)

lemma length_rstrip: "length (rstrip s) \<le> length s"
  unfolding rstrip_def by (metis length_dropWhile_le length_rev)

lemma length_strip [simp]: "length (strip s) \<le> length s"
  unfolding strip_def using length_rstrip length_lstrip le_trans by blast

lemma strip_empty [simp]: "strip [] = []"
  by (simp add: strip_def lstrip_def rstrip_def)

lemma strip_fix: "strip s = s \<longleftrightarrow> s = [] \<or> \<not> is_space (hd s) \<and> \<not> is_space (last s)"
proof (cases "s = []")
  case True
  then show ?thesis by simp
next
  case ne: False
  show ?thesis
  proof
    assume eq: "strip s = s"
    have "length (lstrip s) = length s"
      using eq length_rstrip [of "lstrip s"] length_lstrip [of s] by (simp add: strip_def)
    moreover have "s = takeWhile is_space s @ lstrip s" by (simp add: lstrip_def)
    ultimately have l: "lstrip s = s" by (metis append_eq_append_conv append_Nil)
    have r: "rstrip s = s" using eq l by (simp add: strip_def)
    have "\<not> is_space (hd s)" using l ne unfolding lstrip_def by (metis hd_dropWhile)
    moreover have "\<not> is_space (last s)"
      using r ne unfolding rstrip_def by (metis hd_dropWhile hd_rev rev_is_Nil_conv rev_rev_ident)
    ultimately show "s = [] \<or> \<not> is_space (hd s) \<and> \<not> is_space (last s)" by simp
  next
    assume "s = [] \<or> \<not> is_space (hd s) \<and> \<not> is_space (last s)"
    then show "strip s = s"
      using ne by (simp add: strip_def lstrip_def rstrip_def dropWhile_hd hd_rev)
  qed
qed

lemma starts_with_iff: "starts_with p s \<longleftrightarrow> (\<exists>t. s = p @ t)"
  by (induction p s rule: starts_with.induct) auto

section \<open>JSON values and dictionaries\<close>

text \<open>
  A Python float is a finite number (kept exactly, as a rational), an infinity or a NaN.
\<close>

datatype pyfloat = Fin rat | Infinite bool | NaN

datatype json =
    JNull
  | JBool bool
  | JInt int
  | JFloat pyfloat
  | JStr string
  | JArr "json list"
  | JTup "json list"
  | JObj "(string \<times> json) list"

type_synonym dict = "(string \<times> json) list"

text \<open>Dictionaries keep insertion order, as Python's do; assignment is \<open>AList.update\<close>.\<close>

definition keys :: "(string \<times> 'v) list \<Rightarrow> string list" where
  "keys d = map fst d"

definition jget :: "dict \<Rightarrow> string \<Rightarrow> json" where
  "jget d k = (case map_of d k of None \<Rightarrow> JNull | Some v \<Rightarrow> v)"

definition jget_or :: "dict \<Rightarrow> string \<Rightarrow> json \<Rightarrow> json" where
  "jget_or d k v0 = (case map_of d k of None \<Rightarrow> v0 | Some v \<Rightarrow> v)"

definition has_key :: "dict \<Rightarrow> string \<Rightarrow> bool" where
  "has_key d k \<longleftrightarrow> List.member (keys d) k"

text \<open>\<open>{**a, **b}\<close>\<close>

definition dict_merge :: "dict \<Rightarrow> dict \<Rightarrow> dict" where
  "dict_merge a b = foldl (\<lambda>d (k, v). AList.update k v d) a b"

text \<open>\<open>isinstance\<close> tests; \<open>bool\<close> is a subclass of \<open>int\<close>.\<close>

fun as_str :: "json \<Rightarrow> string option" where
  "as_str (JStr s) = Some s"
| "as_str _ = None"

fun as_bool :: "json \<Rightarrow> bool option" where
  "as_bool (JBool b) = Some b"
| "as_bool _ = None"

fun as_int :: "json \<Rightarrow> int option" where
  "as_int (JInt i) = Some i"
| "as_int (JBool b) = Some (if b then 1 else 0)"
| "as_int _ = None"

text \<open>\<open>isinstance(v, int) and not isinstance(v, bool)\<close>\<close>

fun as_int_strict :: "json \<Rightarrow> int option" where
  "as_int_strict (JInt i) = Some i"
| "as_int_strict _ = None"

fun as_list :: "json \<Rightarrow> json list option" where
  "as_list (JArr xs) = Some xs"
| "as_list _ = None"

fun as_dict :: "json \<Rightarrow> dict option" where
  "as_dict (JObj d) = Some d"
| "as_dict _ = None"

lemma as_str_Some [simp]: "as_str v = Some s \<longleftrightarrow> v = JStr s"
  by (cases v) auto

lemma as_bool_Some [simp]: "as_bool v = Some b \<longleftrightarrow> v = JBool b"
  by (cases v) auto

lemma as_int_strict_Some [simp]: "as_int_strict v = Some i \<longleftrightarrow> v = JInt i"
  by (cases v) auto

lemma as_list_Some [simp]: "as_list v = Some xs \<longleftrightarrow> v = JArr xs"
  by (cases v) auto

lemma as_dict_Some [simp]: "as_dict v = Some d \<longleftrightarrow> v = JObj d"
  by (cases v) auto

lemma jget_simps [simp]:
  "jget [] k = JNull" "jget ((k', v) # d) k = (if k' = k then v else jget d k)"
  by (simp_all add: jget_def)

lemma jget_or_simps [simp]:
  "jget_or [] k v0 = v0" "jget_or ((k', v) # d) k v0 = (if k' = k then v else jget_or d k v0)"
  by (simp_all add: jget_or_def)

lemma keys_simps [simp]: "keys [] = []" "keys ((k, v) # d) = k # keys d" "keys (a @ b) = keys a @ keys b"
  by (simp_all add: keys_def)

lemma has_key_iff [simp]: "has_key d k \<longleftrightarrow> k \<in> set (keys d)"
  by (simp add: has_key_def)

lemma jget_append: "jget (a @ b) k = (if k \<in> set (keys a) then jget a k else jget b k)"
  by (induction a) auto

lemma jget_notin: "k \<notin> set (keys d) \<Longrightarrow> jget d k = JNull"
  by (induction d) auto

lemma dict_merge_Nil [simp]: "dict_merge a [] = a"
  by (simp add: dict_merge_def)

lemma dict_merge_Cons [simp]: "dict_merge a ((k, v) # b) = dict_merge (AList.update k v a) b"
  by (simp add: dict_merge_def)

lemma update_notin: "k \<notin> set (keys d) \<Longrightarrow> AList.update k v d = d @ [(k, v)]"
  by (induction d) auto

lemma dict_merge_disjoint:
  "set (keys a) \<inter> set (keys b) = {} \<Longrightarrow> distinct (keys b) \<Longrightarrow> dict_merge a b = a @ b"
  by (induction b arbitrary: a) (auto simp: update_notin)

lemma jget_update [simp]: "jget (AList.update k v d) k' = (if k' = k then v else jget d k')"
  by (induction d) auto

lemma keys_update [simp]: "set (keys (AList.update k v d)) = insert k (set (keys d))"
  by (auto simp: keys_def update_keys)

end
