(* ===== verification/Ariel_Datetime.thy ===== *)
theory Ariel_Datetime
  imports Ariel_Prelude
begin

text \<open>
  The part of Python's \<open>datetime\<close> that the repository uses: \<open>datetime.fromisoformat\<close> as CPython
  3.12 implements it (all the ISO 8601 forms it takes, its treatment of the separator and of the
  terminating NUL included), \<open>astimezone(UTC)\<close> with the \<open>OverflowError\<close> it raises at the ends of
  the calendar, and \<open>isoformat\<close>. No definition here models a file of the repository.

  A datetime is its calendar fields, as in Python; \<open>dt_offset\<close> is the UTC offset in microseconds,
  \<open>None\<close> for a naive datetime.
\<close>

record datetime =
  dt_year :: int
  dt_month :: int
  dt_day :: int
  dt_hour :: int
  dt_minute :: int
  dt_second :: int
  dt_micro :: int
  dt_offset :: "int option"

section \<open>The proleptic Gregorian calendar\<close>

definition is_leap :: "int \<Rightarrow> bool" where
  "is_leap y \<longleftrightarrow> y mod 4 = 0 \<and> (y mod 100 \<noteq> 0 \<or> y mod 400 = 0)"

definition days_before_year :: "int \<Rightarrow> int" where
  "days_before_year y = (let p = y - 1 in p * 365 + p div 4 - p div 100 + p div 400)"

definition days_in_month :: "int \<Rightarrow> int \<Rightarrow> int" where
  "days_in_month y m =
     (if m = 2 then (if is_leap y then 29 else 28)
      else if m \<in> {4, 6, 9, 11} then 30 else 31)"

fun days_before_month_upto :: "int \<Rightarrow> nat \<Rightarrow> int" where
  "days_before_month_upto y 0 = 0"
| "days_before_month_upto y (Suc k) = days_before_month_upto y k + days_in_month y (int (Suc k))"

definition days_before_month :: "int \<Rightarrow> int \<Rightarrow> int" where
  "days_before_month y m = days_before_month_upto y (nat (m - 1))"

definition ymd_to_ord :: "int \<Rightarrow> int \<Rightarrow> int \<Rightarrow> int" where
  "ymd_to_ord y m d = days_before_year y + days_before_month y m + d"

text \<open>
  The year of an ordinal: an estimate that is at most one off, then a correction. The month is the
  first whose days are not all before the day of the year.
\<close>

definition year_of_ord :: "int \<Rightarrow> int" where
  "year_of_ord n =
     (let y = (n - 1) * 400 div 146097 + 1
      in if n \<le> days_before_year y then y - 1
         else if days_before_year (y + 1) < n then y + 1 else y)"

fun month_of_day :: "int \<Rightarrow> nat \<Rightarrow> int \<Rightarrow> int \<Rightarrow> int \<times> int" where
  "month_of_day y 0 m d = (m, d)"
| "month_of_day y (Suc k) m d =
     (if d \<le> days_in_month y m then (m, d) else month_of_day y k (m + 1) (d - days_in_month y m))"

definition ord_to_ymd :: "int \<Rightarrow> int \<times> int \<times> int" where
  "ord_to_ymd n =
     (let y = year_of_ord n; (m, d) = month_of_day y 11 1 (n - days_before_year y) in (y, m, d))"

definition valid_date :: "int \<Rightarrow> int \<Rightarrow> int \<Rightarrow> bool" where
  "valid_date y m d \<longleftrightarrow>
     1 \<le> y \<and> y \<le> 9999 \<and> 1 \<le> m \<and> m \<le> 12 \<and> 1 \<le> d \<and> d \<le> days_in_month y m"

definition valid_datetime :: "datetime \<Rightarrow> bool" where
  "valid_datetime t \<longleftrightarrow>
     valid_date (dt_year t) (dt_month t) (dt_day t)
     \<and> 0 \<le> dt_hour t \<and> dt_hour t \<le> 23 \<and> 0 \<le> dt_minute t \<and> dt_minute t \<le> 59
     \<and> 0 \<le> dt_second t \<and> dt_second t \<le> 59 \<and> 0 \<le> dt_micro t \<and> dt_micro t \<le> 999999
     \<and> (case dt_offset t of None \<Rightarrow> True
        | Some w \<Rightarrow> - 86400000000 < w \<and> w < 86400000000)"

section \<open>Parsing\<close>

definition digit_value :: "char \<Rightarrow> int option" where
  "digit_value c = map_of (zip ''0123456789'' [0, 1, 2, 3, 4, 5, 6, 7, 8, 9]) c"

lemmas digit_value_eq = digit_value_def [simplified]

definition is_digit :: "char \<Rightarrow> bool" where
  "is_digit c \<longleftrightarrow> digit_value c \<noteq> None"

text \<open>The C parser reads a NUL at the end of its buffer.\<close>

definition peek :: "string \<Rightarrow> char" where
  "peek s = (case s of [] \<Rightarrow> CHR 0x00 | c # _ \<Rightarrow> c)"

fun parse_digits :: "nat \<Rightarrow> int \<Rightarrow> string \<Rightarrow> (int \<times> string) option" where
  "parse_digits 0 acc s = Some (acc, s)"
| "parse_digits (Suc n) acc [] = None"
| "parse_digits (Suc n) acc (c # cs) =
     (case digit_value c of None \<Rightarrow> None | Some v \<Rightarrow> parse_digits n (10 * acc + v) cs)"

definition char_at :: "string \<Rightarrow> nat \<Rightarrow> char" where
  "char_at s i = peek (drop i s)"

definition count_digits :: "string \<Rightarrow> nat" where
  "count_digits s = length (takeWhile is_digit s)"

definition find_separator :: "string \<Rightarrow> nat option" where
  "find_separator s =
     (let n = length s in
      if n = 7 then Some 7
      else if char_at s 4 = CHR ''-'' then
        (if char_at s 5 = CHR ''W'' then
           (if n < 8 then None
            else if 8 < n \<and> char_at s 8 = CHR ''-'' then
              (if n = 9 then None
               else if 10 < n \<and> is_digit (char_at s 10) then Some 8
               else Some 10)
            else Some 8)
         else Some 10)
      else if char_at s 4 = CHR ''W'' then
        (let pos = 7 + count_digits (drop 7 s)
         in if pos < 9 then Some pos else if pos mod 2 = 0 then Some 7 else Some 8)
      else Some 8)"

definition weekday :: "int \<Rightarrow> int \<Rightarrow> int \<Rightarrow> int" where
  "weekday y m d = (ymd_to_ord y m d + 6) mod 7"

definition iso_week1_monday :: "int \<Rightarrow> int" where
  "iso_week1_monday y =
     (let first_day = ymd_to_ord y 1 1; first_weekday = (first_day + 6) mod 7;
          monday = first_day - first_weekday
      in if 3 < first_weekday then monday + 7 else monday)"

definition iso_to_ymd :: "int \<Rightarrow> int \<Rightarrow> int \<Rightarrow> (int \<times> int \<times> int) option" where
  "iso_to_ymd y w d =
     (if y < 1 \<or> 9999 < y then None
      else if (w \<le> 0 \<or> 53 \<le> w)
        \<and> \<not> (w = 53 \<and> (weekday y 1 1 = 3 \<or> weekday y 1 1 = 2 \<and> is_leap y)) then None
      else if d \<le> 0 \<or> 8 \<le> d then None
      else Some (ord_to_ymd (iso_week1_monday y + (w - 1) * 7 + d - 1)))"

text \<open>
  \<open>parse_isoformat_date\<close>: the first \<open>len\<close> characters of the string are the date, and the parser may
  look past them.
\<close>

definition skip_dash :: "bool \<Rightarrow> string \<Rightarrow> string option" where
  "skip_dash sep s = (if \<not> sep then Some s else if peek s = CHR ''-'' then Some (tl s) else None)"

definition parse_date :: "string \<Rightarrow> nat \<Rightarrow> (int \<times> int \<times> int) option" where
  "parse_date s len =
     Option.bind (parse_digits 4 0 s) (\<lambda>(y, s1).
       let sep = (peek s1 = CHR ''-''); s2 = (if sep then tl s1 else s1)
       in if peek s2 = CHR ''W'' then
            Option.bind (parse_digits 2 0 (tl s2)) (\<lambda>(w, s3).
              if length s - length s3 < len then
                Option.bind (skip_dash sep s3) (\<lambda>s4.
                Option.bind (parse_digits 1 0 s4) (\<lambda>(d, _). iso_to_ymd y w d))
              else iso_to_ymd y w 1)
          else
            Option.bind (parse_digits 2 0 s2) (\<lambda>(m, s3).
            Option.bind (skip_dash sep s3) (\<lambda>s4.
            Option.bind (parse_digits 2 0 s4) (\<lambda>(d, s5).
              if length s < length s5 + len then None else Some (y, m, d)))))"

text \<open>
  \<open>parse_hh_mm_ss_ff\<close>: \<open>s\<close> runs to the end of the whole string, \<open>n\<close> is how many of its characters
  are the time. The result is \<open>None\<close> for an error and else whether characters are left over, with
  the fields.
\<close>

definition parse_fraction :: "string \<Rightarrow> nat \<Rightarrow> (bool \<times> int) option" where
  "parse_fraction s n =
     (let k = min 6 n
      in map_option (\<lambda>(us, rest).
           (peek (dropWhile is_digit rest) \<noteq> CHR 0x00, us * 10 ^ (6 - k)))
         (parse_digits k 0 s))"

fun parse_hms :: "nat \<Rightarrow> bool \<Rightarrow> int list \<Rightarrow> string \<Rightarrow> int \<Rightarrow> (bool \<times> int list \<times> int) option" where
  "parse_hms 0 sep acc s n = map_option (\<lambda>(r, us). (r, acc, us)) (parse_fraction s (nat n))"
| "parse_hms (Suc k) sep acc s n =
     (case parse_digits 2 0 s of
        None \<Rightarrow> None
      | Some (v, s') \<Rightarrow>
          (let c = peek s'; sep' = (if k = 2 then c = CHR '':'' else sep); acc' = acc @ [v]
           in if n - 3 \<le> 0 then Some (c \<noteq> CHR 0x00, acc', 0)
              else if sep' \<and> c = CHR '':'' then parse_hms k sep' acc' (tl s') (n - 3)
              else if c = CHR ''.'' \<or> c = CHR '','' then
                map_option (\<lambda>(r, us). (r, acc', us)) (parse_fraction (tl s') (nat (n - 3)))
              else if \<not> sep' then parse_hms k sep' acc' s' (n - 2)
              else None))"

definition nth_or_0 :: "int list \<Rightarrow> nat \<Rightarrow> int" where
  "nth_or_0 xs i = (if i < length xs then xs ! i else 0)"

definition is_tz_start :: "char \<Rightarrow> bool" where
  "is_tz_start c \<longleftrightarrow> c = CHR ''+'' \<or> c = CHR ''-'' \<or> c = CHR ''Z''"

text \<open>\<open>parse_isoformat_time\<close>: hour, minute, second, microsecond and the offset in microseconds.\<close>

definition parse_time :: "string \<Rightarrow> (int \<times> int \<times> int \<times> int \<times> int option) option" where
  "parse_time s =
     (let n = length (takeWhile (\<lambda>c. \<not> is_tz_start c) s); tz = drop n s
      in Option.bind (parse_hms 3 True [] s (int n)) (\<lambda>(left, f, us).
         let fields = (\<lambda>off. Some (nth_or_0 f 0, nth_or_0 f 1, nth_or_0 f 2, us, off))
         in case tz of
              [] \<Rightarrow> (if left then None else fields None)
            | sign # rest \<Rightarrow>
                if sign = CHR ''Z'' then (if peek rest \<noteq> CHR 0x00 then None else fields (Some 0))
                else Option.bind (parse_hms 3 True [] rest (int (length rest))) (\<lambda>(left', g, us').
                  let secs = nth_or_0 g 0 * 3600 + nth_or_0 g 1 * 60 + nth_or_0 g 2;
                      sgn = (if sign = CHR ''-'' then - 1 else 1)
                  in if left' then None
                     else if secs = 0 then fields (Some 0)
                     else fields (Some (sgn * (secs * 1000000 + us'))))))"

definition fromisoformat :: "string \<Rightarrow> datetime option" where
  "fromisoformat s =
     (if length s < 7 then None
      else Option.bind (find_separator s) (\<lambda>sep.
           Option.bind (parse_date s sep) (\<lambda>(y, m, d).
           Option.bind (if length s \<le> sep then Some (0, 0, 0, 0, None)
                        else parse_time (drop (sep + 1) s)) (\<lambda>(hh, mm, ss, us, off).
             let t = \<lparr>dt_year = y, dt_month = m, dt_day = d, dt_hour = hh, dt_minute = mm,
                      dt_second = ss, dt_micro = us, dt_offset = off\<rparr>
             in if valid_datetime t then Some t else None))))"

section \<open>Arithmetic, comparison and printing\<close>

definition naive_micros :: "datetime \<Rightarrow> int" where
  "naive_micros t =
     ((ymd_to_ord (dt_year t) (dt_month t) (dt_day t) * 24 + dt_hour t) * 60 + dt_minute t) * 60000000
     + dt_second t * 1000000 + dt_micro t"

definition max_ordinal :: int where
  "max_ordinal = 3652059"

definition of_micros :: "int \<Rightarrow> exn + datetime" where
  "of_micros u =
     (let day = u div 86400000000; r = u mod 86400000000
      in if day < 1 \<or> max_ordinal < day then Inl OverflowError
         else let (y, m, d) = ord_to_ymd day
              in Inr \<lparr>dt_year = y, dt_month = m, dt_day = d, dt_hour = r div 3600000000,
                      dt_minute = r div 60000000 mod 60, dt_second = r div 1000000 mod 60,
                      dt_micro = r mod 1000000, dt_offset = Some 0\<rparr>)"

text \<open>
  \<open>astimezone(UTC)\<close> of an aware datetime: the same object when it is in UTC already, else the
  subtraction of the offset, which raises \<open>OverflowError\<close> outside the years 1 to 9999.
\<close>

definition astimezone_utc :: "datetime \<Rightarrow> int \<Rightarrow> exn + datetime" where
  "astimezone_utc t off = (if off = 0 then Inr t else of_micros (naive_micros t - off))"

text \<open>Two datetimes in UTC compare field by field.\<close>

definition dt_fields :: "datetime \<Rightarrow> int list" where
  "dt_fields t =
     [dt_year t, dt_month t, dt_day t, dt_hour t, dt_minute t, dt_second t, dt_micro t]"

definition dt_less :: "datetime \<Rightarrow> datetime \<Rightarrow> bool" where
  "dt_less a b \<longleftrightarrow> dt_fields a < dt_fields b"

definition digit_char :: "int \<Rightarrow> char" where
  "digit_char d = char_of (48 + nat d)"

fun pad_digits :: "nat \<Rightarrow> int \<Rightarrow> string" where
  "pad_digits 0 v = []"
| "pad_digits (Suc n) v = pad_digits n (v div 10) @ [digit_char (v mod 10)]"

text \<open>\<open>isoformat()\<close> of a datetime in UTC, then \<open>.replace("+00:00", "Z")\<close>.\<close>

definition isoformat_utc :: "datetime \<Rightarrow> string" where
  "isoformat_utc t =
     pad_digits 4 (dt_year t) @ ''-'' @ pad_digits 2 (dt_month t) @ ''-'' @ pad_digits 2 (dt_day t)
     @ ''T'' @ pad_digits 2 (dt_hour t) @ '':'' @ pad_digits 2 (dt_minute t) @ '':''
     @ pad_digits 2 (dt_second t)
     @ (if dt_micro t = 0 then [] else ''.'' @ pad_digits 6 (dt_micro t)) @ ''+00:00''"

definition iso_z :: "datetime \<Rightarrow> string" where
  "iso_z t = replace ''+00:00'' ''Z'' (isoformat_utc t)"

section \<open>The calendar is consistent\<close>

lemma year_bounds:
  fixes p :: int
  shows "146097 * p - 699 \<le> 400 * (p * 365 + p div 4 - p div 100 + p div 400)"
    and "400 * (p * 365 + p div 4 - p div 100 + p div 400) \<le> 146097 * p + 396"
proof -
  have "4 * (p div 4) \<le> p" "p \<le> 4 * (p div 4) + 3"
    "100 * (p div 100) \<le> p" "p \<le> 100 * (p div 100) + 99"
    "400 * (p div 400) \<le> p" "p \<le> 400 * (p div 400) + 399" by presburger+
  then show "146097 * p - 699 \<le> 400 * (p * 365 + p div 4 - p div 100 + p div 400)"
    "400 * (p * 365 + p div 4 - p div 100 + p div 400) \<le> 146097 * p + 396"
    by (simp_all add: algebra_simps)
qed

lemma days_before_year_bounds:
  "146097 * (y - 1) - 699 \<le> 400 * days_before_year y"
  "400 * days_before_year y \<le> 146097 * (y - 1) + 396"
  using year_bounds [of "y - 1"] by (simp_all add: days_before_year_def Let_def)

lemma year_of_ord_bounds:
  assumes "1 \<le> n"
  shows "1 \<le> year_of_ord n" "days_before_year (year_of_ord n) < n"
    "n \<le> days_before_year (year_of_ord n + 1)"
proof -
  define p where "p = (n - 1) * 400 div 146097"
  have p: "146097 * p \<le> (n - 1) * 400" "(n - 1) * 400 < 146097 * p + 146097" "0 \<le> p"
    unfolding p_def using assms by (simp_all add: pos_imp_zdiv_nonneg_iff)
  have lo: "days_before_year (p + 1) < n"
    using days_before_year_bounds(2) [of "p + 1"] p by (simp add: algebra_simps)
  have hi: "n \<le> days_before_year (p + 3)"
    using days_before_year_bounds(1) [of "p + 3"] p by (simp add: algebra_simps)
  have y: "year_of_ord n = (if days_before_year (p + 2) < n then p + 2 else p + 1)"
    using lo by (simp add: year_of_ord_def Let_def p_def add.commute add.assoc)
  show "1 \<le> year_of_ord n" using y p by simp
  show "days_before_year (year_of_ord n) < n" using y lo by simp
  show "n \<le> days_before_year (year_of_ord n + 1)" using y hi by (simp add: add.assoc)
qed

lemma div_pred:
  fixes y k :: int
  assumes "0 < k"
  shows "y div k = (y - 1) div k + (if y mod k = 0 then 1 else 0)"
proof (cases "y mod k = 0")
  case True
  then have "y - 1 = k * (y div k - 1) + (k - 1)"
    using mult_div_mod_eq [of k y] by (simp add: algebra_simps)
  from int_div_pos_eq [OF this] True assms show ?thesis by simp
next
  case False
  have "y - 1 = k * (y div k) + (y mod k - 1)"
    using mult_div_mod_eq [of k y] by simp
  moreover have "0 \<le> y mod k - 1" "y mod k - 1 < k"
    using False pos_mod_sign [OF assms, of y] pos_mod_bound [OF assms, of y] by linarith+
  ultimately have "(y - 1) div k = y div k" by (rule int_div_pos_eq)
  with False show ?thesis by simp
qed

lemma mod_0_dvd:
  fixes y :: int
  shows "y mod a = 0 \<Longrightarrow> b dvd a \<Longrightarrow> y mod b = 0"
  by (meson dvd_trans mod_0_imp_dvd dvd_imp_mod_0)

lemma leap_arith:
  fixes y a b c :: int
  assumes "q \<Longrightarrow> p" "r \<Longrightarrow> q"
  shows "y * 365 + (a + (if p then 1 else 0)) - (b + (if q then 1 else 0)) + (c + (if r then 1 else 0))
    = (y - 1) * 365 + a - b + c + 365 + (if p \<and> (\<not> q \<or> r) then 1 else 0)"
  using assms by (cases p; cases q; cases r) (simp_all add: left_diff_distrib)

lemma days_before_year_Suc:
  "days_before_year (y + 1) = days_before_year y + 365 + (if is_leap y then 1 else 0)"
proof -
  have "y div 4 = (y - 1) div 4 + (if y mod 4 = 0 then 1 else 0)"
    "y div 100 = (y - 1) div 100 + (if y mod 100 = 0 then 1 else 0)"
    "y div 400 = (y - 1) div 400 + (if y mod 400 = 0 then 1 else 0)"
    by (rule div_pred [OF zero_less_numeral])+
  note parts = this
  show ?thesis
    unfolding days_before_year_def Let_def is_leap_def add_diff_cancel_right'
    apply (simp only: parts)
    apply (rule leap_arith)
     apply (erule mod_0_dvd, simp)
    apply (erule mod_0_dvd, simp)
    done
qed

lemma month_of_day_valid:
  assumes "1 \<le> d" "d \<le> 365 + (if is_leap y then 1 else 0)" "month_of_day y 11 1 d = (m, e)"
  shows "1 \<le> m \<and> m \<le> 12 \<and> 1 \<le> e \<and> e \<le> days_in_month y m"
  using assms
  by (cases "is_leap y") (auto simp: eval_nat_numeral days_in_month_def split: if_splits)

lemma ord_to_ymd_valid:
  assumes "1 \<le> n" "n \<le> max_ordinal" "ord_to_ymd n = (y, m, d)"
  shows "valid_date y m d"
proof -
  have y: "y = year_of_ord n" and md: "month_of_day y 11 1 (n - days_before_year y) = (m, d)"
    using assms(3) by (auto simp: ord_to_ymd_def Let_def split: prod.splits)
  note b = year_of_ord_bounds [OF assms(1), folded y]
  have "y \<le> 9999"
  proof (rule ccontr)
    assume "\<not> y \<le> 9999"
    then consider "y = 10000" | "10001 \<le> y" by linarith
    then have "max_ordinal \<le> days_before_year y"
    proof cases
      case 1
      then show ?thesis by (simp add: days_before_year_def max_ordinal_def)
    next
      case 2
      then show ?thesis using days_before_year_bounds(1) [of y] by (simp add: max_ordinal_def)
    qed
    then show False using b assms(2) by linarith
  qed
  moreover have "1 \<le> m \<and> m \<le> 12 \<and> 1 \<le> d \<and> d \<le> days_in_month y m"
    using month_of_day_valid [OF _ _ md] b days_before_year_Suc [of y] by linarith
  ultimately show ?thesis using b by (simp add: valid_date_def)
qed

lemma time_of_day_bounds:
  fixes r :: int
  assumes "0 \<le> r" "r < 86400000000"
  shows "0 \<le> r div 3600000000" "r div 3600000000 \<le> 23"
proof -
  show "0 \<le> r div 3600000000" using assms(1) by (rule pos_imp_zdiv_nonneg_iff [THEN iffD2, rotated]) simp
  have "r \<le> 86399999999" using assms(2) by linarith
  then have "r div 3600000000 \<le> 86399999999 div 3600000000" by (rule zdiv_mono1) simp
  then show "r div 3600000000 \<le> 23" by (rule order_trans) simp
qed

lemma mod_range:
  fixes x k :: int
  shows "0 < k \<Longrightarrow> 0 \<le> x mod k" "0 < k \<Longrightarrow> x mod k \<le> k - 1"
  using pos_mod_bound [of k x] by (simp_all add: zle_diff1_eq)

lemma valid_datetimeI:
  assumes "valid_date y m d" "0 \<le> hh" "hh \<le> 23" "0 \<le> mi" "mi \<le> 60 - 1" "0 \<le> ss" "ss \<le> 60 - 1"
    "0 \<le> us" "us \<le> 1000000 - 1"
  shows "valid_datetime \<lparr>dt_year = y, dt_month = m, dt_day = d, dt_hour = hh, dt_minute = mi,
    dt_second = ss, dt_micro = us, dt_offset = Some 0\<rparr>"
  using assms by (simp add: valid_datetime_def)

lemma of_micros_valid:
  assumes "of_micros u = Inr t"
  shows "valid_datetime t \<and> dt_offset t = Some 0"
proof -
  define r where "r = u mod 86400000000"
  have r: "0 \<le> r" "r < 86400000000" unfolding r_def by simp_all
  obtain y m d where ymd: "ord_to_ymd (u div 86400000000) = (y, m, d)" by (metis prod_cases3)
  from assms have n: "1 \<le> u div 86400000000" "u div 86400000000 \<le> max_ordinal"
    unfolding of_micros_def Let_def by (auto split: if_splits)
  note d = ord_to_ymd_valid [OF n ymd]
  from assms n have t: "t = \<lparr>dt_year = y, dt_month = m, dt_day = d, dt_hour = r div 3600000000,
      dt_minute = r div 60000000 mod 60, dt_second = r div 1000000 mod 60,
      dt_micro = r mod 1000000, dt_offset = Some 0\<rparr>"
    unfolding of_micros_def Let_def ymd r_def by (auto split: if_splits)
  have "valid_datetime t" unfolding t
    by (rule valid_datetimeI; (rule d time_of_day_bounds [OF r] mod_range)?) simp_all
  then show ?thesis by (simp add: t)
qed

lemma astimezone_utc_valid:
  "valid_datetime t \<Longrightarrow> astimezone_utc t off = Inr u \<Longrightarrow> dt_offset t = Some off
    \<Longrightarrow> valid_datetime u \<and> dt_offset u = Some 0"
  using of_micros_valid by (auto simp: astimezone_utc_def split: if_splits)

lemma fromisoformat_valid: "fromisoformat s = Some t \<Longrightarrow> valid_datetime t"
  by (auto simp: fromisoformat_def Let_def Option.bind_eq_Some_conv split: if_splits)

section \<open>Printing and parsing back\<close>

lemma digit_value_char: "0 \<le> d \<Longrightarrow> d \<le> 9 \<Longrightarrow> digit_value (digit_char d) = Some d"
proof -
  assume "0 \<le> d" "d \<le> 9"
  then have "d = 0 \<or> d = 1 \<or> d = 2 \<or> d = 3 \<or> d = 4 \<or> d = 5 \<or> d = 6 \<or> d = 7 \<or> d = 8 \<or> d = 9"
    by presburger
  then show ?thesis
    by (elim disjE) (simp_all add: digit_char_def digit_value_eq char_of_def bit_simps)
qed

lemma length_pad_digits [simp]: "length (pad_digits n v) = n"
  by (induction n arbitrary: v) simp_all

lemma parse_digits_snoc:
  "length xs = n \<Longrightarrow> parse_digits n acc (xs @ c # ys) = Some (w, c # ys) \<Longrightarrow> digit_value c = Some v
    \<Longrightarrow> parse_digits (Suc n) acc (xs @ c # ys) = Some (10 * w + v, ys)"
  by (induction xs arbitrary: n acc) (auto split: option.splits)

lemma parse_pad_digits:
  "0 \<le> v \<Longrightarrow> v < 10 ^ n \<Longrightarrow> parse_digits n 0 (pad_digits n v @ ys) = Some (v, ys)"
proof (induction n arbitrary: v ys)
  case 0
  then show ?case by simp
next
  case (Suc n)
  have "v div 10 < 10 ^ n" using Suc.prems by simp
  then have ih: "parse_digits n 0 (pad_digits n (v div 10) @ digit_char (v mod 10) # ys)
      = Some (v div 10, digit_char (v mod 10) # ys)"
    using Suc.IH [of "v div 10"] Suc.prems by (simp add: pos_imp_zdiv_nonneg_iff)
  have "digit_value (digit_char (v mod 10)) = Some (v mod 10)"
    by (rule digit_value_char) (simp_all add: Suc.prems)
  from parse_digits_snoc [OF length_pad_digits ih this] show ?case by simp
qed

lemma pad_digits_is_digit: "c \<in> set (pad_digits n v) \<Longrightarrow> 0 \<le> v \<Longrightarrow> is_digit c"
  by (induction n arbitrary: v)
    (auto simp: is_digit_def digit_value_char pos_imp_zdiv_nonneg_iff)

lemma is_digit_consts [simp]:
  "\<not> is_digit CHR '':''" "\<not> is_digit CHR ''-''" "\<not> is_digit CHR ''+''" "\<not> is_digit CHR ''.''"
  "\<not> is_digit CHR '',''" "\<not> is_digit CHR ''T''" "\<not> is_digit CHR ''Z''" "\<not> is_digit CHR ''W''"
  "\<not> is_digit CHR 0x00" "\<not> is_digit CHR '' ''"
  by (simp_all add: is_digit_def digit_value_eq)

lemma starts_with_hd: "old \<noteq> [] \<Longrightarrow> hd old \<noteq> c \<Longrightarrow> \<not> starts_with old (c # cs)"
  by (cases old) auto

lemma replace_fuel_suffix:
  "old \<noteq> [] \<Longrightarrow> hd old \<notin> set p \<Longrightarrow> length p < n \<Longrightarrow> replace_fuel n old new (p @ old) = p @ new"
proof (induction p arbitrary: n)
  case Nil
  then show ?case by (cases n; cases old; cases "n - 1") (auto simp: starts_with_iff)
next
  case (Cons c p)
  then show ?case by (cases n) (auto simp: starts_with_hd)
qed

lemma replace_suffix: "old \<noteq> [] \<Longrightarrow> hd old \<notin> set p \<Longrightarrow> replace old new (p @ old) = p @ new"
  by (simp add: replace_def replace_fuel_suffix)

definition iso_body :: "datetime \<Rightarrow> string" where
  "iso_body t =
     pad_digits 4 (dt_year t) @ ''-'' @ pad_digits 2 (dt_month t) @ ''-'' @ pad_digits 2 (dt_day t)
     @ ''T'' @ pad_digits 2 (dt_hour t) @ '':'' @ pad_digits 2 (dt_minute t) @ '':''
     @ pad_digits 2 (dt_second t)
     @ (if dt_micro t = 0 then [] else ''.'' @ pad_digits 6 (dt_micro t))"

lemma isoformat_utc_body: "isoformat_utc t = iso_body t @ ''+00:00''"
  by (simp add: isoformat_utc_def iso_body_def)

lemma iso_body_chars:
  assumes "valid_datetime t" "c \<in> set (iso_body t)"
  shows "is_digit c \<or> c \<in> {CHR ''-'', CHR ''T'', CHR '':'', CHR ''.''}"
proof -
  have nn: "0 \<le> dt_year t" "0 \<le> dt_month t" "0 \<le> dt_day t" "0 \<le> dt_hour t" "0 \<le> dt_minute t"
    "0 \<le> dt_second t" "0 \<le> dt_micro t"
    using assms(1) by (simp_all add: valid_datetime_def valid_date_def)
  show ?thesis using assms(2) pad_digits_is_digit nn
    unfolding iso_body_def by (auto split: if_splits)
qed

lemma iso_body_no_sign:
  "valid_datetime t \<Longrightarrow> CHR ''+'' \<notin> set (iso_body t)"
  "valid_datetime t \<Longrightarrow> CHR ''Z'' \<notin> set (iso_body t)"
  using iso_body_chars by fastforce+

lemma iso_z_body: "valid_datetime t \<Longrightarrow> iso_z t = iso_body t @ ''Z''"
  using replace_suffix [of "''+00:00''" "iso_body t" "''Z''"]
  by (simp add: iso_z_def isoformat_utc_body iso_body_no_sign)

lemma iso_z_back: "valid_datetime t \<Longrightarrow> replace ''Z'' ''+00:00'' (iso_z t) = iso_body t @ ''+00:00''"
  using replace_suffix [of "''Z''" "iso_body t" "''+00:00''"]
  by (simp add: iso_z_body iso_body_no_sign)

lemma digit_not_space: "is_digit c \<Longrightarrow> \<not> is_space c"
  by (auto simp: is_digit_def digit_value_eq is_space_def py_space_def split: if_splits)

lemma iso_body_hd: "is_digit (hd (iso_body t))" if "valid_datetime t"
proof -
  have "hd (pad_digits 4 (dt_year t)) \<in> set (pad_digits 4 (dt_year t))"
    by (metis length_pad_digits hd_in_set list.size(3) zero_neq_numeral)
  then have "is_digit (hd (pad_digits 4 (dt_year t)))"
    using that pad_digits_is_digit by (force simp: valid_datetime_def valid_date_def)
  moreover have "pad_digits 4 (dt_year t) \<noteq> []"
    by (metis length_pad_digits list.size(3) zero_neq_numeral)
  ultimately show ?thesis by (simp add: iso_body_def)
qed

lemma iso_body_ne: "iso_body t \<noteq> []"
  by (simp add: iso_body_def)

lemma strip_iso_z: "valid_datetime t \<Longrightarrow> strip (iso_z t) = iso_z t"
  using iso_body_hd [of t] iso_body_ne [of t]
  by (simp add: strip_fix iso_z_body digit_not_space) (simp add: is_space_def py_space_def)

lemma peek_simps [simp]: "peek [] = CHR 0x00" "peek (c # cs) = c"
  by (simp_all add: peek_def)

lemma iso_find_separator:
  assumes "valid_datetime t"
  shows "find_separator (iso_body t @ ''+00:00'') = Some 10"
proof -
  have "hd (pad_digits 2 (dt_month t)) \<in> set (pad_digits 2 (dt_month t))"
    by (metis length_pad_digits hd_in_set list.size(3) zero_neq_numeral)
  then have "is_digit (hd (pad_digits 2 (dt_month t)))"
    using assms pad_digits_is_digit by (force simp: valid_datetime_def valid_date_def)
  moreover obtain a b where "pad_digits 2 (dt_month t) = [a, b]"
    using length_pad_digits [of 2 "dt_month t"] by (auto simp: numeral_2_eq_2 length_Suc_conv)
  ultimately show ?thesis
    by (auto simp: find_separator_def Let_def char_at_def iso_body_def)
qed

lemma iso_parse_date:
  assumes "valid_datetime t"
  shows "parse_date (iso_body t @ ''+00:00'') 10 = Some (dt_year t, dt_month t, dt_day t)"
proof -
  have r: "0 \<le> dt_year t" "dt_year t < 10 ^ 4" "0 \<le> dt_month t" "dt_month t < 10 ^ 2"
    "0 \<le> dt_day t" "dt_day t < 10 ^ 2"
    using assms by (auto simp: valid_datetime_def valid_date_def days_in_month_def split: if_splits)
  obtain a b where m: "pad_digits 2 (dt_month t) = [a, b]"
    using length_pad_digits [of 2 "dt_month t"] by (auto simp: numeral_2_eq_2 length_Suc_conv)
  have "is_digit a" using pad_digits_is_digit [of a 2 "dt_month t"] r m by simp
  then have "a \<noteq> CHR ''W''" by auto
  moreover have "parse_digits 2 0 (a # b # ys) = Some (dt_month t, ys)" for ys
    using parse_pad_digits [OF r(3,4)] m by simp
  ultimately show ?thesis
    using parse_pad_digits [OF r(1,2)] parse_pad_digits [OF r(5,6)]
    by (simp add: parse_date_def iso_body_def m skip_dash_def)
qed

lemma takeWhile_app: "(\<And>c. c \<in> set xs \<Longrightarrow> P c) \<Longrightarrow> \<not> P y \<Longrightarrow> takeWhile P (xs @ y # ys) = xs"
  by (simp add: takeWhile_append)

lemma digit_not_tz: "is_digit c \<Longrightarrow> \<not> is_tz_start c"
  by (auto simp: is_digit_def digit_value_eq is_tz_start_def split: if_splits)

lemma peek_pad_ne: "is_digit (peek (pad_digits (Suc n) v @ ys))" if "0 \<le> v"
proof -
  obtain c cs where "pad_digits (Suc n) v = c # cs"
    by (metis length_pad_digits length_Suc_conv)
  then show ?thesis using pad_digits_is_digit [of c "Suc n" v] that by simp
qed

definition iso_time :: "datetime \<Rightarrow> string" where
  "iso_time t =
     pad_digits 2 (dt_hour t) @ '':'' @ pad_digits 2 (dt_minute t) @ '':''
     @ pad_digits 2 (dt_second t)
     @ (if dt_micro t = 0 then [] else ''.'' @ pad_digits 6 (dt_micro t))"

lemma iso_time_hms:
  assumes "valid_datetime t"
  shows "parse_hms 3 True [] (iso_time t @ ''+00:00'') (int (length (iso_time t)))
    = Some (True, [dt_hour t, dt_minute t, dt_second t], dt_micro t)"
proof -
  have r: "0 \<le> dt_hour t" "dt_hour t < 10 ^ 2" "0 \<le> dt_minute t" "dt_minute t < 10 ^ 2"
    "0 \<le> dt_second t" "dt_second t < 10 ^ 2" "0 \<le> dt_micro t" "dt_micro t < 10 ^ 6"
    using assms by (auto simp: valid_datetime_def)
  note p = parse_pad_digits [OF r(1,2)] parse_pad_digits [OF r(3,4)] parse_pad_digits [OF r(5,6)]
    parse_pad_digits [OF r(7,8)]
  show ?thesis
    by (cases "dt_micro t = 0")
      (simp_all add: iso_time_def numeral_3_eq_3 p parse_fraction_def Let_def)
qed

lemma iso_parse_time:
  assumes "valid_datetime t"
  shows "parse_time (iso_time t @ ''+00:00'')
    = Some (dt_hour t, dt_minute t, dt_second t, dt_micro t, Some 0)"
proof -
  have nn: "0 \<le> dt_hour t" "0 \<le> dt_minute t" "0 \<le> dt_second t" "0 \<le> dt_micro t"
    using assms by (auto simp: valid_datetime_def)
  have "c \<in> set (iso_time t) \<Longrightarrow> \<not> is_tz_start c" for c
    using pad_digits_is_digit digit_not_tz nn
    by (auto simp: iso_time_def is_tz_start_def split: if_splits)
  then have tw: "takeWhile (\<lambda>c. \<not> is_tz_start c) (iso_time t @ ''+00:00'') = iso_time t"
    by (intro takeWhile_app) (auto simp: is_tz_start_def)
  have tz: "parse_hms 3 True [] ''00:00'' 5 = Some (False, [0, 0], 0)"
    by (simp add: numeral_3_eq_3 numeral_2_eq_2 digit_value_eq)
  show ?thesis
    using iso_time_hms [OF assms]
    by (simp add: parse_time_def tw Let_def tz nth_or_0_def)
qed

theorem iso_roundtrip:
  assumes "valid_datetime t" "dt_offset t = Some 0"
  shows "fromisoformat (replace ''Z'' ''+00:00'' (iso_z t)) = Some t"
proof -
  have split: "iso_body t = pad_digits 4 (dt_year t) @ ''-'' @ pad_digits 2 (dt_month t) @ ''-''
      @ pad_digits 2 (dt_day t) @ ''T'' @ iso_time t"
    by (simp add: iso_body_def iso_time_def)
  have d: "drop (10 + 1) (iso_body t @ ''+00:00'') = iso_time t @ ''+00:00''"
    unfolding split by simp
  have l: "10 < length (iso_body t @ ''+00:00'')" "\<not> length (iso_body t @ ''+00:00'') < 7"
    unfolding split by simp_all
  have eq: "\<lparr>dt_year = dt_year t, dt_month = dt_month t, dt_day = dt_day t, dt_hour = dt_hour t,
      dt_minute = dt_minute t, dt_second = dt_second t, dt_micro = dt_micro t, dt_offset = Some 0\<rparr> = t"
    using assms(2) by simp
  show ?thesis
    using l d assms(1)
    by (simp add: fromisoformat_def iso_z_back iso_find_separator iso_parse_date iso_parse_time eq
        del: drop_append length_append)
qed

end
