(* ===== verification/Cap_Reads.thy ===== *)
theory Cap_Reads
  imports Ariel_Datetime
begin

text \<open>
  The input validators of the read, memory, scheduling, research and agency capabilities of
  \<open>src/ariel/capability_registry.py\<close> (\<open>_validate_..._input\<close> and the \<open>_normalize_...\<close> helpers). A
  validator takes the raw input dictionary and returns the normalized one, a rejection code, or the
  exception that leaves it. The checks are in the order of the code.
\<close>

named_theorems normalizer_laws \<open>what a normalizer returns is a fixed point of it\<close>

section \<open>Field normalizers\<close>

definition normalize_optional_text :: "nat \<Rightarrow> json \<Rightarrow> string option" where
  "normalize_optional_text max_length v =
     (case as_str v of
        None \<Rightarrow> None
      | Some s \<Rightarrow>
          let normalized = strip s
          in if normalized = [] then None
             else if max_length < length normalized then None
             else Some normalized)"

fun map_opt :: "('a \<Rightarrow> 'b option) \<Rightarrow> 'a list \<Rightarrow> 'b list option" where
  "map_opt f [] = Some []"
| "map_opt f (x # xs) =
     (case f x of None \<Rightarrow> None | Some y \<Rightarrow> map_option (Cons y) (map_opt f xs))"

fun map_vres :: "('a \<Rightarrow> 'b vres) \<Rightarrow> 'a list \<Rightarrow> 'b list vres" where
  "map_vres f [] = Inr []"
| "map_vres f (x # xs) = then_do (f x) (\<lambda>y. then_do (map_vres f xs) (\<lambda>ys. Inr (y # ys)))"

definition normalize_optional_string_list :: "nat \<Rightarrow> nat \<Rightarrow> json \<Rightarrow> string list option" where
  "normalize_optional_string_list max_items max_length v =
     (if v = JNull then Some []
      else case as_list v of
        None \<Rightarrow> None
      | Some xs \<Rightarrow>
          if max_items < length xs then None
          else map_opt (normalize_optional_text max_length) xs)"

definition normalize_optional_env :: "json \<Rightarrow> json list option" where
  "normalize_optional_env v =
     (if v = JNull then Some []
      else case as_list v of
        None \<Rightarrow> None
      | Some xs \<Rightarrow>
          if 20 < length xs then None
          else map_opt (\<lambda>item.
            case as_dict item of
              None \<Rightarrow> None
            | Some d \<Rightarrow>
                if set (keys d) \<noteq> {''name'', ''value''} then None
                else case (normalize_optional_text 80 (jget d ''name''),
                           normalize_optional_text 2000 (jget d ''value'')) of
                  (Some key, Some env_value) \<Rightarrow>
                    Some (JObj [(''name'', JStr key), (''value'', JStr env_value)])
                | _ \<Rightarrow> None) xs)"

definition normalize_rfc3339_like :: "json \<Rightarrow> exn + string option" where
  "normalize_rfc3339_like v =
     (case as_str v of
        None \<Rightarrow> Inr None
      | Some s \<Rightarrow>
          let normalized = strip s
          in if normalized = [] then Inr None
             else case fromisoformat (replace ''Z'' ''+00:00'' normalized) of
               None \<Rightarrow> Inr None
             | Some parsed \<Rightarrow>
                 let off = (case dt_offset parsed of None \<Rightarrow> 0 | Some w \<Rightarrow> w)
                 in case astimezone_utc (parsed\<lparr>dt_offset := Some off\<rparr>) off of
                      Inl e \<Rightarrow> Inl e
                    | Inr u \<Rightarrow> Inr (Some (iso_z u)))"

text \<open>\<open>datetime.fromisoformat(s.replace("Z", "+00:00"))\<close> outside any \<open>try\<close>\<close>

definition reparse :: "string \<Rightarrow> exn + datetime" where
  "reparse s =
     (case fromisoformat (replace ''Z'' ''+00:00'' s) of None \<Rightarrow> Inl ValueError | Some t \<Rightarrow> Inr t)"

text \<open>
  The repeated pattern of a window: both ends are normalized, then both must be timestamps, then the
  end must be strictly after the start.
\<close>

definition with_window :: "json \<Rightarrow> json \<Rightarrow> (string \<Rightarrow> string \<Rightarrow> 'a vres) \<Rightarrow> 'a vres" where
  "with_window start_raw end_raw k =
     call (normalize_rfc3339_like start_raw) (\<lambda>ws.
     call (normalize_rfc3339_like end_raw) (\<lambda>we.
     require ws (\<lambda>window_start.
     require we (\<lambda>window_end.
     call (reparse window_start) (\<lambda>start_dt.
     call (reparse window_end) (\<lambda>end_dt.
     guard (dt_less start_dt end_dt) (k window_start window_end)))))))"

text \<open>
  \<open>None\<close> stays \<open>None\<close>; text is stripped, must not be too long, and blank text becomes \<open>None\<close>.
\<close>

definition blankable_text :: "nat \<Rightarrow> json \<Rightarrow> json option" where
  "blankable_text max_length v =
     (if v = JNull then Some JNull
      else case as_str v of
        None \<Rightarrow> None
      | Some s \<Rightarrow>
          let normalized = strip s
          in if max_length < length normalized then None
             else Some (if normalized = [] then JNull else JStr normalized))"

text \<open>\<open>None\<close> stays \<open>None\<close>; anything else must be acceptable text.\<close>

definition nullable_text :: "nat \<Rightarrow> json \<Rightarrow> json option" where
  "nullable_text max_length v =
     (if v = JNull then Some JNull else map_option JStr (normalize_optional_text max_length v))"

definition str_or_null :: "string option \<Rightarrow> json" where
  "str_or_null x = (case x of None \<Rightarrow> JNull | Some s \<Rightarrow> JStr s)"

section \<open>Text, calendar, mail and file reads\<close>

definition validate_exact_text_input :: "string \<Rightarrow> nat \<Rightarrow> dict \<Rightarrow> dict vres" where
  "validate_exact_text_input field_name max_length raw =
     guard (set (keys raw) = {field_name})
    (require (as_str (jget raw field_name)) (\<lambda>v.
     let normalized = strip v in
     guard (normalized \<noteq> [])
    (guard (length normalized \<le> max_length)
    (Inr [(field_name, JStr normalized)]))))"

definition validate_attachment_read_input :: "dict \<Rightarrow> dict vres" where
  "validate_attachment_read_input raw =
     guard (set (keys raw) = {''attachment_ref'', ''intent''})
    (require (as_str (jget raw ''attachment_ref'')) (\<lambda>attachment_ref.
     require (as_str (jget raw ''intent'')) (\<lambda>intent.
     let normalized_ref = strip attachment_ref; normalized_intent = lower (strip intent) in
     guard (\<not> (normalized_ref = [] \<or> 256 < length normalized_ref \<or> has_sub ''://'' normalized_ref
       \<or> has_sub ''/'' normalized_ref \<or> has_sub [CHR 0x5C] normalized_ref))
    (guard (normalized_intent \<in> {''summarize'', ''ocr'', ''transcribe'', ''extract_text'', ''answer''})
    (Inr [(''attachment_ref'', JStr normalized_ref), (''intent'', JStr normalized_intent)])))))"

definition validate_search_query_input :: "dict \<Rightarrow> dict vres" where
  "validate_search_query_input raw = validate_exact_text_input ''query'' 1000 raw"

definition validate_calendar_list_input :: "dict \<Rightarrow> dict vres" where
  "validate_calendar_list_input raw =
     guard (set (keys raw) = {''window_start'', ''window_end''}
       \<or> set (keys raw) = {''window_start'', ''window_end'', ''calendar_id''})
    (with_window (jget raw ''window_start'') (jget raw ''window_end'') (\<lambda>window_start window_end.
     let normalized = [(''window_start'', JStr window_start), (''window_end'', JStr window_end)] in
     if has_key raw ''calendar_id'' then
       require (as_str (jget raw ''calendar_id'')) (\<lambda>calendar_id.
       guard (calendar_id \<noteq> [] \<and> length calendar_id \<le> 320)
      (Inr (AList.update ''calendar_id'' (JStr calendar_id) normalized)))
     else Inr normalized))"

definition validate_calendar_list_calendars_input :: "dict \<Rightarrow> dict vres" where
  "validate_calendar_list_calendars_input raw = guard (raw = []) (Inr [])"

definition normalize_attendee :: "json \<Rightarrow> string option" where
  "normalize_attendee v =
     (case as_str v of
        None \<Rightarrow> None
      | Some s \<Rightarrow>
          let attendee = lower (strip s)
          in if attendee = [] \<or> 320 < length attendee then None else Some attendee)"

definition proposed_window :: "json \<Rightarrow> json vres" where
  "proposed_window v =
     require (as_dict v) (\<lambda>d.
     with_window (jget d ''start'') (jget d ''end'') (\<lambda>proposed_start proposed_end.
     Inr (JObj [(''start'', JStr proposed_start), (''end'', JStr proposed_end)])))"

text \<open>
  The confidence: \<open>float(i)\<close> of an integer raises \<open>OverflowError\<close> from the first integer that rounds
  past the largest double; a NaN passes both comparisons.
\<close>

definition timezone_confidence :: "json \<Rightarrow> json vres" where
  "timezone_confidence v =
     (case v of
        JNull \<Rightarrow> Inr JNull
      | JInt i \<Rightarrow>
          if 2 ^ 1024 - 2 ^ 970 \<le> \<bar>i\<bar> then Inl (Raised OverflowError)
          else guard (0 \<le> i \<and> i \<le> 1) (Inr (JFloat (Fin (of_int i))))
      | JFloat (Fin q) \<Rightarrow> guard (0 \<le> q \<and> q \<le> 1) (Inr v)
      | JFloat (Infinite neg) \<Rightarrow> schema_invalid
      | JFloat NaN \<Rightarrow> Inr v
      | _ \<Rightarrow> schema_invalid)"

definition propose_slots_keys :: "string list" where
  "propose_slots_keys = [''window_start'', ''window_end'', ''duration_minutes'', ''attendees'',
     ''timezone'', ''source_evidence_ids'', ''quoted_content_caveat'', ''participants'',
     ''proposed_windows'', ''timezone_evidence'', ''constraints'']"

definition validate_calendar_propose_slots_input :: "dict \<Rightarrow> dict vres" where
  "validate_calendar_propose_slots_input raw =
     guard (set (keys raw) = set propose_slots_keys)
    (with_window (jget raw ''window_start'') (jget raw ''window_end'') (\<lambda>window_start window_end.
     let duration_raw = jget_or raw ''duration_minutes'' (JInt 30) in
     require (as_int duration_raw) (\<lambda>duration.
     guard (5 \<le> duration \<and> duration \<le> 480)
    (require (as_list (jget_or raw ''attendees'' (JArr []))) (\<lambda>attendees_raw.
     require (map_opt normalize_attendee attendees_raw) (\<lambda>attendees.
     require (normalize_optional_text 64 (jget raw ''timezone'')) (\<lambda>timezone.
     require (as_list (jget raw ''source_evidence_ids'')) (\<lambda>source_evidence_ids_raw.
     guard (length source_evidence_ids_raw \<le> 20)
    (require (map_opt (normalize_optional_text 64) source_evidence_ids_raw) (\<lambda>source_evidence_ids.
     require (as_bool (jget raw ''quoted_content_caveat'')) (\<lambda>quoted_content_caveat.
     require (as_list (jget raw ''participants'')) (\<lambda>participants_raw.
     guard (length participants_raw \<le> 20)
    (require (map_opt (normalize_optional_text 320) participants_raw) (\<lambda>participants.
     require (as_list (jget raw ''proposed_windows'')) (\<lambda>proposed_windows_raw.
     guard (length proposed_windows_raw \<le> 20)
    (then_do (map_vres proposed_window proposed_windows_raw) (\<lambda>proposed_windows.
     require (as_dict (jget raw ''timezone_evidence'')) (\<lambda>timezone_evidence.
     guard (set (keys timezone_evidence) = {''source'', ''rationale'', ''confidence''})
    (require (nullable_text 128 (jget timezone_evidence ''source'')) (\<lambda>source.
     require (nullable_text 500 (jget timezone_evidence ''rationale'')) (\<lambda>rationale.
     then_do (timezone_confidence (jget timezone_evidence ''confidence'')) (\<lambda>confidence.
     require (as_dict (jget raw ''constraints'')) (\<lambda>constraints.
     guard (set (keys constraints) = {''hard'', ''soft'', ''attendee_notes''})
    (require (normalize_optional_string_list 20 500 (jget constraints ''hard'')) (\<lambda>hard.
     require (normalize_optional_string_list 20 500 (jget constraints ''soft'')) (\<lambda>soft.
     require (normalize_optional_string_list 20 500 (jget constraints ''attendee_notes'')) (\<lambda>attendee_notes.
     Inr [(''window_start'', JStr window_start), (''window_end'', JStr window_end),
       (''duration_minutes'', duration_raw), (''attendees'', JArr (map JStr attendees)),
       (''timezone'', JStr timezone),
       (''source_evidence_ids'', JArr (map JStr source_evidence_ids)),
       (''quoted_content_caveat'', JBool quoted_content_caveat),
       (''participants'', JArr (map JStr participants)),
       (''proposed_windows'', JArr proposed_windows),
       (''timezone_evidence'',
         JObj [(''source'', source), (''rationale'', rationale), (''confidence'', confidence)]),
       (''constraints'',
         JObj [(''hard'', JArr (map JStr hard)), (''soft'', JArr (map JStr soft)),
           (''attendee_notes'', JArr (map JStr attendee_notes))])])))))))))))))))))))))))))))"

definition validate_email_search_input :: "dict \<Rightarrow> dict vres" where
  "validate_email_search_input raw = validate_exact_text_input ''query'' 1000 raw"

definition validate_email_read_input :: "dict \<Rightarrow> dict vres" where
  "validate_email_read_input raw =
     guard (set (keys raw) \<subseteq> {''message_id'', ''thread_id'', ''mode''})
    (let mode_raw = jget raw ''mode'' in
     require (if mode_raw = JNull
              then Some (if jget raw ''message_id'' \<noteq> JNull then ''message'' else ''thread'')
              else map_option (\<lambda>s. lower (strip s)) (as_str mode_raw)) (\<lambda>mode.
     guard (mode \<in> {''message'', ''thread'', ''thread_context''})
    (require (nullable_text 256 (jget raw ''message_id'')) (\<lambda>message_id.
     require (nullable_text 256 (jget raw ''thread_id'')) (\<lambda>thread_id.
     guard (\<not> (message_id = JNull \<and> thread_id = JNull))
    (guard (\<not> (mode = ''message'' \<and> message_id = JNull))
    (guard (\<not> (mode \<in> {''thread'', ''thread_context''} \<and> thread_id = JNull \<and> message_id = JNull))
    (Inr [(''message_id'', message_id), (''thread_id'', thread_id), (''mode'', JStr mode)]))))))))"

definition validate_provider_evidence_read_input :: "dict \<Rightarrow> dict vres" where
  "validate_provider_evidence_read_input raw =
     guard (set (keys raw) \<subseteq> {''provider_evidence_id'', ''block_ids'', ''max_blocks''})
    (require (normalize_optional_text 64 (jget raw ''provider_evidence_id'')) (\<lambda>provider_evidence_id.
     require (normalize_optional_string_list 12 64 (jget raw ''block_ids'')) (\<lambda>block_ids.
     require (as_int_strict (jget_or raw ''max_blocks'' (JInt 12))) (\<lambda>max_blocks.
     guard (1 \<le> max_blocks \<and> max_blocks \<le> 12)
    (Inr [(''provider_evidence_id'', JStr provider_evidence_id),
       (''block_ids'', JArr (map JStr block_ids)), (''max_blocks'', JInt max_blocks)])))))"

definition validate_drive_search_input :: "dict \<Rightarrow> dict vres" where
  "validate_drive_search_input raw = validate_exact_text_input ''query'' 1000 raw"

definition validate_drive_read_input :: "dict \<Rightarrow> dict vres" where
  "validate_drive_read_input raw = validate_exact_text_input ''file_id'' 256 raw"

section \<open>Maps and weather\<close>

definition MAPS_ALLOWED_TRAVEL_MODES :: "string list" where
  "MAPS_ALLOWED_TRAVEL_MODES = [''driving'', ''walking'', ''bicycling'', ''transit'']"

definition MAPS_MAX_WAYPOINTS :: nat where
  "MAPS_MAX_WAYPOINTS = 10"

definition normalize_waypoint :: "json \<Rightarrow> string option" where
  "normalize_waypoint v =
     (case as_str v of
        None \<Rightarrow> None
      | Some s \<Rightarrow>
          let waypoint = strip s
          in if waypoint = [] \<or> 320 < length waypoint then None else Some waypoint)"

definition validate_maps_directions_input :: "dict \<Rightarrow> dict vres" where
  "validate_maps_directions_input raw =
     guard (set (keys raw)
       \<subseteq> {''origin'', ''destination'', ''travel_mode'', ''waypoints'', ''optimize_order''})
    (require (blankable_text 320 (jget raw ''origin'')) (\<lambda>origin.
     require (blankable_text 320 (jget raw ''destination'')) (\<lambda>destination.
     require (as_str (jget_or raw ''travel_mode'' (JStr ''driving''))) (\<lambda>travel_mode_raw.
     let normalized_mode = lower (strip travel_mode_raw);
         travel_mode = (if normalized_mode = [] then ''driving'' else normalized_mode) in
     guard (travel_mode \<in> set MAPS_ALLOWED_TRAVEL_MODES)
    (require (as_list (jget_or raw ''waypoints'' (JArr []))) (\<lambda>waypoints_raw.
     guard (length waypoints_raw \<le> MAPS_MAX_WAYPOINTS)
    (require (map_opt normalize_waypoint waypoints_raw) (\<lambda>waypoints.
     require (as_bool (jget_or raw ''optimize_order'' (JBool False))) (\<lambda>optimize_order.
     Inr [(''origin'', origin), (''destination'', destination), (''travel_mode'', JStr travel_mode),
       (''waypoints'', JTup (map JStr waypoints)), (''optimize_order'', JBool optimize_order)])))))))))"

definition validate_maps_search_places_input :: "dict \<Rightarrow> dict vres" where
  "validate_maps_search_places_input raw =
     guard (set (keys raw) \<subseteq> {''query'', ''location_context'', ''radius_meters''})
    (require (as_str (jget raw ''query'')) (\<lambda>query_raw.
     let query = strip query_raw in
     guard (\<not> (query = [] \<or> 200 < length query))
    (require (blankable_text 320 (jget raw ''location_context'')) (\<lambda>location_context.
     let radius_meters_raw = jget_or raw ''radius_meters'' (JInt 2000) in
     require (as_int radius_meters_raw) (\<lambda>radius_meters.
     guard (100 \<le> radius_meters \<and> radius_meters \<le> 50000)
    (Inr [(''query'', JStr query), (''location_context'', location_context),
       (''radius_meters'', radius_meters_raw)]))))))"

definition WEATHER_ALLOWED_TIMEFRAMES :: "string list" where
  "WEATHER_ALLOWED_TIMEFRAMES = [''now'', ''today'', ''tomorrow'', ''next_24h'']"

definition validate_weather_forecast_input :: "dict \<Rightarrow> dict vres" where
  "validate_weather_forecast_input raw =
     guard (set (keys raw) \<subseteq> {''location'', ''timeframe''})
    (let location_raw = jget raw ''location'' in
     if location_raw = JNull then reject ''weather_location_required''
     else require (as_str location_raw) (\<lambda>l.
     let location = strip l in
     guard (length location \<le> 200)
    (if location = [] then reject ''weather_location_required''
     else require (as_str (jget_or raw ''timeframe'' (JStr ''today''))) (\<lambda>timeframe_raw.
     let normalized_timeframe = lower (strip timeframe_raw);
         timeframe = (if normalized_timeframe = [] then ''today'' else normalized_timeframe) in
     guard (timeframe \<in> set WEATHER_ALLOWED_TIMEFRAMES)
    (Inr [(''location'', JStr location), (''timeframe'', JStr timeframe)])))))"

section \<open>Memory, scheduling and research\<close>

definition validate_memory_recall_input :: "dict \<Rightarrow> dict vres" where
  "validate_memory_recall_input raw = validate_exact_text_input ''query'' 12000 raw"

definition validate_memory_remember_input :: "dict \<Rightarrow> dict vres" where
  "validate_memory_remember_input raw = validate_exact_text_input ''note'' 12000 raw"

definition MEMORY_LOG_KINDS :: "string list" where
  "MEMORY_LOG_KINDS = [''user_message'', ''agent_round'', ''assistant_message'', ''tool_observation'',
     ''proactive_trigger'', ''note_create'', ''note_edit'', ''note_delete'', ''recall'',
     ''research_finding'']"

definition log_kind :: "json \<Rightarrow> string option" where
  "log_kind v =
     (case as_str v of None \<Rightarrow> None | Some k \<Rightarrow> if k \<in> set MEMORY_LOG_KINDS then Some k else None)"

definition validate_memory_search_input :: "dict \<Rightarrow> dict vres" where
  "validate_memory_search_input raw =
     guard (set (keys raw) \<subseteq> {''query'', ''limit'', ''since'', ''kinds''})
    (require (as_str (jget raw ''query'')) (\<lambda>query_raw.
     let query = strip query_raw in
     guard (\<not> (query = [] \<or> 12000 < length query))
    (require (if has_key raw ''limit'' then as_int_strict (jget raw ''limit'') else Some 24) (\<lambda>limit.
     guard (1 \<le> limit \<and> limit \<le> 100)
    (let since_raw = jget raw ''since'' in
     then_do (if since_raw = JNull then Inr JNull
              else call (normalize_rfc3339_like since_raw) (\<lambda>t. require t (\<lambda>s. Inr (JStr s)))) (\<lambda>since.
     let kinds_raw = jget raw ''kinds'' in
     then_do (if kinds_raw = JNull then Inr JNull
              else require (as_list kinds_raw) (\<lambda>ks.
                   guard (ks \<noteq> [])
                  (require (map_opt log_kind ks) (\<lambda>kinds. Inr (JArr (map JStr kinds)))))) (\<lambda>kinds.
     Inr [(''query'', JStr query), (''limit'', JInt limit), (''since'', since), (''kinds'', kinds)])))))))"

definition validate_memory_read_input :: "dict \<Rightarrow> dict vres" where
  "validate_memory_read_input raw = validate_exact_text_input ''id'' 32 raw"

definition validate_memory_note_create_input :: "dict \<Rightarrow> dict vres" where
  "validate_memory_note_create_input raw = validate_exact_text_input ''content'' 12000 raw"

definition validate_memory_note_edit_input :: "dict \<Rightarrow> dict vres" where
  "validate_memory_note_edit_input raw =
     guard (set (keys raw) = {''id'', ''content''})
    (require (as_str (jget raw ''id'')) (\<lambda>id_raw.
     require (as_str (jget raw ''content'')) (\<lambda>content_raw.
     let note_id = strip id_raw; content = strip content_raw in
     guard (\<not> (note_id = [] \<or> 32 < length note_id))
    (guard (\<not> (content = [] \<or> 12000 < length content))
    (Inr [(''id'', JStr note_id), (''content'', JStr content)])))))"

definition validate_memory_note_delete_input :: "dict \<Rightarrow> dict vres" where
  "validate_memory_note_delete_input raw = validate_exact_text_input ''id'' 32 raw"

definition validate_proactive_schedule_input :: "dict \<Rightarrow> dict vres" where
  "validate_proactive_schedule_input raw =
     guard (set (keys raw) = {''when'', ''note''})
    (require (as_str (jget raw ''note'')) (\<lambda>note.
     let normalized_note = strip note in
     guard (\<not> (normalized_note = [] \<or> 12000 < length normalized_note))
    (call (normalize_rfc3339_like (jget raw ''when'')) (\<lambda>w.
     require w (\<lambda>when.
     Inr [(''when'', JStr when), (''note'', JStr normalized_note)])))))"

definition RESEARCH_MODE_VALUES :: "string list" where
  "RESEARCH_MODE_VALUES = [''web'', ''personal'', ''memories'']"

definition looks_like_research_status_poll :: "string \<Rightarrow> bool" where
  "looks_like_research_status_poll question \<longleftrightarrow>
     starts_with ''status:'' (lower question) \<or> length question < 20 \<and> has_sub ''tsk_'' question"

definition validate_research_investigate_input :: "dict \<Rightarrow> dict vres" where
  "validate_research_investigate_input raw =
     guard (set (keys raw) = {''question'', ''mode''})
    (require (as_str (jget raw ''question'')) (\<lambda>question.
     let normalized_question = strip question in
     guard (\<not> (normalized_question = [] \<or> 4000 < length normalized_question))
    (guard (\<not> looks_like_research_status_poll normalized_question)
    (require (as_str (jget raw ''mode'')) (\<lambda>mode.
     guard (mode \<in> set RESEARCH_MODE_VALUES)
    (Inr [(''question'', JStr normalized_question), (''mode'', JStr mode)]))))))"

section \<open>Agency\<close>

definition validate_agency_run_input :: "dict \<Rightarrow> dict vres" where
  "validate_agency_run_input raw =
     guard (set (keys raw) \<subseteq> {''repo_root'', ''name'', ''prompt'', ''base_branch'', ''runner'',
       ''runner_args'', ''env'', ''no_include_untracked''})
    (require (normalize_optional_text 4096 (jget raw ''repo_root'')) (\<lambda>repo_root.
     require (normalize_optional_text 120 (jget raw ''name'')) (\<lambda>name.
     require (normalize_optional_text 262144 (jget raw ''prompt'')) (\<lambda>prompt.
     let base_branch = normalize_optional_text 200 (jget raw ''base_branch'');
         runner = normalize_optional_text 80 (jget raw ''runner'') in
     require (normalize_optional_string_list 20 500 (jget raw ''runner_args'')) (\<lambda>runner_args.
     require (normalize_optional_env (jget raw ''env'')) (\<lambda>env.
     let no_include_untracked_raw = jget raw ''no_include_untracked'' in
     require (if no_include_untracked_raw = JNull then Some False
              else as_bool no_include_untracked_raw) (\<lambda>no_include_untracked.
     Inr [(''repo_root'', JStr repo_root), (''name'', JStr name), (''prompt'', JStr prompt),
       (''base_branch'', str_or_null base_branch), (''runner'', str_or_null runner),
       (''runner_args'', JArr (map JStr runner_args)), (''env'', JArr env),
       (''no_include_untracked'', JBool no_include_untracked)])))))))"

definition validate_agency_job_lookup_input :: "dict \<Rightarrow> dict vres" where
  "validate_agency_job_lookup_input raw =
     guard (set (keys raw) \<subseteq> {''job_id'', ''repo_id'', ''task_id''})
    (let job_id = normalize_optional_text 32 (jget raw ''job_id'');
         repo_id = normalize_optional_text 128 (jget raw ''repo_id'');
         task_id = normalize_optional_text 128 (jget raw ''task_id'') in
     guard (\<not> (job_id = None \<and> (repo_id = None \<or> task_id = None)))
    (Inr [(''job_id'', str_or_null job_id), (''repo_id'', str_or_null repo_id),
       (''task_id'', str_or_null task_id)]))"

definition validate_agency_request_pr_input :: "dict \<Rightarrow> dict vres" where
  "validate_agency_request_pr_input raw =
     guard (set (keys raw) \<subseteq> {''job_id'', ''repo_id'', ''task_id'', ''invocation_id'', ''worktree_id''})
    (case validate_agency_job_lookup_input
        [(''job_id'', jget raw ''job_id''), (''repo_id'', jget raw ''repo_id''),
         (''task_id'', jget raw ''task_id'')] of
       Inl (Raised e) \<Rightarrow> Inl (Raised e)
     | Inl (Rejected _) \<Rightarrow> schema_invalid
     | Inr lookup \<Rightarrow>
         let invocation_id = normalize_optional_text 128 (jget raw ''invocation_id'');
             worktree_id = normalize_optional_text 128 (jget raw ''worktree_id'') in
         Inr (dict_merge (dict_merge [] lookup)
           [(''invocation_id'', str_or_null invocation_id), (''worktree_id'', str_or_null worktree_id)]))"

section \<open>What the field normalizers return\<close>

text \<open>
  A normalizer's output is kept as an opaque fact: it is a fixed point. The rules of
  \<open>normalizer_laws\<close> turn the acceptance of a raw field into that fact about the normalized one.
\<close>

definition fixes_to :: "('a \<Rightarrow> 'b) \<Rightarrow> 'a \<Rightarrow> 'b \<Rightarrow> bool" where
  "fixes_to f v r \<longleftrightarrow> f v = r"

lemma normalize_optional_text_Some:
  "normalize_optional_text n v = Some s \<Longrightarrow> strip s = s \<and> s \<noteq> [] \<and> length s \<le> n"
  by (auto simp: normalize_optional_text_def Let_def split: option.splits if_splits)

lemma normalize_optional_text_fix:
  "normalize_optional_text n v = Some s \<Longrightarrow> normalize_optional_text n (JStr s) = Some s"
  using normalize_optional_text_Some [of n v s] by (simp add: normalize_optional_text_def)

lemma text_fixes [normalizer_laws]:
  "normalize_optional_text n v = Some s \<Longrightarrow> fixes_to (normalize_optional_text n) (JStr s) (Some s)"
  by (simp add: fixes_to_def normalize_optional_text_fix)

lemma normalize_optional_text_Null [simp]: "normalize_optional_text n JNull = None"
  by (simp add: normalize_optional_text_def)

lemma str_or_null_fix:
  "normalize_optional_text n (str_or_null (normalize_optional_text n v)) = normalize_optional_text n v"
  by (cases "normalize_optional_text n v") (simp_all add: str_or_null_def normalize_optional_text_fix)

lemma map_opt_length: "map_opt f xs = Some ys \<Longrightarrow> length ys = length xs"
  by (induction xs arbitrary: ys) (auto split: option.splits)

lemma map_opt_set: "map_opt f xs = Some ys \<Longrightarrow> y \<in> set ys \<Longrightarrow> \<exists>x \<in> set xs. f x = Some y"
  by (induction xs arbitrary: ys) (auto split: option.splits)

lemma map_opt_fix:
  "map_opt f xs = Some ys \<Longrightarrow> (\<And>x y. f x = Some y \<Longrightarrow> f (g y) = Some y) \<Longrightarrow> map_opt f (map g ys) = Some ys"
proof (induction xs arbitrary: ys)
  case Nil
  then show ?case by simp
next
  case (Cons x xs)
  then obtain z zs where "f x = Some z" "map_opt f xs = Some zs" "ys = z # zs"
    by (auto split: option.splits)
  with Cons.IH [of zs] Cons.prems(2) show ?case by simp
qed

lemma map_vres_length: "map_vres f xs = Inr ys \<Longrightarrow> length ys = length xs"
  by (induction xs arbitrary: ys) auto

lemma map_vres_fix:
  "map_vres f xs = Inr ys \<Longrightarrow> (\<And>x y. f x = Inr y \<Longrightarrow> f y = Inr y) \<Longrightarrow> map_vres f ys = Inr ys"
proof (induction xs arbitrary: ys)
  case Nil
  then show ?case by simp
next
  case (Cons x xs)
  then obtain z zs where "f x = Inr z" "map_vres f xs = Inr zs" "ys = z # zs" by auto
  with Cons.IH [of zs] Cons.prems(2) show ?case by simp
qed

lemma list_fixes:
  "map_opt f xs = Some ys \<Longrightarrow> (\<And>x y. f x = Some y \<Longrightarrow> f (g y) = Some y)
    \<Longrightarrow> fixes_to (map_opt f) (map g ys) (Some ys) \<and> length xs = length ys"
  using map_opt_fix [of f xs ys g] by (simp add: fixes_to_def map_opt_length)

lemma texts_fix [normalizer_laws]:
  "map_opt (normalize_optional_text n) xs = Some ys
    \<Longrightarrow> fixes_to (map_opt (normalize_optional_text n)) (map JStr ys) (Some ys) \<and> length xs = length ys"
  by (erule list_fixes) (rule normalize_optional_text_fix)

lemma string_list_fixes [normalizer_laws]:
  "normalize_optional_string_list m n v = Some ys
    \<Longrightarrow> fixes_to (normalize_optional_string_list m n) (JArr (map JStr ys)) (Some ys)"
  by (auto simp: fixes_to_def normalize_optional_string_list_def map_opt_length normalize_optional_text_fix
      split: if_splits option.splits intro!: map_opt_fix)

lemma normalize_optional_string_list_bound:
  "normalize_optional_string_list m n v = Some ys
    \<Longrightarrow> length ys \<le> m \<and> (\<forall>s \<in> set ys. strip s = s \<and> s \<noteq> [] \<and> length s \<le> n)"
  by (auto simp: normalize_optional_string_list_def split: if_splits option.splits
      dest: map_opt_length map_opt_set normalize_optional_text_Some)

lemma env_fixes [normalizer_laws]:
  "normalize_optional_env v = Some ys \<Longrightarrow> fixes_to normalize_optional_env (JArr ys) (Some ys)"
  unfolding normalize_optional_env_def fixes_to_def
  by (auto simp: map_opt_length normalize_optional_text_fix insert_commute
      split: if_splits option.splits intro!: map_opt_fix [where g = id, simplified])

lemma rfc3339_Some:
  assumes "normalize_rfc3339_like v = Inr (Some s)"
  obtains u where "valid_datetime u" "dt_offset u = Some 0" "s = iso_z u"
proof -
  from assms obtain raw parsed off where p: "fromisoformat (replace ''Z'' ''+00:00'' (strip raw)) = Some parsed"
    and u: "(case astimezone_utc (parsed\<lparr>dt_offset := Some off\<rparr>) off of
          Inl e \<Rightarrow> Inl e | Inr u \<Rightarrow> Inr (Some (iso_z u))) = Inr (Some s)"
    and off: "off = (case dt_offset parsed of None \<Rightarrow> 0 | Some w \<Rightarrow> w)"
    by (auto simp: normalize_rfc3339_like_def Let_def split: option.splits if_splits)
  from u obtain t where t: "astimezone_utc (parsed\<lparr>dt_offset := Some off\<rparr>) off = Inr t" "s = iso_z t"
    by (auto split: sum.splits)
  have "valid_datetime (parsed\<lparr>dt_offset := Some off\<rparr>)"
    using fromisoformat_valid [OF p] off by (auto simp: valid_datetime_def split: option.splits)
  from astimezone_utc_valid [OF this t(1)] have "valid_datetime t" "dt_offset t = Some 0" by simp_all
  from that [OF this t(2)] show thesis .
qed

lemma rfc3339_fix:
  "normalize_rfc3339_like v = Inr (Some s) \<Longrightarrow> normalize_rfc3339_like (JStr s) = Inr (Some s)"
proof -
  assume "normalize_rfc3339_like v = Inr (Some s)"
  then obtain u where u: "valid_datetime u" "dt_offset u = Some 0" "s = iso_z u" by (rule rfc3339_Some)
  have same: "u\<lparr>dt_offset := Some 0\<rparr> = u" using u(2) by (cases u) simp
  moreover have "iso_z u \<noteq> []" using u(1) by (simp add: iso_z_body)
  ultimately show ?thesis
    using iso_roundtrip [OF u(1,2)] strip_iso_z [OF u(1)] u
    by (simp add: normalize_rfc3339_like_def Let_def astimezone_utc_def same)
qed

lemma rfc3339_fixes [normalizer_laws]:
  "normalize_rfc3339_like v = Inr (Some s) \<Longrightarrow> fixes_to normalize_rfc3339_like (JStr s) (Inr (Some s))"
  by (simp add: fixes_to_def rfc3339_fix)

lemma rfc3339_Null [simp]: "normalize_rfc3339_like JNull = Inr None"
  by (simp add: normalize_rfc3339_like_def)

lemma rfc3339_reparse:
  "normalize_rfc3339_like v = Inr (Some s) \<Longrightarrow> \<exists>u. reparse s = Inr u \<and> s = iso_z u"
  using rfc3339_Some iso_roundtrip by (metis reparse_def option.simps(5))

definition window_before :: "string \<Rightarrow> string \<Rightarrow> bool" where
  "window_before ws we \<longleftrightarrow> (\<exists>a b. reparse ws = Inr a \<and> reparse we = Inr b \<and> dt_less a b)"

lemma with_window_Inr [simp, result_simps]:
  "with_window s e k = Inr y \<longleftrightarrow>
    (\<exists>ws we. normalize_rfc3339_like s = Inr (Some ws) \<and> normalize_rfc3339_like e = Inr (Some we)
      \<and> window_before ws we \<and> k ws we = Inr y)"
  unfolding with_window_def window_before_def by auto

lemma nullable_text_fixes [normalizer_laws]:
  "nullable_text n v = Some w \<Longrightarrow> fixes_to (nullable_text n) w (Some w)"
  by (auto simp: fixes_to_def nullable_text_def normalize_optional_text_fix split: if_splits)

lemma nullable_text_cases: "nullable_text n v = Some w \<Longrightarrow> w = JNull \<or> (\<exists>s. w = JStr s)"
  by (auto simp: nullable_text_def split: if_splits)

lemma blankable_text_fixes [normalizer_laws]:
  "blankable_text n v = Some w \<Longrightarrow> fixes_to (blankable_text n) w (Some w)"
  by (auto simp: fixes_to_def blankable_text_def Let_def split: if_splits option.splits)

lemma normalize_attendee_fix: "normalize_attendee v = Some s \<Longrightarrow> normalize_attendee (JStr s) = Some s"
  by (auto simp: normalize_attendee_def Let_def split: if_splits option.splits)

lemma log_kind_fix: "log_kind v = Some s \<Longrightarrow> log_kind (JStr s) = Some s"
  by (auto simp: log_kind_def split: if_splits option.splits)

lemma proposed_window_fix: "proposed_window v = Inr w \<Longrightarrow> proposed_window w = Inr w"
  by (auto simp: proposed_window_def rfc3339_fix)

lemma confidence_fixes [normalizer_laws]:
  "timezone_confidence v = Inr w \<Longrightarrow> fixes_to timezone_confidence w (Inr w)"
  by (auto simp: fixes_to_def timezone_confidence_def split: json.splits pyfloat.splits if_splits)

lemma attendees_fix [normalizer_laws]:
  "map_opt normalize_attendee xs = Some ys
    \<Longrightarrow> fixes_to (map_opt normalize_attendee) (map JStr ys) (Some ys) \<and> length xs = length ys"
  by (erule list_fixes) (rule normalize_attendee_fix)

lemma log_kinds_fix [normalizer_laws]:
  "map_opt log_kind xs = Some ys
    \<Longrightarrow> fixes_to (map_opt log_kind) (map JStr ys) (Some ys) \<and> length xs = length ys"
  by (erule list_fixes) (rule log_kind_fix)

lemma proposed_windows_fix [normalizer_laws]:
  "map_vres proposed_window xs = Inr ys
    \<Longrightarrow> fixes_to (map_vres proposed_window) ys (Inr ys) \<and> length xs = length ys"
  by (simp add: fixes_to_def map_vres_length map_vres_fix [OF _ proposed_window_fix])

section \<open>Normalized input is accepted again, unchanged\<close>

lemmas accept_simps = result_simps as_str_Some as_dict_Some as_list_Some as_bool_Some
  as_int_strict_Some with_window_Inr sum.inject

lemma default_words [simp]:
  "lower (strip ''message'') = ''message''" "lower (strip ''thread'') = ''thread''"
  "lower (strip ''thread_context'') = ''thread_context''"
  "lower (strip ''today'') = ''today''" "strip ''today'' \<noteq> []"
  by code_simp+

text \<open>
  A validator whose output it accepts again, unchanged. An approved action is validated a second
  time when it is decided, on the input the proposal stored.
\<close>

locale normalizing =
  fixes validate :: "dict \<Rightarrow> dict vres"
  assumes stable: "validate raw = Inr y \<Longrightarrow> validate y = Inr y"
begin

lemma revalidate: "validate raw = Inr y \<Longrightarrow> then_do (validate y) k = k y"
  by (simp add: stable)

lemma twice: "then_do (validate raw) validate = validate raw"
  by (cases "validate raw") (simp_all add: stable)

end

lemma exact_text_stable:
  "validate_exact_text_input f n raw = Inr y \<Longrightarrow> validate_exact_text_input f n y = Inr y"
  unfolding validate_exact_text_input_def Let_def
  by (simp only: accept_simps, elim exE conjE; hypsubst_thin?; simp)

lemma attachment_read_stable:
  "validate_attachment_read_input raw = Inr y \<Longrightarrow> validate_attachment_read_input y = Inr y"
  unfolding validate_attachment_read_input_def Let_def
  by (simp only: accept_simps, elim exE conjE; hypsubst_thin?; simp add: insert_commute)

lemma calendar_list_stable:
  "validate_calendar_list_input raw = Inr y \<Longrightarrow> validate_calendar_list_input y = Inr y"
  unfolding validate_calendar_list_input_def Let_def
  by (simp only: accept_simps, elim exE conjE disjE; ((drule normalizer_laws)+)?; hypsubst_thin?;
      simp add: fixes_to_def insert_commute)

lemma calendar_list_calendars_stable:
  "validate_calendar_list_calendars_input raw = Inr y \<Longrightarrow> validate_calendar_list_calendars_input y = Inr y"
  by (auto simp: validate_calendar_list_calendars_input_def)

lemma email_read_stable:
  "validate_email_read_input raw = Inr y \<Longrightarrow> validate_email_read_input y = Inr y"
  unfolding validate_email_read_input_def Let_def
  by (simp only: accept_simps, elim exE conjE; ((drule normalizer_laws)+)?; hypsubst_thin?;
      auto simp: fixes_to_def split: if_split_asm)

lemma provider_evidence_read_stable:
  "validate_provider_evidence_read_input raw = Inr y \<Longrightarrow> validate_provider_evidence_read_input y = Inr y"
  unfolding validate_provider_evidence_read_input_def Let_def
  by (simp only: accept_simps, elim exE conjE; ((drule normalizer_laws)+)?; hypsubst_thin?;
      simp add: fixes_to_def)

lemma maps_search_places_stable:
  "validate_maps_search_places_input raw = Inr y \<Longrightarrow> validate_maps_search_places_input y = Inr y"
  unfolding validate_maps_search_places_input_def Let_def
  by (simp only: accept_simps, elim exE conjE; ((drule normalizer_laws)+)?; hypsubst_thin?;
      simp add: fixes_to_def)

lemma weather_forecast_stable:
  "validate_weather_forecast_input raw = Inr y \<Longrightarrow> validate_weather_forecast_input y = Inr y"
  unfolding validate_weather_forecast_input_def Let_def
  by (simp only: accept_simps, elim exE conjE disjE; hypsubst_thin?; simp split: if_split_asm)

lemma memory_search_stable:
  "validate_memory_search_input raw = Inr y \<Longrightarrow> validate_memory_search_input y = Inr y"
  unfolding validate_memory_search_input_def Let_def
  by (simp only: accept_simps, elim exE conjE disjE; ((drule normalizer_laws)+)?; hypsubst_thin?;
      (elim conjE)?; auto simp: fixes_to_def intro: rfc3339_fix split: if_split_asm)

lemma memory_note_edit_stable:
  "validate_memory_note_edit_input raw = Inr y \<Longrightarrow> validate_memory_note_edit_input y = Inr y"
  unfolding validate_memory_note_edit_input_def Let_def
  by (simp only: accept_simps, elim exE conjE; hypsubst_thin?; simp add: insert_commute)

lemma proactive_schedule_stable:
  "validate_proactive_schedule_input raw = Inr y \<Longrightarrow> validate_proactive_schedule_input y = Inr y"
  unfolding validate_proactive_schedule_input_def Let_def
  by (simp only: accept_simps, elim exE conjE; ((drule normalizer_laws)+)?; hypsubst_thin?;
      auto simp: fixes_to_def insert_commute intro: rfc3339_fix)

lemma research_investigate_stable:
  "validate_research_investigate_input raw = Inr y \<Longrightarrow> validate_research_investigate_input y = Inr y"
  unfolding validate_research_investigate_input_def Let_def
  by (simp only: accept_simps, elim exE conjE; hypsubst_thin?; simp add: insert_commute)

lemma agency_run_stable:
  "validate_agency_run_input raw = Inr y \<Longrightarrow> validate_agency_run_input y = Inr y"
  unfolding validate_agency_run_input_def Let_def
  by (simp only: accept_simps, elim exE conjE; ((drule normalizer_laws)+)?; hypsubst_thin?;
      simp add: fixes_to_def str_or_null_fix)

lemma agency_job_lookup_stable:
  "validate_agency_job_lookup_input raw = Inr y \<Longrightarrow> validate_agency_job_lookup_input y = Inr y"
  unfolding validate_agency_job_lookup_input_def Let_def
  by (simp only: accept_simps, elim exE conjE; hypsubst_thin?; simp add: str_or_null_fix)

lemma propose_slots_stable:
  "validate_calendar_propose_slots_input raw = Inr y \<Longrightarrow> validate_calendar_propose_slots_input y = Inr y"
  unfolding validate_calendar_propose_slots_input_def Let_def
  by (simp only: accept_simps, elim exE conjE; ((drule normalizer_laws)+)?; hypsubst_thin?;
      (elim conjE)?; simp add: fixes_to_def propose_slots_keys_def)

lemma agency_job_lookup_form:
  "validate_agency_job_lookup_input d = Inr l \<Longrightarrow> \<exists>a b c. l = [(''job_id'', a), (''repo_id'', b), (''task_id'', c)]"
  unfolding validate_agency_job_lookup_input_def Let_def
  by (simp only: accept_simps) blast

lemma agency_request_pr_stable:
  assumes "validate_agency_request_pr_input raw = Inr y"
  shows "validate_agency_request_pr_input y = Inr y"
proof -
  from assms obtain l where l: "validate_agency_job_lookup_input
        [(''job_id'', jget raw ''job_id''), (''repo_id'', jget raw ''repo_id''),
         (''task_id'', jget raw ''task_id'')] = Inr l"
    and y: "y = dict_merge (dict_merge [] l)
       [(''invocation_id'', str_or_null (normalize_optional_text 128 (jget raw ''invocation_id''))),
        (''worktree_id'', str_or_null (normalize_optional_text 128 (jget raw ''worktree_id'')))]"
    unfolding validate_agency_request_pr_input_def Let_def
    by (auto split: sum.splits verror.splits)
  from agency_job_lookup_form [OF l] obtain a b c
    where f: "l = [(''job_id'', a), (''repo_id'', b), (''task_id'', c)]" by blast
  from agency_job_lookup_stable [OF l] show ?thesis
    by (simp add: validate_agency_request_pr_input_def y f str_or_null_fix)
qed

interpretation exact_text: normalizing "validate_exact_text_input f n"
  by unfold_locales (rule exact_text_stable)

interpretation attachment_read: normalizing "validate_attachment_read_input"
  by unfold_locales (rule attachment_read_stable)

interpretation calendar_list: normalizing "validate_calendar_list_input"
  by unfold_locales (rule calendar_list_stable)

interpretation calendar_list_calendars: normalizing "validate_calendar_list_calendars_input"
  by unfold_locales (rule calendar_list_calendars_stable)

interpretation email_read: normalizing "validate_email_read_input"
  by unfold_locales (rule email_read_stable)

interpretation provider_evidence_read: normalizing "validate_provider_evidence_read_input"
  by unfold_locales (rule provider_evidence_read_stable)

interpretation maps_search_places: normalizing "validate_maps_search_places_input"
  by unfold_locales (rule maps_search_places_stable)

interpretation weather_forecast: normalizing "validate_weather_forecast_input"
  by unfold_locales (rule weather_forecast_stable)

interpretation memory_search: normalizing "validate_memory_search_input"
  by unfold_locales (rule memory_search_stable)

interpretation memory_note_edit: normalizing "validate_memory_note_edit_input"
  by unfold_locales (rule memory_note_edit_stable)

interpretation proactive_schedule: normalizing "validate_proactive_schedule_input"
  by unfold_locales (rule proactive_schedule_stable)

interpretation research_investigate: normalizing "validate_research_investigate_input"
  by unfold_locales (rule research_investigate_stable)

interpretation agency_run: normalizing "validate_agency_run_input"
  by unfold_locales (rule agency_run_stable)

interpretation agency_job_lookup: normalizing "validate_agency_job_lookup_input"
  by unfold_locales (rule agency_job_lookup_stable)

interpretation propose_slots: normalizing "validate_calendar_propose_slots_input"
  by unfold_locales (rule propose_slots_stable)

interpretation agency_request_pr: normalizing "validate_agency_request_pr_input"
  by unfold_locales (rule agency_request_pr_stable)

end
