(* ===== verification/Cap_Writes.thy ===== *)
theory Cap_Writes
  imports Cap_Reads
begin

text \<open>
  The input validators of the provider writes of \<open>src/ariel/capability_registry.py\<close>: calendar
  events, mail drafts, sends, labels and their undo, and Drive shares. Each needs an idempotency key
  and exactly one authority for the write: the evidence it rests on, or the user's instruction.
\<close>

section \<open>Recipients, message ids and labels\<close>

definition normalize_email_recipient :: "json \<Rightarrow> string option" where
  "normalize_email_recipient v =
     (case as_str v of
        None \<Rightarrow> None
      | Some s \<Rightarrow>
          let normalized = lower (strip s)
          in if normalized = [] \<or> 320 < length normalized then None
             else case partition_at (CHR ''@'') normalized of
               None \<Rightarrow> None
             | Some (local_part, domain) \<Rightarrow>
                 if local_part = [] \<or> domain = [] \<or> \<not> List.member domain (CHR ''.'') then None
                 else if list_ex is_space normalized then None
                 else Some normalized)"

text \<open>The loops that keep the first occurrence of each normalized entry, with their \<open>seen\<close> set.\<close>

fun normalize_distinct :: "(json \<Rightarrow> string option) \<Rightarrow> string list \<Rightarrow> json list \<Rightarrow> string list option" where
  "normalize_distinct f seen [] = Some []"
| "normalize_distinct f seen (x # xs) =
     (case f x of
        None \<Rightarrow> None
      | Some y \<Rightarrow>
          if List.member seen y then normalize_distinct f seen xs
          else map_option (Cons y) (normalize_distinct f (y # seen) xs))"

definition normalize_email_recipients :: "json \<Rightarrow> string list option" where
  "normalize_email_recipients v =
     (if v = JNull then Some []
      else case as_list v of
        None \<Rightarrow> None
      | Some xs \<Rightarrow> normalize_distinct normalize_email_recipient [] xs)"

definition normalize_email_message_ids :: "json \<Rightarrow> string list option" where
  "normalize_email_message_ids v =
     (case as_list v of
        None \<Rightarrow> None
      | Some xs \<Rightarrow>
          if xs = [] \<or> 1000 < length xs then None
          else case normalize_distinct (normalize_optional_text 256) [] xs of
            None \<Rightarrow> None
          | Some message_ids \<Rightarrow> if message_ids = [] then None else Some message_ids)"

definition normalize_email_label_names :: "json \<Rightarrow> string list option" where
  "normalize_email_label_names v =
     (case as_list v of
        None \<Rightarrow> None
      | Some xs \<Rightarrow>
          if 100 < length xs then None
          else normalize_distinct (normalize_optional_text 225) [] xs)"

section \<open>The authority of a write\<close>

definition authority_keys :: "string list" where
  "authority_keys = [''source_evidence_id'', ''user_instruction_ref'']"

definition add_authority :: "dict \<Rightarrow> string \<Rightarrow> dict \<Rightarrow> dict vres" where
  "add_authority raw key authority =
     (let v = normalize_optional_text 256 (jget raw key)
      in guard (\<not> (jget raw key \<noteq> JNull \<and> v = None))
           (Inr (case v of None \<Rightarrow> authority | Some s \<Rightarrow> AList.update key (JStr s) authority)))"

definition normalize_provider_write_authority :: "dict \<Rightarrow> dict vres" where
  "normalize_provider_write_authority raw =
     require (normalize_optional_text 128 (jget raw ''idempotency_key'')) (\<lambda>idempotency_key.
     then_do (add_authority raw ''source_evidence_id'' [(''idempotency_key'', JStr idempotency_key)]) (\<lambda>a.
     then_do (add_authority raw ''user_instruction_ref'' a) (\<lambda>authority.
     guard (length (filter (has_key authority) authority_keys) = 1)
    (Inr authority))))"

section \<open>Drive\<close>

definition DRIVE_ALLOWED_SHARE_ROLES :: "string list" where
  "DRIVE_ALLOWED_SHARE_ROLES = [''reader'', ''commenter'', ''writer'']"

definition validate_drive_share_input :: "dict \<Rightarrow> dict vres" where
  "validate_drive_share_input raw =
     guard (set (keys raw) \<subseteq> {''file_id'', ''grantee_email'', ''role'', ''idempotency_key'',
       ''source_evidence_id'', ''user_instruction_ref''})
    (then_do (normalize_provider_write_authority raw) (\<lambda>authority.
     require (as_str (jget raw ''file_id'')) (\<lambda>file_id_raw.
     require (as_str (jget raw ''grantee_email'')) (\<lambda>grantee_raw.
     require (as_str (jget_or raw ''role'' (JStr ''reader''))) (\<lambda>role_raw.
     let file_id = strip file_id_raw in
     guard (\<not> (file_id = [] \<or> 256 < length file_id))
    (require (normalize_email_recipient (JStr grantee_raw)) (\<lambda>grantee_email.
     let role = lower (strip role_raw) in
     guard (role \<in> set DRIVE_ALLOWED_SHARE_ROLES)
    (Inr (dict_merge [(''file_id'', JStr file_id), (''grantee_email'', JStr grantee_email),
       (''role'', JStr role)] authority)))))))))"

section \<open>Calendar\<close>

text \<open>\<open>d[k] = v\<close> on the branch that has a value, nothing otherwise.\<close>

definition put :: "string \<Rightarrow> json option \<Rightarrow> dict \<Rightarrow> dict" where
  "put k x d = (case x of None \<Rightarrow> d | Some v \<Rightarrow> AList.update k v d)"

definition optional_id :: "json \<Rightarrow> json option vres" where
  "optional_id v =
     (case as_str v of
        Some s \<Rightarrow> guard (strip s \<noteq> []) (Inr (Some (JStr (strip s))))
      | None \<Rightarrow> guard (v = JNull) (Inr None))"

definition validate_calendar_create_event_input :: "dict \<Rightarrow> dict vres" where
  "validate_calendar_create_event_input raw =
     guard (set (keys raw) \<subseteq> {''calendar_id'', ''title'', ''start_time'', ''end_time'', ''description'',
       ''location'', ''attendees'', ''idempotency_key'', ''source_evidence_id'', ''user_instruction_ref''})
    (then_do (normalize_provider_write_authority raw) (\<lambda>authority.
     require (as_str (jget raw ''title'')) (\<lambda>title_raw.
     let title = strip title_raw in
     guard (\<not> (title = [] \<or> 200 < length title))
    (with_window (jget raw ''start_time'') (jget raw ''end_time'') (\<lambda>start_time end_time.
     require (blankable_text 4000 (jget raw ''description'')) (\<lambda>description.
     require (blankable_text 500 (jget raw ''location'')) (\<lambda>location.
     require (normalize_email_recipients (jget raw ''attendees'')) (\<lambda>attendees.
     let normalized = dict_merge [(''title'', JStr title), (''start_time'', JStr start_time),
           (''end_time'', JStr end_time), (''description'', description), (''location'', location),
           (''attendees'', JArr (map JStr attendees))] authority in
     then_do (optional_id (jget raw ''calendar_id'')) (\<lambda>calendar_id.
     Inr (put ''calendar_id'' calendar_id normalized))))))))))"

definition optional_title :: "json \<Rightarrow> json option vres" where
  "optional_title v =
     (case as_str v of
        Some s \<Rightarrow>
          let title = strip s in
          guard (\<not> (title = [] \<or> 200 < length title)) (Inr (Some (JStr title)))
      | None \<Rightarrow> guard (v = JNull) (Inr None))"

definition optional_window :: "json \<Rightarrow> json \<Rightarrow> (json option \<times> json option) vres" where
  "optional_window start_raw end_raw =
     (if start_raw \<noteq> JNull \<or> end_raw \<noteq> JNull then
        with_window start_raw end_raw (\<lambda>start_time end_time.
        Inr (Some (JStr start_time), Some (JStr end_time)))
      else Inr (None, None))"

text \<open>The length is checked before the text is stripped.\<close>

definition optional_raw_text :: "nat \<Rightarrow> json \<Rightarrow> json option vres" where
  "optional_raw_text max_length v =
     (case as_str v of
        Some s \<Rightarrow> guard (\<not> max_length < length s) (Inr (Some (JStr (strip s))))
      | None \<Rightarrow> guard (v = JNull) (Inr None))"

definition optional_attendees :: "json \<Rightarrow> json option vres" where
  "optional_attendees v =
     (if v = JNull then Inr None
      else require (normalize_email_recipients v) (\<lambda>attendees. Inr (Some (JArr (map JStr attendees)))))"

definition validate_calendar_update_event_input :: "dict \<Rightarrow> dict vres" where
  "validate_calendar_update_event_input raw =
     guard (set (keys raw) \<subseteq> {''calendar_id'', ''event_id'', ''title'', ''start_time'', ''end_time'',
       ''description'', ''location'', ''attendees'', ''idempotency_key'', ''source_evidence_id'',
       ''user_instruction_ref''})
    (then_do (normalize_provider_write_authority raw) (\<lambda>authority.
     require (as_str (jget raw ''event_id'')) (\<lambda>event_id_raw.
     guard (strip event_id_raw \<noteq> [])
    (then_do (optional_id (jget raw ''calendar_id'')) (\<lambda>calendar_id.
     then_do (optional_title (jget raw ''title'')) (\<lambda>title.
     then_do (optional_window (jget raw ''start_time'') (jget raw ''end_time'')) (\<lambda>window.
     then_do (optional_raw_text 4000 (jget raw ''description'')) (\<lambda>description.
     then_do (optional_raw_text 500 (jget raw ''location'')) (\<lambda>location.
     then_do (optional_attendees (jget raw ''attendees'')) (\<lambda>attendees.
     let normalized =
           put ''attendees'' attendees
          (put ''location'' location
          (put ''description'' description
          (put ''end_time'' (snd window)
          (put ''start_time'' (fst window)
          (put ''title'' title
          (put ''calendar_id'' calendar_id
          (dict_merge [(''event_id'', JStr (strip event_id_raw))] authority))))))) in
     guard (\<not> set (keys normalized) \<subseteq> {''event_id'', ''calendar_id'', ''idempotency_key'',
       ''source_evidence_id'', ''user_instruction_ref''})
    (Inr normalized)))))))))))"

definition RESPONSE_STATUSES :: "string list" where
  "RESPONSE_STATUSES = [''accepted'', ''declined'', ''tentative'', ''needsAction'']"

text \<open>\<open>response_status not in {...}\<close>: hashing a list or a dictionary raises \<open>TypeError\<close>.\<close>

definition response_status_ok :: "json \<Rightarrow> exn + bool" where
  "response_status_ok v =
     (case v of
        JArr _ \<Rightarrow> Inl TypeError
      | JObj _ \<Rightarrow> Inl TypeError
      | JStr s \<Rightarrow> Inr (s \<in> set RESPONSE_STATUSES)
      | _ \<Rightarrow> Inr False)"

definition validate_calendar_respond_to_event_input :: "dict \<Rightarrow> dict vres" where
  "validate_calendar_respond_to_event_input raw =
     guard (set (keys raw) \<subseteq> {''calendar_id'', ''event_id'', ''attendee_email'', ''response_status'',
       ''idempotency_key'', ''source_evidence_id'', ''user_instruction_ref''})
    (then_do (normalize_provider_write_authority raw) (\<lambda>authority.
     require (as_str (jget raw ''event_id'')) (\<lambda>event_id_raw.
     guard (strip event_id_raw \<noteq> [])
    (require (normalize_email_recipients (JArr [jget raw ''attendee_email''])) (\<lambda>recipients.
     guard (length recipients = 1)
    (call (response_status_ok (jget raw ''response_status'')) (\<lambda>ok.
     guard ok
    (let normalized = dict_merge [(''event_id'', JStr (strip event_id_raw)),
           (''attendee_email'', JStr (recipients ! 0)),
           (''response_status'', jget raw ''response_status'')] authority in
     then_do (optional_id (jget raw ''calendar_id'')) (\<lambda>calendar_id.
     Inr (put ''calendar_id'' calendar_id normalized))))))))))"

section \<open>Mail\<close>

definition validate_email_composition_input :: "dict \<Rightarrow> dict vres" where
  "validate_email_composition_input raw =
     guard (set (keys raw) \<subseteq> {''to'', ''cc'', ''bcc'', ''subject'', ''body'', ''idempotency_key'',
       ''source_evidence_id'', ''user_instruction_ref''})
    (guard (has_key raw ''to'' \<and> has_key raw ''subject'' \<and> has_key raw ''body'')
    (then_do (normalize_provider_write_authority raw) (\<lambda>authority.
     require (normalize_email_recipients (jget raw ''to'')) (\<lambda>to_recipients.
     require (normalize_email_recipients (jget_or raw ''cc'' (JArr []))) (\<lambda>cc_recipients.
     require (normalize_email_recipients (jget_or raw ''bcc'' (JArr []))) (\<lambda>bcc_recipients.
     guard (\<not> (to_recipients = [] \<and> cc_recipients = [] \<and> bcc_recipients = []))
    (require (as_str (jget raw ''subject'')) (\<lambda>subject_raw.
     require (as_str (jget raw ''body'')) (\<lambda>body_raw.
     let subject = strip subject_raw; body = strip body_raw in
     guard (\<not> (subject = [] \<or> body = []))
    (guard (\<not> (998 < length subject \<or> 20000 < length body))
    (Inr (dict_merge [(''to'', JArr (map JStr to_recipients)), (''cc'', JArr (map JStr cc_recipients)),
       (''bcc'', JArr (map JStr bcc_recipients)), (''subject'', JStr subject), (''body'', JStr body)]
       authority))))))))))))"

definition validate_email_draft_input :: "dict \<Rightarrow> dict vres" where
  "validate_email_draft_input raw = validate_email_composition_input raw"

definition validate_email_send_input :: "dict \<Rightarrow> dict vres" where
  "validate_email_send_input raw = validate_email_composition_input raw"

definition validate_email_message_batch_mutation_input :: "dict \<Rightarrow> dict vres" where
  "validate_email_message_batch_mutation_input raw =
     guard (set (keys raw) \<subseteq> {''message_ids'', ''idempotency_key'', ''source_evidence_id'',
       ''user_instruction_ref''})
    (then_do (normalize_provider_write_authority raw) (\<lambda>authority.
     require (normalize_email_message_ids (jget raw ''message_ids'')) (\<lambda>message_ids.
     Inr (dict_merge [(''message_ids'', JArr (map JStr message_ids))] authority))))"

definition validate_email_labels_modify_input :: "dict \<Rightarrow> dict vres" where
  "validate_email_labels_modify_input raw =
     guard (set (keys raw) \<subseteq> {''message_ids'', ''add_labels'', ''remove_labels'', ''idempotency_key'',
       ''source_evidence_id'', ''user_instruction_ref''})
    (then_do (normalize_provider_write_authority raw) (\<lambda>authority.
     require (normalize_email_message_ids (jget raw ''message_ids'')) (\<lambda>message_ids.
     require (normalize_email_label_names (jget raw ''add_labels'')) (\<lambda>add_labels.
     require (normalize_email_label_names (jget raw ''remove_labels'')) (\<lambda>remove_labels.
     guard (\<not> (add_labels = [] \<and> remove_labels = []))
    (guard (set add_labels \<inter> set remove_labels = {})
    (Inr (dict_merge [(''message_ids'', JArr (map JStr message_ids)),
       (''add_labels'', JArr (map JStr add_labels)),
       (''remove_labels'', JArr (map JStr remove_labels))] authority))))))))"

definition validate_email_undo_input :: "dict \<Rightarrow> dict vres" where
  "validate_email_undo_input raw =
     guard (set (keys raw) \<subseteq> {''undo_token'', ''idempotency_key'', ''source_evidence_id'',
       ''user_instruction_ref''})
    (then_do (normalize_provider_write_authority raw) (\<lambda>authority.
     require (normalize_optional_text 512 (jget raw ''undo_token'')) (\<lambda>undo_token.
     Inr (dict_merge [(''undo_token'', JStr undo_token)] authority))))"

section \<open>What the normalizers return\<close>

lemma normalize_distinct_props:
  "normalize_distinct f seen xs = Some ys \<Longrightarrow>
    distinct ys \<and> set ys \<inter> set seen = {} \<and> length ys \<le> length xs
    \<and> (\<forall>y \<in> set ys. \<exists>x \<in> set xs. f x = Some y)"
  by (induction f seen xs arbitrary: ys rule: normalize_distinct.induct)
    (fastforce split: option.splits if_splits)+

lemma normalize_distinct_nonempty:
  "normalize_distinct f [] xs = Some ys \<Longrightarrow> xs \<noteq> [] \<Longrightarrow> ys \<noteq> []"
  by (cases xs) (auto split: option.splits)

lemma normalize_distinct_id:
  "distinct ys \<Longrightarrow> set ys \<inter> set seen = {} \<Longrightarrow> (\<And>y. y \<in> set ys \<Longrightarrow> f (JStr y) = Some y)
    \<Longrightarrow> normalize_distinct f seen (map JStr ys) = Some ys"
  by (induction ys arbitrary: seen) auto

lemma normalize_distinct_fix:
  assumes "normalize_distinct f [] xs = Some ys" and f: "\<And>x y. f x = Some y \<Longrightarrow> f (JStr y) = Some y"
  shows "normalize_distinct f [] (map JStr ys) = Some ys"
  using normalize_distinct_props [OF assms(1)] f
  by (intro normalize_distinct_id) auto

lemma normalize_email_recipient_fix:
  "normalize_email_recipient v = Some s \<Longrightarrow> normalize_email_recipient (JStr s) = Some s"
  by (auto simp: normalize_email_recipient_def Let_def split: if_splits option.splits)

lemma recipients_fix [normalizer_laws]:
  "normalize_email_recipients v = Some ys
    \<Longrightarrow> fixes_to normalize_email_recipients (JArr (map JStr ys)) (Some ys)"
  by (auto simp: fixes_to_def normalize_email_recipients_def split: if_splits option.splits
      intro!: normalize_distinct_fix normalize_email_recipient_fix)

lemma message_ids_fix [normalizer_laws]:
  "normalize_email_message_ids v = Some ys
    \<Longrightarrow> fixes_to normalize_email_message_ids (JArr (map JStr ys)) (Some ys)"
  using normalize_distinct_props [of "normalize_optional_text 256" "[]"]
  by (auto simp: fixes_to_def normalize_email_message_ids_def normalize_distinct_fix
      normalize_optional_text_fix split: if_splits option.splits dest!: normalize_distinct_props)

lemma label_names_fix [normalizer_laws]:
  "normalize_email_label_names v = Some ys
    \<Longrightarrow> fixes_to normalize_email_label_names (JArr (map JStr ys)) (Some ys)"
  by (auto simp: fixes_to_def normalize_email_label_names_def normalize_distinct_fix
      normalize_optional_text_fix split: if_splits option.splits dest: normalize_distinct_props)

lemma add_authority_Inr:
  "add_authority raw k a = Inr b \<longleftrightarrow>
     jget raw k = JNull \<and> b = a
     \<or> (\<exists>s. normalize_optional_text 256 (jget raw k) = Some s \<and> b = AList.update k (JStr s) a)"
  by (cases "normalize_optional_text 256 (jget raw k)") (auto simp: add_authority_def)

definition authority_shape :: "dict \<Rightarrow> dict \<Rightarrow> string \<Rightarrow> string \<Rightarrow> string \<Rightarrow> bool" where
  "authority_shape raw a i k s \<longleftrightarrow>
     a = [(''idempotency_key'', JStr i), (k, JStr s)]
     \<and> k \<in> set authority_keys
     \<and> normalize_optional_text 128 (JStr i) = Some i \<and> normalize_optional_text 256 (JStr s) = Some s
     \<and> normalize_optional_text 256 (jget raw k) = Some s
     \<and> (\<forall>k' \<in> set authority_keys. k' \<noteq> k \<longrightarrow> jget raw k' = JNull)"

lemma authority_form:
  assumes "normalize_provider_write_authority raw = Inr a"
  obtains i k s where "authority_shape raw a i k s"
proof -
  from assms have "\<exists>i k s. authority_shape raw a i k s"
    unfolding normalize_provider_write_authority_def authority_keys_def authority_shape_def
    by (auto simp: add_authority_Inr intro: normalize_optional_text_fix)
  with that show thesis by blast
qed

lemma authority_cases:
  assumes "normalize_provider_write_authority raw = Inr a"
  obtains
    (evidence) i s where "a = [(''idempotency_key'', JStr i), (''source_evidence_id'', JStr s)]"
      "\<And>y. jget y ''idempotency_key'' = JStr i \<Longrightarrow> jget y ''source_evidence_id'' = JStr s
        \<Longrightarrow> jget y ''user_instruction_ref'' = JNull \<Longrightarrow> normalize_provider_write_authority y = Inr a"
  | (instruction) i s where "a = [(''idempotency_key'', JStr i), (''user_instruction_ref'', JStr s)]"
      "\<And>y. jget y ''idempotency_key'' = JStr i \<Longrightarrow> jget y ''user_instruction_ref'' = JStr s
        \<Longrightarrow> jget y ''source_evidence_id'' = JNull \<Longrightarrow> normalize_provider_write_authority y = Inr a"
proof -
  from assms obtain i k s where a: "authority_shape raw a i k s" by (rule authority_form)
  then consider "k = ''source_evidence_id''" | "k = ''user_instruction_ref''"
    by (auto simp: authority_shape_def authority_keys_def)
  then show thesis
  proof cases
    case 1
    with a evidence show ?thesis
      by (simp add: authority_shape_def normalize_provider_write_authority_def add_authority_def
          authority_keys_def)
  next
    case 2
    with a instruction show ?thesis
      by (simp add: authority_shape_def normalize_provider_write_authority_def add_authority_def
          authority_keys_def)
  qed
qed

lemma put_simps [simp]: "put k None d = d" "put k (Some v) d = AList.update k v d"
  by (simp_all add: put_def)

definition or_null :: "json option \<Rightarrow> json" where
  "or_null x = (case x of None \<Rightarrow> JNull | Some v \<Rightarrow> v)"

lemma or_null_simps [simp]:
  "or_null None = JNull" "or_null (Some v) = v" "(case x of None \<Rightarrow> JNull | Some v \<Rightarrow> v) = or_null x"
  by (simp_all add: or_null_def)

lemma jget_put_same [simp]: "jget d k = JNull \<Longrightarrow> jget (put k x d) k = or_null x"
  by (cases x) auto

lemma jget_put_other [simp]: "k' \<noteq> k \<Longrightarrow> jget (put k x d) k' = jget d k'"
  by (cases x) auto

lemma keys_put_within [simp]:
  "k \<in> S \<Longrightarrow> set (keys (put k x d)) \<subseteq> S \<longleftrightarrow> set (keys d) \<subseteq> S"
  by (cases x) auto

lemma recipient_fixes [normalizer_laws]:
  "normalize_email_recipient v = Some s \<Longrightarrow> fixes_to normalize_email_recipient (JStr s) (Some s)"
  by (simp add: fixes_to_def normalize_email_recipient_fix)

lemma optional_id_fixes [normalizer_laws]:
  "optional_id v = Inr x \<Longrightarrow> fixes_to optional_id (or_null x) (Inr x)"
  by (cases v) (auto simp: optional_id_def fixes_to_def)

lemma optional_title_fixes [normalizer_laws]:
  "optional_title v = Inr x \<Longrightarrow> fixes_to optional_title (or_null x) (Inr x)"
  by (cases v) (auto simp: optional_title_def fixes_to_def Let_def)

lemma optional_raw_text_fixes [normalizer_laws]:
  "optional_raw_text n v = Inr x \<Longrightarrow> fixes_to (optional_raw_text n) (or_null x) (Inr x)"
  using le_trans [OF length_strip] by (cases v) (auto simp: optional_raw_text_def fixes_to_def not_less)

lemma optional_attendees_fixes [normalizer_laws]:
  "optional_attendees v = Inr x \<Longrightarrow> fixes_to optional_attendees (or_null x) (Inr x)"
  by (auto simp: optional_attendees_def fixes_to_def split: if_splits dest!: recipients_fix)

lemma optional_window_fixes [normalizer_laws]:
  "optional_window s e = Inr w \<Longrightarrow> fixes_to (optional_window (or_null (fst w))) (or_null (snd w)) (Inr w)"
  by (auto simp: optional_window_def fixes_to_def rfc3339_fix split: if_splits)

section \<open>Normalized input is accepted again, unchanged\<close>

lemma drive_share_stable:
  "validate_drive_share_input raw = Inr y \<Longrightarrow> validate_drive_share_input y = Inr y"
  unfolding validate_drive_share_input_def Let_def
  by (simp only: accept_simps, elim exE conjE, erule authority_cases;
      ((drule normalizer_laws)+)?; hypsubst_thin?; simp add: fixes_to_def)

lemma calendar_create_event_stable:
  "validate_calendar_create_event_input raw = Inr y \<Longrightarrow> validate_calendar_create_event_input y = Inr y"
  unfolding validate_calendar_create_event_input_def Let_def
  by (simp only: accept_simps, elim exE conjE, erule authority_cases;
      ((drule normalizer_laws)+)?; hypsubst_thin?; simp add: fixes_to_def)

lemma calendar_update_event_stable:
  "validate_calendar_update_event_input raw = Inr y \<Longrightarrow> validate_calendar_update_event_input y = Inr y"
  unfolding validate_calendar_update_event_input_def Let_def
  by (simp only: accept_simps, elim exE conjE, erule authority_cases;
      ((drule normalizer_laws)+)?; hypsubst_thin?; simp add: fixes_to_def)

lemma calendar_respond_to_event_stable:
  "validate_calendar_respond_to_event_input raw = Inr y \<Longrightarrow> validate_calendar_respond_to_event_input y = Inr y"
  unfolding validate_calendar_respond_to_event_input_def Let_def
  by (simp only: accept_simps, elim exE conjE, erule authority_cases;
      ((drule normalizer_laws)+)?; hypsubst_thin?; clarsimp simp: fixes_to_def ex_bool_eq length_Suc_conv)

lemma email_composition_stable:
  "validate_email_composition_input raw = Inr y \<Longrightarrow> validate_email_composition_input y = Inr y"
  unfolding validate_email_composition_input_def Let_def
  by (simp only: accept_simps, elim exE conjE, erule authority_cases;
      ((drule normalizer_laws)+)?; hypsubst_thin?; simp add: fixes_to_def)

lemma email_message_batch_mutation_stable:
  "validate_email_message_batch_mutation_input raw = Inr y \<Longrightarrow> validate_email_message_batch_mutation_input y = Inr y"
  unfolding validate_email_message_batch_mutation_input_def Let_def
  by (simp only: accept_simps, elim exE conjE, erule authority_cases;
      ((drule normalizer_laws)+)?; hypsubst_thin?; simp add: fixes_to_def)

lemma email_labels_modify_stable:
  "validate_email_labels_modify_input raw = Inr y \<Longrightarrow> validate_email_labels_modify_input y = Inr y"
  unfolding validate_email_labels_modify_input_def Let_def
  by (simp only: accept_simps, elim exE conjE, erule authority_cases;
      ((drule normalizer_laws)+)?; hypsubst_thin?; simp add: fixes_to_def)

lemma email_undo_stable:
  "validate_email_undo_input raw = Inr y \<Longrightarrow> validate_email_undo_input y = Inr y"
  unfolding validate_email_undo_input_def Let_def
  by (simp only: accept_simps, elim exE conjE, erule authority_cases;
      ((drule normalizer_laws)+)?; hypsubst_thin?; simp add: fixes_to_def)

interpretation drive_share: normalizing validate_drive_share_input
  by unfold_locales (rule drive_share_stable)

interpretation calendar_create_event: normalizing validate_calendar_create_event_input
  by unfold_locales (rule calendar_create_event_stable)

interpretation calendar_update_event: normalizing validate_calendar_update_event_input
  by unfold_locales (rule calendar_update_event_stable)

interpretation calendar_respond_to_event: normalizing validate_calendar_respond_to_event_input
  by unfold_locales (rule calendar_respond_to_event_stable)

interpretation email_composition: normalizing validate_email_composition_input
  by unfold_locales (rule email_composition_stable)

interpretation email_message_batch_mutation: normalizing validate_email_message_batch_mutation_input
  by unfold_locales (rule email_message_batch_mutation_stable)

interpretation email_labels_modify: normalizing validate_email_labels_modify_input
  by unfold_locales (rule email_labels_modify_stable)

interpretation email_undo: normalizing validate_email_undo_input
  by unfold_locales (rule email_undo_stable)


section \<open>What an accepted write is\<close>

lemma authority_exactly_one:
  assumes "normalize_provider_write_authority raw = Inr a"
  shows "length (filter (\<lambda>k. jget raw k \<noteq> JNull) authority_keys) = 1"
proof -
  from assms obtain i k s where "authority_shape raw a i k s" by (rule authority_form)
  moreover from this have "jget raw k \<noteq> JNull" by (auto simp: authority_shape_def)
  ultimately show ?thesis by (auto simp: authority_shape_def authority_keys_def)
qed

lemma authority_idempotency_key:
  assumes "normalize_provider_write_authority raw = Inr a"
  shows "\<exists>i. jget a ''idempotency_key'' = JStr i \<and> i \<noteq> [] \<and> length i \<le> 128"
  using assms
  by (auto elim!: authority_form dest!: normalize_optional_text_Some
      simp: authority_shape_def authority_keys_def)

definition mail_address :: "string \<Rightarrow> bool" where
  "mail_address s \<longleftrightarrow>
     strip s = s \<and> lower s = s \<and> length s \<le> 320 \<and> \<not> list_ex is_space s
     \<and> (case partition_at (CHR ''@'') s of
          None \<Rightarrow> False
        | Some (local_part, domain) \<Rightarrow> local_part \<noteq> [] \<and> List.member domain (CHR ''.''))"

lemma recipient_mail_address: "normalize_email_recipient v = Some s \<Longrightarrow> mail_address s"
  by (auto simp: normalize_email_recipient_def mail_address_def Let_def split: if_splits option.splits)

lemma recipients_mail_addresses:
  "normalize_email_recipients v = Some ys \<Longrightarrow> distinct ys \<and> list_all mail_address ys"
  by (auto simp: normalize_email_recipients_def list_all_iff split: if_splits option.splits
      dest!: normalize_distinct_props intro: recipient_mail_address)

end
