(* ===== verification/Urls.thy ===== *)
theory Urls
  imports Ariel_Prelude
begin

text \<open>
  The parts of \<open>urllib.parse\<close> and \<open>ipaddress\<close> (CPython 3.12) that the egress checks and the web
  extraction use: \<open>urlparse\<close> with its \<open>hostname\<close>, \<open>username\<close>, \<open>password\<close> and \<open>port\<close>, \<open>quote\<close>,
  and \<open>ip_address\<close> with its classification. No file of the repository is modelled here.

  On the code_of points U+0000 to U+00FF the NFKC check of \<open>urlsplit\<close> never fires: none of them
  normalizes to text with one of the delimiters, so it is left out.
\<close>

section \<open>Splitting\<close>

definition code_of :: "char \<Rightarrow> nat" where
  "code_of c = of_char c"

definition is_ascii_digit :: "char \<Rightarrow> bool" where
  "is_ascii_digit c \<longleftrightarrow> 48 \<le> code_of c \<and> code_of c \<le> 57"

definition is_ascii_alpha :: "char \<Rightarrow> bool" where
  "is_ascii_alpha c \<longleftrightarrow> 65 \<le> code_of c \<and> code_of c \<le> 90 \<or> 97 \<le> code_of c \<and> code_of c \<le> 122"

definition hex_value :: "char \<Rightarrow> nat option" where
  "hex_value c =
     (if is_ascii_digit c then Some (code_of c - 48)
      else if 97 \<le> code_of c \<and> code_of c \<le> 102 then Some (code_of c - 87)
      else if 65 \<le> code_of c \<and> code_of c \<le> 70 then Some (code_of c - 55)
      else None)"

definition decimal :: "string \<Rightarrow> nat" where
  "decimal s = foldl (\<lambda>n c. 10 * n + (code_of c - 48)) 0 s"

text \<open>\<open>s.split(c)\<close>\<close>

fun split_on :: "char \<Rightarrow> string \<Rightarrow> string list" where
  "split_on c [] = [[]]"
| "split_on c (d # ds) =
     (if d = c then [] # split_on c ds
      else case split_on c ds of [] \<Rightarrow> [[d]] | w # ws \<Rightarrow> (d # w) # ws)"

text \<open>\<open>s.rpartition(c)\<close>: what stands before and after the last \<open>c\<close>, when there is one.\<close>

definition after_last :: "char \<Rightarrow> string \<Rightarrow> string" where
  "after_last c s = rev (takeWhile (\<lambda>d. d \<noteq> c) (rev s))"

definition before_last :: "char \<Rightarrow> string \<Rightarrow> string option" where
  "before_last c s =
     (if List.member s c then Some (rev (tl (dropWhile (\<lambda>d. d \<noteq> c) (rev s)))) else None)"

section \<open>IP addresses\<close>

datatype ip = V4 nat | V6 nat

definition parse_octet :: "string \<Rightarrow> nat option" where
  "parse_octet s =
     (if s = [] \<or> \<not> list_all is_ascii_digit s \<or> 3 < length s \<or> s \<noteq> ''0'' \<and> hd s = CHR ''0'' \<or> 255 < decimal s
      then None else Some (decimal s))"

definition ipv4_parse :: "string \<Rightarrow> nat option" where
  "ipv4_parse s =
     (case map parse_octet (split_on (CHR ''.'') s) of
        [Some a, Some b, Some c, Some d] \<Rightarrow> Some (((a * 256 + b) * 256 + c) * 256 + d)
      | _ \<Rightarrow> None)"

text \<open>A part between colons: empty, a hextet, or the half of an embedded IPv4 address.\<close>

datatype hextet = NoHextet | BadHextet | Hextet nat

definition parse_hextet :: "string \<Rightarrow> hextet" where
  "parse_hextet s =
     (if s = [] then NoHextet
      else if list_ex (\<lambda>c. hex_value c = None) s \<or> 4 < length s then BadHextet
      else Hextet (foldl (\<lambda>n c. 16 * n + the (hex_value c)) 0 s))"

fun join_hextets :: "nat \<Rightarrow> hextet list \<Rightarrow> nat option" where
  "join_hextets n [] = Some n"
| "join_hextets n (Hextet h # hs) = join_hextets (65536 * n + h) hs"
| "join_hextets n (_ # hs) = None"

definition ipv6_parts :: "string \<Rightarrow> hextet list option" where
  "ipv6_parts s =
     (let parts = split_on (CHR '':'') s
      in if length parts < 3 then None
         else if List.member (last parts) (CHR ''.'') then
           (case ipv4_parse (last parts) of
              None \<Rightarrow> None
            | Some v \<Rightarrow> Some (map parse_hextet (butlast parts) @ [Hextet (v div 65536), Hextet (v mod 65536)]))
         else Some (map parse_hextet parts))"

definition empty_inside :: "hextet list \<Rightarrow> nat list" where
  "empty_inside parts = filter (\<lambda>i. parts ! i = NoHextet) [1..<length parts - 1]"

definition ipv6_compressed :: "hextet list \<Rightarrow> nat \<Rightarrow> nat option" where
  "ipv6_compressed parts skip_index =
     (let hi = (if hd parts = NoHextet then skip_index - 1 else skip_index);
          lo0 = length parts - skip_index - 1;
          lo = (if last parts = NoHextet then lo0 - 1 else lo0)
      in if hd parts = NoHextet \<and> hi \<noteq> 0 \<or> last parts = NoHextet \<and> lo \<noteq> 0 \<or> 8 < hi + lo + 1
         then None
         else (case join_hextets 0 (take hi parts) of
            None \<Rightarrow> None
          | Some n \<Rightarrow> join_hextets (n * 65536 ^ (8 - (hi + lo))) (drop (length parts - lo) parts)))"

definition ipv6_parse_addr :: "string \<Rightarrow> nat option" where
  "ipv6_parse_addr s =
     (case ipv6_parts s of
        None \<Rightarrow> None
      | Some parts \<Rightarrow>
         (if 9 < length parts then None
          else (case empty_inside parts of
            [] \<Rightarrow> (if length parts \<noteq> 8 then None else join_hextets 0 parts)
          | skip_index # more \<Rightarrow> (if more = [] then ipv6_compressed parts skip_index else None))))"

definition ipv6_parse :: "string \<Rightarrow> nat option" where
  "ipv6_parse s =
     (case partition_at (CHR ''%'') s of
        None \<Rightarrow> ipv6_parse_addr s
      | Some (addr, scope_id) \<Rightarrow>
          if scope_id = [] \<or> List.member scope_id (CHR ''%'') then None else ipv6_parse_addr addr)"

definition ip_address :: "string \<Rightarrow> ip option" where
  "ip_address s =
     (if List.member s (CHR ''/'') then None
      else case ipv4_parse s of
        Some n \<Rightarrow> Some (V4 n)
      | None \<Rightarrow> map_option V6 (ipv6_parse s))"

text \<open>\<open>self in network\<close> for a network given by its address and the bits of its host part.\<close>

definition in_net :: "nat \<Rightarrow> nat \<times> nat \<Rightarrow> bool" where
  "in_net n net = (n div 2 ^ snd net = fst net div 2 ^ snd net)"

definition v4 :: "nat \<Rightarrow> nat \<Rightarrow> nat \<Rightarrow> nat \<Rightarrow> nat" where
  "v4 a b c d = ((a * 256 + b) * 256 + c) * 256 + d"

definition v4_private_networks :: "(nat \<times> nat) list" where
  "v4_private_networks = [(v4 0 0 0 0, 24), (v4 10 0 0 0, 24), (v4 127 0 0 0, 24), (v4 169 254 0 0, 16),
     (v4 172 16 0 0, 20), (v4 192 0 0 0, 8), (v4 192 0 0 170, 1), (v4 192 0 2 0, 8),
     (v4 192 168 0 0, 16), (v4 198 18 0 0, 17), (v4 198 51 100 0, 8), (v4 203 0 113 0, 8),
     (v4 240 0 0 0, 28), (v4 255 255 255 255, 0)]"

definition v4_private_exceptions :: "(nat \<times> nat) list" where
  "v4_private_exceptions = [(v4 192 0 0 9, 0), (v4 192 0 0 10, 0)]"

definition v4_is_private :: "nat \<Rightarrow> bool" where
  "v4_is_private n \<longleftrightarrow>
     list_ex (in_net n) v4_private_networks \<and> \<not> list_ex (in_net n) v4_private_exceptions"

text \<open>An IPv6 address by its first three hextets, the rest zero.\<close>

definition v6 :: "nat \<Rightarrow> nat \<Rightarrow> nat \<Rightarrow> nat" where
  "v6 a b c = (((a * 65536) + b) * 65536 + c) * 2 ^ 80"

definition v6_private_networks :: "(nat \<times> nat) list" where
  "v6_private_networks = [(1, 0), (0, 0), (0xFFFF * 2 ^ 32, 32), (v6 0x64 0xFF9B 1, 80),
     (v6 0x100 0 0, 64), (v6 0x2001 0 0, 105), (v6 0x2001 0xDB8 0, 96), (v6 0x2002 0 0, 112),
     (v6 0xFC00 0 0, 121), (v6 0xFE80 0 0, 118)]"

definition v6_private_exceptions :: "(nat \<times> nat) list" where
  "v6_private_exceptions = [(v6 0x2001 1 0 + 1, 0), (v6 0x2001 1 0 + 2, 0), (v6 0x2001 3 0, 96),
     (v6 0x2001 4 0x112, 80), (v6 0x2001 0x20 0, 100), (v6 0x2001 0x30 0, 100)]"

definition v6_reserved_networks :: "(nat \<times> nat) list" where
  "v6_reserved_networks = [(0, 120), (v6 0x100 0 0, 120), (v6 0x200 0 0, 121), (v6 0x400 0 0, 122),
     (v6 0x800 0 0, 123), (v6 0x1000 0 0, 124), (v6 0x4000 0 0, 125), (v6 0x6000 0 0, 125),
     (v6 0x8000 0 0, 125), (v6 0xA000 0 0, 125), (v6 0xC000 0 0, 125), (v6 0xE000 0 0, 124),
     (v6 0xF000 0 0, 123), (v6 0xF800 0 0, 122), (v6 0xFE00 0 0, 119)]"

fun is_private :: "ip \<Rightarrow> bool" where
  "is_private (V4 n) = v4_is_private n"
| "is_private (V6 n) =
     (if n div 2 ^ 32 = 0xFFFF then v4_is_private (n mod 2 ^ 32)
      else list_ex (in_net n) v6_private_networks \<and> \<not> list_ex (in_net n) v6_private_exceptions)"

fun is_loopback :: "ip \<Rightarrow> bool" where
  "is_loopback (V4 n) = in_net n (v4 127 0 0 0, 24)"
| "is_loopback (V6 n) = (n = 1)"

fun is_link_local :: "ip \<Rightarrow> bool" where
  "is_link_local (V4 n) = in_net n (v4 169 254 0 0, 16)"
| "is_link_local (V6 n) = in_net n (v6 0xFE80 0 0, 118)"

fun is_multicast :: "ip \<Rightarrow> bool" where
  "is_multicast (V4 n) = in_net n (v4 224 0 0 0, 28)"
| "is_multicast (V6 n) = in_net n (v6 0xFF00 0 0, 120)"

fun is_reserved :: "ip \<Rightarrow> bool" where
  "is_reserved (V4 n) = in_net n (v4 240 0 0 0, 28)"
| "is_reserved (V6 n) = list_ex (in_net n) v6_reserved_networks"

fun is_unspecified :: "ip \<Rightarrow> bool" where
  "is_unspecified (V4 n) = (n = 0)"
| "is_unspecified (V6 n) = (n = 0)"

section \<open>urlparse\<close>

record url =
  u_scheme :: string
  u_netloc :: string
  u_path :: string
  u_query :: string

definition scheme_char :: "char \<Rightarrow> bool" where
  "scheme_char c \<longleftrightarrow> is_ascii_alpha c \<or> is_ascii_digit c \<or> List.member ''+-.'' c"

definition split_scheme :: "string \<Rightarrow> string \<times> string" where
  "split_scheme s =
     (case partition_at (CHR '':'') s of
        Some (c # cs, rest) \<Rightarrow>
          if is_ascii_alpha c \<and> list_all scheme_char (c # cs) then (lower (c # cs), rest) else ([], s)
      | _ \<Rightarrow> ([], s))"

definition ends_netloc :: "char \<Rightarrow> bool" where
  "ends_netloc c \<longleftrightarrow> List.member ''/?#'' c"

definition hostinfo :: "string \<Rightarrow> string \<times> string" where
  "hostinfo netloc =
     (let info = after_last (CHR ''@'') netloc
      in case partition_at (CHR ''['') info of
           Some (before_bracket, bracketed) \<Rightarrow>
             (case partition_at (CHR '']'') bracketed of
                None \<Rightarrow> (bracketed, [])
              | Some (host, rest) \<Rightarrow>
                  (host, case partition_at (CHR '':'') rest of None \<Rightarrow> [] | Some (a, port) \<Rightarrow> port))
         | None \<Rightarrow>
             (case partition_at (CHR '':'') info of None \<Rightarrow> (info, []) | Some hp \<Rightarrow> hp))"

definition bracketed_host_ok :: "string \<Rightarrow> bool" where
  "bracketed_host_ok h =
     (if starts_with ''v'' h then
        (let digits = takeWhile (\<lambda>c. hex_value c \<noteq> None) (tl h); rest = drop (length digits) (tl h)
         in digits \<noteq> [] \<and> starts_with ''.'' rest \<and> 2 \<le> length rest)
      else case ip_address h of Some (V6 n) \<Rightarrow> True | _ \<Rightarrow> False)"

definition bracketed_netloc_ok :: "string \<Rightarrow> bool" where
  "bracketed_netloc_ok netloc =
     (case partition_at (CHR ''['') (after_last (CHR ''@'') netloc) of
        None \<Rightarrow> bracketed_host_ok (fst (hostinfo netloc))
      | Some (before_bracket, bracketed) \<Rightarrow>
          before_bracket = []
          \<and> (case partition_at (CHR '']'') bracketed of
               None \<Rightarrow> bracketed_host_ok bracketed
             | Some (h, port) \<Rightarrow> (port = [] \<or> starts_with '':'' port) \<and> bracketed_host_ok h))"

definition netloc_ok :: "string \<Rightarrow> bool" where
  "netloc_ok netloc \<longleftrightarrow>
     (List.member netloc (CHR ''['') \<longleftrightarrow> List.member netloc (CHR '']''))
     \<and> (List.member netloc (CHR ''['') \<longrightarrow> bracketed_netloc_ok netloc)"

definition split_params :: "string \<Rightarrow> string" where
  "split_params path =
     (let last_segment = after_last (CHR ''/'') path
      in case partition_at (CHR '';'') last_segment of
           None \<Rightarrow> path
         | Some (a, params) \<Rightarrow> take (length path - length last_segment) path @ a)"

definition uses_params :: "string list" where
  "uses_params = ['''', ''ftp'', ''hdl'', ''prospero'', ''http'', ''imap'', ''https'', ''shttp'', ''rtsp'',
     ''rtsps'', ''rtspu'', ''sip'', ''sips'', ''mms'', ''sftp'', ''tel'']"

text \<open>\<open>urlparse(s)\<close>; \<open>None\<close> is the \<open>ValueError\<close> of a malformed bracketed host.\<close>

definition urlparse :: "string \<Rightarrow> url option" where
  "urlparse s =
     (let cleaned = filter (\<lambda>c. \<not> List.member [CHR 0x09, CHR 0x0A, CHR 0x0D] c)
            (dropWhile (\<lambda>c. code_of c \<le> 32) s);
          (scheme, rest) = split_scheme cleaned;
          (netloc, rest2) =
            (if starts_with ''//'' rest
             then (takeWhile (\<lambda>c. \<not> ends_netloc c) (drop 2 rest), dropWhile (\<lambda>c. \<not> ends_netloc c) (drop 2 rest))
             else ([], rest));
          rest3 = takeWhile (\<lambda>c. c \<noteq> CHR ''#'') rest2;
          path = takeWhile (\<lambda>c. c \<noteq> CHR ''?'') rest3;
          query = drop (length path + 1) rest3
      in if \<not> netloc_ok netloc then None
         else Some \<lparr>u_scheme = scheme, u_netloc = netloc,
                u_path = (if List.member uses_params scheme then split_params path else path),
                u_query = query\<rparr>)"

definition hostname :: "url \<Rightarrow> string option" where
  "hostname u =
     (let h = fst (hostinfo (u_netloc u))
      in if h = [] then None
         else Some (case partition_at (CHR ''%'') h of
             None \<Rightarrow> lower h
           | Some (a, zone) \<Rightarrow> lower a @ ''%'' @ zone))"

text \<open>\<open>username is not None or password is not None\<close>: there is an \<open>@\<close>.\<close>

definition has_userinfo :: "url \<Rightarrow> bool" where
  "has_userinfo u = List.member (u_netloc u) (CHR ''@'')"

text \<open>
  \<open>port\<close>: \<open>None\<close> is the \<open>ValueError\<close>; \<open>int\<close> refuses more than 4300 digits.
\<close>

definition url_port :: "url \<Rightarrow> nat option option" where
  "url_port u =
     (let p = snd (hostinfo (u_netloc u))
      in if p = [] then Some None
         else if list_all is_ascii_digit p \<and> length p \<le> 4300 \<and> decimal p \<le> 65535 then Some (Some (decimal p))
         else None)"

section \<open>quote\<close>

definition always_safe :: "char \<Rightarrow> bool" where
  "always_safe c \<longleftrightarrow> is_ascii_alpha c \<or> is_ascii_digit c \<or> List.member ''_.-~'' c"

definition hex_digit :: "nat \<Rightarrow> char" where
  "hex_digit n = (if n < 10 then char_of (48 + n) else char_of (55 + n))"

definition percent :: "nat \<Rightarrow> string" where
  "percent b = [CHR ''%'', hex_digit (b div 16), hex_digit (b mod 16)]"

text \<open>\<open>quote(s, safe="")\<close>: the bytes of the UTF-8 encoding, two of them from U+0080 on.\<close>

definition quote_char :: "char \<Rightarrow> string" where
  "quote_char c =
     (if always_safe c then [c]
      else if code_of c < 128 then percent (code_of c)
      else percent (192 + code_of c div 64) @ percent (128 + code_of c mod 64))"

definition quote :: "string \<Rightarrow> string" where
  "quote s = concat (map quote_char s)"

end
