(* ===== verification/Web_Extract.thy ===== *)
theory Web_Extract
  imports Cap_Reads Urls
begin

text \<open>
  The URL policy and the output bounds of \<open>cap.web.extract\<close> in
  \<open>src/ariel/capability_registry.py\<close>: \<open>_is_unsafe_web_extract_host\<close>, \<open>_format_url_netloc\<close>,
  \<open>_normalize_web_extract_url\<close>, \<open>_validate_web_extract_input\<close>, \<open>_web_extract_content_blocks\<close> and
  \<open>_normalize_web_extract_blocks\<close>. The HTTP exchange with the reader service is not modelled.
\<close>

section \<open>Which hosts may be read\<close>

definition ends_with :: "string \<Rightarrow> string \<Rightarrow> bool" where
  "ends_with p s = starts_with (rev p) (rev s)"

text \<open>\<open>s.rstrip(c)\<close> for one character\<close>

definition rstrip_char :: "char \<Rightarrow> string \<Rightarrow> string" where
  "rstrip_char c s = rev (dropWhile (\<lambda>d. d = c) (rev s))"

definition WEB_EXTRACT_BLOCKED_HOST_SUFFIXES :: "string list" where
  "WEB_EXTRACT_BLOCKED_HOST_SUFFIXES = [''.internal'', ''.local'', ''.localhost'', ''.home'', ''.lan'']"

definition is_unsafe_web_extract_host :: "string \<Rightarrow> bool" where
  "is_unsafe_web_extract_host host =
     (let normalized = rstrip_char (CHR ''.'') (lower (strip host))
      in if normalized = [] then True
         else if normalized = ''localhost'' then True
         else case ip_address normalized of
           None \<Rightarrow>
             \<not> List.member normalized (CHR ''.'')
             \<or> list_ex (\<lambda>suffix. ends_with suffix normalized) WEB_EXTRACT_BLOCKED_HOST_SUFFIXES
         | Some a \<Rightarrow>
             is_private a \<or> is_loopback a \<or> is_link_local a \<or> is_multicast a \<or> is_reserved a
             \<or> is_unspecified a)"

fun show_nat_fuel :: "nat \<Rightarrow> nat \<Rightarrow> string" where
  "show_nat_fuel 0 n = []"
| "show_nat_fuel (Suc k) n =
     (if n < 10 then [] else show_nat_fuel k (n div 10)) @ [char_of (48 + n mod 10)]"

definition show_nat :: "nat \<Rightarrow> string" where
  "show_nat n = show_nat_fuel (n + 1) n"

definition format_url_netloc :: "string \<Rightarrow> nat option \<Rightarrow> string" where
  "format_url_netloc host port =
     (let rendered_host = (if List.member host (CHR '':'') then ''['' @ host @ '']'' else host)
      in case port of None \<Rightarrow> rendered_host | Some p \<Rightarrow> rendered_host @ '':'' @ show_nat p)"

text \<open>\<open>urlunparse((scheme, netloc, path, "", query, ""))\<close> for a nonempty netloc.\<close>

definition url_unparse :: "string \<Rightarrow> string \<Rightarrow> string \<Rightarrow> string \<Rightarrow> string" where
  "url_unparse scheme netloc path query =
     scheme @ ''://'' @ netloc @ (if path = [] \<or> hd path = CHR ''/'' then path else ''/'' @ path)
     @ (if query = [] then [] else ''?'' @ query)"

definition normalize_web_extract_url :: "string \<Rightarrow> string vres" where
  "normalize_web_extract_url raw_url =
     (let candidate = strip raw_url
      in if candidate = [] then reject ''url_invalid''
         else if list_ex is_space candidate then reject ''url_invalid''
         else case urlparse candidate of
           None \<Rightarrow> Inl (Raised ValueError)
         | Some parsed \<Rightarrow>
             if u_scheme parsed = [] then reject ''url_invalid''
             else let scheme = lower (u_scheme parsed)
             in if scheme \<noteq> ''http'' \<and> scheme \<noteq> ''https'' then reject ''url_scheme_unsupported''
             else case hostname parsed of
               None \<Rightarrow> reject ''url_invalid''
             | Some hn \<Rightarrow>
                 if has_userinfo parsed then reject ''url_invalid''
                 else let host = rstrip_char (CHR ''.'') (lower hn)
                 in if host = [] then reject ''url_invalid''
                 else case url_port parsed of
                   None \<Rightarrow> reject ''url_invalid''
                 | Some parsed_port \<Rightarrow>
                     if is_unsafe_web_extract_host host then reject ''url_destination_unsafe''
                     else let path = (if u_path parsed = [] then ''/'' else u_path parsed)
                     in Inr (url_unparse scheme (format_url_netloc host parsed_port) path (u_query parsed)))"

definition validate_web_extract_input :: "dict \<Rightarrow> dict vres" where
  "validate_web_extract_input raw =
     then_do (validate_exact_text_input ''url'' 2048 raw) (\<lambda>normalized_input.
     require (as_str (jget normalized_input ''url'')) (\<lambda>url.
     then_do (normalize_web_extract_url url) (\<lambda>normalized_url.
     Inr [(''url'', JStr normalized_url)])))"

section \<open>The bounds of the extracted text\<close>

definition WEB_EXTRACT_MAX_BLOCKS :: nat where
  "WEB_EXTRACT_MAX_BLOCKS = 8"

definition WEB_EXTRACT_MAX_BLOCK_CHARS :: nat where
  "WEB_EXTRACT_MAX_BLOCK_CHARS = 1200"

definition WEB_EXTRACT_MAX_TOTAL_CHARS :: nat where
  "WEB_EXTRACT_MAX_TOTAL_CHARS = 4000"

text \<open>\<open>" ".join(s.split())\<close>: runs of whitespace become one blank, none at the ends.\<close>

fun words_from :: "string \<Rightarrow> string \<Rightarrow> string list" where
  "words_from w [] = (if w = [] then [] else [rev w])"
| "words_from w (c # cs) =
     (if is_space c then (if w = [] then words_from [] cs else rev w # words_from [] cs)
      else words_from (c # w) cs)"

fun join_blank :: "string list \<Rightarrow> string" where
  "join_blank [] = []"
| "join_blank [w] = w"
| "join_blank (w # v # ws) = w @ '' '' @ join_blank (v # ws)"

definition compact :: "string \<Rightarrow> string" where
  "compact s = join_blank (words_from [] s)"

text \<open>One block, dropped to its own bound and then to what is left of the total; was text dropped?\<close>

definition bound_block :: "string \<Rightarrow> nat \<Rightarrow> string \<times> bool" where
  "bound_block compact_block remaining_chars =
     (let over = WEB_EXTRACT_MAX_BLOCK_CHARS < length compact_block;
          bounded_block =
            (if over then rstrip (take WEB_EXTRACT_MAX_BLOCK_CHARS compact_block) else compact_block);
          over_total = remaining_chars < length bounded_block
      in (if over_total then rstrip (take remaining_chars bounded_block) else bounded_block,
          over \<or> over_total))"

text \<open>
  The loop over the raw blocks. Its state is the blocks so far, whether text was dropped, and the
  characters so far; \<open>break\<close> ends the recursion.
\<close>

fun web_blocks :: "string list \<Rightarrow> bool \<Rightarrow> nat \<Rightarrow> string list \<Rightarrow> string list \<times> bool \<times> nat" where
  "web_blocks normalized truncated chars [] = (normalized, truncated, chars)"
| "web_blocks normalized truncated chars (raw_block # others) =
     (if compact raw_block = [] then web_blocks normalized truncated chars others
      else if WEB_EXTRACT_MAX_BLOCKS \<le> length normalized then (normalized, True, chars)
      else if WEB_EXTRACT_MAX_TOTAL_CHARS \<le> chars then (normalized, True, chars)
      else case bound_block (compact raw_block) (WEB_EXTRACT_MAX_TOTAL_CHARS - chars) of
        (bounded_block, dropped) \<Rightarrow>
          if bounded_block = [] then (normalized, True, chars)
          else web_blocks (normalized @ [bounded_block]) (truncated \<or> dropped)
                 (chars + length bounded_block) others)"

definition normalize_web_extract_blocks :: "string list \<Rightarrow> json list \<times> bool \<times> nat" where
  "normalize_web_extract_blocks raw_blocks =
     (let (blocks, truncated, chars) = web_blocks [] False 0 raw_blocks
      in (map (\<lambda>(i, text). JObj [(''index'', JInt (int i + 1)), (''text'', JStr text)])
            (enumerate 0 blocks), truncated, chars))"

definition nonblank :: "json \<Rightarrow> string option" where
  "nonblank v = (case as_str v of None \<Rightarrow> None | Some s \<Rightarrow> if strip s = [] then None else Some s)"

text \<open>\<open>content.replace("\\r\\n", "\\n").split("\\n\\n")\<close>\<close>

fun split_blank_lines :: "string \<Rightarrow> string \<Rightarrow> string list" where
  "split_blank_lines w [] = [rev w]"
| "split_blank_lines w [c] = [rev (c # w)]"
| "split_blank_lines w (c # d # cs) =
     (if c = CHR 0x0A \<and> d = CHR 0x0A then rev w # split_blank_lines [] cs
      else split_blank_lines (c # w) (d # cs))"

fun block_text :: "json \<Rightarrow> string option" where
  "block_text (JStr s) = Some s"
| "block_text (JObj d) = as_str (jget d ''text'')"
| "block_text _ = None"

definition web_extract_content_blocks :: "dict \<Rightarrow> string list" where
  "web_extract_content_blocks payload =
     (let parsed_blocks =
        (case as_list (jget payload ''content_blocks'') of
           None \<Rightarrow> [] | Some xs \<Rightarrow> List.map_filter block_text xs);
        paragraph_blocks =
        (case nonblank (jget payload ''content'') of
           None \<Rightarrow> []
         | Some content \<Rightarrow>
             filter (\<lambda>c. c \<noteq> []) (map strip
               (split_blank_lines [] (replace [CHR 0x0D, CHR 0x0A] [CHR 0x0A] content))))
      in if parsed_blocks \<noteq> [] then parsed_blocks
         else if paragraph_blocks \<noteq> [] then paragraph_blocks
         else case nonblank (jget payload ''excerpt'') of None \<Rightarrow> [] | Some e \<Rightarrow> [strip e])"

section \<open>Properties\<close>

definition within_bounds :: "string list \<Rightarrow> nat \<Rightarrow> bool" where
  "within_bounds blocks chars \<longleftrightarrow>
     length blocks \<le> WEB_EXTRACT_MAX_BLOCKS
     \<and> list_all (\<lambda>b. b \<noteq> [] \<and> length b \<le> WEB_EXTRACT_MAX_BLOCK_CHARS) blocks
     \<and> chars = sum_list (map length blocks) \<and> chars \<le> WEB_EXTRACT_MAX_TOTAL_CHARS"

lemma length_rstrip_take: "length (rstrip (take n s)) \<le> n"
  using length_rstrip [of "take n s"] by simp

lemma bound_block_length:
  "bound_block c n = (b, dropped) \<Longrightarrow> length b \<le> WEB_EXTRACT_MAX_BLOCK_CHARS \<and> length b \<le> n"
  using length_rstrip_take [of WEB_EXTRACT_MAX_BLOCK_CHARS c] length_rstrip [of "take n c"]
    length_rstrip [of "take n (rstrip (take WEB_EXTRACT_MAX_BLOCK_CHARS c))"]
  by (auto simp: bound_block_def Let_def split: if_split_asm)

lemma web_blocks_bounded:
  "within_bounds normalized chars
    \<Longrightarrow> web_blocks normalized truncated chars raws = (blocks, t, n) \<Longrightarrow> within_bounds blocks n"
proof (induction normalized truncated chars raws rule: web_blocks.induct)
  case (1 normalized truncated chars)
  then show ?case by simp
next
  case (2 normalized truncated chars raw_block others)
  obtain b dropped where b: "bound_block (compact raw_block) (WEB_EXTRACT_MAX_TOTAL_CHARS - chars) = (b, dropped)"
    by (cases "bound_block (compact raw_block) (WEB_EXTRACT_MAX_TOTAL_CHARS - chars)")
  have step: "within_bounds (normalized @ [b]) (chars + length b)"
    if "b \<noteq> []" "\<not> WEB_EXTRACT_MAX_BLOCKS \<le> length normalized"
      "\<not> WEB_EXTRACT_MAX_TOTAL_CHARS \<le> chars"
    using that 2(3) bound_block_length [OF b] unfolding within_bounds_def by auto
  show ?case using 2 b step by (simp split: if_split_asm)
qed

text \<open>
  The text \<open>cap.web.extract\<close> returns is bounded whatever the page holds: at most 8 blocks of at
  most 1200 characters each, none empty, and the reported \<open>content_chars\<close> is their total, at most
  4000.
\<close>

theorem web_extract_output_bounded:
  "\<exists>blocks chars truncated.
     normalize_web_extract_blocks raws =
       (map (\<lambda>(i, text). JObj [(''index'', JInt (int i + 1)), (''text'', JStr text)]) (enumerate 0 blocks),
        truncated, chars)
     \<and> length blocks \<le> 8 \<and> list_all (\<lambda>b. b \<noteq> [] \<and> length b \<le> 1200) blocks
     \<and> chars = sum_list (map length blocks) \<and> chars \<le> 4000"
proof -
  obtain blocks t n where w: "web_blocks [] False 0 raws = (blocks, t, n)" by (metis prod_cases3)
  have "within_bounds [] 0" by (simp add: within_bounds_def)
  from web_blocks_bounded [OF this w] show ?thesis
    by (auto simp: normalize_web_extract_blocks_def w within_bounds_def WEB_EXTRACT_MAX_BLOCKS_def
        WEB_EXTRACT_MAX_BLOCK_CHARS_def WEB_EXTRACT_MAX_TOTAL_CHARS_def)
qed

text \<open>What the URL policy lets through.\<close>

definition public_web_url :: "string \<Rightarrow> bool" where
  "public_web_url u \<longleftrightarrow>
     (\<exists>scheme host port path query.
        u = url_unparse scheme (format_url_netloc host port) path query
        \<and> (scheme = ''http'' \<or> scheme = ''https'') \<and> host \<noteq> [] \<and> \<not> is_unsafe_web_extract_host host
        \<and> path \<noteq> [])"

lemma normalize_web_extract_url_public:
  "normalize_web_extract_url raw = Inr u \<Longrightarrow> public_web_url u"
  unfolding normalize_web_extract_url_def public_web_url_def Let_def reject_def
  by (auto split: if_split_asm option.splits; intro exI conjI; (rule refl)?; simp)



text \<open>
  A malformed bracketed host makes \<open>urlparse\<close> raise, and nothing catches it: the validator raises
  instead of returning \<open>url_invalid\<close>.
\<close>

lemma web_extract_raises: "validate_web_extract_input [(''url'', JStr ''http://[x'')] = Inl (Raised ValueError)"
  by code_simp

end
