(* ===== verification/Cap_Egress.thy ===== *)
theory Cap_Egress
  imports Cap_Writes Web_Extract
begin

text \<open>
  Where a capability may send data: the \<open>_declare_..._egress_intent\<close> functions of
  \<open>src/ariel/capability_registry.py\<close> and the endpoints they take from the settings. An intent is
  a list of \<open>{"destination": ..., "payload": ...}\<close> dictionaries.

  The settings and the provider calls are the environment of the model. \<open>str_other\<close> is \<open>str(v)\<close> of a
  value that is not a string; every theorem holds for any such function.
\<close>

record environment =
  search_brave_base_url :: string
  weather_provider_mode :: string
  weather_production_endpoint :: string
  weather_dev_endpoint :: string
  str_other :: "json \<Rightarrow> string"

type_synonym intent = "exn + json"

section \<open>Endpoints\<close>

text \<open>\<open>s.lstrip("/")\<close>\<close>

definition lstrip_slash :: "string \<Rightarrow> string" where
  "lstrip_slash s = dropWhile (\<lambda>c. c = CHR ''/'') s"

text \<open>The endpoint of a setting: its default when blank, and always with a scheme.\<close>

definition endpoint_setting :: "string \<Rightarrow> string \<Rightarrow> exn + string" where
  "endpoint_setting default_endpoint normalized =
     (if normalized = [] then Inr default_endpoint
      else case urlparse normalized of
        None \<Rightarrow> Inl ValueError
      | Some parsed \<Rightarrow>
          if u_scheme parsed \<noteq> [] then Inr normalized
          else if has_sub ''://'' normalized then Inr default_endpoint
          else Inr (''https://'' @ lstrip_slash normalized))"

definition search_brave_url :: "environment \<Rightarrow> exn + string" where
  "search_brave_url env =
     endpoint_setting ''https://api.search.brave.com/res/v1''
       (rstrip_char (CHR ''/'') (strip (search_brave_base_url env)))"

definition search_endpoint :: "environment \<Rightarrow> exn + string" where
  "search_endpoint env = (case search_brave_url env of Inl e \<Rightarrow> Inl e | Inr u \<Rightarrow> Inr (u @ ''/web/search''))"

definition weather_production_url :: "environment \<Rightarrow> exn + string" where
  "weather_production_url env =
     endpoint_setting ''https://api.tomorrow.io/v4/weather/forecast''
       (strip (weather_production_endpoint env))"

definition weather_dev_url :: "environment \<Rightarrow> exn + string" where
  "weather_dev_url env = endpoint_setting ''https://wttr.in'' (strip (weather_dev_endpoint env))"

definition endpoint_host :: "string \<Rightarrow> exn + string option" where
  "endpoint_host endpoint =
     (case urlparse endpoint of
        None \<Rightarrow> Inl ValueError
      | Some parsed \<Rightarrow>
         (case hostname parsed of
            Some h \<Rightarrow> Inr (Some (lower h))
          | None \<Rightarrow>
              if has_sub ''://'' endpoint then Inr None
              else
                let host0 = lower (strip (takeWhile (\<lambda>c. c \<noteq> CHR ''/'') endpoint));
                    host = takeWhile (\<lambda>c. c \<noteq> CHR '':'') host0
                in Inr (if host = [] then None else Some host)))"

definition host_or :: "string \<Rightarrow> exn + string \<Rightarrow> exn + string list" where
  "host_or default_host endpoint =
     (case endpoint of
        Inl e \<Rightarrow> Inl e
      | Inr u \<Rightarrow>
         (case endpoint_host u of
            Inl e \<Rightarrow> Inl e
          | Inr None \<Rightarrow> Inr [default_host]
          | Inr (Some h) \<Rightarrow> Inr [h]))"

definition search_allowed_destinations :: "environment \<Rightarrow> exn + string list" where
  "search_allowed_destinations env = host_or ''api.search.brave.com'' (search_endpoint env)"

definition weather_allowed_destinations :: "environment \<Rightarrow> exn + string list" where
  "weather_allowed_destinations env =
     (if weather_provider_mode env = ''dev'' then host_or ''wttr.in'' (weather_dev_url env)
      else host_or ''api.tomorrow.io'' (weather_production_url env))"

section \<open>Building a intent\<close>

text \<open>\<open>d[k]\<close>: a missing key raises.\<close>

definition item :: "dict \<Rightarrow> string \<Rightarrow> (json \<Rightarrow> exn + 'a) \<Rightarrow> exn + 'a" where
  "item d k f = (case map_of d k of None \<Rightarrow> Inl KeyError | Some v \<Rightarrow> f v)"

definition request :: "string \<Rightarrow> dict \<Rightarrow> json" where
  "request destination payload = JObj [(''destination'', JStr destination), (''payload'', JObj payload)]"

definition declare_one :: "string \<Rightarrow> dict \<Rightarrow> intent" where
  "declare_one destination payload = Inr (JArr [request destination payload])"

definition py_str :: "environment \<Rightarrow> json \<Rightarrow> string" where
  "py_str env v = (case v of JStr s \<Rightarrow> s | _ \<Rightarrow> str_other env v)"

fun truthy :: "json \<Rightarrow> bool" where
  "truthy JNull = False"
| "truthy (JBool b) = b"
| "truthy (JInt i) = (i \<noteq> 0)"
| "truthy (JFloat q) = (q \<noteq> Fin 0)"
| "truthy (JStr s) = (s \<noteq> [])"
| "truthy (JArr xs) = (xs \<noteq> [])"
| "truthy (JTup xs) = (xs \<noteq> [])"
| "truthy (JObj d) = (d \<noteq> [])"

text \<open>\<open>for key in ks: if key in d: payload[key] = d[key]\<close>\<close>

fun copy_keys :: "string list \<Rightarrow> dict \<Rightarrow> dict \<Rightarrow> dict" where
  "copy_keys [] d payload = payload"
| "copy_keys (k # ks) d payload =
     copy_keys ks d (case map_of d k of None \<Rightarrow> payload | Some v \<Rightarrow> AList.update k v payload)"

text \<open>The \<open>attendees\<close> of a calendar input, when they are a nonempty list.\<close>

definition attendee_list :: "dict \<Rightarrow> json list" where
  "attendee_list d = (case as_list (jget_or d ''attendees'' (JArr [])) of None \<Rightarrow> [] | Some xs \<Rightarrow> xs)"

definition google_calendar_url :: "environment \<Rightarrow> dict \<Rightarrow> string" where
  "google_calendar_url env d =
     (let calendar_id = jget d ''calendar_id'';
          c = (if truthy calendar_id then calendar_id else JStr ''primary'')
      in ''https://www.googleapis.com/calendar/v3/calendars/'' @ quote (py_str env c) @ ''/events'')"

section \<open>Search, maps and weather\<close>

definition declare_search_web :: "environment \<Rightarrow> dict \<Rightarrow> intent" where
  "declare_search_web env d =
     (case search_endpoint env of
        Inl e \<Rightarrow> Inl e
      | Inr endpoint \<Rightarrow> item d ''query'' (\<lambda>query. declare_one endpoint [(''query'', query)]))"

definition declare_web_extract :: "environment \<Rightarrow> dict \<Rightarrow> intent" where
  "declare_web_extract env d =
     item d ''url'' (\<lambda>url. declare_one (''https://r.jina.ai/'' @ py_str env url) [])"

definition declare_maps_directions :: "dict \<Rightarrow> intent" where
  "declare_maps_directions d =
     declare_one ''https://routes.googleapis.com/directions/v2:computeRoutes''
       [(''origin'', jget d ''origin''), (''destination'', jget d ''destination''),
        (''travel_mode'', jget d ''travel_mode''), (''waypoints'', jget d ''waypoints''),
        (''optimize_order'', jget d ''optimize_order'')]"

definition declare_maps_search_places :: "dict \<Rightarrow> intent" where
  "declare_maps_search_places d =
     Inr (JArr
       [request ''https://maps.googleapis.com/maps/api/geocode/json''
          [(''location_context'', jget d ''location_context'')],
        request ''https://places.googleapis.com/v1/places:searchText''
          [(''query'', jget d ''query''), (''location_context'', jget d ''location_context''),
           (''radius_meters'', jget d ''radius_meters'')]])"

text \<open>The Tomorrow.io adapter and the wttr.in adapter declare their endpoint and their name.\<close>

definition declare_weather_forecast :: "environment \<Rightarrow> dict \<Rightarrow> intent" where
  "declare_weather_forecast env d =
     (let location = (case as_str (jget d ''location'') of None \<Rightarrow> [] | Some s \<Rightarrow> s);
          timeframe = (case as_str (jget d ''timeframe'') of None \<Rightarrow> ''today'' | Some s \<Rightarrow> s);
          dev = weather_provider_mode env = ''dev''
      in case (if dev then weather_dev_url env else weather_production_url env) of
           Inl e \<Rightarrow> Inl e
         | Inr endpoint \<Rightarrow>
             declare_one endpoint
               [(''provider'', JStr (if dev then ''wttr.dev'' else ''tomorrow.io'')),
                (''location'', JStr location), (''timeframe'', JStr timeframe)])"

section \<open>Calendar\<close>

definition declare_calendar_list :: "environment \<Rightarrow> dict \<Rightarrow> intent" where
  "declare_calendar_list env d =
     item d ''window_start'' (\<lambda>ws. item d ''window_end'' (\<lambda>we.
     declare_one
       (''https://www.googleapis.com/calendar/v3/calendars/''
         @ quote (py_str env (jget_or d ''calendar_id'' (JStr ''primary''))) @ ''/events'')
       [(''window_start'', ws), (''window_end'', we)]))"

definition declare_calendar_list_calendars :: "dict \<Rightarrow> intent" where
  "declare_calendar_list_calendars d =
     declare_one ''https://www.googleapis.com/calendar/v3/users/me/calendarList'' []"

definition declare_calendar_propose_slots :: "dict \<Rightarrow> intent" where
  "declare_calendar_propose_slots d =
     item d ''window_start'' (\<lambda>ws. item d ''window_end'' (\<lambda>we. item d ''duration_minutes'' (\<lambda>dur.
     let events = request ''https://www.googleapis.com/calendar/v3/calendars/primary/events''
           [(''window_start'', ws), (''window_end'', we), (''duration_minutes'', dur)];
         attendees = attendee_list d
     in Inr (JArr (if attendees = [] then [events]
          else [events, request ''https://www.googleapis.com/calendar/v3/freeBusy''
                  [(''attendees'', JArr attendees)]])))))"

definition declare_calendar_create_event :: "environment \<Rightarrow> dict \<Rightarrow> intent" where
  "declare_calendar_create_event env d =
     item d ''title'' (\<lambda>title. item d ''start_time'' (\<lambda>st. item d ''end_time'' (\<lambda>et.
     item d ''idempotency_key'' (\<lambda>key.
     let p0 = copy_keys authority_keys d [(''title'', title), (''start_time'', st), (''end_time'', et),
           (''idempotency_key'', key)];
         p1 = (case as_str (jget d ''description'') of None \<Rightarrow> p0
               | Some s \<Rightarrow> AList.update ''description'' (JStr s) p0);
         p2 = (case as_str (jget d ''location'') of None \<Rightarrow> p1
               | Some s \<Rightarrow> AList.update ''location'' (JStr s) p1);
         p3 = (if attendee_list d = [] then p2 else AList.update ''attendees'' (JArr (attendee_list d)) p2)
     in declare_one (google_calendar_url env d) p3))))"

definition declare_calendar_update_event :: "environment \<Rightarrow> dict \<Rightarrow> intent" where
  "declare_calendar_update_event env d =
     item d ''event_id'' (\<lambda>event_id. item d ''idempotency_key'' (\<lambda>key.
     declare_one (google_calendar_url env d @ ''/'' @ quote (py_str env event_id))
       (copy_keys [''title'', ''start_time'', ''end_time'', ''description'', ''location'', ''attendees''] d
         (copy_keys authority_keys d [(''event_id'', event_id), (''idempotency_key'', key)]))))"

definition declare_calendar_respond_to_event :: "environment \<Rightarrow> dict \<Rightarrow> intent" where
  "declare_calendar_respond_to_event env d =
     item d ''event_id'' (\<lambda>event_id. item d ''attendee_email'' (\<lambda>email.
     item d ''response_status'' (\<lambda>status. item d ''idempotency_key'' (\<lambda>key.
     declare_one (google_calendar_url env d @ ''/'' @ quote (py_str env event_id))
       [(''event_id'', event_id), (''attendee_email'', email), (''response_status'', status),
        (''idempotency_key'', key), (''source_evidence_id'', jget d ''source_evidence_id''),
        (''user_instruction_ref'', jget d ''user_instruction_ref'')]))))"

section \<open>Mail\<close>

definition declare_email_search :: "dict \<Rightarrow> intent" where
  "declare_email_search d =
     item d ''query'' (\<lambda>query.
     declare_one ''https://gmail.googleapis.com/gmail/v1/users/me/messages'' [(''query'', query)])"

definition declare_email_read :: "environment \<Rightarrow> dict \<Rightarrow> intent" where
  "declare_email_read env d =
     (let mode = jget d ''mode'';
          by_message = item d ''message_id'' (\<lambda>message_id.
            declare_one
              (''https://gmail.googleapis.com/gmail/v1/users/me/messages/'' @ py_str env message_id)
              [(''message_id'', message_id), (''mode'', mode)])
      in case as_str (jget d ''thread_id'') of
           None \<Rightarrow> by_message
         | Some thread_id \<Rightarrow>
             if thread_id = [] then by_message
             else declare_one
               (''https://gmail.googleapis.com/gmail/v1/users/me/threads/'' @ thread_id)
               [(''thread_id'', JStr thread_id), (''mode'', mode)])"

definition declare_email_compose :: "string \<Rightarrow> dict \<Rightarrow> intent" where
  "declare_email_compose destination d =
     item d ''to'' (\<lambda>to. item d ''cc'' (\<lambda>cc. item d ''bcc'' (\<lambda>bcc. item d ''subject'' (\<lambda>subject.
     declare_one destination [(''to'', to), (''cc'', cc), (''bcc'', bcc), (''subject'', subject)]))))"

definition declare_email_draft :: "dict \<Rightarrow> intent" where
  "declare_email_draft d = declare_email_compose ''https://gmail.googleapis.com/gmail/v1/users/me/drafts'' d"

definition declare_email_send :: "dict \<Rightarrow> intent" where
  "declare_email_send d =
     declare_email_compose ''https://gmail.googleapis.com/gmail/v1/users/me/messages/send'' d"

definition declare_email_archive :: "dict \<Rightarrow> intent" where
  "declare_email_archive d =
     item d ''message_ids'' (\<lambda>message_ids.
     declare_one ''https://gmail.googleapis.com/gmail/v1/users/me/messages/batchModify''
       [(''message_ids'', message_ids), (''remove_label_names'', JArr [JStr ''INBOX''])])"

text \<open>Iterating over anything but a list is not modelled: a normalized input has a list here.\<close>

definition declare_email_trash :: "environment \<Rightarrow> dict \<Rightarrow> intent" where
  "declare_email_trash env d =
     item d ''message_ids'' (\<lambda>message_ids.
     case as_list message_ids of
       None \<Rightarrow> Inl TypeError
     | Some ids \<Rightarrow> Inr (JArr (map (\<lambda>message_id.
         request (''https://gmail.googleapis.com/gmail/v1/users/me/messages/''
             @ py_str env message_id @ ''/trash'') [(''message_id'', message_id)]) ids)))"

definition declare_email_labels_modify :: "dict \<Rightarrow> intent" where
  "declare_email_labels_modify d =
     item d ''message_ids'' (\<lambda>message_ids. item d ''add_labels'' (\<lambda>add. item d ''remove_labels'' (\<lambda>rm.
     declare_one ''https://gmail.googleapis.com/gmail/v1/users/me/messages/batchModify''
       [(''message_ids'', message_ids), (''add_labels'', add), (''remove_labels'', rm)])))"

definition declare_email_undo :: "dict \<Rightarrow> intent" where
  "declare_email_undo d =
     declare_one ''https://gmail.googleapis.com/gmail/v1/users/me/messages/batchModify''
       [(''operation'', JStr ''undo'')]"

section \<open>Drive and the agency daemon\<close>

definition declare_drive_search :: "dict \<Rightarrow> intent" where
  "declare_drive_search d =
     item d ''query'' (\<lambda>query. declare_one ''https://www.googleapis.com/drive/v3/files'' [(''query'', query)])"

definition declare_drive_read :: "environment \<Rightarrow> dict \<Rightarrow> intent" where
  "declare_drive_read env d =
     item d ''file_id'' (\<lambda>file_id.
     declare_one (''https://www.googleapis.com/drive/v3/files/'' @ py_str env file_id)
       [(''file_id'', file_id)])"

definition declare_drive_share :: "environment \<Rightarrow> dict \<Rightarrow> intent" where
  "declare_drive_share env d =
     item d ''file_id'' (\<lambda>file_id. item d ''grantee_email'' (\<lambda>email. item d ''role'' (\<lambda>role.
     item d ''idempotency_key'' (\<lambda>key.
     declare_one (''https://www.googleapis.com/drive/v3/files/'' @ py_str env file_id @ ''/permissions'')
       (copy_keys authority_keys d [(''file_id'', file_id), (''grantee_email'', email), (''role'', role),
          (''idempotency_key'', key)])))))"

definition declare_agency_run :: "dict \<Rightarrow> intent" where
  "declare_agency_run d =
     item d ''repo_root'' (\<lambda>repo_root. item d ''name'' (\<lambda>name.
     declare_one ''agency.daemon.local''
       [(''repo_root'', repo_root), (''name'', name), (''base_branch'', jget d ''base_branch''),
        (''runner'', jget d ''runner'')]))"

definition declare_agency_request_pr :: "dict \<Rightarrow> intent" where
  "declare_agency_request_pr d =
     declare_one ''agency.daemon.local''
       [(''job_id'', jget d ''job_id''), (''repo_id'', jget d ''repo_id''),
        (''task_id'', jget d ''task_id''), (''invocation_id'', jget d ''invocation_id''),
        (''worktree_id'', jget d ''worktree_id'')]"

end
