(* ===== verification/Registry.thy ===== *)
theory Registry
  imports Cap_Egress
begin

text \<open>
  The capability registry of \<open>src/ariel/capability_registry.py\<close>: \<open>CapabilityDefinition\<close>, one
  definition per entry of \<open>_CAPABILITY_REGISTRY\<close>, \<open>get_capability\<close>, and the contract and payload
  hashes. The provider calls of the capabilities that have an \<open>execute\<close> are the parameter
  \<open>providers\<close>; the SHA-256 of the JSON text of a value is the parameter of the hashes.
\<close>

section \<open>Definitions\<close>

datatype impact = Read | WriteReversible | WriteIrreversible | ExternalSend

datatype policy = AllowInline | RequiresApproval | Deny

text \<open>\<open>CapabilityExecutionError(message)\<close>, or any other exception.\<close>

datatype exec_error = CapabilityExecutionError string | Crashed exn

record providers =
  execute_maps_directions :: "dict \<Rightarrow> exec_error + json"
  execute_maps_search_places :: "dict \<Rightarrow> exec_error + json"
  execute_web_extract :: "dict \<Rightarrow> exec_error + json"
  execute_search_web :: "dict \<Rightarrow> exec_error + json"
  execute_weather_forecast :: "dict \<Rightarrow> exec_error + json"

record capability =
  capability_id :: string
  version :: string
  impact_level :: impact
  policy_decision :: policy
  contract_metadata :: dict
  allowed_egress_destinations :: "string list"
  validate_input :: "dict \<Rightarrow> dict vres"
  execute :: "(dict \<Rightarrow> exec_error + json) option"
  declare_egress_intent :: "(dict \<Rightarrow> intent) option"

definition execute_agency_runtime :: "dict \<Rightarrow> exec_error + json" where
  "execute_agency_runtime d = Inl (CapabilityExecutionError ''agency_runtime_not_bound'')"

definition execute_attachment_runtime :: "dict \<Rightarrow> exec_error + json" where
  "execute_attachment_runtime d = Inl (CapabilityExecutionError ''attachment_runtime_not_bound'')"

definition GOOGLE_CALENDAR_READ_SCOPE :: string where
  "GOOGLE_CALENDAR_READ_SCOPE = ''https://www.googleapis.com/auth/calendar.readonly''"

definition GOOGLE_CALENDAR_FREEBUSY_SCOPE :: string where
  "GOOGLE_CALENDAR_FREEBUSY_SCOPE = ''https://www.googleapis.com/auth/calendar.freebusy''"

definition GOOGLE_CALENDAR_WRITE_SCOPE :: string where
  "GOOGLE_CALENDAR_WRITE_SCOPE = ''https://www.googleapis.com/auth/calendar.events''"

definition GOOGLE_GMAIL_READ_SCOPE :: string where
  "GOOGLE_GMAIL_READ_SCOPE = ''https://www.googleapis.com/auth/gmail.readonly''"

definition GOOGLE_GMAIL_MODIFY_SCOPE :: string where
  "GOOGLE_GMAIL_MODIFY_SCOPE = ''https://www.googleapis.com/auth/gmail.modify''"

definition GOOGLE_GMAIL_COMPOSE_SCOPE :: string where
  "GOOGLE_GMAIL_COMPOSE_SCOPE = ''https://www.googleapis.com/auth/gmail.compose''"

definition GOOGLE_GMAIL_SEND_SCOPE :: string where
  "GOOGLE_GMAIL_SEND_SCOPE = ''https://www.googleapis.com/auth/gmail.send''"

definition GOOGLE_DRIVE_METADATA_READ_SCOPE :: string where
  "GOOGLE_DRIVE_METADATA_READ_SCOPE = ''https://www.googleapis.com/auth/drive.metadata.readonly''"

definition GOOGLE_DRIVE_READ_SCOPE :: string where
  "GOOGLE_DRIVE_READ_SCOPE = ''https://www.googleapis.com/auth/drive.readonly''"

definition GOOGLE_DRIVE_SHARE_SCOPE :: string where
  "GOOGLE_DRIVE_SHARE_SCOPE = ''https://www.googleapis.com/auth/drive''"

definition GOOGLE_ALLOWED_EGRESS_DESTINATIONS :: "string list" where
  "GOOGLE_ALLOWED_EGRESS_DESTINATIONS = [''www.googleapis.com'', ''gmail.googleapis.com'', ''oauth2.googleapis.com'']"

definition GOOGLE_GMAIL_ALLOWED_EGRESS_DESTINATIONS :: "string list" where
  "GOOGLE_GMAIL_ALLOWED_EGRESS_DESTINATIONS = [''gmail.googleapis.com'']"

section \<open>The capabilities\<close>

definition cap_calendar_list :: "environment \<Rightarrow> providers \<Rightarrow> capability" where
  "cap_calendar_list env prov =
     \<lparr>capability_id = ''cap.calendar.list'', version = ''2.0'',
      impact_level = Read, policy_decision = AllowInline,
      contract_metadata =
        [(''input_schema'', JStr ''calendar_window_v1''),
          (''output_schema'', JStr ''google_calendar_events_v1''),
          (''idempotency'', JStr ''deterministic_read''),
          (''required_scopes'', JArr [JStr GOOGLE_CALENDAR_READ_SCOPE])],
      allowed_egress_destinations = GOOGLE_ALLOWED_EGRESS_DESTINATIONS,
      validate_input = validate_calendar_list_input, execute = None,
      declare_egress_intent = Some (declare_calendar_list env)\<rparr>"

definition cap_calendar_list_calendars :: "environment \<Rightarrow> providers \<Rightarrow> capability" where
  "cap_calendar_list_calendars env prov =
     \<lparr>capability_id = ''cap.calendar.list_calendars'', version = ''1.0'',
      impact_level = Read, policy_decision = AllowInline,
      contract_metadata =
        [(''input_schema'', JStr ''calendar_list_calendars_v1''),
          (''output_schema'', JStr ''google_calendar_calendar_list_v1''),
          (''idempotency'', JStr ''deterministic_read''),
          (''required_scopes'', JArr [JStr GOOGLE_CALENDAR_READ_SCOPE])],
      allowed_egress_destinations = GOOGLE_ALLOWED_EGRESS_DESTINATIONS,
      validate_input = validate_calendar_list_calendars_input, execute = None,
      declare_egress_intent = Some declare_calendar_list_calendars\<rparr>"

definition cap_calendar_propose_slots :: "environment \<Rightarrow> providers \<Rightarrow> capability" where
  "cap_calendar_propose_slots env prov =
     \<lparr>capability_id = ''cap.calendar.propose_slots'', version = ''1.0'',
      impact_level = Read, policy_decision = AllowInline,
      contract_metadata =
        [(''input_schema'', JStr ''calendar_slot_planning_v1''),
          (''output_schema'', JStr ''calendar_slot_options_v1''),
          (''idempotency'', JStr ''deterministic_read''),
          (''required_scopes'', JArr [JStr GOOGLE_CALENDAR_READ_SCOPE]),
          (''attendee_intersection_scope'', JStr GOOGLE_CALENDAR_FREEBUSY_SCOPE)],
      allowed_egress_destinations = GOOGLE_ALLOWED_EGRESS_DESTINATIONS,
      validate_input = validate_calendar_propose_slots_input, execute = None,
      declare_egress_intent = Some declare_calendar_propose_slots\<rparr>"

definition cap_email_search :: "environment \<Rightarrow> providers \<Rightarrow> capability" where
  "cap_email_search env prov =
     \<lparr>capability_id = ''cap.email.search'', version = ''2.0'',
      impact_level = Read, policy_decision = AllowInline,
      contract_metadata =
        [(''input_schema'', JStr ''email_search_v1''),
          (''output_schema'', JStr ''google_gmail_message_refs_v1''),
          (''idempotency'', JStr ''deterministic_read''),
          (''required_scopes'', JArr [JStr GOOGLE_GMAIL_READ_SCOPE])],
      allowed_egress_destinations = GOOGLE_GMAIL_ALLOWED_EGRESS_DESTINATIONS,
      validate_input = validate_email_search_input, execute = None,
      declare_egress_intent = Some declare_email_search\<rparr>"

definition cap_email_read :: "environment \<Rightarrow> providers \<Rightarrow> capability" where
  "cap_email_read env prov =
     \<lparr>capability_id = ''cap.email.read'', version = ''2.0'',
      impact_level = Read, policy_decision = AllowInline,
      contract_metadata =
        [(''input_schema'', JStr ''email_read_v1''),
          (''output_schema'', JStr ''google_gmail_message_evidence_v1''),
          (''idempotency'', JStr ''deterministic_read''),
          (''required_scopes'', JArr [JStr GOOGLE_GMAIL_READ_SCOPE])],
      allowed_egress_destinations = GOOGLE_GMAIL_ALLOWED_EGRESS_DESTINATIONS,
      validate_input = validate_email_read_input, execute = None,
      declare_egress_intent = Some (declare_email_read env)\<rparr>"

definition cap_provider_evidence_read :: "environment \<Rightarrow> providers \<Rightarrow> capability" where
  "cap_provider_evidence_read env prov =
     \<lparr>capability_id = ''cap.provider_evidence.read'', version = ''1.0'',
      impact_level = Read, policy_decision = AllowInline,
      contract_metadata =
        [(''input_schema'', JStr ''provider_evidence_read_v1''),
          (''output_schema'', JStr ''provider_evidence_blocks_v1''),
          (''idempotency'', JStr ''deterministic_read'')],
      allowed_egress_destinations = [],
      validate_input = validate_provider_evidence_read_input, execute = None,
      declare_egress_intent = None\<rparr>"

definition cap_drive_search :: "environment \<Rightarrow> providers \<Rightarrow> capability" where
  "cap_drive_search env prov =
     \<lparr>capability_id = ''cap.drive.search'', version = ''1.0'',
      impact_level = Read, policy_decision = AllowInline,
      contract_metadata =
        [(''input_schema'', JStr ''drive_search_query_v1''),
          (''output_schema'', JStr ''google_drive_search_results_v1''),
          (''idempotency'', JStr ''deterministic_read''),
          (''required_scopes'', JArr [JStr GOOGLE_DRIVE_METADATA_READ_SCOPE])],
      allowed_egress_destinations = GOOGLE_ALLOWED_EGRESS_DESTINATIONS,
      validate_input = validate_drive_search_input, execute = None,
      declare_egress_intent = Some declare_drive_search\<rparr>"

definition cap_drive_read :: "environment \<Rightarrow> providers \<Rightarrow> capability" where
  "cap_drive_read env prov =
     \<lparr>capability_id = ''cap.drive.read'', version = ''1.0'',
      impact_level = Read, policy_decision = AllowInline,
      contract_metadata =
        [(''input_schema'', JStr ''drive_read_v1''),
          (''output_schema'', JStr ''google_drive_read_result_v1''),
          (''idempotency'', JStr ''deterministic_read''),
          (''required_scopes'', JArr [JStr GOOGLE_DRIVE_READ_SCOPE]),
          (''bounded_output'', JStr ''excerpt_and_typed_outcome'')],
      allowed_egress_destinations = GOOGLE_ALLOWED_EGRESS_DESTINATIONS,
      validate_input = validate_drive_read_input, execute = None,
      declare_egress_intent = Some (declare_drive_read env)\<rparr>"

definition cap_maps_directions :: "environment \<Rightarrow> providers \<Rightarrow> capability" where
  "cap_maps_directions env prov =
     \<lparr>capability_id = ''cap.maps.directions'', version = ''2.0'',
      impact_level = Read, policy_decision = AllowInline,
      contract_metadata =
        [(''input_schema'', JStr ''maps_directions_query_v2''),
          (''output_schema'', JStr ''maps_directions_result_v2''),
          (''idempotency'', JStr ''deterministic_read'')],
      allowed_egress_destinations = [''routes.googleapis.com''],
      validate_input = validate_maps_directions_input, execute = Some (execute_maps_directions prov),
      declare_egress_intent = Some declare_maps_directions\<rparr>"

definition cap_maps_search_places :: "environment \<Rightarrow> providers \<Rightarrow> capability" where
  "cap_maps_search_places env prov =
     \<lparr>capability_id = ''cap.maps.search_places'', version = ''1.0'',
      impact_level = Read, policy_decision = AllowInline,
      contract_metadata =
        [(''input_schema'', JStr ''maps_search_places_query_v1''),
          (''output_schema'', JStr ''maps_search_places_result_v2''),
          (''idempotency'', JStr ''deterministic_read'')],
      allowed_egress_destinations = [''maps.googleapis.com'', ''places.googleapis.com''],
      validate_input = validate_maps_search_places_input, execute = Some (execute_maps_search_places prov),
      declare_egress_intent = Some declare_maps_search_places\<rparr>"

definition cap_calendar_create_event :: "environment \<Rightarrow> providers \<Rightarrow> capability" where
  "cap_calendar_create_event env prov =
     \<lparr>capability_id = ''cap.calendar.create_event'', version = ''1.0'',
      impact_level = WriteReversible, policy_decision = RequiresApproval,
      contract_metadata =
        [(''input_schema'', JStr ''calendar_create_event_v1''),
          (''output_schema'', JStr ''calendar_create_result_v1''),
          (''idempotency'', JStr ''client_idempotency_key''),
          (''required_scopes'', JArr [JStr GOOGLE_CALENDAR_WRITE_SCOPE])],
      allowed_egress_destinations = GOOGLE_ALLOWED_EGRESS_DESTINATIONS,
      validate_input = validate_calendar_create_event_input, execute = None,
      declare_egress_intent = Some (declare_calendar_create_event env)\<rparr>"

definition cap_calendar_update_event :: "environment \<Rightarrow> providers \<Rightarrow> capability" where
  "cap_calendar_update_event env prov =
     \<lparr>capability_id = ''cap.calendar.update_event'', version = ''1.0'',
      impact_level = WriteReversible, policy_decision = RequiresApproval,
      contract_metadata =
        [(''input_schema'', JStr ''calendar_update_event_v1''),
          (''output_schema'', JStr ''calendar_update_result_v1''),
          (''idempotency'', JStr ''client_idempotency_key''),
          (''required_scopes'', JArr [JStr GOOGLE_CALENDAR_WRITE_SCOPE])],
      allowed_egress_destinations = GOOGLE_ALLOWED_EGRESS_DESTINATIONS,
      validate_input = validate_calendar_update_event_input, execute = None,
      declare_egress_intent = Some (declare_calendar_update_event env)\<rparr>"

definition cap_calendar_respond_to_event :: "environment \<Rightarrow> providers \<Rightarrow> capability" where
  "cap_calendar_respond_to_event env prov =
     \<lparr>capability_id = ''cap.calendar.respond_to_event'', version = ''1.0'',
      impact_level = ExternalSend, policy_decision = RequiresApproval,
      contract_metadata =
        [(''input_schema'', JStr ''calendar_respond_to_event_v1''),
          (''output_schema'', JStr ''calendar_response_result_v1''),
          (''idempotency'', JStr ''client_idempotency_key''),
          (''required_scopes'', JArr [JStr GOOGLE_CALENDAR_WRITE_SCOPE])],
      allowed_egress_destinations = GOOGLE_ALLOWED_EGRESS_DESTINATIONS,
      validate_input = validate_calendar_respond_to_event_input, execute = None,
      declare_egress_intent = Some (declare_calendar_respond_to_event env)\<rparr>"

definition cap_email_draft :: "environment \<Rightarrow> providers \<Rightarrow> capability" where
  "cap_email_draft env prov =
     \<lparr>capability_id = ''cap.email.draft'', version = ''1.0'',
      impact_level = WriteReversible, policy_decision = RequiresApproval,
      contract_metadata =
        [(''input_schema'', JStr ''email_compose_v1''),
          (''output_schema'', JStr ''email_draft_result_v1''),
          (''idempotency'', JStr ''action_attempt_id''),
          (''required_scopes'', JArr [JStr GOOGLE_GMAIL_COMPOSE_SCOPE]),
          (''delivery_state'', JStr ''draft_only'')],
      allowed_egress_destinations = GOOGLE_GMAIL_ALLOWED_EGRESS_DESTINATIONS,
      validate_input = validate_email_draft_input, execute = None,
      declare_egress_intent = Some declare_email_draft\<rparr>"

definition cap_email_send :: "environment \<Rightarrow> providers \<Rightarrow> capability" where
  "cap_email_send env prov =
     \<lparr>capability_id = ''cap.email.send'', version = ''1.0'',
      impact_level = ExternalSend, policy_decision = RequiresApproval,
      contract_metadata =
        [(''input_schema'', JStr ''email_compose_v1''),
          (''output_schema'', JStr ''email_send_result_v1''),
          (''idempotency'', JStr ''action_attempt_id''),
          (''required_scopes'', JArr [JStr GOOGLE_GMAIL_SEND_SCOPE])],
      allowed_egress_destinations = GOOGLE_GMAIL_ALLOWED_EGRESS_DESTINATIONS,
      validate_input = validate_email_send_input, execute = None,
      declare_egress_intent = Some declare_email_send\<rparr>"

definition cap_email_archive :: "environment \<Rightarrow> providers \<Rightarrow> capability" where
  "cap_email_archive env prov =
     \<lparr>capability_id = ''cap.email.archive'', version = ''1.0'',
      impact_level = WriteReversible, policy_decision = RequiresApproval,
      contract_metadata =
        [(''input_schema'', JStr ''email_message_batch_mutation_v1''),
          (''output_schema'', JStr ''email_mailbox_mutation_result_v1''),
          (''idempotency'', JStr ''client_key''),
          (''required_scopes'', JArr [JStr GOOGLE_GMAIL_MODIFY_SCOPE]),
          (''mutation'', JStr ''remove_inbox_label''), (''undo'', JStr ''required'')],
      allowed_egress_destinations = GOOGLE_GMAIL_ALLOWED_EGRESS_DESTINATIONS,
      validate_input = validate_email_message_batch_mutation_input, execute = None,
      declare_egress_intent = Some declare_email_archive\<rparr>"

definition cap_email_trash :: "environment \<Rightarrow> providers \<Rightarrow> capability" where
  "cap_email_trash env prov =
     \<lparr>capability_id = ''cap.email.trash'', version = ''1.0'',
      impact_level = WriteReversible, policy_decision = RequiresApproval,
      contract_metadata =
        [(''input_schema'', JStr ''email_message_batch_mutation_v1''),
          (''output_schema'', JStr ''email_mailbox_mutation_result_v1''),
          (''idempotency'', JStr ''client_key''),
          (''required_scopes'', JArr [JStr GOOGLE_GMAIL_MODIFY_SCOPE]),
          (''mutation'', JStr ''move_to_trash''), (''permanent_delete'', JBool False),
          (''undo'', JStr ''required'')],
      allowed_egress_destinations = GOOGLE_GMAIL_ALLOWED_EGRESS_DESTINATIONS,
      validate_input = validate_email_message_batch_mutation_input, execute = None,
      declare_egress_intent = Some (declare_email_trash env)\<rparr>"

definition cap_email_labels_modify :: "environment \<Rightarrow> providers \<Rightarrow> capability" where
  "cap_email_labels_modify env prov =
     \<lparr>capability_id = ''cap.email.labels.modify'', version = ''1.0'',
      impact_level = WriteReversible, policy_decision = RequiresApproval,
      contract_metadata =
        [(''input_schema'', JStr ''email_labels_modify_v1''),
          (''output_schema'', JStr ''email_label_mutation_result_v1''),
          (''idempotency'', JStr ''client_key''),
          (''required_scopes'', JArr [JStr GOOGLE_GMAIL_MODIFY_SCOPE]),
          (''label_resolution'', JStr ''execution_time_with_action_record_reuse''),
          (''undo'', JStr ''required'')],
      allowed_egress_destinations = GOOGLE_GMAIL_ALLOWED_EGRESS_DESTINATIONS,
      validate_input = validate_email_labels_modify_input, execute = None,
      declare_egress_intent = Some declare_email_labels_modify\<rparr>"

definition cap_email_undo :: "environment \<Rightarrow> providers \<Rightarrow> capability" where
  "cap_email_undo env prov =
     \<lparr>capability_id = ''cap.email.undo'', version = ''1.0'',
      impact_level = WriteReversible, policy_decision = RequiresApproval,
      contract_metadata =
        [(''input_schema'', JStr ''email_undo_v1''),
          (''output_schema'', JStr ''email_undo_result_v1''),
          (''idempotency'', JStr ''client_key''),
          (''required_scopes'', JArr [JStr GOOGLE_GMAIL_MODIFY_SCOPE]),
          (''undo_source'', JStr ''provider_write_receipt''),
          (''supported_capabilities'', JArr [JStr ''cap.email.archive'', JStr ''cap.email.trash'', JStr ''cap.email.labels.modify''])],
      allowed_egress_destinations = GOOGLE_GMAIL_ALLOWED_EGRESS_DESTINATIONS,
      validate_input = validate_email_undo_input, execute = None,
      declare_egress_intent = Some declare_email_undo\<rparr>"

definition cap_drive_share :: "environment \<Rightarrow> providers \<Rightarrow> capability" where
  "cap_drive_share env prov =
     \<lparr>capability_id = ''cap.drive.share'', version = ''1.0'',
      impact_level = ExternalSend, policy_decision = RequiresApproval,
      contract_metadata =
        [(''input_schema'', JStr ''drive_share_v1''),
          (''output_schema'', JStr ''drive_share_result_v1''),
          (''idempotency'', JStr ''client_idempotency_key''),
          (''required_scopes'', JArr [JStr GOOGLE_DRIVE_SHARE_SCOPE])],
      allowed_egress_destinations = GOOGLE_ALLOWED_EGRESS_DESTINATIONS,
      validate_input = validate_drive_share_input, execute = None,
      declare_egress_intent = Some (declare_drive_share env)\<rparr>"

definition cap_web_extract :: "environment \<Rightarrow> providers \<Rightarrow> capability" where
  "cap_web_extract env prov =
     \<lparr>capability_id = ''cap.web.extract'', version = ''1.0'',
      impact_level = Read, policy_decision = AllowInline,
      contract_metadata =
        [(''input_schema'', JStr ''url_extract_v1''),
          (''output_schema'', JStr ''url_extract_result_v1''),
          (''idempotency'', JStr ''deterministic_read''),
          (''execution_mode'', JStr ''capability_runtime_only''),
          (''bounded_output'', JStr ''structured_blocks_with_partial_disclosure''),
          (''safety_preflight'', JStr ''strict_fail_closed'')],
      allowed_egress_destinations = [''r.jina.ai''],
      validate_input = validate_web_extract_input, execute = Some (execute_web_extract prov),
      declare_egress_intent = Some (declare_web_extract env)\<rparr>"

definition cap_search_web :: "environment \<Rightarrow> providers \<Rightarrow> capability" where
  "cap_search_web env prov =
     \<lparr>capability_id = ''cap.search.web'', version = ''1.0'',
      impact_level = Read, policy_decision = AllowInline,
      contract_metadata =
        [(''input_schema'', JStr ''search_query_v1''),
          (''output_schema'', JStr ''search_results_v1''),
          (''idempotency'', JStr ''deterministic_read'')],
      allowed_egress_destinations = [''api.search.brave.com''],
      validate_input = validate_search_query_input, execute = Some (execute_search_web prov),
      declare_egress_intent = Some (declare_search_web env)\<rparr>"

definition cap_weather_forecast :: "environment \<Rightarrow> providers \<Rightarrow> capability" where
  "cap_weather_forecast env prov =
     \<lparr>capability_id = ''cap.weather.forecast'', version = ''1.0'',
      impact_level = Read, policy_decision = AllowInline,
      contract_metadata =
        [(''input_schema'', JStr ''weather_forecast_query_v1''),
          (''output_schema'', JStr ''weather_forecast_v1''),
          (''idempotency'', JStr ''deterministic_read''),
          (''provider_mode'', JObj [(''default'', JStr ''production''), (''allowed'', JArr [JStr ''production'', JStr ''dev''])])],
      allowed_egress_destinations = [''api.tomorrow.io''],
      validate_input = validate_weather_forecast_input, execute = Some (execute_weather_forecast prov),
      declare_egress_intent = Some (declare_weather_forecast env)\<rparr>"

definition cap_attachment_read :: "environment \<Rightarrow> providers \<Rightarrow> capability" where
  "cap_attachment_read env prov =
     \<lparr>capability_id = ''cap.attachment.read'', version = ''1.0'',
      impact_level = Read, policy_decision = AllowInline,
      contract_metadata =
        [(''input_schema'', JStr ''attachment_read_v1''),
          (''output_schema'', JStr ''attachment_read_result_v1''),
          (''idempotency'', JStr ''deterministic_read''),
          (''execution_mode'', JStr ''attachment_runtime_only''),
          (''bounded_output'', JStr ''structured_blocks_with_typed_outcome'')],
      allowed_egress_destinations = [],
      validate_input = validate_attachment_read_input, execute = Some execute_attachment_runtime,
      declare_egress_intent = None\<rparr>"

definition cap_agency_run :: "environment \<Rightarrow> providers \<Rightarrow> capability" where
  "cap_agency_run env prov =
     \<lparr>capability_id = ''cap.agency.run'', version = ''1.0'',
      impact_level = WriteReversible, policy_decision = RequiresApproval,
      contract_metadata =
        [(''input_schema'', JStr ''agency_run_v1''),
          (''output_schema'', JStr ''agency_task_start_v1''),
          (''idempotency'', JStr ''action_attempt_id''),
          (''execution_mode'', JStr ''agency_daemon_unix_socket'')],
      allowed_egress_destinations = [''agency.daemon.local''],
      validate_input = validate_agency_run_input, execute = Some execute_agency_runtime,
      declare_egress_intent = Some declare_agency_run\<rparr>"

definition cap_agency_status :: "environment \<Rightarrow> providers \<Rightarrow> capability" where
  "cap_agency_status env prov =
     \<lparr>capability_id = ''cap.agency.status'', version = ''1.0'',
      impact_level = Read, policy_decision = AllowInline,
      contract_metadata =
        [(''input_schema'', JStr ''agency_job_lookup_v1''),
          (''output_schema'', JStr ''agency_status_v1''),
          (''idempotency'', JStr ''deterministic_read''),
          (''execution_mode'', JStr ''agency_daemon_unix_socket'')],
      allowed_egress_destinations = [],
      validate_input = validate_agency_job_lookup_input, execute = Some execute_agency_runtime,
      declare_egress_intent = None\<rparr>"

definition cap_agency_artifacts :: "environment \<Rightarrow> providers \<Rightarrow> capability" where
  "cap_agency_artifacts env prov =
     \<lparr>capability_id = ''cap.agency.artifacts'', version = ''1.0'',
      impact_level = Read, policy_decision = AllowInline,
      contract_metadata =
        [(''input_schema'', JStr ''agency_job_lookup_v1''),
          (''output_schema'', JStr ''agency_artifacts_v1''),
          (''idempotency'', JStr ''deterministic_read''),
          (''execution_mode'', JStr ''agency_daemon_unix_socket'')],
      allowed_egress_destinations = [],
      validate_input = validate_agency_job_lookup_input, execute = Some execute_agency_runtime,
      declare_egress_intent = None\<rparr>"

definition cap_agency_request_pr :: "environment \<Rightarrow> providers \<Rightarrow> capability" where
  "cap_agency_request_pr env prov =
     \<lparr>capability_id = ''cap.agency.request_pr'', version = ''1.0'',
      impact_level = ExternalSend, policy_decision = RequiresApproval,
      contract_metadata =
        [(''input_schema'', JStr ''agency_request_pr_v1''),
          (''output_schema'', JStr ''agency_request_pr_result_v1''),
          (''idempotency'', JStr ''action_attempt_id''),
          (''execution_mode'', JStr ''agency_daemon_unix_socket'')],
      allowed_egress_destinations = [''agency.daemon.local''],
      validate_input = validate_agency_request_pr_input, execute = Some execute_agency_runtime,
      declare_egress_intent = Some declare_agency_request_pr\<rparr>"

definition cap_memory_recall :: "environment \<Rightarrow> providers \<Rightarrow> capability" where
  "cap_memory_recall env prov =
     \<lparr>capability_id = ''cap.memory.recall'', version = ''1.0'',
      impact_level = Read, policy_decision = AllowInline,
      contract_metadata =
        [(''input_schema'', JStr ''memory_recall_v1''),
          (''output_schema'', JStr ''memory_recall_result_v1''),
          (''idempotency'', JStr ''action_attempt_id''),
          (''execution_mode'', JStr ''memory_runtime_only'')],
      allowed_egress_destinations = [],
      validate_input = validate_memory_recall_input, execute = None,
      declare_egress_intent = None\<rparr>"

definition cap_memory_remember :: "environment \<Rightarrow> providers \<Rightarrow> capability" where
  "cap_memory_remember env prov =
     \<lparr>capability_id = ''cap.memory.remember'', version = ''1.0'',
      impact_level = WriteReversible, policy_decision = AllowInline,
      contract_metadata =
        [(''input_schema'', JStr ''memory_remember_v1''),
          (''output_schema'', JStr ''memory_remember_result_v1''),
          (''idempotency'', JStr ''action_attempt_id''),
          (''execution_mode'', JStr ''memory_runtime_only'')],
      allowed_egress_destinations = [],
      validate_input = validate_memory_remember_input, execute = None,
      declare_egress_intent = None\<rparr>"

definition cap_memory_search :: "environment \<Rightarrow> providers \<Rightarrow> capability" where
  "cap_memory_search env prov =
     \<lparr>capability_id = ''cap.memory.search'', version = ''1.0'',
      impact_level = Read, policy_decision = AllowInline,
      contract_metadata =
        [(''input_schema'', JStr ''memory_search_v1''),
          (''output_schema'', JStr ''memory_search_result_v1''),
          (''idempotency'', JStr ''deterministic_read''),
          (''execution_mode'', JStr ''memory_runtime_only'')],
      allowed_egress_destinations = [],
      validate_input = validate_memory_search_input, execute = None,
      declare_egress_intent = None\<rparr>"

definition cap_memory_read :: "environment \<Rightarrow> providers \<Rightarrow> capability" where
  "cap_memory_read env prov =
     \<lparr>capability_id = ''cap.memory.read'', version = ''1.0'',
      impact_level = Read, policy_decision = AllowInline,
      contract_metadata =
        [(''input_schema'', JStr ''memory_read_v1''),
          (''output_schema'', JStr ''memory_read_result_v1''),
          (''idempotency'', JStr ''deterministic_read''),
          (''execution_mode'', JStr ''memory_runtime_only'')],
      allowed_egress_destinations = [],
      validate_input = validate_memory_read_input, execute = None,
      declare_egress_intent = None\<rparr>"

definition cap_memory_note_create :: "environment \<Rightarrow> providers \<Rightarrow> capability" where
  "cap_memory_note_create env prov =
     \<lparr>capability_id = ''cap.memory.note.create'', version = ''1.0'',
      impact_level = WriteReversible, policy_decision = AllowInline,
      contract_metadata =
        [(''input_schema'', JStr ''memory_note_create_v1''),
          (''output_schema'', JStr ''memory_note_create_result_v1''),
          (''idempotency'', JStr ''action_attempt_id''),
          (''execution_mode'', JStr ''memory_runtime_only'')],
      allowed_egress_destinations = [],
      validate_input = validate_memory_note_create_input, execute = None,
      declare_egress_intent = None\<rparr>"

definition cap_memory_note_edit :: "environment \<Rightarrow> providers \<Rightarrow> capability" where
  "cap_memory_note_edit env prov =
     \<lparr>capability_id = ''cap.memory.note.edit'', version = ''1.0'',
      impact_level = WriteReversible, policy_decision = AllowInline,
      contract_metadata =
        [(''input_schema'', JStr ''memory_note_edit_v1''),
          (''output_schema'', JStr ''memory_note_edit_result_v1''),
          (''idempotency'', JStr ''action_attempt_id''),
          (''execution_mode'', JStr ''memory_runtime_only'')],
      allowed_egress_destinations = [],
      validate_input = validate_memory_note_edit_input, execute = None,
      declare_egress_intent = None\<rparr>"

definition cap_memory_note_delete :: "environment \<Rightarrow> providers \<Rightarrow> capability" where
  "cap_memory_note_delete env prov =
     \<lparr>capability_id = ''cap.memory.note.delete'', version = ''1.0'',
      impact_level = WriteReversible, policy_decision = AllowInline,
      contract_metadata =
        [(''input_schema'', JStr ''memory_note_delete_v1''),
          (''output_schema'', JStr ''memory_note_delete_result_v1''),
          (''idempotency'', JStr ''action_attempt_id''),
          (''execution_mode'', JStr ''memory_runtime_only'')],
      allowed_egress_destinations = [],
      validate_input = validate_memory_note_delete_input, execute = None,
      declare_egress_intent = None\<rparr>"

definition cap_proactive_schedule :: "environment \<Rightarrow> providers \<Rightarrow> capability" where
  "cap_proactive_schedule env prov =
     \<lparr>capability_id = ''cap.proactive.schedule'', version = ''1.0'',
      impact_level = WriteReversible, policy_decision = AllowInline,
      contract_metadata =
        [(''input_schema'', JStr ''proactive_schedule_v1''),
          (''output_schema'', JStr ''proactive_schedule_result_v1''),
          (''idempotency'', JStr ''action_attempt_id''),
          (''execution_mode'', JStr ''scheduler_runtime_only'')],
      allowed_egress_destinations = [],
      validate_input = validate_proactive_schedule_input, execute = None,
      declare_egress_intent = None\<rparr>"

definition cap_research_investigate :: "environment \<Rightarrow> providers \<Rightarrow> capability" where
  "cap_research_investigate env prov =
     \<lparr>capability_id = ''cap.research.investigate'', version = ''1.0'',
      impact_level = Read, policy_decision = AllowInline,
      contract_metadata =
        [(''input_schema'', JStr ''research_investigate_v1''),
          (''output_schema'', JStr ''research_task_start_v1''),
          (''idempotency'', JStr ''action_attempt_id''),
          (''execution_mode'', JStr ''background_task_enqueue'')],
      allowed_egress_destinations = [],
      validate_input = validate_research_investigate_input, execute = None,
      declare_egress_intent = None\<rparr>"

definition capability_registry :: "environment \<Rightarrow> providers \<Rightarrow> (string \<times> capability) list" where
  "capability_registry env prov =
     [(''cap.calendar.list'', cap_calendar_list env prov),
      (''cap.calendar.list_calendars'', cap_calendar_list_calendars env prov),
      (''cap.calendar.propose_slots'', cap_calendar_propose_slots env prov),
      (''cap.email.search'', cap_email_search env prov),
      (''cap.email.read'', cap_email_read env prov),
      (''cap.provider_evidence.read'', cap_provider_evidence_read env prov),
      (''cap.drive.search'', cap_drive_search env prov),
      (''cap.drive.read'', cap_drive_read env prov),
      (''cap.maps.directions'', cap_maps_directions env prov),
      (''cap.maps.search_places'', cap_maps_search_places env prov),
      (''cap.calendar.create_event'', cap_calendar_create_event env prov),
      (''cap.calendar.update_event'', cap_calendar_update_event env prov),
      (''cap.calendar.respond_to_event'', cap_calendar_respond_to_event env prov),
      (''cap.email.draft'', cap_email_draft env prov),
      (''cap.email.send'', cap_email_send env prov),
      (''cap.email.archive'', cap_email_archive env prov),
      (''cap.email.trash'', cap_email_trash env prov),
      (''cap.email.labels.modify'', cap_email_labels_modify env prov),
      (''cap.email.undo'', cap_email_undo env prov),
      (''cap.drive.share'', cap_drive_share env prov),
      (''cap.web.extract'', cap_web_extract env prov),
      (''cap.search.web'', cap_search_web env prov),
      (''cap.weather.forecast'', cap_weather_forecast env prov),
      (''cap.attachment.read'', cap_attachment_read env prov),
      (''cap.agency.run'', cap_agency_run env prov),
      (''cap.agency.status'', cap_agency_status env prov),
      (''cap.agency.artifacts'', cap_agency_artifacts env prov),
      (''cap.agency.request_pr'', cap_agency_request_pr env prov),
      (''cap.memory.recall'', cap_memory_recall env prov),
      (''cap.memory.remember'', cap_memory_remember env prov),
      (''cap.memory.search'', cap_memory_search env prov),
      (''cap.memory.read'', cap_memory_read env prov),
      (''cap.memory.note.create'', cap_memory_note_create env prov),
      (''cap.memory.note.edit'', cap_memory_note_edit env prov),
      (''cap.memory.note.delete'', cap_memory_note_delete env prov),
      (''cap.proactive.schedule'', cap_proactive_schedule env prov),
      (''cap.research.investigate'', cap_research_investigate env prov)]"

lemmas capability_defs =
  cap_calendar_list_def
  cap_calendar_list_calendars_def
  cap_calendar_propose_slots_def
  cap_email_search_def
  cap_email_read_def
  cap_provider_evidence_read_def
  cap_drive_search_def
  cap_drive_read_def
  cap_maps_directions_def
  cap_maps_search_places_def
  cap_calendar_create_event_def
  cap_calendar_update_event_def
  cap_calendar_respond_to_event_def
  cap_email_draft_def
  cap_email_send_def
  cap_email_archive_def
  cap_email_trash_def
  cap_email_labels_modify_def
  cap_email_undo_def
  cap_drive_share_def
  cap_web_extract_def
  cap_search_web_def
  cap_weather_forecast_def
  cap_attachment_read_def
  cap_agency_run_def
  cap_agency_status_def
  cap_agency_artifacts_def
  cap_agency_request_pr_def
  cap_memory_recall_def
  cap_memory_remember_def
  cap_memory_search_def
  cap_memory_read_def
  cap_memory_note_create_def
  cap_memory_note_edit_def
  cap_memory_note_delete_def
  cap_proactive_schedule_def
  cap_research_investigate_def

section \<open>Lookup\<close>

definition with_destinations :: "exn + string list \<Rightarrow> capability \<Rightarrow> exn + capability option" where
  "with_destinations ds c =
     (case ds of Inl e \<Rightarrow> Inl e | Inr hosts \<Rightarrow> Inr (Some (c\<lparr>allowed_egress_destinations := hosts\<rparr>)))"

definition get_capability :: "environment \<Rightarrow> providers \<Rightarrow> string \<Rightarrow> exn + capability option" where
  "get_capability env prov cid =
     (case map_of (capability_registry env prov) cid of
        None \<Rightarrow> Inr None
      | Some c \<Rightarrow>
          if cid = ''cap.search.web'' then with_destinations (search_allowed_destinations env) c
          else if cid = ''cap.weather.forecast'' then with_destinations (weather_allowed_destinations env) c
          else if cid = ''cap.web.extract'' then with_destinations (Inr [''r.jina.ai'']) c
          else Inr (Some c))"

section \<open>Hashes\<close>

fun impact_name :: "impact \<Rightarrow> string" where
  "impact_name Read = ''read''"
| "impact_name WriteReversible = ''write_reversible''"
| "impact_name WriteIrreversible = ''write_irreversible''"
| "impact_name ExternalSend = ''external_send''"

fun policy_name :: "policy \<Rightarrow> string" where
  "policy_name AllowInline = ''allow_inline''"
| "policy_name RequiresApproval = ''requires_approval''"
| "policy_name Deny = ''deny''"

text \<open>\<open>digest v\<close> stands for the SHA-256 of \<open>json.dumps(v, sort_keys=True, ...)\<close>.\<close>

definition capability_contract_hash :: "(json \<Rightarrow> string) \<Rightarrow> capability \<Rightarrow> string" where
  "capability_contract_hash digest c =
     digest (JObj [(''capability_id'', JStr (capability_id c)), (''version'', JStr (version c)),
       (''impact_level'', JStr (impact_name (impact_level c))),
       (''policy_decision'', JStr (policy_name (policy_decision c))),
       (''contract_metadata'', JObj (contract_metadata c)),
       (''allowed_egress_destinations'', JArr (map JStr (sort (allowed_egress_destinations c))))])"

definition canonical_action_payload :: "string \<Rightarrow> dict \<Rightarrow> json" where
  "canonical_action_payload cid input_payload =
     JObj [(''capability_id'', JStr cid), (''input'', JObj input_payload)]"

definition payload_hash :: "(json \<Rightarrow> string) \<Rightarrow> json \<Rightarrow> string" where
  "payload_hash digest payload = digest payload"

end
