(* ===== verification/Policy.thy ===== *)
theory Policy
  imports Registry
begin

text \<open>
  The policy engine, \<open>src/ariel/policy_engine.py\<close>: what happens to a proposed action, given the
  capability, its input, whether an approval is already pending and whether untrusted content
  influenced the proposal. The decision table is stated apart and the code is shown to follow it.
\<close>

section \<open>Evaluation\<close>

datatype provenance = Clean | Tainted | Ambiguous

record evaluation =
  ev_capability :: "capability option"
  ev_normalized_input :: "dict option"
  ev_impact_level :: impact
  ev_decision :: policy
  ev_reason :: string

definition is_side_effecting :: "capability \<Rightarrow> bool" where
  "is_side_effecting c \<longleftrightarrow> impact_level c \<noteq> Read"

definition effective_taint :: "bool \<Rightarrow> provenance option \<Rightarrow> bool" where
  "effective_taint influenced_by_untrusted_content provenance_status =
     (case provenance_status of
        None \<Rightarrow> influenced_by_untrusted_content
      | Some p \<Rightarrow> p = Tainted \<or> p = Ambiguous)"

definition evaluate_capability ::
  "capability \<Rightarrow> dict \<Rightarrow> bool \<Rightarrow> bool \<Rightarrow> provenance option \<Rightarrow> exn + evaluation" where
  "evaluate_capability c input_payload pending_approval_exists influenced provenance_status =
     (let answer = (\<lambda>i d r. Inr \<lparr>ev_capability = Some c, ev_normalized_input = i,
            ev_impact_level = impact_level c, ev_decision = d, ev_reason = r\<rparr>)
      in case validate_input c input_payload of
           Inl (Raised e) \<Rightarrow> Inl e
         | Inl (Rejected code) \<Rightarrow>
             answer None Deny (if code = [] then ''schema_invalid'' else code)
         | Inr normalized_input \<Rightarrow>
             let answer = answer (Some normalized_input)
             in if policy_decision c = Deny then answer Deny ''policy_denied''
                else if is_side_effecting c \<and> effective_taint influenced provenance_status then
                  (if impact_level c = WriteIrreversible \<or> impact_level c = ExternalSend then
                     answer Deny ''taint_denied_untrusted_side_effect''
                   else if pending_approval_exists then answer Deny ''pending_approval_limit_reached''
                   else answer RequiresApproval ''taint_escalated_requires_approval'')
                else if policy_decision c = RequiresApproval then
                  (if pending_approval_exists then answer Deny ''pending_approval_limit_reached''
                   else answer RequiresApproval ''approval_required'')
                else answer AllowInline ''allowlisted_read'')"

definition evaluate_proposal ::
  "environment \<Rightarrow> providers \<Rightarrow> string \<Rightarrow> dict \<Rightarrow> bool \<Rightarrow> bool \<Rightarrow> provenance option \<Rightarrow> exn + evaluation" where
  "evaluate_proposal env prov cid input_payload pending_approval_exists influenced provenance_status =
     (case get_capability env prov cid of
        Inl e \<Rightarrow> Inl e
      | Inr None \<Rightarrow>
          Inr \<lparr>ev_capability = None, ev_normalized_input = None, ev_impact_level = Read,
            ev_decision = Deny, ev_reason = ''unknown_capability''\<rparr>
      | Inr (Some c) \<Rightarrow>
          evaluate_capability c input_payload pending_approval_exists influenced provenance_status)"

section \<open>The registry\<close>

lemma get_capability_Some:
  assumes "get_capability env prov cid = Inr (Some c)"
  obtains c0 hosts where "(cid, c0) \<in> set (capability_registry env prov)"
    "c = c0\<lparr>allowed_egress_destinations := hosts\<rparr>"
proof -
  from assms obtain c0 where c0: "map_of (capability_registry env prov) cid = Some c0"
    by (auto simp: get_capability_def split: option.splits)
  then have "\<exists>hosts. c = c0\<lparr>allowed_egress_destinations := hosts\<rparr>"
    using assms by (auto simp: get_capability_def with_destinations_def split: if_split_asm sum.splits)
      (metis capability.surjective capability.update_convs(6))
  with that map_of_SomeD [OF c0] show thesis by blast
qed

text \<open>A fact about every capability is checked entry by entry.\<close>

lemma registry_all:
  assumes "list_all P (map snd (capability_registry env prov))"
    and "\<And>c0 hosts. P c0 \<Longrightarrow> P (c0\<lparr>allowed_egress_destinations := hosts\<rparr>)"
    and "get_capability env prov cid = Inr (Some c)"
  shows "P c"
  using assms(3)
proof (rule get_capability_Some)
  fix c0 hosts
  assume c0: "(cid, c0) \<in> set (capability_registry env prov)"
    and c: "c = c0\<lparr>allowed_egress_destinations := hosts\<rparr>"
  from c0 have "c0 \<in> set (map snd (capability_registry env prov))" by (metis image_eqI list.set_map snd_conv)
  with assms(1) have "P c0" by (simp only: list_all_iff)
  then show "P c" unfolding c by (rule assms(2))
qed

definition writes_allowed_inline :: "string list" where
  "writes_allowed_inline = [''cap.memory.remember'', ''cap.memory.note.create'', ''cap.memory.note.edit'',
     ''cap.memory.note.delete'', ''cap.proactive.schedule'']"

definition contract_ok :: "capability \<Rightarrow> bool" where
  "contract_ok c \<longleftrightarrow>
     policy_decision c \<noteq> Deny \<and> impact_level c \<noteq> WriteIrreversible
     \<and> (impact_level c = Read \<longrightarrow> policy_decision c = AllowInline)
     \<and> (policy_decision c = AllowInline \<longrightarrow>
          impact_level c = Read \<or> List.member writes_allowed_inline (capability_id c))
     \<and> (impact_level c = ExternalSend \<longrightarrow>
          policy_decision c = RequiresApproval \<and> declare_egress_intent c \<noteq> None)"

lemma registry_contracts: "list_all contract_ok (map snd (capability_registry env prov))"
  unfolding capability_registry_def
  by (simp add: contract_ok_def capability_defs writes_allowed_inline_def)

lemma contract_ok_hosts: "contract_ok c \<Longrightarrow> contract_ok (c\<lparr>allowed_egress_destinations := hosts\<rparr>)"
  by (simp add: contract_ok_def)

lemma get_capability_contract: "get_capability env prov cid = Inr (Some c) \<Longrightarrow> contract_ok c"
  by (rule registry_all [OF registry_contracts]) (rule contract_ok_hosts)

lemma registry_ids:
  "list_all (\<lambda>(cid, c). capability_id c = cid) (capability_registry env prov)"
  "distinct (map fst (capability_registry env prov))"
  unfolding capability_registry_def by (simp_all add: capability_defs)

lemma get_capability_id: "get_capability env prov cid = Inr (Some c) \<Longrightarrow> capability_id c = cid"
  using registry_ids(1) [of env prov] by (auto elim!: get_capability_Some simp: list_all_iff)

section \<open>The decision table\<close>

text \<open>
  The contract of the engine, for an input the capability accepts: reads run; a write runs only when
  its entry says so and nothing untrusted influenced it; a tainted external send or irreversible
  write is refused; everything else waits for an approval, and only one approval may be pending.
\<close>

fun decide :: "impact \<Rightarrow> policy \<Rightarrow> bool \<Rightarrow> bool \<Rightarrow> policy" where
  "decide i Deny tainted pending = Deny"
| "decide Read p tainted pending =
     (if p = RequiresApproval then if pending then Deny else RequiresApproval else AllowInline)"
| "decide i p True pending =
     (if i = WriteReversible \<and> \<not> pending then RequiresApproval else Deny)"
| "decide i AllowInline False pending = AllowInline"
| "decide i RequiresApproval False pending = (if pending then Deny else RequiresApproval)"

lemma evaluate_capability_decides:
  "validate_input c d = Inr y \<Longrightarrow>
    \<exists>r. evaluate_capability c d pending influenced prov_status =
      Inr \<lparr>ev_capability = Some c, ev_normalized_input = Some y, ev_impact_level = impact_level c,
        ev_decision = decide (impact_level c) (policy_decision c) (effective_taint influenced prov_status) pending,
        ev_reason = r\<rparr>"
  by (cases "impact_level c"; cases "policy_decision c"; cases "effective_taint influenced prov_status")
    (auto simp: evaluate_capability_def is_side_effecting_def)

text \<open>
  C33. The policy engine follows its decision table: for a registered capability and an input its
  validator accepts, the evaluation carries that capability and the normalized input, and its
  decision is the one of the table for the capability's impact and policy, the effective taint of
  the proposal, and whether an approval is pending.
\<close>

theorem evaluate_proposal_decides:
  assumes "get_capability env prov cid = Inr (Some c)" "validate_input c d = Inr y"
  shows "\<exists>r. evaluate_proposal env prov cid d pending influenced prov_status =
    Inr \<lparr>ev_capability = Some c, ev_normalized_input = Some y, ev_impact_level = impact_level c,
      ev_decision = decide (impact_level c) (policy_decision c) (effective_taint influenced prov_status) pending,
      ev_reason = r\<rparr>"
  using evaluate_capability_decides [OF assms(2)] assms(1) by (simp add: evaluate_proposal_def)

definition sample_env :: environment where
  "sample_env = \<lparr>search_brave_base_url = ''https://api.search.brave.com/res/v1'',
     weather_provider_mode = ''production'',
     weather_production_endpoint = ''https://api.tomorrow.io/v4/weather/forecast'',
     weather_dev_endpoint = ''https://wttr.in'', str_other = (\<lambda>v. [])\<rparr>"

definition sample_providers :: providers where
  "sample_providers = \<lparr>execute_maps_directions = (\<lambda>d. Inr (JObj d)),
     execute_maps_search_places = (\<lambda>d. Inr (JObj d)), execute_web_extract = (\<lambda>d. Inr (JObj d)),
     execute_search_web = (\<lambda>d. Inr (JObj d)), execute_weather_forecast = (\<lambda>d. Inr (JObj d))\<rparr>"

theorem evaluate_proposal_decides_witness:
  "\<exists>r. evaluate_proposal sample_env sample_providers ''cap.memory.note.delete'' [(''id'', JStr '' n1 '')]
      False True None =
    Inr \<lparr>ev_capability = Some (cap_memory_note_delete sample_env sample_providers),
      ev_normalized_input = Some [(''id'', JStr ''n1'')], ev_impact_level = WriteReversible,
      ev_decision = RequiresApproval, ev_reason = r\<rparr>"
proof -
  have c: "get_capability sample_env sample_providers ''cap.memory.note.delete''
      = Inr (Some (cap_memory_note_delete sample_env sample_providers))"
    by (simp add: get_capability_def capability_registry_def)
  have y: "validate_input (cap_memory_note_delete sample_env sample_providers) [(''id'', JStr '' n1 '')]
      = Inr [(''id'', JStr ''n1'')]"
    by (simp add: cap_memory_note_delete_def) code_simp
  show ?thesis
    using evaluate_proposal_decides [OF c y, of False True None]
    by (simp add: cap_memory_note_delete_def effective_taint_def)
qed

lemma evaluate_proposal_cases:
  assumes "evaluate_proposal env prov cid d pending influenced prov_status = Inr ev"
    and "ev_decision ev \<noteq> Deny"
  obtains c y where "get_capability env prov cid = Inr (Some c)" "validate_input c d = Inr y"
    "ev_capability ev = Some c" "ev_normalized_input ev = Some y"
    "ev_decision ev = decide (impact_level c) (policy_decision c)
       (effective_taint influenced prov_status) pending"
proof -
  from assms obtain c where c: "get_capability env prov cid = Inr (Some c)"
    and e: "evaluate_capability c d pending influenced prov_status = Inr ev"
    by (auto simp: evaluate_proposal_def split: sum.splits option.splits)
  from e assms(2) obtain y where y: "validate_input c d = Inr y"
    by (auto simp: evaluate_capability_def Let_def split: sum.splits verror.splits)
  from evaluate_capability_decides [OF y, of pending influenced prov_status] e c y that show thesis
    by auto
qed

text \<open>
  C32. What the engine allows inline: a capability that reads, or one of the five memory and
  scheduling writes when neither the proposal is tainted nor its provenance ambiguous. No external
  send and no provider write is ever allowed inline.
\<close>

theorem allowed_inline_reads_or_clean_writes:
  assumes "evaluate_proposal env prov cid d pending influenced prov_status = Inr ev"
    and "ev_decision ev = AllowInline"
  shows "\<exists>c. ev_capability ev = Some c \<and> capability_id c = cid
    \<and> (impact_level c = Read
       \<or> \<not> effective_taint influenced prov_status \<and> cid \<in> set writes_allowed_inline)"
proof -
  have "ev_decision ev \<noteq> Deny" using assms(2) by simp
  with assms(1) obtain c y where c: "get_capability env prov cid = Inr (Some c)"
    "ev_capability ev = Some c"
    and d: "ev_decision ev = decide (impact_level c) (policy_decision c)
      (effective_taint influenced prov_status) pending"
    by (rule evaluate_proposal_cases)
  from get_capability_contract [OF c(1)] get_capability_id [OF c(1)] c(2) d assms(2) show ?thesis
    by (cases "impact_level c"; cases "policy_decision c"; cases "effective_taint influenced prov_status")
      (auto simp: contract_ok_def split: if_split_asm)
qed

theorem allowed_inline_reads_or_clean_writes_witness:
  "\<exists>c. Some (cap_memory_read sample_env sample_providers) = Some c \<and> capability_id c = ''cap.memory.read''
    \<and> (impact_level c = Read
       \<or> \<not> effective_taint True None \<and> ''cap.memory.read'' \<in> set writes_allowed_inline)"
proof -
  let ?c = "cap_memory_read sample_env sample_providers"
  let ?ev = "\<lparr>ev_capability = Some ?c, ev_normalized_input = Some [(''id'', JStr ''n1'')],
    ev_impact_level = Read, ev_decision = AllowInline, ev_reason = ''allowlisted_read''\<rparr>"
  have v: "validate_memory_read_input [(''id'', JStr '' n1 '')] = Inr [(''id'', JStr ''n1'')]"
    by code_simp
  have "evaluate_proposal sample_env sample_providers ''cap.memory.read'' [(''id'', JStr '' n1 '')]
      False True None = Inr ?ev"
    by (simp add: evaluate_proposal_def get_capability_def capability_registry_def evaluate_capability_def
        is_side_effecting_def v) (simp add: cap_memory_read_def v is_side_effecting_def effective_taint_def)
  from allowed_inline_reads_or_clean_writes [OF this] show ?thesis by simp
qed

text \<open>
  What waits for an approval: the engine asks for one only when none is pending, for a capability
  with a side effect and an input its validator accepted; and when the proposal is tainted it asks
  only for a reversible write, so that a tainted external send is always refused.
\<close>

theorem approvals_are_exclusive:
  assumes "evaluate_proposal env prov cid d pending influenced prov_status = Inr ev"
    and "ev_decision ev = RequiresApproval"
  shows "\<not> pending \<and> (\<exists>c y. ev_capability ev = Some c \<and> capability_id c = cid
    \<and> validate_input c d = Inr y \<and> ev_normalized_input ev = Some y \<and> impact_level c \<noteq> Read
    \<and> (effective_taint influenced prov_status \<longrightarrow> impact_level c = WriteReversible))"
proof -
  have "ev_decision ev \<noteq> Deny" using assms(2) by simp
  with assms(1) obtain c y where c: "get_capability env prov cid = Inr (Some c)"
    "validate_input c d = Inr y" "ev_capability ev = Some c" "ev_normalized_input ev = Some y"
    and d: "ev_decision ev = decide (impact_level c) (policy_decision c)
      (effective_taint influenced prov_status) pending"
    by (rule evaluate_proposal_cases)
  from get_capability_contract [OF c(1)] get_capability_id [OF c(1)] c(2-4) d assms(2) show ?thesis
    by (cases "impact_level c"; cases "policy_decision c"; cases "effective_taint influenced prov_status")
      (auto simp: contract_ok_def split: if_split_asm)
qed

theorem approvals_are_exclusive_witness:
  "\<not> False \<and> (\<exists>c y. Some (cap_email_undo sample_env sample_providers) = Some c
    \<and> capability_id c = ''cap.email.undo''
    \<and> validate_input c [(''undo_token'', JStr ''t''), (''idempotency_key'', JStr ''k''),
        (''user_instruction_ref'', JStr ''u'')] = Inr y
    \<and> Some [(''undo_token'', JStr ''t''), (''idempotency_key'', JStr ''k''),
        (''user_instruction_ref'', JStr ''u'')] = Some y \<and> impact_level c \<noteq> Read
    \<and> (effective_taint True None \<longrightarrow> impact_level c = WriteReversible))"
proof -
  let ?c = "cap_email_undo sample_env sample_providers"
  let ?d = "[(''undo_token'', JStr ''t''), (''idempotency_key'', JStr ''k''), (''user_instruction_ref'', JStr ''u'')]"
  let ?ev = "\<lparr>ev_capability = Some ?c, ev_normalized_input = Some ?d, ev_impact_level = WriteReversible,
    ev_decision = RequiresApproval, ev_reason = ''taint_escalated_requires_approval''\<rparr>"
  have v: "validate_email_undo_input ?d = Inr ?d" by code_simp
  have "evaluate_proposal sample_env sample_providers ''cap.email.undo'' ?d False True None = Inr ?ev"
    by (simp add: evaluate_proposal_def get_capability_def capability_registry_def evaluate_capability_def
        is_side_effecting_def effective_taint_def) (simp add: cap_email_undo_def v is_side_effecting_def effective_taint_def)
  from approvals_are_exclusive [OF this] show ?thesis by simp
qed

end
