(* ===== verification/Redaction.thy ===== *)
theory Redaction
  imports Ariel_Prelude
begin

text \<open>
  \<open>src/ariel/redaction.py\<close>: the secret-like pattern and the three functions that use it.

  \<open>secret_at s\<close> is a match of the pattern at the start of \<open>s\<close>: \<open>Some rest\<close> with what follows the
  match. Its alternatives are tried in the order of the regular expression, and each is greedy
  as the expression is; the optional parts of the alternatives never need backtracking further
  than written here, because the character classes and the literals that follow them are disjoint.
  \<open>re.IGNORECASE\<close> is comparison of lowered characters.
\<close>

definition lit_ci :: "string \<Rightarrow> string \<Rightarrow> string option" where
  "lit_ci p s = (if starts_with p (lower s) then Some (drop (length p) s) else None)"

definition is_ascii_alnum :: "char \<Rightarrow> bool" where
  "is_ascii_alnum c \<longleftrightarrow>
     (CHR ''A'' \<le> c \<and> c \<le> CHR ''Z'') \<or> (CHR ''0'' \<le> c \<and> c \<le> CHR ''9'') \<or> (CHR ''a'' \<le> c \<and> c \<le> CHR ''z'')"

definition is_key_char :: "char \<Rightarrow> bool" where
  "is_key_char c \<longleftrightarrow> is_ascii_alnum c \<or> c = CHR ''_'' \<or> c = CHR ''-''"

definition is_token_char :: "char \<Rightarrow> bool" where
  "is_token_char c \<longleftrightarrow> is_ascii_alnum c \<or> c = CHR ''-'' \<or> c = CHR ''_'' \<or> c = CHR ''.''"

text \<open>\<open>[class]{n,}\<close>, greedy\<close>

definition many :: "nat \<Rightarrow> (char \<Rightarrow> bool) \<Rightarrow> string \<Rightarrow> string option" where
  "many n P s = (if n \<le> length (takeWhile P s) then Some (dropWhile P s) else None)"

text \<open>\<open>[_-]?\<close>, greedy\<close>

fun skip_sep :: "string \<Rightarrow> string" where
  "skip_sep [] = []"
| "skip_sep (c # cs) = (if c = CHR ''_'' \<or> c = CHR ''-'' then cs else c # cs)"

fun sep_char :: "string \<Rightarrow> string option" where
  "sep_char [] = None"
| "sep_char (c # cs) = (if c = CHR '':'' \<or> c = CHR ''='' then Some cs else None)"

fun or_else :: "'a option \<Rightarrow> 'a option \<Rightarrow> 'a option" where
  "or_else None b = b"
| "or_else (Some a) b = Some a"

definition secret_sk :: "string \<Rightarrow> string option" where
  "secret_sk s = Option.bind (lit_ci ''sk-'' s) (many 8 is_key_char)"

definition secret_api :: "string \<Rightarrow> string option" where
  "secret_api s = Option.bind (lit_ci ''api'' s) (\<lambda>r. lit_ci ''key'' (skip_sep r))"

definition secret_word :: "string \<Rightarrow> string option" where
  "secret_word s = Option.bind (lit_ci ''secret'' s) (\<lambda>r.
     or_else (or_else (lit_ci ''key'' (skip_sep r)) (lit_ci ''value'' (skip_sep r))) (Some r))"

definition secret_auth :: "string \<Rightarrow> string option" where
  "secret_auth s = lit_ci ''authorization'' s"

definition secret_bearer :: "string \<Rightarrow> string option" where
  "secret_bearer s = Option.bind (lit_ci ''bearer'' s) (\<lambda>r.
     Option.bind (many 1 is_space r) (many 1 is_token_char))"

definition secret_token :: "string \<Rightarrow> string option" where
  "secret_token s = Option.bind (lit_ci ''token'' s) (\<lambda>r.
     Option.bind (sep_char (dropWhile is_space r)) (\<lambda>r'. many 1 is_token_char (dropWhile is_space r')))"

definition secret_at :: "string \<Rightarrow> string option" where
  "secret_at s =
     or_else (secret_sk s) (or_else (secret_api s) (or_else (secret_word s)
       (or_else (secret_auth s) (or_else (secret_bearer s) (secret_token s)))))"

text \<open>\<open>_SECRET_LIKE_PATTERN.search\<close>\<close>

fun has_secret :: "string \<Rightarrow> bool" where
  "has_secret [] = False"
| "has_secret (c # cs) = (secret_at (c # cs) \<noteq> None \<or> has_secret cs)"

definition safe_failure_reason :: "string \<Rightarrow> string \<Rightarrow> string" where
  "safe_failure_reason raw_message safe_reason =
     (let candidate = strip raw_message
      in if candidate = [] then safe_reason
         else if has_secret candidate then safe_reason
         else take 500 candidate)"

section \<open>Matches are local\<close>

lemma lit_ci_Some: "lit_ci p s = Some r \<Longrightarrow> \<exists>m. s = m @ r \<and> length m = length p \<and> lower m = p"
proof -
  assume "lit_ci p s = Some r"
  then have "starts_with p (lower s)" and r: "r = drop (length p) s"
    by (auto simp: lit_ci_def split: if_splits)
  then obtain t where t: "lower s = p @ t" by (auto simp: starts_with_iff)
  have "lower (take (length p) s) = p" using t by (metis append_eq_conv_conj lower_def take_map)
  moreover have "length p \<le> length s" using t by (metis length_append length_lower le_add1)
  ultimately show ?thesis using r
    by (intro exI [of _ "take (length p) s"]) (simp add: min_absorb2)
qed

lemma lit_ci_intro: "lower m = p \<Longrightarrow> lit_ci p (m @ r) = Some r"
  by (auto simp: lit_ci_def starts_with_iff lower_def)

lemma many_length: "many n P s = Some r \<Longrightarrow> length r \<le> length s"
  by (auto simp: many_def length_dropWhile_le split: if_splits)

lemma skip_sep_length: "length (skip_sep s) \<le> length s"
  by (cases s) auto

lemma sep_char_length: "sep_char s = Some r \<Longrightarrow> length r < length s"
  by (cases s) (auto split: if_splits)

lemma lit_ci_length: "lit_ci p s = Some r \<Longrightarrow> length s = length p + length r"
  by (auto dest: lit_ci_Some)

lemma or_else_Some: "or_else a b = Some r \<longleftrightarrow> a = Some r \<or> a = None \<and> b = Some r"
  by (cases a) auto

lemma or_else_None: "or_else a b = None \<longleftrightarrow> a = None \<and> b = None"
  by (cases a) auto

lemma secret_at_shorter: "secret_at s = Some r \<Longrightarrow> length r < length s"
proof -
  assume "secret_at s = Some r"
  then consider "secret_sk s = Some r" | "secret_api s = Some r" | "secret_word s = Some r"
    | "secret_auth s = Some r" | "secret_bearer s = Some r" | "secret_token s = Some r"
    by (auto simp: secret_at_def or_else_Some)
  then show ?thesis
  proof cases
    case 1
    then show ?thesis by (auto simp: secret_sk_def bind_eq_Some_conv dest!: lit_ci_length many_length)
  next
    case 2
    then obtain u where u: "lit_ci ''api'' s = Some u" and r: "lit_ci ''key'' (skip_sep u) = Some r"
      by (auto simp: secret_api_def bind_eq_Some_conv)
    from lit_ci_length [OF u] lit_ci_length [OF r] skip_sep_length [of u] show ?thesis by simp
  next
    case 3
    then obtain u where u: "lit_ci ''secret'' s = Some u"
      and r: "lit_ci ''key'' (skip_sep u) = Some r \<or> lit_ci ''value'' (skip_sep u) = Some r \<or> r = u"
      by (auto simp: secret_word_def bind_eq_Some_conv or_else_Some)
    from r have "length r \<le> length u"
      using skip_sep_length [of u] by (auto dest: lit_ci_length)
    with lit_ci_length [OF u] show ?thesis by simp
  next
    case 4
    then show ?thesis by (auto simp: secret_auth_def dest: lit_ci_length)
  next
    case 5
    then show ?thesis
      by (fastforce simp: secret_bearer_def bind_eq_Some_conv dest!: lit_ci_length many_length)
  next
    case 6
    then obtain u v where u: "lit_ci ''token'' s = Some u" and v: "sep_char (dropWhile is_space u) = Some v"
      and r: "many 1 is_token_char (dropWhile is_space v) = Some r"
      by (auto simp: secret_token_def bind_eq_Some_conv)
    have "length r \<le> length v" using many_length [OF r] length_dropWhile_le le_trans by blast
    moreover have "length v < length u"
      using sep_char_length [OF v] length_dropWhile_le less_le_trans by blast
    ultimately show ?thesis using lit_ci_length [OF u] by simp
  qed
qed

text \<open>\<open>_SECRET_LIKE_PATTERN.sub("[REDACTED]", value)\<close>\<close>

function redact_text :: "string \<Rightarrow> string" where
  "redact_text [] = []"
| "redact_text (c # cs) =
     (case secret_at (c # cs) of
        Some rest \<Rightarrow> ''[REDACTED]'' @ redact_text rest
      | None \<Rightarrow> c # redact_text cs)"
  by pat_completeness auto
termination
  by (relation "measure length") (auto dest: secret_at_shorter)

fun redact_json_value :: "json \<Rightarrow> json" where
  "redact_json_value (JStr s) = JStr (redact_text s)"
| "redact_json_value (JObj d) = JObj (map (\<lambda>(k, v). (k, redact_json_value v)) d)"
| "redact_json_value (JArr xs) = JArr (map redact_json_value xs)"
| "redact_json_value v = v"

text \<open>
  Each piece of the pattern is a function from a text to what follows its match. \<open>exact\<close>: when the
  match does not reach the end, text appended behind it changes nothing. \<open>mono\<close>: text appended
  never undoes a match. \<open>cut\<close>: a match never needs the opening bracket of a redaction mark.
\<close>

definition exact :: "(string \<Rightarrow> string option) \<Rightarrow> bool" where
  "exact f \<longleftrightarrow> (\<forall>s w r. f s = Some r \<longrightarrow> r \<noteq> [] \<longrightarrow> f (s @ w) = Some (r @ w))"

definition mono :: "(string \<Rightarrow> string option) \<Rightarrow> bool" where
  "mono f \<longleftrightarrow> (\<forall>s w. f s \<noteq> None \<longrightarrow> f (s @ w) \<noteq> None)"

definition cut :: "(string \<Rightarrow> string option) \<Rightarrow> bool" where
  "cut f \<longleftrightarrow> (\<forall>p z r. f (p @ CHR ''['' # z) = Some r \<longrightarrow> (\<exists>q. r = q @ CHR ''['' # z \<and> f p = Some q))"

lemma exact_bind:
  assumes "exact f" "exact g" "g [] = None"
  shows "exact (\<lambda>s. Option.bind (f s) g)"
  unfolding exact_def
proof (intro allI impI)
  fix s w r
  assume "Option.bind (f s) g = Some r" and r: "r \<noteq> []"
  then obtain u where u: "f s = Some u" "g u = Some r" by (auto simp: bind_eq_Some_conv)
  then have "u \<noteq> []" using assms(3) by auto
  then have "f (s @ w) = Some (u @ w)" using assms(1) u(1) unfolding exact_def by blast
  moreover have "g (u @ w) = Some (r @ w)" using assms(2) u(2) r unfolding exact_def by blast
  ultimately show "Option.bind (f (s @ w)) g = Some (r @ w)" by simp
qed

lemma mono_bind:
  assumes "exact f" "mono g" "g [] = None"
  shows "mono (\<lambda>s. Option.bind (f s) g)"
  unfolding mono_def
proof (intro allI impI)
  fix s w
  assume "Option.bind (f s) g \<noteq> None"
  then obtain u where u: "f s = Some u" "g u \<noteq> None" by (cases "f s") auto
  then have "u \<noteq> []" using assms(3) by auto
  then have "f (s @ w) = Some (u @ w)" using assms(1) u(1) unfolding exact_def by blast
  moreover have "g (u @ w) \<noteq> None" using assms(2) u(2) unfolding mono_def by blast
  ultimately show "Option.bind (f (s @ w)) g \<noteq> None" by simp
qed

lemma cut_bind:
  assumes "cut f" "cut g"
  shows "cut (\<lambda>s. Option.bind (f s) g)"
  unfolding cut_def
proof (intro allI impI)
  fix p z r
  assume "Option.bind (f (p @ CHR ''['' # z)) g = Some r"
  then obtain u where u: "f (p @ CHR ''['' # z) = Some u" "g u = Some r" by (auto simp: bind_eq_Some_conv)
  then obtain q where q: "u = q @ CHR ''['' # z" "f p = Some q" using assms(1) unfolding cut_def by blast
  then obtain q' where "r = q' @ CHR ''['' # z" "g q = Some q'"
    using u assms(2) unfolding cut_def by blast
  then show "\<exists>q. r = q @ CHR ''['' # z \<and> Option.bind (f p) g = Some q" using q by auto
qed

lemma lit_ci_app: "lit_ci p s = Some r \<Longrightarrow> lit_ci p (s @ w) = Some (r @ w)"
  by (auto dest!: lit_ci_Some intro: lit_ci_intro)

lemma lit_exact: "exact (lit_ci l)" and lit_mono: "mono (lit_ci l)"
  unfolding exact_def mono_def by (auto dest: lit_ci_app)

lemma lower_bracket: "lower_char CHR ''['' = CHR ''[''"
  by (simp add: lower_char_def Let_def of_char_def)

lemma lit_cut:
  assumes "CHR ''['' \<notin> set l"
  shows "cut (lit_ci l)"
  unfolding cut_def
proof (intro allI impI)
  fix p z r
  assume "lit_ci l (p @ CHR ''['' # z) = Some r"
  from lit_ci_Some [OF this] obtain m where m: "p @ CHR ''['' # z = m @ r" "lower m = l" by blast
  have nm: "CHR ''['' \<notin> set m"
  proof
    assume "CHR ''['' \<in> set m"
    then have "lower_char CHR ''['' \<in> set (lower m)" unfolding lower_def set_map by (rule imageI)
    then show False using assms m(2) lower_bracket by metis
  qed
  from m(1) obtain q where
    q: "p = m @ q \<and> q @ CHR ''['' # z = r \<or> p @ q = m \<and> CHR ''['' # z = q @ r"
    unfolding append_eq_append_conv2 by blast
  have "\<not> (p @ q = m \<and> q \<noteq> [] \<and> CHR ''['' # z = q @ r)"
    using nm by (cases q) auto
  with q have "p = m @ q \<and> q @ CHR ''['' # z = r" by (cases "q = []") auto
  then show "\<exists>q. r = q @ CHR ''['' # z \<and> lit_ci l p = Some q"
    using m by (auto intro: lit_ci_intro)
qed

lemma many_exact: "exact (many n P)"
  unfolding exact_def many_def
  by (auto simp: takeWhile_append dropWhile_append split: if_splits)

lemma many_mono: "mono (many n P)"
  unfolding mono_def many_def
proof (intro allI impI)
  fix s w
  assume "(if n \<le> length (takeWhile P s) then Some (dropWhile P s) else None) \<noteq> None"
  moreover have "length (takeWhile P s) \<le> length (takeWhile P (s @ w))"
    using length_takeWhile_le [of P s] by (simp add: takeWhile_append takeWhile_eq_all_conv [THEN iffD2])
  ultimately show "(if n \<le> length (takeWhile P (s @ w)) then Some (dropWhile P (s @ w)) else None) \<noteq> None"
    by (auto split: if_splits)
qed

lemma takeWhile_cut: "\<not> P y \<Longrightarrow> takeWhile P (p @ y # z) = takeWhile P p"
  by (induction p) auto

lemma dropWhile_cut: "\<not> P y \<Longrightarrow> dropWhile P (p @ y # z) = dropWhile P p @ y # z"
  by (induction p) auto

lemma many_cut: "\<not> P CHR ''['' \<Longrightarrow> cut (many n P)"
  unfolding cut_def many_def by (simp add: takeWhile_cut dropWhile_cut split: if_split)

lemma class_not_bracket [simp]: "\<not> is_key_char CHR ''[''" "\<not> is_token_char CHR ''[''" "\<not> is_space CHR ''[''"
  by (simp_all add: is_key_char_def is_token_char_def is_ascii_alnum_def is_space_def py_space_def
      less_eq_char_def of_char_def)

lemma many_Nil: "many (Suc n) P [] = None"
  by (simp add: many_def)

lemma lit_Nil: "l \<noteq> [] \<Longrightarrow> lit_ci l [] = None"
  by (cases l) (auto simp: lit_ci_def lower_def)

lemma skip_exact: "exact (\<lambda>s. Some (skip_sep s))" and skip_cut: "cut (\<lambda>s. Some (skip_sep s))"
  unfolding exact_def cut_def by (auto simp: neq_Nil_conv elim!: skip_sep.elims) (case_tac p; simp)+

lemma spaces_exact: "exact (\<lambda>s. Some (dropWhile is_space s))"
  and spaces_cut: "cut (\<lambda>s. Some (dropWhile is_space s))"
  unfolding exact_def cut_def by (auto simp: dropWhile_append dropWhile_cut)

lemma sep_exact: "exact sep_char" and sep_cut: "cut sep_char"
  unfolding exact_def cut_def
  by (auto elim!: sep_char.elims split: if_splits) (case_tac p; auto split: if_splits)+

lemma secret_sk_laws: "mono secret_sk" "cut secret_sk"
  unfolding secret_sk_def
  by (rule mono_bind; simp add: lit_exact many_mono many_def)
    (rule cut_bind; simp add: lit_cut many_cut)

lemma secret_api_eq:
  "secret_api = (\<lambda>s. Option.bind (lit_ci ''api'' s) (\<lambda>r. Option.bind (Some (skip_sep r)) (lit_ci ''key'')))"
  by (simp add: secret_api_def fun_eq_iff)

lemma secret_api_laws: "mono secret_api" "cut secret_api"
  unfolding secret_api_eq
   apply (rule mono_bind [OF lit_exact mono_bind [OF skip_exact lit_mono]]; simp add: lit_Nil)
  apply (rule cut_bind [OF lit_cut cut_bind [OF skip_cut lit_cut]]; simp)
  done

lemma secret_word_iff: "secret_word s \<noteq> None \<longleftrightarrow> lit_ci ''secret'' s \<noteq> None"
  by (cases "lit_ci ''secret'' s") (auto simp: secret_word_def or_else_None)

lemma secret_bearer_laws: "mono secret_bearer" "cut secret_bearer"
  unfolding secret_bearer_def
   apply (rule mono_bind [OF lit_exact mono_bind [OF many_exact many_mono]]; simp add: many_def)
  apply (rule cut_bind [OF lit_cut cut_bind [OF many_cut many_cut]]; simp)
  done

lemma secret_token_eq:
  "secret_token = (\<lambda>s. Option.bind (lit_ci ''token'' s) (\<lambda>r. Option.bind (Some (dropWhile is_space r))
     (\<lambda>r. Option.bind (sep_char r) (\<lambda>r. Option.bind (Some (dropWhile is_space r)) (many 1 is_token_char)))))"
  by (simp add: secret_token_def fun_eq_iff)

lemma secret_token_laws: "mono secret_token" "cut secret_token"
  unfolding secret_token_eq
   apply (rule mono_bind [OF lit_exact mono_bind [OF spaces_exact mono_bind [OF sep_exact
      mono_bind [OF spaces_exact many_mono]]]]; simp add: many_def)
  apply (rule cut_bind [OF lit_cut cut_bind [OF spaces_cut cut_bind [OF sep_cut
      cut_bind [OF spaces_cut many_cut]]]]; simp)
  done

lemma monoD: "mono f \<Longrightarrow> f s \<noteq> None \<Longrightarrow> f (s @ w) \<noteq> None"
  unfolding mono_def by blast

lemma cutD: "cut f \<Longrightarrow> f (p @ CHR ''['' # z) \<noteq> None \<Longrightarrow> f p \<noteq> None"
  unfolding cut_def by (metis option.distinct(1) option.exhaust)

lemma secret_at_iff: "secret_at s \<noteq> None \<longleftrightarrow>
    secret_sk s \<noteq> None \<or> secret_api s \<noteq> None \<or> lit_ci ''secret'' s \<noteq> None
    \<or> secret_auth s \<noteq> None \<or> secret_bearer s \<noteq> None \<or> secret_token s \<noteq> None"
  using secret_word_iff [of s] unfolding secret_at_def or_else_None by argo

lemma secret_at_mono: "secret_at s \<noteq> None \<Longrightarrow> secret_at (s @ w) \<noteq> None"
  unfolding secret_at_iff secret_auth_def
  using monoD [OF secret_sk_laws(1)] monoD [OF secret_api_laws(1)] monoD [OF lit_mono]
    monoD [OF secret_bearer_laws(1)] monoD [OF secret_token_laws(1)] by meson

lemma secret_at_cut: "secret_at (p @ CHR ''['' # z) \<noteq> None \<Longrightarrow> secret_at p \<noteq> None"
  unfolding secret_at_iff secret_auth_def
  using cutD [OF secret_sk_laws(2), of p z] cutD [OF secret_api_laws(2), of p z]
    cutD [OF lit_cut, of "''secret''" p z] cutD [OF lit_cut, of "''authorization''" p z]
    cutD [OF secret_bearer_laws(2), of p z] cutD [OF secret_token_laws(2), of p z]
  by (elim disjE) simp_all

section \<open>What redaction guarantees\<close>

lemma has_secret_prefix: "\<not> has_secret s \<Longrightarrow> \<not> has_secret (take n s)"
proof (induction s arbitrary: n)
  case Nil
  then show ?case by simp
next
  case (Cons c cs)
  show ?case
  proof (cases n)
    case 0
    then show ?thesis by simp
  next
    case (Suc k)
    have "secret_at (take n (c # cs)) = None"
      using Cons.prems secret_at_mono [of "take n (c # cs)" "drop n (c # cs)"]
      by (metis append_take_drop_id has_secret.simps(2))
    then show ?thesis using Cons Suc by simp
  qed
qed

lemma mark_no_secret: "has_secret (''[REDACTED]'' @ z) = has_secret z"
  by (simp add: secret_at_def secret_sk_def secret_api_def secret_word_def secret_auth_def
      secret_bearer_def secret_token_def lit_ci_def lower_def lower_char_def Let_def of_char_def char_of_def)

text \<open>The result is a prefix of the input up to the first mark.\<close>

lemma redact_shape: "\<exists>p r. s = p @ r \<and> (redact_text s = p \<or> (\<exists>z. redact_text s = p @ CHR ''['' # z))"
proof (induction s rule: redact_text.induct)
  case 1
  then show ?case by simp
next
  case (2 c cs)
  show ?case
  proof (cases "secret_at (c # cs)")
    case None
    from "2.IH"(1) [OF None] obtain p r where "cs = p @ r"
      "redact_text cs = p \<or> (\<exists>z. redact_text cs = p @ CHR ''['' # z)" by blast
    then show ?thesis using None by (intro exI [of _ "c # p"] exI [of _ r]) auto
  next
    case (Some rest)
    then show ?thesis by (intro exI [of _ "[]"] exI [of _ "c # cs"]) simp
  qed
qed

lemma redact_no_secret: "\<not> has_secret (redact_text s)"
proof (induction s rule: redact_text.induct)
  case 1
  then show ?case by simp
next
  case (2 c cs)
  show ?case
  proof (cases "secret_at (c # cs)")
    case (Some rest)
    then have "redact_text (c # cs) = ''[REDACTED]'' @ redact_text rest" by simp
    then show ?thesis using "2.IH"(2) [OF Some] mark_no_secret by metis
  next
    case None
    obtain p r where cs: "cs = p @ r"
      and red: "redact_text cs = p \<or> (\<exists>z. redact_text cs = p @ CHR ''['' # z)"
      using redact_shape by blast
    have p: "secret_at (c # p) = None"
      using None cs secret_at_mono [of "c # p" r] by (metis append_Cons)
    have "secret_at (c # redact_text cs) = None"
      using red p secret_at_cut [of "c # p"] by (metis append_Cons)
    then show ?thesis using None "2.IH"(1) by simp
  qed
qed

lemma redact_fixed: "\<not> has_secret s \<Longrightarrow> redact_text s = s"
  by (induction s) auto

text \<open>The strings of a value that are redacted: all but the keys of dictionaries and tuples.\<close>

fun no_secret_in :: "json \<Rightarrow> bool" where
  "no_secret_in (JStr s) = (\<not> has_secret s)"
| "no_secret_in (JObj d) = (\<forall>kv \<in> set d. no_secret_in (snd kv))"
| "no_secret_in (JArr xs) = (\<forall>x \<in> set xs. no_secret_in x)"
| "no_secret_in v = True"

text \<open>
  \<open>redact_text\<close> leaves no secret: after the substitution the secret-like pattern matches nowhere
  in the text, not even across a replaced part and its neighbours, and so redacting again changes
  nothing.
\<close>

theorem redact_text_removes_secrets:
  "\<not> has_secret (redact_text value) \<and> redact_text (redact_text value) = redact_text value"
  by (simp add: redact_no_secret redact_fixed)

text \<open>
  A failure reason that leaves \<open>safe_failure_reason\<close> carries no secret when the fallback carries
  none: it is the fallback itself, or at most 500 characters of the stripped message. Cutting the
  message cannot create a match.
\<close>

theorem safe_failure_reason_safe:
  assumes "\<not> has_secret safe_reason"
  shows "\<not> has_secret (safe_failure_reason raw_message safe_reason)
    \<and> (safe_failure_reason raw_message safe_reason = safe_reason
       \<or> length (safe_failure_reason raw_message safe_reason) \<le> 500
         \<and> (\<exists>t. strip raw_message = safe_failure_reason raw_message safe_reason @ t))"
proof -
  have "\<exists>t. strip raw_message = take 500 (strip raw_message) @ t"
    by (metis append_take_drop_id)
  then show ?thesis
    using assms has_secret_prefix [of "strip raw_message" 500]
    by (auto simp: safe_failure_reason_def Let_def)
qed

theorem safe_failure_reason_safe_witness:
  "safe_failure_reason ''  bad api_key=1 '' ''failed'' = ''failed''
   \<and> \<not> has_secret (safe_failure_reason ''  bad api_key=1 '' ''failed'')"
proof -
  have h: "\<not> has_secret ''failed''" by code_simp
  have e: "safe_failure_reason ''  bad api_key=1 '' ''failed'' = ''failed''" by code_simp
  show ?thesis using safe_failure_reason_safe [OF h, of "''  bad api_key=1 ''"] e by simp
qed

lemma redact_json_clean: "no_secret_in (redact_json_value v)"
  by (induction v rule: redact_json_value.induct) (auto simp: redact_no_secret)

lemma redact_json_fixed: "no_secret_in v \<Longrightarrow> redact_json_value v = v"
  by (induction v rule: redact_json_value.induct) (auto simp: redact_fixed intro!: map_idI)


end
