(* ===== verification/Executor.thy ===== *)
theory Executor
  imports Policy Redaction
begin

text \<open>
  The execution of a capability, \<open>src/ariel/executor.py\<close>: the input and output guardrails, the
  egress preflight, the dispatch of external sends (which has no adapter and always fails), and the
  event log of a turn. \<open>encode\<close> is \<open>fastapi.encoders.jsonable_encoder\<close>, not part of the repository.
\<close>

section \<open>Guardrails\<close>

fun iter_nested_strings :: "json \<Rightarrow> string list" where
  "iter_nested_strings (JStr s) = [s]"
| "iter_nested_strings (JObj d) = concat (map (\<lambda>(k, v). iter_nested_strings v) d)"
| "iter_nested_strings (JArr xs) = concat (map iter_nested_strings xs)"
| "iter_nested_strings v = []"

definition UNSAFE_INPUT_PATTERNS :: "(string \<times> string) list" where
  "UNSAFE_INPUT_PATTERNS = [(''sql_dangerous'', ''drop table''), (''shell_dangerous'', ''rm -rf'')]"

definition UNSAFE_OUTPUT_PATTERNS :: "(string \<times> string) list" where
  "UNSAFE_OUTPUT_PATTERNS = [(''script_tag'', ''<script''), (''javascript_uri'', ''javascript:'')]"

fun first_label :: "(string \<times> string) list \<Rightarrow> string \<Rightarrow> string option" where
  "first_label [] s = None"
| "first_label ((label, needle) # ps) s = (if has_sub needle s then Some label else first_label ps s)"

fun first_some :: "('a \<Rightarrow> 'b option) \<Rightarrow> 'a list \<Rightarrow> 'b option" where
  "first_some f [] = None"
| "first_some f (x # xs) = (case f x of None \<Rightarrow> first_some f xs | Some y \<Rightarrow> Some y)"

definition detect_pattern :: "json \<Rightarrow> (string \<times> string) list \<Rightarrow> string option" where
  "detect_pattern v patterns = first_some (\<lambda>s. first_label patterns (lower s)) (iter_nested_strings v)"

definition pre_execution_guardrail_error :: "capability \<Rightarrow> dict \<Rightarrow> string option" where
  "pre_execution_guardrail_error c d =
     (if impact_level c = Read then None
      else map_option (\<lambda>v. ''guardrail_pre_input_blocked:'' @ v) (detect_pattern (JObj d) UNSAFE_INPUT_PATTERNS))"

definition post_execution_guardrail_error :: "json \<Rightarrow> string option" where
  "post_execution_guardrail_error output =
     map_option (\<lambda>v. ''guardrail_post_output_blocked:'' @ v) (detect_pattern output UNSAFE_OUTPUT_PATTERNS)"

section \<open>Egress preflight\<close>

definition normalize_destination :: "string \<Rightarrow> exn + string option" where
  "normalize_destination destination =
     (let candidate = lower (strip destination)
      in if candidate = [] then Inr None
         else case urlparse candidate of
           None \<Rightarrow> Inl ValueError
         | Some parsed \<Rightarrow>
             if u_scheme parsed \<noteq> [] then Inr (map_option lower (hostname parsed))
             else if has_sub ''://'' candidate then Inr None
             else
               let host = takeWhile (\<lambda>ch. ch \<noteq> CHR ''/'') candidate
               in if host = [] then Inr None
                  else let host = takeWhile (\<lambda>ch. ch \<noteq> CHR '':'') host
                  in Inr (if host = [] then None else Some host))"

type_synonym egress_request = "string \<times> dict"

definition declared_request :: "json \<Rightarrow> egress_request option" where
  "declared_request entry =
     (case as_dict entry of
        None \<Rightarrow> None
      | Some e \<Rightarrow>
         (case as_str (jget e ''destination'') of
            None \<Rightarrow> None
          | Some destination_raw \<Rightarrow>
              if strip destination_raw = [] then None
              else if \<not> has_key e ''payload'' then None
              else map_option (Pair (strip destination_raw)) (as_dict (jget e ''payload''))))"

definition normalize_declared_egress_requests :: "json \<Rightarrow> egress_request list vres" where
  "normalize_declared_egress_requests raw =
     (if raw = JNull then reject ''egress_preflight_missing_intent''
      else case as_list raw of
        None \<Rightarrow> reject ''egress_preflight_contract_invalid''
      | Some entries \<Rightarrow>
          if entries = [] then reject ''egress_preflight_undeclared_intent''
          else case map_opt declared_request entries of
            None \<Rightarrow> reject ''egress_preflight_contract_invalid''
          | Some requests \<Rightarrow> Inr requests)"

fun normalize_destinations :: "string list \<Rightarrow> exn + string list" where
  "normalize_destinations [] = Inr []"
| "normalize_destinations (d # ds) =
     (case normalize_destination d of
        Inl e \<Rightarrow> Inl e
      | Inr h \<Rightarrow>
         (case normalize_destinations ds of
            Inl e \<Rightarrow> Inl e
          | Inr hs \<Rightarrow> Inr (case h of None \<Rightarrow> hs | Some x \<Rightarrow> x # hs)))"

fun requests_allowed :: "string list \<Rightarrow> egress_request list \<Rightarrow> unit vres" where
  "requests_allowed allowed [] = Inr ()"
| "requests_allowed allowed ((destination, payload) # rs) =
     call (normalize_destination destination) (\<lambda>requested.
     case requested of
       None \<Rightarrow> reject ''egress_destination_invalid''
     | Some h \<Rightarrow>
         if List.member allowed h then requests_allowed allowed rs
         else reject (''egress_destination_denied:'' @ h))"

definition egress_policy_check :: "capability \<Rightarrow> egress_request list \<Rightarrow> unit vres" where
  "egress_policy_check c requests =
     (if requests = [] then Inr ()
      else call (normalize_destinations (allowed_egress_destinations c)) (\<lambda>allowed.
        requests_allowed allowed requests))"

definition preflight_egress_requests :: "capability \<Rightarrow> dict \<Rightarrow> egress_request list vres" where
  "preflight_egress_requests c d =
     (if \<not> (impact_level c = ExternalSend \<or> declare_egress_intent c \<noteq> None
            \<or> allowed_egress_destinations c \<noteq> [])
      then Inr []
      else case declare_egress_intent c of
        None \<Rightarrow> reject ''egress_preflight_missing_intent''
      | Some declare_intent \<Rightarrow>
          call (declare_intent d) (\<lambda>raw.
          then_do (normalize_declared_egress_requests raw) (\<lambda>requests.
          then_do (egress_policy_check c requests) (\<lambda>_.
          Inr requests))))"

definition preflight_capability_execution :: "capability \<Rightarrow> dict \<Rightarrow> unit vres" where
  "preflight_capability_execution c d =
     (case pre_execution_guardrail_error c d of
        Some e \<Rightarrow> reject e
      | None \<Rightarrow> then_do (preflight_egress_requests c d) (\<lambda>_. Inr ()))"

section \<open>Execution\<close>

definition dispatch_egress_request :: "egress_request \<Rightarrow> string option" where
  "dispatch_egress_request r = Some ''egress_adapter_not_bound''"

fun dispatch_egress_requests :: "egress_request list \<Rightarrow> string option" where
  "dispatch_egress_requests [] = None"
| "dispatch_egress_requests (r # rs) =
     (case dispatch_egress_request r of
        Some e \<Rightarrow> Some (''egress_dispatch_failed:'' @ e)
      | None \<Rightarrow> dispatch_egress_requests rs)"

datatype execution_result = Succeeded dict | Failed string

definition execute_capability :: "(json \<Rightarrow> json) \<Rightarrow> capability \<Rightarrow> dict \<Rightarrow> exn + execution_result" where
  "execute_capability encode c d =
     (case execute c of
        None \<Rightarrow> Inr (Failed ''provider_runtime_required'')
      | Some run \<Rightarrow>
         (case pre_execution_guardrail_error c d of
            Some e \<Rightarrow> Inr (Failed e)
          | None \<Rightarrow>
             (case preflight_egress_requests c d of
                Inl (Raised e) \<Rightarrow> Inl e
              | Inl (Rejected e) \<Rightarrow> Inr (Failed e)
              | Inr requests \<Rightarrow>
                 (case run d of
                    Inl (Crashed e) \<Rightarrow> Inl e
                  | Inl (CapabilityExecutionError message) \<Rightarrow>
                      Inr (Failed (safe_failure_reason message ''unexpected CapabilityExecutionError''))
                  | Inr raw_output \<Rightarrow>
                     (case post_execution_guardrail_error raw_output of
                        Some e \<Rightarrow> Inr (Failed e)
                      | None \<Rightarrow>
                         (case post_execution_guardrail_error (encode raw_output) of
                            Some e \<Rightarrow> Inr (Failed e)
                          | None \<Rightarrow>
                             (case (if impact_level c = ExternalSend
                                    then dispatch_egress_requests requests else None) of
                                Some e \<Rightarrow> Inr (Failed e)
                              | None \<Rightarrow>
                                  let redacted = redact_json_value (encode raw_output)
                                  in Inr (Succeeded (case as_dict redacted of
                                         Some o_dict \<Rightarrow> o_dict
                                       | None \<Rightarrow> [(''value'', redacted)])))))))))"

section \<open>The events of a turn\<close>

record event =
  ev_id :: string
  ev_turn_id :: string
  ev_sequence :: int
  ev_type :: string
  ev_payload :: json
  ev_created_at :: int

text \<open>The fresh id and the clock reading are the last arguments; times are microseconds.\<close>

definition append_turn_event ::
  "(json \<Rightarrow> json) \<Rightarrow> event list \<Rightarrow> string \<Rightarrow> int \<Rightarrow> string \<Rightarrow> json \<Rightarrow> string \<Rightarrow> int \<Rightarrow> event list" where
  "append_turn_event encode events turn_id sequence event_type payload_data new_id now =
     events @ [\<lparr>ev_id = new_id, ev_turn_id = turn_id, ev_sequence = sequence, ev_type = event_type,
       ev_payload = encode payload_data, ev_created_at = now\<rparr>]"

definition next_turn_event_sequence :: "event list \<Rightarrow> string \<Rightarrow> int" where
  "next_turn_event_sequence events turn_id =
     (case map ev_sequence (filter (\<lambda>e. ev_turn_id e = turn_id) events) of
        [] \<Rightarrow> 1
      | s # ss \<Rightarrow> foldl max s ss + 1)"


section \<open>What passes the preflight\<close>

lemma normalize_destinations_set:
  "normalize_destinations ds = Inr hs \<Longrightarrow> h \<in> set hs \<Longrightarrow> \<exists>a \<in> set ds. normalize_destination a = Inr (Some h)"
  by (induction ds arbitrary: hs) (auto split: sum.splits option.splits)

lemma requests_allowed_iff:
  "requests_allowed allowed rs = Inr () \<longleftrightarrow>
     (\<forall>(u, p) \<in> set rs. \<exists>h \<in> set allowed. normalize_destination u = Inr (Some h))"
  by (induction allowed rs rule: requests_allowed.induct) (auto simp: reject_def split: option.splits)

lemma map_opt_nonempty: "map_opt f xs = Some ys \<Longrightarrow> xs \<noteq> [] \<Longrightarrow> ys \<noteq> []"
  by (cases xs) (auto split: option.splits)

lemma preflight_requests:
  assumes "preflight_egress_requests c d = Inr requests"
    and "impact_level c = ExternalSend \<or> declare_egress_intent c \<noteq> None \<or> allowed_egress_destinations c \<noteq> []"
  shows "requests \<noteq> [] \<and> egress_policy_check c requests = Inr ()"
  using assms
  by (auto simp: preflight_egress_requests_def normalize_declared_egress_requests_def reject_def
      dest: map_opt_nonempty split: option.splits if_split_asm)

text \<open>
  C37. Nothing passes the egress preflight but requests to hosts of the capability's own allowlist:
  each declared destination has a host, and it is the host of one of
  \<open>allowed_egress_destinations\<close>. A capability that declares no egress and allows none sends nothing.
\<close>

theorem preflight_only_allowlisted_hosts:
  assumes "preflight_egress_requests c d = Inr requests" "(destination, payload) \<in> set requests"
  shows "\<exists>h a. normalize_destination destination = Inr (Some h)
    \<and> a \<in> set (allowed_egress_destinations c) \<and> normalize_destination a = Inr (Some h)"
proof -
  have "impact_level c = ExternalSend \<or> declare_egress_intent c \<noteq> None \<or> allowed_egress_destinations c \<noteq> []"
    using assms by (cases "declare_egress_intent c") (auto simp: preflight_egress_requests_def)
  from preflight_requests [OF assms(1) this] obtain hs where
    hs: "normalize_destinations (allowed_egress_destinations c) = Inr hs"
    and "requests_allowed hs requests = Inr ()"
    by (auto simp: egress_policy_check_def)
  then obtain h where "h \<in> set hs" "normalize_destination destination = Inr (Some h)"
    using assms(2) by (auto simp: requests_allowed_iff)
  with normalize_destinations_set [OF hs] show ?thesis by blast
qed

theorem preflight_only_allowlisted_hosts_witness:
  "\<exists>h a. normalize_destination ''https://www.googleapis.com/drive/v3/files/f1'' = Inr (Some h)
    \<and> a \<in> set (allowed_egress_destinations (cap_drive_read sample_env sample_providers))
    \<and> normalize_destination a = Inr (Some h)"
proof (rule preflight_only_allowlisted_hosts)
  have raw: "declare_drive_read sample_env [(''file_id'', JStr ''f1'')]
      = Inr (JArr [JObj [(''destination'', JStr ''https://www.googleapis.com/drive/v3/files/f1''),
          (''payload'', JObj [(''file_id'', JStr ''f1'')])]])"
    by (simp add: declare_drive_read_def item_def declare_one_def request_def py_str_def)
  have check: "call (normalize_destinations GOOGLE_ALLOWED_EGRESS_DESTINATIONS)
      (\<lambda>allowed. requests_allowed allowed
        [(''https://www.googleapis.com/drive/v3/files/f1'', [(''file_id'', JStr ''f1'')])]) = Inr ()"
    by code_simp
  have strip: "strip ''https://www.googleapis.com/drive/v3/files/f1'' = ''https://www.googleapis.com/drive/v3/files/f1''"
    by code_simp
  show "preflight_egress_requests (cap_drive_read sample_env sample_providers) [(''file_id'', JStr ''f1'')]
      = Inr [(''https://www.googleapis.com/drive/v3/files/f1'', [(''file_id'', JStr ''f1'')])]"
    using check
    by (simp add: preflight_egress_requests_def cap_drive_read_def raw normalize_declared_egress_requests_def
        declared_request_def strip egress_policy_check_def)
qed simp

section \<open>What an execution can do\<close>

lemma dispatch_fails: "rs \<noteq> [] \<Longrightarrow> dispatch_egress_requests rs \<noteq> None"
  by (cases rs) (simp_all add: dispatch_egress_request_def)

text \<open>
  C36. The generic executor never completes an external send: for a capability of that impact it
  never returns success, whatever the provider call returned, because the dispatch has no adapter.
\<close>

theorem external_send_never_succeeds:
  assumes "impact_level c = ExternalSend"
  shows "execute_capability encode c d \<noteq> Inr (Succeeded out)"
proof
  assume ok: "execute_capability encode c d = Inr (Succeeded out)"
  then obtain requests where r: "preflight_egress_requests c d = Inr requests"
    and "dispatch_egress_requests requests = None"
    using assms
    by (auto simp: execute_capability_def split: option.splits sum.splits verror.splits exec_error.splits)
  with preflight_requests [OF r] assms dispatch_fails show False by blast
qed

theorem external_send_never_succeeds_witness:
  "execute_capability (\<lambda>v. v) (cap_agency_request_pr sample_env sample_providers) []
     \<noteq> Inr (Succeeded [(''value'', JNull)])"
  by (rule external_send_never_succeeds) (simp add: cap_agency_request_pr_def)

lemma redacted_output_clean:
  "no_secret_in (JObj (case as_dict (redact_json_value v) of
     Some o_dict \<Rightarrow> o_dict | None \<Rightarrow> [(''value'', redact_json_value v)]))"
  using redact_json_clean [of v] by (cases "redact_json_value v") auto

text \<open>
  An execution that succeeds ran its provider call only after the input guardrail and the
  egress preflight passed, its output has no script tag or javascript URI, and the result it returns
  has no secret-like text in any string.
\<close>

theorem execution_success_is_guarded:
  assumes "execute_capability encode c d = Inr (Succeeded out)"
  shows "\<exists>run raw requests. execute c = Some run \<and> run d = Inr raw
    \<and> pre_execution_guardrail_error c d = None \<and> preflight_egress_requests c d = Inr requests
    \<and> detect_pattern (encode raw) UNSAFE_OUTPUT_PATTERNS = None \<and> no_secret_in (JObj out)"
proof -
  from assms obtain run raw requests where "execute c = Some run" "run d = Inr raw"
    "pre_execution_guardrail_error c d = None" "preflight_egress_requests c d = Inr requests"
    "post_execution_guardrail_error (encode raw) = None"
    and out: "out = (case as_dict (redact_json_value (encode raw)) of
       Some o_dict \<Rightarrow> o_dict | None \<Rightarrow> [(''value'', redact_json_value (encode raw))])"
    unfolding execute_capability_def Let_def
    by (cases "execute c"; cases "pre_execution_guardrail_error c d") 
      (simp_all split: option.split_asm sum.split_asm verror.split_asm exec_error.split_asm)
  with redacted_output_clean [of "encode raw"] show ?thesis
    by (auto simp: post_execution_guardrail_error_def simp del: no_secret_in.simps)
qed

theorem execution_success_is_guarded_witness:
  "\<exists>run raw requests.
     execute (cap_maps_directions sample_env sample_providers
       \<lparr>declare_egress_intent := None, allowed_egress_destinations := []\<rparr>) = Some run
     \<and> run [(''origin'', JStr ''api_key x'')] = Inr raw
     \<and> pre_execution_guardrail_error (cap_maps_directions sample_env sample_providers
         \<lparr>declare_egress_intent := None, allowed_egress_destinations := []\<rparr>)
         [(''origin'', JStr ''api_key x'')] = None
     \<and> preflight_egress_requests (cap_maps_directions sample_env sample_providers
         \<lparr>declare_egress_intent := None, allowed_egress_destinations := []\<rparr>)
         [(''origin'', JStr ''api_key x'')] = Inr requests
     \<and> detect_pattern ((\<lambda>v. v) raw) UNSAFE_OUTPUT_PATTERNS = None
     \<and> no_secret_in (JObj [(''origin'', JStr ''[REDACTED] x'')])"
proof (rule execution_success_is_guarded)
  have "secret_at ''api_key x'' = Some '' x''" "\<not> has_secret '' x''" by code_simp+
  then have r: "redact_text ''api_key x'' = ''[REDACTED] x''" by (subst redact_text.simps) (simp add: redact_fixed)
  have g: "detect_pattern (JObj [(''origin'', JStr ''api_key x'')]) UNSAFE_OUTPUT_PATTERNS = None"
    by code_simp
  show "execute_capability (\<lambda>v. v) (cap_maps_directions sample_env sample_providers
       \<lparr>declare_egress_intent := None, allowed_egress_destinations := []\<rparr>) [(''origin'', JStr ''api_key x'')]
    = Inr (Succeeded [(''origin'', JStr ''[REDACTED] x'')])"
    by (simp add: execute_capability_def cap_maps_directions_def sample_providers_def
        pre_execution_guardrail_error_def preflight_egress_requests_def
        post_execution_guardrail_error_def g r del: redact_text.simps)
qed

end
