(* ===== verification/Registry_Laws.thy ===== *)
theory Registry_Laws
  imports Executor
begin

text \<open>
  Laws of the whole registry: every validator whose action can wait for an approval accepts its own
  output unchanged, every provider write needs exactly one authority, and every egress intent of an
  accepted input passes the preflight.
\<close>

section \<open>Validation is stable where it is repeated\<close>

definition stable_validator :: "capability \<Rightarrow> bool" where
  "stable_validator c \<longleftrightarrow> (\<forall>raw y. validate_input c raw = Inr y \<longrightarrow> validate_input c y = Inr y)"

lemma stable_validatorI: "normalizing (validate_input c) \<Longrightarrow> stable_validator c"
  by (simp add: stable_validator_def normalizing_def)

lemma composed_validators_stable:
  "normalizing validate_email_draft_input" "normalizing validate_email_send_input"
  "normalizing validate_memory_recall_input" "normalizing validate_memory_remember_input"
  "normalizing validate_memory_read_input" "normalizing validate_memory_note_create_input"
  "normalizing validate_memory_note_delete_input" "normalizing validate_search_query_input"
  "normalizing validate_email_search_input" "normalizing validate_drive_search_input"
  "normalizing validate_drive_read_input"
  by (unfold_locales,
      simp only: validate_email_draft_input_def validate_email_send_input_def
        validate_memory_recall_input_def validate_memory_remember_input_def
        validate_memory_read_input_def validate_memory_note_create_input_def
        validate_memory_note_delete_input_def validate_search_query_input_def
        validate_email_search_input_def validate_drive_search_input_def validate_drive_read_input_def,
      erule email_composition_stable exact_text_stable)+

lemmas validators_stable = composed_validators_stable
  attachment_read.normalizing_axioms calendar_list.normalizing_axioms
  calendar_list_calendars.normalizing_axioms email_read.normalizing_axioms
  provider_evidence_read.normalizing_axioms maps_search_places.normalizing_axioms
  weather_forecast.normalizing_axioms memory_search.normalizing_axioms
  memory_note_edit.normalizing_axioms proactive_schedule.normalizing_axioms
  research_investigate.normalizing_axioms agency_run.normalizing_axioms
  agency_job_lookup.normalizing_axioms propose_slots.normalizing_axioms
  agency_request_pr.normalizing_axioms drive_share.normalizing_axioms
  calendar_create_event.normalizing_axioms calendar_update_event.normalizing_axioms
  calendar_respond_to_event.normalizing_axioms email_composition.normalizing_axioms
  email_message_batch_mutation.normalizing_axioms email_labels_modify.normalizing_axioms
  email_undo.normalizing_axioms

definition revalidates :: "capability \<Rightarrow> bool" where
  "revalidates c \<longleftrightarrow> capability_id c \<noteq> ''cap.maps.directions'' \<and> capability_id c \<noteq> ''cap.web.extract''"

lemma registry_stable:
  "list_all (\<lambda>c. revalidates c \<longrightarrow> stable_validator c) (map snd (capability_registry env prov))"
  unfolding capability_registry_def
  by (simp add: revalidates_def stable_validator_def capability_defs
      validators_stable [unfolded normalizing_def])

lemma get_capability_stable:
  assumes "get_capability env prov cid = Inr (Some c)" "revalidates c"
  shows "stable_validator c"
proof -
  have "revalidates c \<longrightarrow> stable_validator c"
    by (rule registry_all [OF registry_stable _ assms(1)]) (simp add: revalidates_def stable_validator_def)
  with assms(2) show ?thesis by simp
qed

text \<open>
  C35. An action that waited for an approval is validated again, on the input stored with the
  proposal, when it is decided. For every capability with a side effect, the stored input is
  accepted and unchanged: the second validation cannot turn an approved action into another one.
\<close>

theorem stored_input_revalidates:
  assumes "get_capability env prov cid = Inr (Some c)" "impact_level c \<noteq> Read"
    and "validate_input c raw = Inr y"
  shows "validate_input c y = Inr y"
proof -
  have "list_all (\<lambda>c. impact_level c \<noteq> Read \<longrightarrow> revalidates c) (map snd (capability_registry env prov))"
    unfolding capability_registry_def by (simp add: revalidates_def capability_defs)
  then have "impact_level c \<noteq> Read \<longrightarrow> revalidates c"
    by (rule registry_all [OF _ _ assms(1)]) (simp add: revalidates_def)
  with get_capability_stable [OF assms(1)] assms(2,3) show ?thesis
    by (simp add: stable_validator_def)
qed

theorem stored_input_revalidates_witness:
  "validate_input (cap_email_undo sample_env sample_providers)
     [(''undo_token'', JStr ''t''), (''idempotency_key'', JStr ''k''), (''user_instruction_ref'', JStr ''u'')]
   = Inr [(''undo_token'', JStr ''t''), (''idempotency_key'', JStr ''k''), (''user_instruction_ref'', JStr ''u'')]"
proof -
  let ?raw = "[(''idempotency_key'', JStr '' k ''), (''undo_token'', JStr ''t ''), (''user_instruction_ref'', JStr ''u'')]"
  have c: "get_capability sample_env sample_providers ''cap.email.undo''
      = Inr (Some (cap_email_undo sample_env sample_providers))"
    by (simp add: get_capability_def capability_registry_def)
  have i: "impact_level (cap_email_undo sample_env sample_providers) \<noteq> Read"
    by (simp add: cap_email_undo_def)
  have v: "validate_input (cap_email_undo sample_env sample_providers) ?raw
      = Inr [(''undo_token'', JStr ''t''), (''idempotency_key'', JStr ''k''), (''user_instruction_ref'', JStr ''u'')]"
    unfolding cap_email_undo_def capability.simps by code_simp
  show ?thesis by (rule stored_input_revalidates [OF c i v])
qed

section \<open>The authority of provider writes\<close>

definition carries_authority :: "dict \<Rightarrow> dict \<Rightarrow> bool" where
  "carries_authority raw y \<longleftrightarrow>
     (\<exists>a. normalize_provider_write_authority raw = Inr a
        \<and> (\<forall>k \<in> set (''idempotency_key'' # authority_keys). jget y k = jget a k))"

lemma write_authority:
  "validate_drive_share_input raw = Inr y \<Longrightarrow> carries_authority raw y"
  "validate_calendar_create_event_input raw = Inr y \<Longrightarrow> carries_authority raw y"
  "validate_calendar_update_event_input raw = Inr y \<Longrightarrow> carries_authority raw y"
  "validate_calendar_respond_to_event_input raw = Inr y \<Longrightarrow> carries_authority raw y"
  "validate_email_composition_input raw = Inr y \<Longrightarrow> carries_authority raw y"
  "validate_email_message_batch_mutation_input raw = Inr y \<Longrightarrow> carries_authority raw y"
  "validate_email_labels_modify_input raw = Inr y \<Longrightarrow> carries_authority raw y"
  "validate_email_undo_input raw = Inr y \<Longrightarrow> carries_authority raw y"
  unfolding validate_drive_share_input_def validate_calendar_create_event_input_def
    validate_calendar_update_event_input_def validate_calendar_respond_to_event_input_def
    validate_email_composition_input_def validate_email_message_batch_mutation_input_def
    validate_email_labels_modify_input_def validate_email_undo_input_def
    carries_authority_def authority_keys_def Let_def
  by (simp only: accept_simps, elim exE conjE, intro exI conjI, assumption,
      erule authority_cases; hypsubst_thin?; simp)+

lemmas composed_authority =
  write_authority(5) [folded validate_email_draft_input_def]
  write_authority(5) [folded validate_email_send_input_def]

definition provider_write :: "capability \<Rightarrow> bool" where
  "provider_write c \<longleftrightarrow>
     impact_level c \<noteq> Read \<and> jget (contract_metadata c) ''required_scopes'' \<noteq> JNull"

lemma registry_authority:
  "list_all (\<lambda>c. provider_write c \<longrightarrow>
     (\<forall>raw y. validate_input c raw = Inr y \<longrightarrow> carries_authority raw y))
     (map snd (capability_registry env prov))"
  unfolding capability_registry_def
  by (simp add: provider_write_def capability_defs write_authority composed_authority)

text \<open>
  Every write to a Google account names exactly one authority and an idempotency key. When the
  validator of a provider write accepts an input, exactly one of \<open>source_evidence_id\<close> and
  \<open>user_instruction_ref\<close> was given, the normalized input carries that one, and it carries a nonempty
  idempotency key of at most 128 characters.
\<close>

theorem provider_writes_name_one_authority:
  assumes "get_capability env prov cid = Inr (Some c)" "provider_write c"
    and "validate_input c raw = Inr y"
  shows "length (filter (\<lambda>k. jget raw k \<noteq> JNull) authority_keys) = 1
    \<and> filter (\<lambda>k. jget y k \<noteq> JNull) authority_keys = filter (\<lambda>k. jget raw k \<noteq> JNull) authority_keys
    \<and> (\<exists>i. jget y ''idempotency_key'' = JStr i \<and> i \<noteq> [] \<and> length i \<le> 128)"
proof -
  have "provider_write c \<longrightarrow> (\<forall>raw y. validate_input c raw = Inr y \<longrightarrow> carries_authority raw y)"
    by (rule registry_all [OF registry_authority _ assms(1)]) (simp add: provider_write_def)
  with assms(2,3) obtain a where a: "normalize_provider_write_authority raw = Inr a"
    and y: "\<And>k. k \<in> set (''idempotency_key'' # authority_keys) \<Longrightarrow> jget y k = jget a k"
    unfolding carries_authority_def by blast
  from a obtain i k s where s: "authority_shape raw a i k s" by (rule authority_form)
  have "jget raw k' \<noteq> JNull \<longleftrightarrow> jget y k' \<noteq> JNull" if "k' \<in> set authority_keys" for k'
    using that s y [of k'] by (auto simp: authority_shape_def authority_keys_def)
  then have "filter (\<lambda>k. jget y k \<noteq> JNull) authority_keys = filter (\<lambda>k. jget raw k \<noteq> JNull) authority_keys"
    by (auto intro: filter_cong)
  with authority_exactly_one [OF a] authority_idempotency_key [OF a] y show ?thesis by simp
qed

theorem provider_writes_name_one_authority_witness:
  "length (filter (\<lambda>k. jget [(''undo_token'', JStr ''t''), (''idempotency_key'', JStr ''k''),
        (''user_instruction_ref'', JStr ''u'')] k \<noteq> JNull) authority_keys) = 1
    \<and> filter (\<lambda>k. jget [(''undo_token'', JStr ''t''), (''idempotency_key'', JStr ''k''),
        (''user_instruction_ref'', JStr ''u'')] k \<noteq> JNull) authority_keys
      = filter (\<lambda>k. jget [(''undo_token'', JStr ''t''), (''idempotency_key'', JStr ''k''),
        (''user_instruction_ref'', JStr ''u'')] k \<noteq> JNull) authority_keys
    \<and> (\<exists>i. jget [(''undo_token'', JStr ''t''), (''idempotency_key'', JStr ''k''),
        (''user_instruction_ref'', JStr ''u'')] ''idempotency_key'' = JStr i \<and> i \<noteq> [] \<and> length i \<le> 128)"
proof (rule provider_writes_name_one_authority)
  show "get_capability sample_env sample_providers ''cap.email.undo''
      = Inr (Some (cap_email_undo sample_env sample_providers))"
    by (simp add: get_capability_def capability_registry_def)
  show "provider_write (cap_email_undo sample_env sample_providers)"
    by (simp add: provider_write_def cap_email_undo_def)
  show "validate_input (cap_email_undo sample_env sample_providers)
     [(''undo_token'', JStr ''t''), (''idempotency_key'', JStr ''k''), (''user_instruction_ref'', JStr ''u'')]
    = Inr [(''undo_token'', JStr ''t''), (''idempotency_key'', JStr ''k''), (''user_instruction_ref'', JStr ''u'')]"
    unfolding cap_email_undo_def capability.simps by code_simp
qed

end
