(* ===== verification/Egress_Laws.thy ===== *)
theory Egress_Laws
  imports Registry_Laws
begin

text \<open>
  Every egress intent that a capability of the registry declares for an input it accepted passes the
  preflight: its destinations are on the allowlist of the capability, whatever text the input puts
  into the paths of the URLs.
\<close>

section \<open>The host of a URL with a fixed host\<close>

definition host_char :: "char \<Rightarrow> bool" where
  "host_char c \<longleftrightarrow> List.member ''abcdefghijklmnopqrstuvwxyz0123456789.-'' c"

definition plain_host :: "string \<Rightarrow> bool" where
  "plain_host h \<longleftrightarrow> h \<noteq> [] \<and> list_all host_char h"

lemma list_all_member: "list_all P xs \<Longrightarrow> List.member xs c \<Longrightarrow> P c"
  by (simp add: list_all_iff)

definition host_char_ok :: "char \<Rightarrow> bool" where
  "host_char_ok c \<longleftrightarrow> lower_char c = c \<and> \<not> is_space c \<and> \<not> ends_netloc c \<and> 32 < code_of c
     \<and> \<not> List.member [CHR ''@'', CHR ''['', CHR '']'', CHR '':'', CHR ''%'', CHR ''/'', CHR 0x09, CHR 0x0A, CHR 0x0D] c"

lemma host_char_props: "host_char c \<Longrightarrow> host_char_ok c"
proof -
  have "list_all host_char_ok ''abcdefghijklmnopqrstuvwxyz0123456789.-''" by code_simp
  then show "host_char c \<Longrightarrow> ?thesis" unfolding host_char_def by (rule list_all_member)
qed

lemma plain_host_lower: "plain_host h \<Longrightarrow> lower h = h"
  unfolding plain_host_def lower_def list_all_iff
  using host_char_props by (auto simp: host_char_ok_def intro: map_idI)

lemma plain_host_notin:
  "plain_host h \<Longrightarrow> c \<in> {CHR ''@'', CHR ''['', CHR '']'', CHR '':'', CHR ''%'', CHR ''/'', CHR 0x09, CHR 0x0A, CHR 0x0D}
    \<Longrightarrow> c \<notin> set h"
  unfolding plain_host_def list_all_iff using host_char_props by (fastforce simp: host_char_ok_def)

lemma partition_at_notin: "c \<notin> set s \<Longrightarrow> partition_at c s = None"
  by (induction s) auto

lemma after_last_notin: "c \<notin> set s \<Longrightarrow> after_last c s = s"
  unfolding after_last_def by (subst takeWhile_eq_all_conv [THEN iffD2]) auto

lemma rstrip_append: "\<not> is_space c \<Longrightarrow> rstrip (p @ c # s) = p @ c # rstrip s"
  by (auto simp: rstrip_def dropWhile_append)

lemma strip_prefix:
  "\<not> is_space a \<Longrightarrow> \<not> is_space c \<Longrightarrow> strip (a # p @ c # s) = a # p @ c # rstrip s"
  using rstrip_append [of c "a # p" s] by (simp add: strip_def lstrip_def)

lemma hostinfo_plain:
  "plain_host h \<Longrightarrow> hostinfo h = (h, [])"
  by (simp add: hostinfo_def after_last_notin partition_at_notin plain_host_notin)

lemma takeWhile_host: "plain_host h \<Longrightarrow> takeWhile (\<lambda>c. \<not> ends_netloc c) (h @ CHR ''/'' # t) = h"
proof -
  assume h: "plain_host h"
  have "ends_netloc CHR ''/''" by code_simp
  with h host_char_props show ?thesis
    by (subst takeWhile_append2) (auto simp: plain_host_def list_all_iff host_char_ok_def)
qed

lemma urlparse_https:
  assumes h: "plain_host h"
  shows "\<exists>u. urlparse (''https://'' @ h @ ''/'' @ s) = Some u \<and> u_scheme u = ''https'' \<and> u_netloc u = h"
proof -
  define t where "t = filter (\<lambda>c. \<not> List.member [CHR 0x09, CHR 0x0A, CHR 0x0D] c) s"
  have fh: "filter (\<lambda>c. \<not> List.member [CHR 0x09, CHR 0x0A, CHR 0x0D] c) h = h"
    using plain_host_notin [OF h] by (auto simp: filter_id_conv)
  have c: "filter (\<lambda>c. \<not> List.member [CHR 0x09, CHR 0x0A, CHR 0x0D] c)
      (dropWhile (\<lambda>c. code_of c \<le> 32) (''https://'' @ h @ ''/'' @ s)) = ''https://'' @ h @ ''/'' @ t"
    using fh by (simp add: t_def code_of_def)
  have "lower ''https'' = ''https''" "is_ascii_alpha CHR ''h''" "list_all scheme_char ''https''"
    by code_simp+
  then have s: "split_scheme (''https://'' @ h @ ''/'' @ t) = (''https'', ''//'' @ h @ ''/'' @ t)"
    by (simp add: split_scheme_def)
  have n: "netloc_ok h" using plain_host_notin [OF h] by (simp add: netloc_ok_def)
  show ?thesis
    unfolding urlparse_def Let_def c s using n takeWhile_host [OF h] by simp
qed

definition https_url :: "string \<Rightarrow> string \<Rightarrow> string" where
  "https_url h s = ''https://'' @ h @ ''/'' @ s"

lemma strip_https: "strip (https_url h s) = https_url h (rstrip s)"
proof -
  have "strip (CHR ''h'' # (''ttps://'' @ h) @ CHR ''/'' # s) = CHR ''h'' # (''ttps://'' @ h) @ CHR ''/'' # rstrip s"
    by (rule strip_prefix) code_simp+
  then show ?thesis by (simp add: https_url_def)
qed

lemma normalize_https:
  assumes h: "plain_host h"
  shows "normalize_destination (https_url h s) = Inr (Some h)"
proof -
  have "lower ''https://'' = ''https://''" "lower_char CHR ''/'' = CHR ''/''" by code_simp+
  then have lo: "lower (https_url h (rstrip s)) = ''https://'' @ h @ ''/'' @ lower (rstrip s)"
    using plain_host_lower [OF h] by (simp add: https_url_def lower_def)
  from urlparse_https [OF h, of "lower (rstrip s)"] obtain u where
    u: "urlparse (''https://'' @ h @ ''/'' @ lower (rstrip s)) = Some u" "u_scheme u = ''https''" "u_netloc u = h"
    by blast
  have "hostname u = Some h"
    using h plain_host_lower [OF h] plain_host_notin [OF h]
    by (simp add: hostname_def u hostinfo_plain partition_at_notin plain_host_def)
  with u(2) plain_host_lower [OF h] show ?thesis
    unfolding normalize_destination_def Let_def strip_https lo u(1) by simp
qed

section \<open>Intents that stay within a list of hosts\<close>

definition url_within :: "string list \<Rightarrow> string \<Rightarrow> bool" where
  "url_within hosts u \<longleftrightarrow>
     (\<exists>h \<in> set hosts. \<exists>s. plain_host h \<and> u = https_url h s) \<or> u \<in> set hosts \<and> u = ''agency.daemon.local''"

definition intent_within :: "string list \<Rightarrow> intent \<Rightarrow> bool" where
  "intent_within hosts i \<longleftrightarrow>
     (\<exists>rs. i = Inr (JArr (map (\<lambda>(u, p). request u p) rs)) \<and> rs \<noteq> [] \<and> list_all (\<lambda>(u, p). url_within hosts u) rs)"

lemma normalize_agency: "normalize_destination ''agency.daemon.local'' = Inr (Some ''agency.daemon.local'')"
  and strip_agency: "strip ''agency.daemon.local'' = ''agency.daemon.local''"
  by code_simp+

lemma url_within_host:
  "url_within hosts u \<Longrightarrow> \<exists>h. normalize_destination (strip u) = Inr (Some h) \<and> h \<in> set hosts \<and> strip u \<noteq> []"
  unfolding url_within_def
  by (auto simp: strip_https normalize_https normalize_agency strip_agency)
    (auto simp: https_url_def normalize_https [unfolded https_url_def])

lemma declared_request_request:
  "strip u \<noteq> [] \<Longrightarrow> declared_request (request u p) = Some (strip u, p)"
  by (simp add: declared_request_def request_def)

lemma map_opt_declared:
  "list_all (\<lambda>(u, p). url_within hosts u) rs
    \<Longrightarrow> map_opt declared_request (map (\<lambda>(u, p). request u p) rs) = Some (map (\<lambda>(u, p). (strip u, p)) rs)"
  by (induction rs) (auto simp: declared_request_request dest!: url_within_host)

lemma normalize_destinations_hosts:
  "list_all (\<lambda>a. normalize_destination a = Inr (Some a)) hosts \<Longrightarrow> normalize_destinations hosts = Inr hosts"
  by (induction hosts) auto

text \<open>An intent within the allowlist passes, when each host of the allowlist is its own normal form.\<close>

lemma intent_within_preflight:
  assumes "declare_egress_intent c = Some f" "intent_within (allowed_egress_destinations c) (f d)"
    and hosts: "list_all (\<lambda>a. normalize_destination a = Inr (Some a)) (allowed_egress_destinations c)"
  shows "\<exists>requests. preflight_egress_requests c d = Inr requests \<and> requests \<noteq> []"
proof -
  from assms(2) obtain rs where rs: "f d = Inr (JArr (map (\<lambda>(u, p). request u p) rs))" "rs \<noteq> []"
    and w: "list_all (\<lambda>(u, p). url_within (allowed_egress_destinations c) u) rs"
    by (auto simp: intent_within_def)
  let ?requests = "map (\<lambda>(u, p). (strip u, p)) rs"
  have "requests_allowed (allowed_egress_destinations c) ?requests = Inr ()"
    using w url_within_host by (fastforce simp: requests_allowed_iff list_all_iff)
  then have "egress_policy_check c ?requests = Inr ()"
    using normalize_destinations_hosts [OF hosts] rs(2) by (simp add: egress_policy_check_def)
  moreover have "normalize_declared_egress_requests (JArr (map (\<lambda>(u, p). request u p) rs)) = Inr ?requests"
    using map_opt_declared [OF w] rs(2) by (simp add: normalize_declared_egress_requests_def)
  ultimately show ?thesis using assms(1) rs by (simp add: preflight_egress_requests_def)
qed

section \<open>The intents of accepted inputs\<close>

lemma intent_one [intro]: "url_within hosts u \<Longrightarrow> intent_within hosts (declare_one u p)"
  unfolding intent_within_def declare_one_def by (intro exI [of _ "[(u, p)]"]) simp

lemma url_within_prefix:
  assumes "starts_with (https_url h []) u" "plain_host h" "h \<in> set hosts"
  shows "url_within hosts u"
proof -
  from assms(1) obtain s where "u = https_url h [] @ s" by (auto simp: starts_with_iff)
  then have "u = https_url h s" by (simp add: https_url_def)
  with assms(2,3) show ?thesis by (auto simp: url_within_def)
qed

lemma starts_with_append: "starts_with p a \<Longrightarrow> starts_with p (a @ b)"
  by (auto simp: starts_with_iff)

lemma plain_hosts [simp]:
  "plain_host ''www.googleapis.com''" "plain_host ''gmail.googleapis.com''"
  "plain_host ''maps.googleapis.com''" "plain_host ''places.googleapis.com''"
  "plain_host ''routes.googleapis.com''" "plain_host ''r.jina.ai''"
  by code_simp+

lemma google_url: "starts_with ''https://www.googleapis.com/'' u \<Longrightarrow> url_within GOOGLE_ALLOWED_EGRESS_DESTINATIONS u"
  by (rule url_within_prefix [of "''www.googleapis.com''"])
    (simp_all add: https_url_def GOOGLE_ALLOWED_EGRESS_DESTINATIONS_def)

lemma gmail_url: "starts_with ''https://gmail.googleapis.com/'' u \<Longrightarrow> url_within GOOGLE_GMAIL_ALLOWED_EGRESS_DESTINATIONS u"
  by (rule url_within_prefix [of "''gmail.googleapis.com''"])
    (simp_all add: https_url_def GOOGLE_GMAIL_ALLOWED_EGRESS_DESTINATIONS_def)

lemma agency_url: "url_within [''agency.daemon.local''] ''agency.daemon.local''"
  by (simp add: url_within_def)

lemma calendar_url: "starts_with ''https://www.googleapis.com/'' (google_calendar_url env d @ s)"
  by (simp add: google_calendar_url_def Let_def)

lemma item_get: "jget d k \<noteq> JNull \<Longrightarrow> item d k f = f (jget d k)"
  by (auto simp: item_def jget_def split: option.splits)

definition has_all :: "string list \<Rightarrow> dict \<Rightarrow> bool" where
  "has_all ks d \<longleftrightarrow> list_all (\<lambda>k. jget d k \<noteq> JNull) ks"

lemma has_all_simps [simp]: "has_all [] d" "has_all (k # ks) d \<longleftrightarrow> jget d k \<noteq> JNull \<and> has_all ks d"
  by (simp_all add: has_all_def)

lemma accepted_keys:
  "validate_exact_text_input f n raw = Inr y \<Longrightarrow> has_all [f] y"
  "validate_calendar_list_input raw = Inr y \<Longrightarrow> has_all [''window_start'', ''window_end''] y"
  "validate_calendar_propose_slots_input raw = Inr y
    \<Longrightarrow> has_all [''window_start'', ''window_end''] y"
  "validate_calendar_create_event_input raw = Inr y
    \<Longrightarrow> has_all [''title'', ''start_time'', ''end_time'', ''idempotency_key''] y"
  "validate_calendar_update_event_input raw = Inr y \<Longrightarrow> has_all [''event_id'', ''idempotency_key''] y"
  "validate_email_composition_input raw = Inr y \<Longrightarrow> has_all [''to'', ''cc'', ''bcc'', ''subject''] y"
  "validate_email_message_batch_mutation_input raw = Inr y \<Longrightarrow> has_all [''message_ids''] y"
  "validate_email_labels_modify_input raw = Inr y
    \<Longrightarrow> has_all [''message_ids'', ''add_labels'', ''remove_labels''] y"
  "validate_drive_share_input raw = Inr y
    \<Longrightarrow> has_all [''file_id'', ''grantee_email'', ''role'', ''idempotency_key''] y"
  "validate_agency_run_input raw = Inr y \<Longrightarrow> has_all [''repo_root'', ''name''] y"
  unfolding validate_exact_text_input_def validate_calendar_list_input_def
    validate_calendar_propose_slots_input_def validate_calendar_create_event_input_def
    validate_calendar_update_event_input_def validate_email_composition_input_def
    validate_email_message_batch_mutation_input_def validate_email_labels_modify_input_def
    validate_drive_share_input_def validate_agency_run_input_def Let_def
  by (simp only: accept_simps, elim exE conjE disjE, (erule authority_cases)?; hypsubst_thin?; simp)+

lemma as_int_not_null: "as_int v = Some i \<Longrightarrow> v \<noteq> JNull"
  by (cases v) simp_all

lemma propose_slots_duration:
  "validate_calendar_propose_slots_input raw = Inr y \<Longrightarrow> jget y ''duration_minutes'' \<noteq> JNull"
  unfolding validate_calendar_propose_slots_input_def Let_def
  by (simp only: accept_simps, elim exE conjE; (drule as_int_not_null)?; hypsubst_thin?; simp)

lemma response_status_text: "response_status_ok v = Inr True \<Longrightarrow> v \<noteq> JNull"
  by (auto simp: response_status_ok_def)

lemma respond_keys:
  "validate_calendar_respond_to_event_input raw = Inr y
    \<Longrightarrow> has_all [''event_id'', ''attendee_email'', ''response_status'', ''idempotency_key''] y"
  unfolding validate_calendar_respond_to_event_input_def Let_def
  by (simp only: accept_simps, elim exE conjE, erule authority_cases; hypsubst_thin?;
      auto dest: response_status_text)

lemma email_read_target:
  "validate_email_read_input raw = Inr y \<Longrightarrow>
    jget y ''message_id'' \<noteq> JNull \<or> (\<exists>s. jget y ''thread_id'' = JStr s \<and> s \<noteq> [])"
  unfolding validate_email_read_input_def Let_def nullable_text_def
  by (simp only: accept_simps, elim exE conjE; hypsubst_thin?;
      auto split: if_split_asm dest: normalize_optional_text_Some)

lemma batch_message_ids:
  "validate_email_message_batch_mutation_input raw = Inr y
    \<Longrightarrow> \<exists>ids. jget y ''message_ids'' = JArr (map JStr ids) \<and> ids \<noteq> []"
  unfolding validate_email_message_batch_mutation_input_def normalize_email_message_ids_def
  by (simp only: accept_simps, elim exE conjE, erule authority_cases; hypsubst_thin?;
      auto split: option.split_asm if_split_asm)

lemma intents_within:
  "validate_calendar_list_input raw = Inr y
    \<Longrightarrow> intent_within GOOGLE_ALLOWED_EGRESS_DESTINATIONS (declare_calendar_list env y)"
  "intent_within GOOGLE_ALLOWED_EGRESS_DESTINATIONS (declare_calendar_list_calendars y)"
  "validate_calendar_create_event_input raw = Inr y
    \<Longrightarrow> intent_within GOOGLE_ALLOWED_EGRESS_DESTINATIONS (declare_calendar_create_event env y)"
  "validate_calendar_update_event_input raw = Inr y
    \<Longrightarrow> intent_within GOOGLE_ALLOWED_EGRESS_DESTINATIONS (declare_calendar_update_event env y)"
  "validate_calendar_respond_to_event_input raw = Inr y
    \<Longrightarrow> intent_within GOOGLE_ALLOWED_EGRESS_DESTINATIONS (declare_calendar_respond_to_event env y)"
  "validate_drive_search_input raw = Inr y
    \<Longrightarrow> intent_within GOOGLE_ALLOWED_EGRESS_DESTINATIONS (declare_drive_search y)"
  "validate_drive_read_input raw = Inr y
    \<Longrightarrow> intent_within GOOGLE_ALLOWED_EGRESS_DESTINATIONS (declare_drive_read env y)"
  "validate_drive_share_input raw = Inr y
    \<Longrightarrow> intent_within GOOGLE_ALLOWED_EGRESS_DESTINATIONS (declare_drive_share env y)"
  "validate_email_search_input raw = Inr y
    \<Longrightarrow> intent_within GOOGLE_GMAIL_ALLOWED_EGRESS_DESTINATIONS (declare_email_search y)"
  "validate_email_draft_input raw = Inr y
    \<Longrightarrow> intent_within GOOGLE_GMAIL_ALLOWED_EGRESS_DESTINATIONS (declare_email_draft y)"
  "validate_email_send_input raw = Inr y
    \<Longrightarrow> intent_within GOOGLE_GMAIL_ALLOWED_EGRESS_DESTINATIONS (declare_email_send y)"
  "validate_email_message_batch_mutation_input raw = Inr y
    \<Longrightarrow> intent_within GOOGLE_GMAIL_ALLOWED_EGRESS_DESTINATIONS (declare_email_archive y)"
  "validate_email_labels_modify_input raw = Inr y
    \<Longrightarrow> intent_within GOOGLE_GMAIL_ALLOWED_EGRESS_DESTINATIONS (declare_email_labels_modify y)"
  "intent_within GOOGLE_GMAIL_ALLOWED_EGRESS_DESTINATIONS (declare_email_undo y)"
  "validate_agency_run_input raw = Inr y \<Longrightarrow> intent_within [''agency.daemon.local''] (declare_agency_run y)"
  "intent_within [''agency.daemon.local''] (declare_agency_request_pr y)"
  "intent_within [''routes.googleapis.com''] (declare_maps_directions y)"
  unfolding validate_drive_search_input_def validate_drive_read_input_def validate_email_search_input_def
    validate_email_draft_input_def validate_email_send_input_def
    declare_calendar_list_def declare_calendar_list_calendars_def declare_calendar_create_event_def
    declare_calendar_update_event_def declare_calendar_respond_to_event_def declare_drive_search_def
    declare_drive_read_def declare_drive_share_def declare_email_search_def declare_email_draft_def
    declare_email_send_def declare_email_compose_def declare_email_archive_def
    declare_email_labels_modify_def declare_email_undo_def declare_agency_run_def
    declare_agency_request_pr_def declare_maps_directions_def Let_def
  by ((drule accepted_keys respond_keys)?; (simp add: item_get split del: if_split)?; rule intent_one;
      ((rule agency_url) | (rule google_url, simp add: google_calendar_url_def Let_def)
       | (rule gmail_url, simp)
       | (rule url_within_prefix [of "''routes.googleapis.com''"], simp_all add: https_url_def)))+

lemma intent_many:
  "i = Inr (JArr (map (\<lambda>(u, p). request u p) rs)) \<Longrightarrow> rs \<noteq> [] \<Longrightarrow> list_all (\<lambda>(u, p). url_within hosts u) rs
    \<Longrightarrow> intent_within hosts i"
  unfolding intent_within_def by blast

lemma propose_slots_within:
  assumes "validate_calendar_propose_slots_input raw = Inr y"
  shows "intent_within GOOGLE_ALLOWED_EGRESS_DESTINATIONS (declare_calendar_propose_slots y)"
proof -
  let ?events = "(''https://www.googleapis.com/calendar/v3/calendars/primary/events'',
      [(''window_start'', jget y ''window_start''), (''window_end'', jget y ''window_end''),
       (''duration_minutes'', jget y ''duration_minutes'')])"
  let ?busy = "(''https://www.googleapis.com/calendar/v3/freeBusy'', [(''attendees'', JArr (attendee_list y))])"
  let ?rs = "if attendee_list y = [] then [?events] else [?events, ?busy]"
  have u: "url_within GOOGLE_ALLOWED_EGRESS_DESTINATIONS (fst ?events)"
    "url_within GOOGLE_ALLOWED_EGRESS_DESTINATIONS (fst ?busy)"
    by (rule google_url, simp)+
  show ?thesis
  proof (rule intent_many [of _ ?rs])
    show "declare_calendar_propose_slots y = Inr (JArr (map (\<lambda>(u, p). request u p) ?rs))"
      using accepted_keys(3) [OF assms] propose_slots_duration [OF assms]
      by (simp add: declare_calendar_propose_slots_def item_get Let_def)
  qed (use u in auto)
qed

lemma email_read_within:
  assumes "validate_email_read_input raw = Inr y"
  shows "intent_within GOOGLE_GMAIL_ALLOWED_EGRESS_DESTINATIONS (declare_email_read env y)"
proof (cases "\<exists>s. jget y ''thread_id'' = JStr s \<and> s \<noteq> []")
  case True
  then obtain s where s: "jget y ''thread_id'' = JStr s" "s \<noteq> []" by blast
  show ?thesis unfolding declare_email_read_def Let_def s as_str.simps option.case if_not_P [OF s(2)]
    by (rule intent_one, rule gmail_url, simp)
next
  case False
  with email_read_target [OF assms] have m: "jget y ''message_id'' \<noteq> JNull" by blast
  from False have "declare_email_read env y = declare_one
      (''https://gmail.googleapis.com/gmail/v1/users/me/messages/'' @ py_str env (jget y ''message_id''))
      [(''message_id'', jget y ''message_id''), (''mode'', jget y ''mode'')]"
    by (auto simp: declare_email_read_def Let_def item_get m split: option.split)
  then show ?thesis by (simp only:) (rule intent_one, rule gmail_url, simp)
qed

lemma email_trash_within:
  assumes "validate_email_message_batch_mutation_input raw = Inr y"
  shows "intent_within GOOGLE_GMAIL_ALLOWED_EGRESS_DESTINATIONS (declare_email_trash env y)"
proof -
  from batch_message_ids [OF assms] obtain ids where
    ids: "jget y ''message_ids'' = JArr (map JStr ids)" "ids \<noteq> []" by blast
  let ?rs = "map (\<lambda>i. (''https://gmail.googleapis.com/gmail/v1/users/me/messages/'' @ i @ ''/trash'',
      [(''message_id'', JStr i)])) ids"
  show ?thesis
  proof (rule intent_many [of _ ?rs])
    show "declare_email_trash env y = Inr (JArr (map (\<lambda>(u, p). request u p) ?rs))"
      using ids by (simp add: declare_email_trash_def item_get py_str_def)
    have "url_within GOOGLE_GMAIL_ALLOWED_EGRESS_DESTINATIONS
        (''https://gmail.googleapis.com/gmail/v1/users/me/messages/'' @ i @ ''/trash'')" for i
      by (rule gmail_url) simp
    then show "list_all (\<lambda>(u, p). url_within GOOGLE_GMAIL_ALLOWED_EGRESS_DESTINATIONS u) ?rs"
      by (simp add: list_all_iff)
  qed (use ids in simp)
qed

lemma search_places_within:
  "intent_within [''maps.googleapis.com'', ''places.googleapis.com''] (declare_maps_search_places y)"
proof -
  have "url_within [''maps.googleapis.com'', ''places.googleapis.com''] ''https://maps.googleapis.com/maps/api/geocode/json''"
    by (rule url_within_prefix [of "''maps.googleapis.com''"]) (simp_all add: https_url_def)
  moreover have "url_within [''maps.googleapis.com'', ''places.googleapis.com''] ''https://places.googleapis.com/v1/places:searchText''"
    by (rule url_within_prefix [of "''places.googleapis.com''"]) (simp_all add: https_url_def)
  ultimately show ?thesis
    unfolding intent_within_def declare_maps_search_places_def
    by (intro exI [of _ "[(''https://maps.googleapis.com/maps/api/geocode/json'',
          [(''location_context'', jget y ''location_context'')]),
        (''https://places.googleapis.com/v1/places:searchText'',
          [(''query'', jget y ''query''), (''location_context'', jget y ''location_context''),
           (''radius_meters'', jget y ''radius_meters'')])]"]) simp
qed

section \<open>Every accepted input passes\<close>

definition configured_hosts :: "string list" where
  "configured_hosts = [''cap.search.web'', ''cap.weather.forecast'', ''cap.web.extract'']"

lemma get_capability_fixed:
  "get_capability env prov cid = Inr (Some c) \<Longrightarrow> cid \<notin> set configured_hosts
    \<Longrightarrow> (cid, c) \<in> set (capability_registry env prov)"
  by (auto simp: get_capability_def configured_hosts_def split: option.splits dest: map_of_SomeD)

definition egress_ok :: "capability \<Rightarrow> bool" where
  "egress_ok c \<longleftrightarrow>
     list_all (\<lambda>a. normalize_destination a = Inr (Some a)) (allowed_egress_destinations c)
     \<and> (declare_egress_intent c = None \<longrightarrow> allowed_egress_destinations c = [])
     \<and> (\<forall>f raw y. declare_egress_intent c = Some f \<longrightarrow> validate_input c raw = Inr y
          \<longrightarrow> intent_within (allowed_egress_destinations c) (f y))"

lemma normal_hosts:
  "list_all (\<lambda>a. normalize_destination a = Inr (Some a)) GOOGLE_ALLOWED_EGRESS_DESTINATIONS"
  "list_all (\<lambda>a. normalize_destination a = Inr (Some a)) GOOGLE_GMAIL_ALLOWED_EGRESS_DESTINATIONS"
  "list_all (\<lambda>a. normalize_destination a = Inr (Some a)) [''maps.googleapis.com'', ''places.googleapis.com'']"
  "list_all (\<lambda>a. normalize_destination a = Inr (Some a)) [''routes.googleapis.com'']"
  "list_all (\<lambda>a. normalize_destination a = Inr (Some a)) [''agency.daemon.local'']"
  "list_all (\<lambda>a. normalize_destination a = Inr (Some a)) [''r.jina.ai'']"
  by code_simp+

lemma registry_egress:
  "list_all (\<lambda>c. capability_id c \<notin> set configured_hosts \<longrightarrow> egress_ok c)
     (map snd (capability_registry env prov))"
  unfolding capability_registry_def
  using normal_hosts
  by (simp add: egress_ok_def capability_defs configured_hosts_def intents_within propose_slots_within
      email_read_within email_trash_within search_places_within)

lemma starts_with_set: "starts_with p s \<Longrightarrow> set p \<subseteq> set s"
  by (auto simp: starts_with_iff)

lemma has_sub_notin: "c \<in> set p \<Longrightarrow> c \<notin> set s \<Longrightarrow> \<not> has_sub p s"
  by (induction s) (auto dest!: starts_with_set)

lemma normalize_plain:
  assumes h: "plain_host h"
  shows "normalize_destination h = Inr (Some h)"
proof -
  have ok: "c \<in> set h \<Longrightarrow> host_char_ok c" for c
    using h host_char_props by (auto simp: plain_host_def list_all_iff)
  have ne: "h \<noteq> []" using h by (simp add: plain_host_def)
  have "\<not> is_space (hd h)" "\<not> is_space (last h)" using ok ne by (auto simp: host_char_ok_def)
  then have st: "strip h = h" by (simp add: strip_fix)
  have dw: "dropWhile (\<lambda>c. code_of c \<le> 32) h = h"
    using ok [OF list.set_sel(1) [OF ne]] by (cases h) (auto simp: host_char_ok_def)
  have fi: "filter (\<lambda>c. \<not> List.member [CHR 0x09, CHR 0x0A, CHR 0x0D] c) h = h"
    using plain_host_notin [OF h] by (auto simp: filter_id_conv)
  have sp: "split_scheme h = ([], h)"
    using plain_host_notin [OF h] by (simp add: split_scheme_def partition_at_notin)
  have "\<not> starts_with ''//'' h" using plain_host_notin [OF h] by (cases h) auto
  then obtain u where u: "urlparse h = Some u" "u_scheme u = []"
    unfolding urlparse_def Let_def dw fi sp by (simp add: netloc_ok_def)
  have tw: "takeWhile (\<lambda>c. c \<noteq> CHR ''/'') h = h" "takeWhile (\<lambda>c. c \<noteq> CHR '':'') h = h"
    using plain_host_notin [OF h] by (auto simp: takeWhile_eq_all_conv)
  have "\<not> has_sub ''://'' h" using plain_host_notin [OF h] by (intro has_sub_notin [of "CHR '':''"]) auto
  then show ?thesis
    unfolding normalize_destination_def Let_def st plain_host_lower [OF h] u(1) tw
    using u(2) ne by simp
qed

lemma endpoint_host_https: "plain_host h \<Longrightarrow> endpoint_host (https_url h p) = Inr (Some h)"
proof -
  assume h: "plain_host h"
  from urlparse_https [OF h, of p] obtain u where u: "urlparse (https_url h p) = Some u" "u_netloc u = h"
    by (auto simp: https_url_def)
  have "hostname u = Some h"
    using h plain_host_lower [OF h] plain_host_notin [OF h]
    by (simp add: hostname_def u hostinfo_plain partition_at_notin plain_host_def)
  with u plain_host_lower [OF h] show ?thesis by (simp add: endpoint_host_def)
qed

text \<open>
  The settings name \<open>https\<close> endpoints with a lower-case host name and a path, as the defaults and
  the production settings do.
\<close>

definition https_endpoint :: "exn + string \<Rightarrow> bool" where
  "https_endpoint e \<longleftrightarrow> (\<exists>h p. plain_host h \<and> e = Inr (https_url h p))"

definition https_endpoints :: "environment \<Rightarrow> bool" where
  "https_endpoints env \<longleftrightarrow>
     https_endpoint (search_endpoint env)
     \<and> https_endpoint (if weather_provider_mode env = ''dev'' then weather_dev_url env
                       else weather_production_url env)"

lemma host_or_https: "plain_host h \<Longrightarrow> host_or d (Inr (https_url h p)) = Inr [h]"
  by (simp add: host_or_def endpoint_host_https)

lemma get_capability_configured:
  assumes "get_capability env prov cid = Inr (Some c)" "cid \<in> set configured_hosts" "https_endpoints env"
  shows "egress_ok c"
proof -
  from assms(3) obtain h p where s: "plain_host h" "search_endpoint env = Inr (https_url h p)"
    by (auto simp: https_endpoints_def https_endpoint_def)
  from assms(3) obtain h' p' where w: "plain_host h'"
    "(if weather_provider_mode env = ''dev'' then weather_dev_url env else weather_production_url env)
       = Inr (https_url h' p')"
    by (auto simp: https_endpoints_def https_endpoint_def)
  have wa: "weather_allowed_destinations env = Inr [h']"
    using w host_or_https [OF w(1), of _ p'] by (auto simp: weather_allowed_destinations_def split: if_split_asm)
  have sa: "search_allowed_destinations env = Inr [h]"
    using s by (simp add: search_allowed_destinations_def host_or_https)
  have url: "url_within [x] (https_url x q)" if "plain_host x" for x q
    using that by (auto simp: url_within_def)
  have jina: "url_within [''r.jina.ai''] (''https://r.jina.ai/'' @ t)" for t
    by (rule url_within_prefix [of "''r.jina.ai''"]) (simp_all add: https_url_def)
  consider "cid = ''cap.search.web''" | "cid = ''cap.weather.forecast''" | "cid = ''cap.web.extract''"
    using assms(2) by (auto simp: configured_hosts_def)
  then show ?thesis
  proof cases
    case 1
    have "intent_within [h] (declare_search_web env y)"
      if "validate_search_query_input raw = Inr y" for raw y
      using accepted_keys(1) [OF that [unfolded validate_search_query_input_def]] s url [OF s(1)]
      by (auto simp: declare_search_web_def item_get)
    with 1 assms(1) sa normalize_plain [OF s(1)] show ?thesis
      by (auto simp: get_capability_def with_destinations_def capability_registry_def egress_ok_def
          cap_search_web_def)
  next
    case 2
    have "intent_within [h'] (declare_weather_forecast env y)" for y
      using w url [OF w(1)] by (auto simp: declare_weather_forecast_def Let_def)
    with 2 assms(1) wa normalize_plain [OF w(1)] show ?thesis
      by (auto simp: get_capability_def with_destinations_def capability_registry_def egress_ok_def
          cap_weather_forecast_def)
  next
    case 3
    have "intent_within [''r.jina.ai''] (declare_web_extract env y)"
      if "validate_web_extract_input raw = Inr y" for raw y
    proof -
      from that obtain u where y: "y = [(''url'', JStr u)]" by (auto simp: validate_web_extract_input_def)
      then have "declare_web_extract env y = declare_one (''https://r.jina.ai/'' @ u) []"
        by (simp add: declare_web_extract_def item_def py_str_def)
      then show ?thesis by (simp only:) (rule intent_one [OF jina])
    qed
    with 3 assms(1) normal_hosts(6) show ?thesis
      by (auto simp: get_capability_def with_destinations_def capability_registry_def egress_ok_def
          cap_web_extract_def)
  qed
qed

lemma get_capability_egress:
  assumes "get_capability env prov cid = Inr (Some c)" "https_endpoints env"
  shows "egress_ok c"
proof (cases "cid \<in> set configured_hosts")
  case True
  with get_capability_configured assms show ?thesis by blast
next
  case False
  have "c \<in> set (map snd (capability_registry env prov))"
    using get_capability_fixed [OF assms(1) False] by force
  with registry_egress [of env prov] get_capability_id [OF assms(1)] False show ?thesis
    by (metis list_all_iff)
qed


lemma sample_endpoints: "https_endpoints sample_env"
proof -
  have "search_endpoint sample_env = Inr (https_url ''api.search.brave.com'' ''res/v1/web/search'')"
    "weather_production_url sample_env = Inr (https_url ''api.tomorrow.io'' ''v4/weather/forecast'')"
    "plain_host ''api.search.brave.com''" "plain_host ''api.tomorrow.io''"
    unfolding sample_env_def search_endpoint_def search_brave_url_def weather_production_url_def
      environment.simps by code_simp+
  moreover have "weather_provider_mode sample_env \<noteq> ''dev''" by (simp add: sample_env_def)
  ultimately show ?thesis unfolding https_endpoints_def https_endpoint_def by auto
qed


end
