(* ===== verification/Callables.thy ===== *)
theory Callables
  imports Policy
begin

text \<open>
  Which capabilities a turn may call and under which names: the id sets, the eligible ids, the
  callable names and signatures, and the action labels of \<open>src/ariel/capability_registry.py\<close>.
\<close>

section \<open>Sets of capabilities\<close>

definition AGENCY_CAPABILITY_IDS :: "string list" where
  "AGENCY_CAPABILITY_IDS = [''cap.agency.run'', ''cap.agency.status'', ''cap.agency.artifacts'',
     ''cap.agency.request_pr'']"

definition DISCORD_CAPABILITY_IDS :: "string list" where
  "DISCORD_CAPABILITY_IDS = []"

definition ATTACHMENT_CAPABILITY_IDS :: "string list" where
  "ATTACHMENT_CAPABILITY_IDS = [''cap.attachment.read'']"

definition MEMORY_CAPABILITY_IDS :: "string list" where
  "MEMORY_CAPABILITY_IDS = [''cap.memory.recall'', ''cap.memory.remember'', ''cap.memory.search'',
     ''cap.memory.read'', ''cap.memory.note.create'', ''cap.memory.note.edit'', ''cap.memory.note.delete'']"

definition PROVIDER_EVIDENCE_CAPABILITY_IDS :: "string list" where
  "PROVIDER_EVIDENCE_CAPABILITY_IDS = [''cap.provider_evidence.read'']"

definition PROACTIVE_CAPABILITY_IDS :: "string list" where
  "PROACTIVE_CAPABILITY_IDS = [''cap.proactive.schedule'']"

definition MAPS_CAPABILITY_IDS :: "string list" where
  "MAPS_CAPABILITY_IDS = [''cap.maps.directions'', ''cap.maps.search_places'']"

definition RESEARCH_CAPABILITY_IDS :: "string list" where
  "RESEARCH_CAPABILITY_IDS = [''cap.research.investigate'']"

section \<open>Eligible capabilities\<close>

definition internal_callable_capability_ids :: "environment \<Rightarrow> providers \<Rightarrow> string list" where
  "internal_callable_capability_ids env prov = map fst (capability_registry env prov)"

definition string_items :: "json \<Rightarrow> string list" where
  "string_items v = (case as_list v of None \<Rightarrow> [] | Some xs \<Rightarrow> List.map_filter as_str xs)"

text \<open>What the facts about a turn say: the Google connection, its attachments and its bindings.\<close>

definition google_facts :: "dict \<Rightarrow> dict option" where
  "google_facts facts = as_dict (jget facts ''google'')"

definition google_connected :: "dict \<Rightarrow> bool" where
  "google_connected facts =
     (case google_facts facts of None \<Rightarrow> False | Some g \<Rightarrow> jget g ''connected'' = JBool True)"

definition granted_scopes :: "dict \<Rightarrow> string list" where
  "granted_scopes facts =
     (case google_facts facts of None \<Rightarrow> [] | Some g \<Rightarrow> string_items (jget g ''granted_scopes''))"

definition has_attachment_refs :: "dict \<Rightarrow> bool" where
  "has_attachment_refs facts =
     (case as_dict (jget facts ''discord'') of
        None \<Rightarrow> False
      | Some d \<Rightarrow>
         (case as_int (jget d ''attachment_count'') of None \<Rightarrow> False | Some n \<Rightarrow> 0 < n))"

definition bound :: "dict \<Rightarrow> string \<Rightarrow> bool" where
  "bound facts name =
     (case as_dict (jget facts ''runtime_bindings'') of
        None \<Rightarrow> False | Some b \<Rightarrow> jget b name = JBool True)"

definition required_google_scopes :: "capability option \<Rightarrow> string list" where
  "required_google_scopes c =
     (case c of None \<Rightarrow> [] | Some c \<Rightarrow> string_items (jget (contract_metadata c) ''required_scopes''))"

text \<open>One turn of the loop: whether the id is appended.\<close>

definition eligible :: "dict \<Rightarrow> string \<Rightarrow> capability option \<Rightarrow> bool" where
  "eligible facts cid c =
     (if required_google_scopes c \<noteq> [] then
        google_connected facts \<and> list_all (List.member (granted_scopes facts)) (required_google_scopes c)
      else if starts_with ''cap.agency.'' cid then bound facts ''agency''
      else if cid = ''cap.attachment.read'' then has_attachment_refs facts
      else if List.member MEMORY_CAPABILITY_IDS cid then True
      else if List.member PROACTIVE_CAPABILITY_IDS cid then True
      else if List.member PROVIDER_EVIDENCE_CAPABILITY_IDS cid then True
      else if List.member RESEARCH_CAPABILITY_IDS cid then True
      else if cid = ''cap.web.extract'' then bound facts ''web_extract''
      else if cid = ''cap.search.web'' then bound facts ''search_web''
      else if List.member MAPS_CAPABILITY_IDS cid then bound facts ''maps''
      else if cid = ''cap.weather.forecast'' then bound facts ''weather''
      else False)"

fun eligible_among :: "environment \<Rightarrow> providers \<Rightarrow> dict \<Rightarrow> string list \<Rightarrow> exn + string list" where
  "eligible_among env prov facts [] = Inr []"
| "eligible_among env prov facts (cid # cids) =
     (case get_capability env prov cid of
        Inl e \<Rightarrow> Inl e
      | Inr c \<Rightarrow>
         (case eligible_among env prov facts cids of
            Inl e \<Rightarrow> Inl e
          | Inr rest \<Rightarrow> Inr (if eligible facts cid c then cid # rest else rest)))"

definition eligible_internal_callable_capability_ids ::
  "environment \<Rightarrow> providers \<Rightarrow> dict \<Rightarrow> exn + string list" where
  "eligible_internal_callable_capability_ids env prov facts =
     eligible_among env prov facts (internal_callable_capability_ids env prov)"

section \<open>Names and labels\<close>

definition ACTION_LABELS :: "(string \<times> string) list" where
  "ACTION_LABELS =
     [(''cap.agency.run'', ''Start coding job''),
      (''cap.agency.request_pr'', ''Create or update pull request''),
      (''cap.calendar.create_event'', ''Create calendar event''),
      (''cap.calendar.update_event'', ''Update calendar event''),
      (''cap.calendar.respond_to_event'', ''Respond to calendar event''),
      (''cap.drive.share'', ''Share Drive file''),
      (''cap.email.archive'', ''Archive email''),
      (''cap.email.draft'', ''Draft email''),
      (''cap.email.labels.modify'', ''Update email labels''),
      (''cap.email.send'', ''Send email''),
      (''cap.email.trash'', ''Move email to trash''),
      (''cap.email.undo'', ''Undo email change''),
      (''cap.memory.remember'', ''Save to memory''),
      (''cap.memory.note.create'', ''Create memory note''),
      (''cap.memory.note.edit'', ''Edit memory note''),
      (''cap.memory.note.delete'', ''Delete memory note''),
      (''cap.proactive.schedule'', ''Schedule reminder''),
      (''cap.research.investigate'', ''Start research'')]"

definition RUN_CALLABLE_ALIASES :: "(string \<times> string) list" where
  "RUN_CALLABLE_ALIASES =
     [(''agency.artifacts'', ''cap.agency.artifacts''),
      (''agency.request_pr'', ''cap.agency.request_pr''),
      (''agency.run'', ''cap.agency.run''),
      (''agency.status'', ''cap.agency.status''),
      (''attachment.read'', ''cap.attachment.read''),
      (''calendar.create_event'', ''cap.calendar.create_event''),
      (''calendar.list'', ''cap.calendar.list''),
      (''calendar.list_calendars'', ''cap.calendar.list_calendars''),
      (''calendar.propose_slots'', ''cap.calendar.propose_slots''),
      (''calendar.respond_to_event'', ''cap.calendar.respond_to_event''),
      (''calendar.update_event'', ''cap.calendar.update_event''),
      (''drive.read'', ''cap.drive.read''),
      (''drive.search'', ''cap.drive.search''),
      (''drive.share'', ''cap.drive.share''),
      (''email.archive'', ''cap.email.archive''),
      (''email.draft'', ''cap.email.draft''),
      (''email.labels.modify'', ''cap.email.labels.modify''),
      (''email.read'', ''cap.email.read''),
      (''email.search'', ''cap.email.search''),
      (''email.send'', ''cap.email.send''),
      (''email.trash'', ''cap.email.trash''),
      (''email.undo'', ''cap.email.undo''),
      (''maps.directions'', ''cap.maps.directions''),
      (''maps.search_places'', ''cap.maps.search_places''),
      (''memory.note.create'', ''cap.memory.note.create''),
      (''memory.note.delete'', ''cap.memory.note.delete''),
      (''memory.note.edit'', ''cap.memory.note.edit''),
      (''memory.read'', ''cap.memory.read''),
      (''memory.recall'', ''cap.memory.recall''),
      (''memory.remember'', ''cap.memory.remember''),
      (''memory.search'', ''cap.memory.search''),
      (''provider_evidence.read'', ''cap.provider_evidence.read''),
      (''proactive.schedule'', ''cap.proactive.schedule''),
      (''research.investigate'', ''cap.research.investigate''),
      (''search.web'', ''cap.search.web''),
      (''weather.forecast'', ''cap.weather.forecast''),
      (''web.extract'', ''cap.web.extract'')]"

definition RUN_CALLABLE_SIGNATURES :: "(string \<times> string) list" where
  "RUN_CALLABLE_SIGNATURES =
     [(''agent.emit_message'', ''(text: str)''),
      (''agent.emit_value'', ''(value: Any)''),
      (''agent.emit_finding'', ''(summary: str, claims: list, gaps: list, sources: list)''),
      (''agent.emit_done'', ''(summary: str = '' @ [CHR 0x27, CHR 0x27] @ '') -> None''),
      (''agent.finish_silent'', ''(reason: str = '' @ [CHR 0x27, CHR 0x27] @ '') -> None''),
      (''scratch.set'', ''(key: str, value: JSONValue) -> None''),
      (''scratch.get'', ''(key: str) -> JSONValue''),
      (''memory.search'', ''(query: str, limit: int = 24, since: str | None = None, kinds: list[Literal['user_message','agent_round','assistant_message','tool_observation','proactive_trigger','note_create','note_edit','note_delete','recall','research_finding']] | None = None) -> {'hits': list[{'id', 'layer', 'kind', 'created_at', 'snippet', 'taint'}], 'status': 'succeeded'}''),
      (''memory.read'', ''(id: str) -> {'status': Literal['found', 'not_found'], 'id': str, 'layer': Literal['log', 'note'], 'kind': str | None, 'created_at': str, 'content': dict | str, 'taint': dict, 'turn_id': str | None}''),
      (''memory.recall'', ''(query: str) -> {'status': 'recalled', 'recall': dict}''),
      (''memory.remember'', ''(note: str) -> {'status': 'queued', 'encode_id': str}''),
      (''memory.note.create'', ''(content: str) -> {'status': 'created', 'id': str}''),
      (''memory.note.edit'', ''(id: str, content: str) -> {'status': 'edited', 'id': str}''),
      (''memory.note.delete'', ''(id: str) -> {'status': 'deleted', 'id': str}''),
      (''search.web'', ''(query: str) -> {'query': str, 'retrieved_at': str, 'results': list[{'title', 'source', 'snippet', 'published_at'}], 'status': 'succeeded'}''),
      (''web.extract'', ''(url: str) -> {'url': str, 'status': 'succeeded', 'extract_outcome': {'status': Literal['ok', 'partial'], 'reason_code': str | None, 'recovery': str | None}, 'document': {'title': str, 'canonical_source': str, 'resolved_url': str, 'retrieved_at': str, 'published_at': str | None, 'language': str | None, 'content_chars': int, 'content_blocks': list[{'index': int, 'text': str}]}, 'provider': {'endpoint': str, 'attempt_count': int}}''),
      (''research.investigate'', ''(question: str, mode: Literal['web', 'personal', 'memories']) -> {'status': 'queued', 'research_id': str}''),
      (''agency.run'', ''(repo_root: str, name: str, prompt: str, base_branch: str | None = None, runner: str | None = None, runner_args: list[str] = [], env: list[{'name': str, 'value': str}] = [], no_include_untracked: bool = False) -> {'job_id': str, 'agency': dict}''),
      (''agency.status'', ''(job_id: str | None = None, repo_id: str | None = None, task_id: str | None = None) -> {'job_id': str | None, 'task': dict, 'invocation': dict | None, 'check': dict | None}''),
      (''agency.artifacts'', ''(job_id: str | None = None, repo_id: str | None = None, task_id: str | None = None) -> {'job_id': str | None, 'diff': dict, 'timeline': dict}''),
      (''agency.request_pr'', ''(job_id: str | None = None, repo_id: str | None = None, task_id: str | None = None, invocation_id: str | None = None, worktree_id: str | None = None) -> {'job_id': str, 'land': dict | None, 'pr': dict}''),
      (''calendar.list'', ''(window_start: str, window_end: str, calendar_id: str = 'primary') -> {'schema_version': 'google.calendar.events.v1', 'events': list[{'event_id', 'calendar_id', 'summary', 'start', 'end', ...}], 'retrieved_at': str, 'window_start': str, 'window_end': str, 'status': 'succeeded'}''),
      (''calendar.list_calendars'', ''() -> {'schema_version': 'google.calendar.calendar_list.v1', 'calendars': list[{'calendar_id': str, 'summary': str | None, 'primary': bool, 'access_role': str, 'time_zone': str | None, 'provider_account_id': str}], 'retrieved_at': str, 'status': 'succeeded'}''),
      (''calendar.propose_slots'', ''(window_start: str, window_end: str, duration_minutes: int, attendees: list[str], timezone: str, source_evidence_ids: list[str], quoted_content_caveat: bool, participants: list[str], proposed_windows: list[{'start': str, 'end': str}], timezone_evidence: {'source': str | None, 'rationale': str | None, 'confidence': float | None}, constraints: {'hard': list[str], 'soft': list[str], 'attendee_notes': list[str]}) -> {'schema_version': 'google.calendar.slot_options.v1', 'slots': list, 'availability_scope': Literal['all_attendees', 'primary_calendar_only'], 'partial': bool, 'source_evidence_refs': list, 'constraints_used': dict}''),
      (''calendar.create_event'', ''(title: str, start_time: str, end_time: str, idempotency_key: str, source_evidence_id: str | None = None, user_instruction_ref: str | None = None, calendar_id: str | None = None, description: str | None = None, location: str | None = None, attendees: list[str] = []) -> {'schema_version': 'google.calendar.create_result.v1', 'status': 'created', 'event_id': str, 'calendar_id': str, 'provider_event_ref': str, 'executed_at': str}''),
      (''calendar.update_event'', ''(event_id: str, idempotency_key: str, source_evidence_id: str | None = None, user_instruction_ref: str | None = None, calendar_id: str | None = None, title: str | None = None, start_time: str | None = None, end_time: str | None = None, description: str | None = None, location: str | None = None, attendees: list[str] | None = None) -> {'schema_version': 'google.calendar.update_result.v1', 'status': 'updated', 'event_id': str, 'calendar_id': str, 'provider_event_ref': str, 'executed_at': str}''),
      (''calendar.respond_to_event'', ''(event_id: str, attendee_email: str, response_status: Literal['accepted', 'declined', 'tentative', 'needsAction'], idempotency_key: str, source_evidence_id: str | None = None, user_instruction_ref: str | None = None, calendar_id: str | None = None) -> {'schema_version': 'google.calendar.response_result.v1', 'status': 'responded', 'event_id': str, 'calendar_id': str, 'response_status': str, 'provider_event_ref': str, 'executed_at': str}''),
      (''email.search'', ''(query: str) -> {'schema_version': 'google.gmail.message_refs.v1', 'messages': list[{'message_id': str, 'thread_id': str, 'subject': str | None, 'preview': str | None, 'direction': Literal['sent', 'received', 'draft'], ...}], 'retrieved_at': str, 'total_estimate': int | None, 'status': 'succeeded'}''),
      (''email.read'', ''(message_id: str | None = None, thread_id: str | None = None, mode: Literal['message', 'thread', 'thread_context'] | None = None)  # at least one id must be non-null, from prior email.search or provider-sync context -> {'schema_version': 'google.gmail.message_evidence.v1', 'mode': Literal['message', 'thread', 'thread_context'], 'message': {'subject', 'sender', 'recipients', 'internal_date', ...} | None, 'thread': {'thread_id', 'message_count', ...} | None, 'messages': list[dict] | None, 'evidence': {'blocks': list[{'kind', 'text', ...}], 'source_kind': str, ...}, 'read_outcome': {'status': Literal['ok', 'body_too_large', 'decode_failed', 'no_body'], ...}, 'retrieved_at': str, 'status': 'succeeded'}''),
      (''provider_evidence.read'', ''(provider_evidence_id: str, block_ids: list[str] = [], max_blocks: int = 12) -> {'schema_version': 'provider.evidence_blocks.v1', 'read_outcome': {'status': Literal['ok', 'unavailable'], 'reason_code': str | None, 'recovery': str | None}, 'provider_evidence': dict, 'blocks': list[{'block_id', 'block_index', 'kind', 'text', 'digest', 'truncated', 'source_offsets'}], 'status': 'succeeded'}''),
      (''drive.search'', ''(query: str) -> {'schema_version': 'google.drive.search_results.v1', 'query': str, 'provider_account_id': str, 'results': list[{'title', 'source', 'snippet', 'published_at'}], 'retrieved_at': str, 'status': 'succeeded'}''),
      (''drive.read'', ''(file_id: str) -> {'schema_version': 'google.drive.read_result.v1', 'file_id': str, 'provider_account_id': str, 'title': str, 'source': str, 'published_at': str | None, 'content_excerpt': str, 'truncated': bool, 'read_outcome': {'status': Literal['ok', 'unsupported', 'too_large', 'unavailable'], 'reason_code': str | None, 'recovery': str | None}, 'retrieved_at': str, 'status': 'succeeded'}''),
      (''drive.share'', ''(file_id: str, grantee_email: str, idempotency_key: str, source_evidence_id: str | None = None, user_instruction_ref: str | None = None, role: Literal['reader', 'commenter', 'writer'] = 'reader') -> {'status': 'shared', 'file_id': str, 'grantee_email': str, 'role': str, 'permission_id': str}''),
      (''email.draft'', ''(to: list[str], subject: str, body: str, idempotency_key: str, source_evidence_id: str | None = None, user_instruction_ref: str | None = None, cc: list[str] = [], bcc: list[str] = []) -> {'status': 'drafted_not_sent', 'delivery_state': 'draft_only', 'sent': False, 'draft': dict, 'provider_draft_ref': str}''),
      (''email.send'', ''(to: list[str], subject: str, body: str, idempotency_key: str, source_evidence_id: str | None = None, user_instruction_ref: str | None = None, cc: list[str] = [], bcc: list[str] = []) -> {'status': 'sent', 'message_id': str, 'provider_message_ref': str, 'to': list[str], 'subject': str}''),
      (''email.archive'', ''(message_ids: list[str], idempotency_key: str, source_evidence_id: str | None = None, user_instruction_ref: str | None = None) -> {'status': Literal['archived', 'failed', 'partially_failed'], 'operation': 'archive', 'message_ids': list[str], 'undo_supported': True, 'executed_at': str}''),
      (''email.trash'', ''(message_ids: list[str], idempotency_key: str, source_evidence_id: str | None = None, user_instruction_ref: str | None = None) -> {'status': Literal['trashed', 'failed', 'partially_failed'], 'operation': 'trash', 'message_ids': list[str], 'undo_supported': True, 'executed_at': str}''),
      (''email.labels.modify'', ''(message_ids: list[str], add_labels: list[str], remove_labels: list[str], idempotency_key: str, source_evidence_id: str | None = None, user_instruction_ref: str | None = None) -> {'status': Literal['labels_modified', 'failed', 'partially_failed'], 'operation': 'labels.modify', 'message_ids': list[str], 'provider_label_ids': dict, 'undo_supported': True, 'executed_at': str}''),
      (''email.undo'', ''(undo_token: str, idempotency_key: str, source_evidence_id: str | None = None, user_instruction_ref: str | None = None) -> {'status': Literal['undone', 'failed', 'partially_failed'], 'operation': 'undo', 'message_ids': list[str], 'restored_state': list, 'executed_at': str}''),
      (''maps.search_places'', ''(query: str, location_context: str | None = None, radius_meters: int = 2000) -> {'query': str, 'results': list[{'title', 'source', 'snippet', 'address', 'distance_meters', 'rating', 'open_now', ...}], 'retrieved_at': str, 'status': 'succeeded'}''),
      (''maps.directions'', ''(origin: str | None = None, destination: str | None = None, travel_mode: Literal['driving', 'walking', 'bicycling', 'transit'] = 'driving', waypoints: list[str] = [], optimize_order: bool = False) -> {'origin', 'destination', 'routes': list, 'retrieved_at': str, 'status': 'succeeded'}''),
      (''weather.forecast'', ''(location: str | None = None, timeframe: Literal['now', 'today', 'tomorrow', 'next_24h'] = 'today') -> {'location', 'timeframe', 'forecast': dict, 'retrieved_at': str, 'status': 'succeeded'}''),
      (''proactive.schedule'', ''(when: str, note: str) -> {'status': 'scheduled', 'task_id': str, 'run_after': str}''),
      (''attachment.read'', ''(attachment_ref: str, intent: Literal['summarize', 'ocr', 'transcribe', 'extract_text', 'answer']) -> {'attachment_ref', 'filename', 'blocks': list, 'status': 'succeeded'}'')]"

definition capability_action_label :: "string \<Rightarrow> string" where
  "capability_action_label cid =
     (case map_of ACTION_LABELS cid of
        Some label \<Rightarrow> label
      | None \<Rightarrow>
          if starts_with ''cap.agency.'' cid then ''Agency action''
          else if starts_with ''cap.calendar.'' cid then ''Calendar action''
          else if starts_with ''cap.drive.'' cid then ''Drive action''
          else if starts_with ''cap.email.'' cid then ''Email action''
          else if starts_with ''cap.memory.'' cid then ''Memory action''
          else ''Action'')"

definition capability_id_for_run_callable :: "string \<Rightarrow> string option" where
  "capability_id_for_run_callable name = map_of RUN_CALLABLE_ALIASES name"

definition run_callable_name_for_capability_id :: "string \<Rightarrow> string option" where
  "run_callable_name_for_capability_id cid =
     map_option fst (find (\<lambda>(name, mapped). mapped = cid) RUN_CALLABLE_ALIASES)"

definition run_callable_signature :: "string \<Rightarrow> string" where
  "run_callable_signature name = (case map_of RUN_CALLABLE_SIGNATURES name of None \<Rightarrow> [] | Some s \<Rightarrow> s)"

section \<open>Names and capabilities correspond\<close>

lemma aliases_distinct:
  "distinct (map fst RUN_CALLABLE_ALIASES)" "distinct (map snd RUN_CALLABLE_ALIASES)"
  unfolding RUN_CALLABLE_ALIASES_def by simp_all

lemma find_by_value:
  "distinct (map fst al) \<Longrightarrow> distinct (map snd al) \<Longrightarrow>
    map_option fst (find (\<lambda>(n, m). m = v) al) = Some k \<longleftrightarrow> map_of al k = Some v"
  by (induction al) (force dest: map_of_SomeD split: if_split_asm)+

lemma aliases_cover: "set (map snd RUN_CALLABLE_ALIASES) = set (internal_callable_capability_ids env prov)"
  unfolding RUN_CALLABLE_ALIASES_def internal_callable_capability_ids_def capability_registry_def by auto


section \<open>A turn is offered what it can use\<close>

lemma eligible_among_mem:
  "eligible_among env prov facts ids = Inr cids \<Longrightarrow> cid \<in> set cids \<Longrightarrow>
    cid \<in> set ids \<and> (\<exists>c. get_capability env prov cid = Inr c \<and> eligible facts cid c)"
  by (induction ids arbitrary: cids) (auto split: sum.splits if_split_asm)

lemma eligible_among_ok:
  "list_all (\<lambda>cid. \<exists>c. get_capability env prov cid = Inr c) ids \<Longrightarrow>
    \<exists>cids. eligible_among env prov facts ids = Inr cids
      \<and> set cids = {cid \<in> set ids. \<exists>c. get_capability env prov cid = Inr c \<and> eligible facts cid c}"
  by (induction ids) auto

lemma capabilities_found:
  assumes "search_allowed_destinations env = Inr hs" "weather_allowed_destinations env = Inr hs'"
  shows "list_all (\<lambda>cid. \<exists>c. get_capability env prov cid = Inr c) ids"
  using assms by (auto simp: list_all_iff get_capability_def with_destinations_def split: option.split)

lemma registered_capability:
  assumes "cid \<in> set (internal_callable_capability_ids env prov)" "get_capability env prov cid = Inr c"
  shows "c \<noteq> None"
proof
  assume "c = None"
  with assms(2) have "map_of (capability_registry env prov) cid = None"
    by (auto simp: get_capability_def with_destinations_def split: option.split_asm if_split_asm sum.split_asm)
  with assms(1) show False by (auto simp: internal_callable_capability_ids_def map_of_eq_None_iff)
qed


definition sample_facts :: dict where
  "sample_facts = [(''google'', JObj [(''connected'', JBool True),
       (''granted_scopes'', JArr [JStr GOOGLE_DRIVE_READ_SCOPE])]),
     (''runtime_bindings'', JObj [(''agency'', JBool True)])]"


end
