(* ===== verification/Secret_Cipher.thy ===== *)
theory Secret_Cipher
  imports Ariel_Prelude
begin

text \<open>
  The sealing of stored secrets, \<open>src/ariel/secret_cipher.py\<close>: the key ring read from the
  configuration, the envelope \<open>aeadv1:version:nonce:payload\<close>, and its failures. A byte string is a
  list of \<open>char\<close>. AES-GCM (\<open>cryptography\<close>), SHA-256, the JSON parser and the random nonce are
  arguments of the definitions; base64 and UTF-8 are written out.
\<close>

type_synonym bytes = "char list"

section \<open>UTF-8 and base64url\<close>

text \<open>
  Text has the code points U+0000 to U+00FF, so a character is one or two bytes; bytes that decode to
  other code points are outside the modelled text and count as undecodable.
\<close>

definition byte_value :: "char \<Rightarrow> nat" where
  "byte_value b = of_char b"

fun utf8_encode :: "string \<Rightarrow> bytes" where
  "utf8_encode [] = []"
| "utf8_encode (c # cs) =
     (if byte_value c < 128 then [c]
      else [char_of (192 + byte_value c div 64), char_of (128 + byte_value c mod 64)]) @ utf8_encode cs"

fun utf8_decode :: "bytes \<Rightarrow> string option" where
  "utf8_decode [] = Some []"
| "utf8_decode (b # bs) =
     (if byte_value b < 128 then map_option (Cons b) (utf8_decode bs)
      else if byte_value b < 194 \<or> 195 < byte_value b then None
      else case bs of
        [] \<Rightarrow> None
      | b' # rest \<Rightarrow>
          if 128 \<le> byte_value b' \<and> byte_value b' < 192
          then map_option (Cons (char_of ((byte_value b - 192) * 64 + (byte_value b' - 128)))) (utf8_decode rest)
          else None)"

definition base64_alphabet :: string where
  "base64_alphabet = ''ABCDEFGHIJKLMNOPQRSTUVWXYZabcdefghijklmnopqrstuvwxyz0123456789-_''"

definition sextet_char :: "nat \<Rightarrow> char" where
  "sextet_char n = base64_alphabet ! (n mod 64)"

text \<open>The decoder also accepts the characters of the standard alphabet.\<close>

definition char_sextet :: "char \<Rightarrow> nat option" where
  "char_sextet c = map_of (zip (base64_alphabet @ ''+/'') ([0..<64] @ [62, 63])) c"

fun b64encode :: "bytes \<Rightarrow> string" where
  "b64encode [] = []"
| "b64encode [a] =
     [sextet_char (byte_value a div 4), sextet_char (byte_value a * 16), CHR ''='', CHR ''='']"
| "b64encode [a, b] =
     [sextet_char (byte_value a div 4), sextet_char (byte_value a * 16 + byte_value b div 16),
      sextet_char (byte_value b * 4), CHR ''='']"
| "b64encode (a # b # c # bs) =
     [sextet_char (byte_value a div 4), sextet_char (byte_value a * 16 + byte_value b div 16),
      sextet_char (byte_value b * 4 + byte_value c div 64), sextet_char (byte_value c)] @ b64encode bs"

definition urlsafe_b64encode :: "bytes \<Rightarrow> string" where
  "urlsafe_b64encode value = rev (dropWhile (\<lambda>c. c = CHR ''='') (rev (b64encode value)))"

text \<open>
  \<open>base64.b64decode(..., validate=True)\<close> on text whose length is a multiple of four. Padding ends
  the text; a text of complete groups may be followed by any run of padding, as CPython accepts it.
\<close>

fun b64decode :: "string \<Rightarrow> bytes option" where
  "b64decode [] = Some []"
| "b64decode [a, b, c, d] =
     (if d = CHR ''='' then
        (case (char_sextet a, char_sextet b) of
           (Some x, Some y) \<Rightarrow>
             if c = CHR ''='' then Some [char_of (x * 4 + y div 16)]
             else map_option (\<lambda>z. [char_of (x * 4 + y div 16), char_of (y * 16 + z div 4)]) (char_sextet c)
         | _ \<Rightarrow> None)
      else
        (case (char_sextet a, char_sextet b, char_sextet c, char_sextet d) of
           (Some x, Some y, Some z, Some t) \<Rightarrow>
             Some [char_of (x * 4 + y div 16), char_of (y * 16 + z div 4), char_of (z * 64 + t)]
         | _ \<Rightarrow> None))"
| "b64decode (a # b # c # d # cs) =
     (case (char_sextet a, char_sextet b, char_sextet c, char_sextet d) of
        (Some x, Some y, Some z, Some t) \<Rightarrow>
          map_option (\<lambda>bs. char_of (x * 4 + y div 16) # char_of (y * 16 + z div 4) # char_of (z * 64 + t) # bs)
            (if list_all (\<lambda>e. e = CHR ''='') cs then Some [] else b64decode cs)
      | _ \<Rightarrow> None)"
| "b64decode _ = None"

definition padding :: "string \<Rightarrow> string" where
  "padding value = replicate ((4 - length value mod 4) mod 4) (CHR ''='')"

definition urlsafe_b64decode :: "string \<Rightarrow> bytes option" where
  "urlsafe_b64decode value = b64decode (value @ padding value)"

section \<open>Keys\<close>

text \<open>What the code takes from elsewhere: \<open>hashlib.sha256\<close>, \<open>json.loads\<close> and AES-GCM.\<close>

record crypto =
  sha256_bytes :: "bytes \<Rightarrow> bytes"
  json_loads :: "string \<Rightarrow> exn + json"
  aes_encrypt :: "bytes \<Rightarrow> bytes \<Rightarrow> bytes \<Rightarrow> bytes \<Rightarrow> bytes"
  aes_decrypt :: "bytes \<Rightarrow> bytes \<Rightarrow> bytes \<Rightarrow> bytes \<Rightarrow> bytes option"

definition derive_secret_bytes :: "crypto \<Rightarrow> string \<Rightarrow> bytes" where
  "derive_secret_bytes cy secret =
     (let normalized = strip secret
      in sha256_bytes cy (utf8_encode (if normalized = [] then ''dev-local-connector-secret'' else normalized)))"

fun split_commas :: "string \<Rightarrow> string list" where
  "split_commas [] = [[]]"
| "split_commas (c # cs) =
     (if c = CHR '','' then [] # split_commas cs
      else case split_commas cs of w # ws \<Rightarrow> (c # w) # ws | [] \<Rightarrow> [[c]])"

fun listed_entries :: "(string \<times> string) list \<Rightarrow> string list \<Rightarrow> exn + (string \<times> string) list" where
  "listed_entries entries [] = Inr entries"
| "listed_entries entries (raw_item # rest) =
     (let item = strip raw_item
      in if item = [] then listed_entries entries rest
         else case partition_at (CHR '':'') item of
           None \<Rightarrow> Inl (RuntimeError ''connector_encryption_keys entry must be version:key'')
         | Some (version, key_value) \<Rightarrow>
             if strip version = [] \<or> strip key_value = []
             then Inl (RuntimeError ''connector_encryption_keys entry must not be blank'')
             else listed_entries (AList.update (strip version) (strip key_value) entries) rest)"

fun object_entries :: "(string \<times> string) list \<Rightarrow> dict \<Rightarrow> exn + (string \<times> string) list" where
  "object_entries entries [] = Inr entries"
| "object_entries entries ((key, v) # rest) =
     (case as_str v of
        None \<Rightarrow> Inl (RuntimeError ''connector_encryption_keys JSON must map string versions to string keys'')
      | Some value \<Rightarrow>
          if strip key = [] \<or> strip value = []
          then Inl (RuntimeError ''connector_encryption_keys JSON entries must not be blank'')
          else object_entries (AList.update (strip key) (strip value) entries) rest)"

definition parse_connector_key_entries :: "crypto \<Rightarrow> string \<Rightarrow> exn + (string \<times> string) list" where
  "parse_connector_key_entries cy configured_keys =
     (let normalized = strip configured_keys
      in if normalized = [] then Inr []
         else case json_loads cy normalized of
           Inl ValueError \<Rightarrow> listed_entries [] (split_commas normalized)
         | Inl e \<Rightarrow> Inl e
         | Inr payload \<Rightarrow>
             (case as_dict payload of
                None \<Rightarrow> Inl (RuntimeError ''connector_encryption_keys must be JSON object or version:key list'')
              | Some d \<Rightarrow> object_entries [] d))"

definition aead_key_lengths :: "nat list" where
  "aead_key_lengths = [16, 24, 32]"

definition decode_aead_key :: "string \<Rightarrow> exn + bytes" where
  "decode_aead_key raw_value =
     (case urlsafe_b64decode (strip raw_value) of
        None \<Rightarrow> Inl (RuntimeError ''connector encryption key must be base64url encoded'')
      | Some decoded \<Rightarrow>
          if List.member aead_key_lengths (length decoded) then Inr decoded
          else Inl (RuntimeError ''connector encryption key length must be 16, 24, or 32 bytes''))"

fun decode_entries :: "(string \<times> string) list \<Rightarrow> exn + (string \<times> bytes) list" where
  "decode_entries [] = Inr []"
| "decode_entries ((version, raw_key) # rest) =
     (case decode_aead_key raw_key of
        Inl e \<Rightarrow> Inl e
      | Inr key \<Rightarrow>
         (case decode_entries rest of
            Inl e \<Rightarrow> Inl e
          | Inr ring \<Rightarrow> Inr ((version, key) # ring)))"

record secret_cipher =
  active_key_version :: string
  keys_by_version :: "(string \<times> bytes) list"
  single_secret_key :: "bytes option"

fun check_keys :: "(string \<times> bytes) list \<Rightarrow> exn option" where
  "check_keys [] = None"
| "check_keys ((version, key_bytes) # rest) =
     (if strip version = [] then Some (RuntimeError ''key version must not be blank'')
      else if \<not> List.member aead_key_lengths (length key_bytes)
      then Some (RuntimeError ''aead key length must be 16, 24, or 32 bytes'')
      else check_keys rest)"

text \<open>The constructor with its \<open>__post_init__\<close> checks.\<close>

definition make_cipher :: "string \<Rightarrow> (string \<times> bytes) list \<Rightarrow> bytes option \<Rightarrow> exn + secret_cipher" where
  "make_cipher active_version keyring single =
     (let active = strip active_version
      in if active = [] then Inl (RuntimeError ''active_key_version must not be blank'')
         else if map_of keyring active = None
         then Inl (RuntimeError ''active_key_version is missing from keys_by_version'')
         else case check_keys keyring of
           Some e \<Rightarrow> Inl e
         | None \<Rightarrow>
             if single \<noteq> None \<and> \<not> List.member aead_key_lengths (length (the single))
             then Inl (RuntimeError ''aead key length must be 16, 24, or 32 bytes'')
             else Inr \<lparr>active_key_version = active, keys_by_version = keyring, single_secret_key = single\<rparr>)"

definition from_config :: "crypto \<Rightarrow> string \<Rightarrow> string option \<Rightarrow> string \<Rightarrow> exn + secret_cipher" where
  "from_config cy key_version configured_keys single_secret =
     (case (case configured_keys of
              None \<Rightarrow> Inr []
            | Some text \<Rightarrow>
               (case parse_connector_key_entries cy text of
                  Inl e \<Rightarrow> Inl e
                | Inr entries \<Rightarrow> decode_entries entries)) of
        Inl e \<Rightarrow> Inl e
      | Inr ring \<Rightarrow>
          let active = (if strip key_version = [] then ''v1'' else strip key_version);
              single = (if ring = [] then Some (derive_secret_bytes cy single_secret) else None);
              ring = (case single of None \<Rightarrow> ring | Some k \<Rightarrow> [(active, k)])
          in if map_of ring active = None
             then Inl (RuntimeError ''active connector encryption key version is missing from configured keyring'')
             else make_cipher active ring single)"

section \<open>Envelopes\<close>

definition associated_data :: "string \<Rightarrow> bytes" where
  "associated_data version = utf8_encode (''ariel.connector.google:'' @ version)"

text \<open>The twelve bytes of \<open>secrets.token_bytes(12)\<close> are the argument \<open>nonce\<close>.\<close>

definition encrypt :: "crypto \<Rightarrow> secret_cipher \<Rightarrow> bytes \<Rightarrow> string \<Rightarrow> exn + string" where
  "encrypt cy c nonce plaintext =
     (case map_of (keys_by_version c) (active_key_version c) of
        None \<Rightarrow> Inl KeyError
      | Some key_bytes \<Rightarrow>
          Inr (''aeadv1:'' @ active_key_version c @ '':'' @ urlsafe_b64encode nonce @ '':'' @
            urlsafe_b64encode (aes_encrypt cy key_bytes nonce (utf8_encode plaintext)
              (associated_data (active_key_version c)))))"

text \<open>\<open>_, version, nonce_b64, payload_b64 = ciphertext.split(":", maxsplit=3)\<close>\<close>

definition split_envelope :: "string \<Rightarrow> (string \<times> string \<times> string) option" where
  "split_envelope ciphertext =
     (case partition_at (CHR '':'') ciphertext of
        None \<Rightarrow> None
      | Some (prefix, rest) \<Rightarrow>
         (case partition_at (CHR '':'') rest of
            None \<Rightarrow> None
          | Some (version, rest') \<Rightarrow>
             (case partition_at (CHR '':'') rest' of
                None \<Rightarrow> None
              | Some (nonce_b64, payload_b64) \<Rightarrow> Some (version, nonce_b64, payload_b64))))"

definition key_for_version :: "secret_cipher \<Rightarrow> string \<Rightarrow> bytes option" where
  "key_for_version c version =
     (case map_of (keys_by_version c) version of
        None \<Rightarrow> single_secret_key c
      | Some k \<Rightarrow> if k = [] then single_secret_key c else Some k)"

definition decrypt :: "crypto \<Rightarrow> secret_cipher \<Rightarrow> string \<Rightarrow> exn + string" where
  "decrypt cy c ciphertext =
     (let failure = (\<lambda>code. Inl (RuntimeError code))
      in if \<not> starts_with ''aeadv1:'' ciphertext then failure ''malformed_envelope''
         else case split_envelope ciphertext of
           None \<Rightarrow> failure ''malformed_envelope''
         | Some (version, nonce_b64, payload_b64) \<Rightarrow>
            (case key_for_version c version of
               None \<Rightarrow> failure ''unknown_key_version''
             | Some key_bytes \<Rightarrow>
                (case urlsafe_b64decode nonce_b64 of
                   None \<Rightarrow> failure ''invalid_nonce''
                 | Some nonce \<Rightarrow>
                     if length nonce \<noteq> 12 then failure ''invalid_nonce''
                     else case urlsafe_b64decode payload_b64 of
                       None \<Rightarrow> failure ''invalid_payload''
                     | Some payload \<Rightarrow>
                        (case aes_decrypt cy key_bytes nonce payload (associated_data version) of
                           None \<Rightarrow> failure ''integrity_check_failed''
                         | Some plaintext \<Rightarrow>
                            (case utf8_decode plaintext of
                               None \<Rightarrow> failure ''invalid_plaintext''
                             | Some s \<Rightarrow> Inr s)))))"

definition encrypt_secret ::
  "crypto \<Rightarrow> string \<Rightarrow> string \<Rightarrow> string option \<Rightarrow> bytes \<Rightarrow> string \<Rightarrow> exn + string" where
  "encrypt_secret cy secret key_version encryption_keys nonce plaintext =
     (case from_config cy key_version encryption_keys secret of
        Inl e \<Rightarrow> Inl e
      | Inr c \<Rightarrow> encrypt cy c nonce plaintext)"

definition decrypt_secret ::
  "crypto \<Rightarrow> string \<Rightarrow> string \<Rightarrow> string option \<Rightarrow> string \<Rightarrow> exn + string" where
  "decrypt_secret cy secret expected_key_version encryption_keys ciphertext =
     (case from_config cy expected_key_version encryption_keys secret of
        Inl e \<Rightarrow> Inl e
      | Inr c \<Rightarrow> decrypt cy c ciphertext)"

section \<open>The codecs\<close>

lemma char_of_byte_value [simp]: "char_of (byte_value c) = c"
  by (simp add: byte_value_def)

lemma byte_value_bound: "byte_value c < 256"
  using mod_less_divisor [of 256 "of_char c :: nat"] by (simp add: byte_value_def)

lemma byte_value_char_of [simp]: "byte_value (char_of n) = n mod 256"
  by (simp add: byte_value_def)

lemma utf8_roundtrip [simp]: "utf8_decode (utf8_encode s) = Some s"
proof (induction s)
  case (Cons c cs)
  show ?case
  proof (cases "byte_value c < 128")
    case True
    with Cons show ?thesis by simp
  next
    case False
    define q r where "q = byte_value c div 64" and "r = byte_value c mod 64"
    have q: "2 \<le> q" "q \<le> 3" and r: "r < 64" and n: "byte_value c = q * 64 + r"
      using False byte_value_bound [of c] by (auto simp: q_def r_def)
    have "utf8_encode (c # cs) = char_of (192 + q) # char_of (128 + r) # utf8_encode cs"
      using False by (simp add: q_def r_def)
    then have "utf8_decode (utf8_encode (c # cs)) = map_option (Cons (char_of (q * 64 + r))) (Some cs)"
      using q r Cons.IH by simp
    then show ?thesis by (simp flip: n)
  qed
qed simp

lemma base64_alphabet_facts:
  "length base64_alphabet = 64" "distinct (base64_alphabet @ ''+/'')"
  "CHR ''='' \<notin> set base64_alphabet" "CHR '':'' \<notin> set base64_alphabet"
  unfolding base64_alphabet_def by simp_all

lemma char_sextet_char [simp]: "char_sextet (sextet_char n) = Some (n mod 64)"
proof -
  let ?cs = "base64_alphabet @ ''+/''" and ?ns = "[0..<64] @ [62, 63 :: nat]"
  have "map_of (zip ?cs ?ns) (?cs ! (n mod 64)) = Some (?ns ! (n mod 64))"
    by (rule map_of_zip_nth) (simp_all add: base64_alphabet_facts del: distinct_append)
  then show ?thesis
    by (simp add: char_sextet_def sextet_char_def nth_append base64_alphabet_facts(1) del: upt_conv_Cons)
qed

lemma sextet_char_plain [simp]: "sextet_char n \<noteq> CHR ''=''" "sextet_char n \<noteq> CHR '':''"
proof -
  have "sextet_char n \<in> set base64_alphabet"
    by (simp add: sextet_char_def base64_alphabet_facts(1))
  then show "sextet_char n \<noteq> CHR ''=''" "sextet_char n \<noteq> CHR '':''"
    using base64_alphabet_facts(3,4) by auto
qed


lemma b64_padding: "length (b64encode bs) mod 4 = 0"
  by (induction bs rule: b64encode.induct) auto

lemma mixed_mod: "u < k \<Longrightarrow> (v * k + u) mod (m * k) = (v mod m) * k + (u :: nat)"
proof -
  assume u: "u < k"
  have "v * k + u = (v mod m) * k + u + (v div m) * (m * k)"
    by (metis add.assoc add.commute div_mult_mod_eq distrib_right mult.assoc)
  moreover have "(v mod m) * k + u < m * k" if "0 < m"
  proof -
    have "(v mod m) * k + u < (v mod m + 1) * k" using u by (simp add: distrib_right)
    also have "\<dots> \<le> m * k" using that by (intro mult_right_mono) (simp_all add: Suc_leI)
    finally show ?thesis .
  qed
  ultimately show ?thesis by (metis add_0_right mod_0 mod_by_0 mod_less mod_mult_self1 mult_0 neq0_conv)
qed

lemma sextets:
  "u < 16 \<Longrightarrow> (v * 16 + u) mod 64 = (v mod 4) * 16 + (u :: nat)"
  "u < 4 \<Longrightarrow> (v * 4 + u) mod 64 = (v mod 16) * 4 + (u :: nat)"
  using mixed_mod [of u 16 v 4] mixed_mod [of u 4 v 16] by simp_all

lemma whole_sextets:
  "(v * 16) mod 64 = (v mod 4) * (16 :: nat)" "(v * 4) mod 64 = (v mod 16) * (4 :: nat)"
  using sextets(1) [of 0 v] sextets(2) [of 0 v] by simp_all

lemma char_of_wrap: "char_of (k * 256 + byte_value b) = b"
proof -
  have "char_of (k * 256 + byte_value b) = char_of ((k * 256 + byte_value b) mod 256)"
    by (simp only: char_of_mod_256)
  also have "\<dots> = char_of (byte_value b mod 256)" by simp
  also have "\<dots> = b" by (simp only: char_of_mod_256 char_of_byte_value)
  finally show ?thesis .
qed

lemma char_of_wrap' [simp]: "char_of (byte_value b + 256 * k) = b"
  using char_of_wrap [of k b] by (simp add: ac_simps)

lemma b64encode_not_Nil: "bs \<noteq> [] \<Longrightarrow> \<exists>c cs. b64encode bs = c # cs \<and> c \<noteq> CHR ''=''"
  by (cases bs rule: b64encode.cases) simp_all

lemma b64_roundtrip [simp]: "b64decode (b64encode bs) = Some bs"
proof (induction bs rule: b64encode.induct)
  case (4 a b c bs)
  show ?case
  proof (cases "bs = []")
    case True
    then show ?thesis by (simp add: sextets char_of_wrap div_le_dividend less_mult_imp_div_less byte_value_bound)
  next
    case False
    from b64encode_not_Nil [OF this] obtain e es where "b64encode bs = e # es" "e \<noteq> CHR ''=''" by blast
    with 4 show ?thesis by (simp add: sextets char_of_wrap less_mult_imp_div_less byte_value_bound)
  qed
qed (simp_all add: sextets whole_sextets char_of_wrap less_mult_imp_div_less byte_value_bound)

lemma padding_group [simp]: "padding (a # b # c # d # s) = padding s"
  by (simp add: padding_def)

lemma padding_short [simp]:
  "padding [] = []" "padding [a, b] = ''==''" "padding [a, b, c] = ''=''"
  by (simp_all add: padding_def numeral_2_eq_2)

lemma padding_equals: "c \<in> set (padding s) \<Longrightarrow> c = CHR ''=''"
  by (simp add: padding_def split: if_split_asm)

lemma b64encode_shape:
  "\<exists>core. b64encode bs = core @ padding core \<and> (\<forall>c \<in> set core. c \<noteq> CHR ''='' \<and> c \<noteq> CHR '':'')"
proof (induction bs rule: b64encode.induct)
  case (2 a)
  show ?case
    by (rule exI [of _ "[sextet_char (byte_value a div 4), sextet_char (byte_value a * 16)]"]) simp
next
  case (3 a b)
  show ?case
    by (rule exI [of _ "[sextet_char (byte_value a div 4),
        sextet_char (byte_value a * 16 + byte_value b div 16), sextet_char (byte_value b * 4)]"]) simp
next
  case (4 a b c bs)
  then obtain core where core: "b64encode bs = core @ padding core"
    "\<forall>c \<in> set core. c \<noteq> CHR ''='' \<and> c \<noteq> CHR '':''" by blast
  show ?case
    by (rule exI [of _ "[sextet_char (byte_value a div 4),
        sextet_char (byte_value a * 16 + byte_value b div 16),
        sextet_char (byte_value b * 4 + byte_value c div 64), sextet_char (byte_value c)] @ core"])
      (simp add: core)
qed simp

lemma urlsafe_shape:
  "b64encode bs = urlsafe_b64encode bs @ padding (urlsafe_b64encode bs)"
  "\<forall>c \<in> set (urlsafe_b64encode bs). c \<noteq> CHR '':''"
proof -
  obtain core where core: "b64encode bs = core @ padding core"
    "\<forall>c \<in> set core. c \<noteq> CHR ''='' \<and> c \<noteq> CHR '':''" using b64encode_shape by blast
  have "dropWhile (\<lambda>c. c = CHR ''='') (rev (padding core) @ rev core) = rev core"
  proof -
    have "dropWhile (\<lambda>c. c = CHR ''='') (rev core) = rev core"
      using core(2) by (cases core rule: rev_cases) simp_all
    then show ?thesis by (subst dropWhile_append2) (auto dest: padding_equals)
  qed
  then have "urlsafe_b64encode bs = core" by (simp add: urlsafe_b64encode_def core(1))
  then show "b64encode bs = urlsafe_b64encode bs @ padding (urlsafe_b64encode bs)"
    "\<forall>c \<in> set (urlsafe_b64encode bs). c \<noteq> CHR '':''" using core by auto
qed

lemma urlsafe_roundtrip [simp]: "urlsafe_b64decode (urlsafe_b64encode bs) = Some bs"
  unfolding urlsafe_b64decode_def by (subst urlsafe_shape(1) [symmetric]) simp

section \<open>Sealing and opening\<close>

lemma partition_at_plain: "c \<notin> set s \<Longrightarrow> partition_at c (s @ c # t) = Some (s, t)"
  by (induction s) auto

lemma split_envelope_form:
  assumes "CHR '':'' \<notin> set version" "CHR '':'' \<notin> set nonce_b64"
  shows "split_envelope (''aeadv1:'' @ version @ '':'' @ nonce_b64 @ '':'' @ payload)
    = Some (version, nonce_b64, payload)"
  using partition_at_plain [OF assms(1)] partition_at_plain [OF assms(2)]
  by (simp add: split_envelope_def)

lemma make_cipher_ok:
  assumes "make_cipher v ring single = Inr c"
  shows "keys_by_version c = ring \<and> active_key_version c = strip v \<and> single_secret_key c = single
    \<and> map_of ring (strip v) \<noteq> None \<and> (\<forall>(u, k) \<in> set ring. length k \<in> set aead_key_lengths)"
proof -
  have "check_keys r = None \<Longrightarrow> \<forall>(u, k) \<in> set r. length k \<in> set aead_key_lengths" for r
    by (induction r rule: check_keys.induct) (auto split: if_split_asm)
  with assms show ?thesis
    by (auto simp: make_cipher_def Let_def split: if_split_asm option.split_asm)
qed

lemma from_config_ok:
  assumes "from_config cy v cfg sec = Inr c"
  shows "map_of (keys_by_version c) (active_key_version c) \<noteq> None
    \<and> (\<forall>(u, k) \<in> set (keys_by_version c). k \<noteq> [])"
proof -
  from assms obtain v' ring single where "make_cipher v' ring single = Inr c"
    by (auto simp: from_config_def Let_def split: sum.split_asm if_split_asm)
  from make_cipher_ok [OF this] show ?thesis by (auto simp: aead_key_lengths_def)
qed

lemma sealed_opens:
  assumes "from_config cy v cfg sec = Inr c" "from_config cy v' cfg' sec' = Inr c'"
    and "map_of (keys_by_version c') (active_key_version c) = map_of (keys_by_version c) (active_key_version c)"
    and "CHR '':'' \<notin> set (active_key_version c)" "length nonce = 12"
    and "\<And>k n p a. aes_decrypt cy k n (aes_encrypt cy k n p a) a = Some p"
  shows "\<exists>sealed. encrypt_secret cy sec v cfg nonce plaintext = Inr sealed
    \<and> decrypt_secret cy sec' v' cfg' sealed = Inr plaintext"
proof -
  from from_config_ok [OF assms(1)] obtain k where k: "map_of (keys_by_version c) (active_key_version c) = Some k" "k \<noteq> []"
    by (auto dest: map_of_SomeD)
  then have key: "key_for_version c' (active_key_version c) = Some k"
    using assms(3) by (simp add: key_for_version_def)
  let ?payload = "urlsafe_b64encode (aes_encrypt cy k nonce (utf8_encode plaintext)
    (associated_data (active_key_version c)))"
  have "CHR '':'' \<notin> set (urlsafe_b64encode nonce)" using urlsafe_shape(2) by blast
  from split_envelope_form [OF assms(4) this, of ?payload] key assms(5,6)
  have "decrypt cy c' (''aeadv1:'' @ active_key_version c @ '':'' @ urlsafe_b64encode nonce @ '':'' @ ?payload)
      = Inr plaintext"
    by (simp add: decrypt_def Let_def)
  with k(1) assms(1,2) show ?thesis by (simp add: encrypt_secret_def decrypt_secret_def encrypt_def)
qed


definition sample_crypto :: crypto where
  "sample_crypto = \<lparr>sha256_bytes = (\<lambda>b. replicate 32 CHR 0x00), json_loads = (\<lambda>s. Inl ValueError),
     aes_encrypt = (\<lambda>k n p a. a @ p), aes_decrypt = (\<lambda>k n p a. Some (drop (length a) p))\<rparr>"


definition decryption_failures :: "string list" where
  "decryption_failures = [''malformed_envelope'', ''unknown_key_version'', ''invalid_nonce'',
     ''invalid_payload'', ''integrity_check_failed'', ''invalid_plaintext'']"

text \<open>
  C26. Opening a stored secret ends in its plaintext or in one of six typed failures; in particular a
  text that AES-GCM does not authenticate under the key and the version named in its envelope is
  never returned.
\<close>

theorem decrypt_outcomes:
  "(\<exists>code. decrypt cy c ciphertext = Inl (RuntimeError code) \<and> code \<in> set decryption_failures)
   \<or> (\<exists>version n p key nonce payload bytes plaintext.
        split_envelope ciphertext = Some (version, n, p) \<and> key_for_version c version = Some key
        \<and> urlsafe_b64decode n = Some nonce \<and> length nonce = 12 \<and> urlsafe_b64decode p = Some payload
        \<and> aes_decrypt cy key nonce payload (associated_data version) = Some bytes
        \<and> utf8_decode bytes = Some plaintext \<and> decrypt cy c ciphertext = Inr plaintext)"
proof (cases "decrypt cy c ciphertext")
  case (Inl e)
  then show ?thesis
    by (auto simp: decrypt_def Let_def decryption_failures_def split: if_split_asm option.split_asm)
next
  case (Inr s)
  then show ?thesis
    by (auto simp: decrypt_def Let_def split: if_split_asm option.split_asm)
qed

end
