(* ===== verification/Actions.thy ===== *)
theory Actions
  imports Executor Secret_Cipher
begin

text \<open>
  The records an action leaves behind, \<open>src/ariel/action_runtime.py\<close> and the tables of
  \<open>src/ariel/persistence.py\<close> it writes: action attempts, approval requests, sealed private inputs,
  background tasks and turn events. A table is a list of rows in order of insertion; a unique index
  that an insert would break raises \<open>IntegrityError\<close>, as the database does.

  The clock, the id generator and the nonces are sequences the model reads one by one; the services
  of \<open>hashlib\<close>, \<open>json\<close> and \<open>jsonable_encoder\<close> are arguments. Times are microseconds.
\<close>

section \<open>Services\<close>

record services =
  service_env :: environment
  service_providers :: providers
  service_crypto :: crypto
  sha256_hex :: "string \<Rightarrow> string"
  json_dumps :: "json \<Rightarrow> string"
  jsonable_encoder :: "json \<Rightarrow> json"
  weather_default_setting :: "string option"
  now_at :: "nat \<Rightarrow> int"
  id_at :: "nat \<Rightarrow> string \<Rightarrow> string"
  nonce_at :: "nat \<Rightarrow> bytes"

record google_runtime =
  encryption_secret :: string
  encryption_key_version :: string
  encryption_keys :: "string option"

definition hash_of :: "services \<Rightarrow> json \<Rightarrow> string" where
  "hash_of rt = payload_hash (\<lambda>v. sha256_hex rt (json_dumps rt v))"

definition contract_hash_of :: "services \<Rightarrow> capability \<Rightarrow> string" where
  "contract_hash_of rt = capability_contract_hash (\<lambda>v. sha256_hex rt (json_dumps rt v))"

definition email_hash :: "services \<Rightarrow> string \<Rightarrow> string" where
  "email_hash rt value = sha256_hex rt value"

definition json_digest :: "services \<Rightarrow> json \<Rightarrow> string" where
  "json_digest rt v = email_hash rt (json_dumps rt (jsonable_encoder rt v))"

text \<open>\<open>to_rfc3339\<close> of a datetime in UTC; every datetime is within the calendar.\<close>

definition to_rfc3339 :: "int \<Rightarrow> string" where
  "to_rfc3339 t = (case of_micros t of Inl e \<Rightarrow> [] | Inr d \<Rightarrow> iso_z d)"

definition proceed :: "exn + 'a \<Rightarrow> ('a \<Rightarrow> exn + 'b) \<Rightarrow> exn + 'b" where
  "proceed r k = (case r of Inl e \<Rightarrow> Inl e | Inr v \<Rightarrow> k v)"

lemma proceed_simps [simp]: "proceed (Inl e) k = Inl e" "proceed (Inr v) k = k v"
  by (simp_all add: proceed_def)

lemma proceed_Inr [simp, result_simps]: "proceed r k = Inr y \<longleftrightarrow> (\<exists>v. r = Inr v \<and> k v = Inr y)"
  by (simp add: proceed_def split: sum.split)

section \<open>Tables\<close>

datatype attempt_status =
    Proposed | Refused | AwaitingApproval | ApprovedAction | DeniedAction | ExpiredAction
  | Executing | SucceededAction | FailedAction

datatype approval_status = Pending | Approved | Denied | Expired

definition approval_status_name :: "approval_status \<Rightarrow> string" where
  "approval_status_name s =
     (case s of Pending \<Rightarrow> ''pending'' | Approved \<Rightarrow> ''approved'' | Denied \<Rightarrow> ''denied'' | Expired \<Rightarrow> ''expired'')"

record action_attempt =
  at_id :: string
  at_turn_id :: string
  proposal_index :: int
  at_capability_id :: string
  at_capability_version :: string
  at_contract_hash :: string
  at_impact_level :: impact
  proposed_input :: json
  at_payload_hash :: string
  at_policy_decision :: policy
  policy_reason :: "string option"
  at_status :: attempt_status
  approval_required :: bool
  execution_output :: json
  execution_error :: "string option"
  at_created_at :: int
  at_updated_at :: int

record approval_request =
  ap_id :: string
  ap_attempt_id :: string
  ap_turn_id :: string
  actor_id :: string
  ap_status :: approval_status
  ap_payload_hash :: string
  expires_at :: int
  decision_reason :: "string option"
  decided_at :: "int option"
  ap_created_at :: int
  ap_updated_at :: int

record private_payload =
  pp_id :: string
  pp_attempt_id :: string
  payload_kind :: string
  payload_digest :: string
  payload_enc :: string
  pp_key_version :: string
  pp_created_at :: int
  pp_updated_at :: int

record background_task =
  task_id :: string
  task_type :: string
  idempotency_key :: "string option"
  provider_write_receipt_id :: "string option"
  task_payload :: json
  task_attempts :: int
  recurrence_seconds :: "int option"
  run_after :: int
  task_created_at :: int
  task_updated_at :: int

record weather_row =
  default_location :: string
  location_source :: string
  wr_created_at :: int
  wr_updated_at :: int

record world =
  attempts :: "action_attempt list"
  approvals :: "approval_request list"
  private_payloads :: "private_payload list"
  tasks :: "background_task list"
  events :: "event list"
  weather_row :: "weather_row option"
  clock :: nat
  serial :: nat

definition tick :: "services \<Rightarrow> world \<Rightarrow> int \<times> world" where
  "tick rt w = (now_at rt (clock w), w\<lparr>clock := Suc (clock w)\<rparr>)"

definition fresh_id :: "services \<Rightarrow> string \<Rightarrow> world \<Rightarrow> string \<times> world" where
  "fresh_id rt prefix w = (id_at rt (serial w) prefix, w\<lparr>serial := Suc (serial w)\<rparr>)"

definition find_attempt :: "world \<Rightarrow> string \<Rightarrow> action_attempt option" where
  "find_attempt w i = find (\<lambda>a. at_id a = i) (attempts w)"

definition find_approval :: "world \<Rightarrow> string \<Rightarrow> approval_request option" where
  "find_approval w i = find (\<lambda>a. ap_id a = i) (approvals w)"

text \<open>A changed row is written back over the row with its id.\<close>

definition save_attempt :: "action_attempt \<Rightarrow> world \<Rightarrow> world" where
  "save_attempt a w = w\<lparr>attempts := map (\<lambda>b. if at_id b = at_id a then a else b) (attempts w)\<rparr>"

definition save_approval :: "approval_request \<Rightarrow> world \<Rightarrow> world" where
  "save_approval a w = w\<lparr>approvals := map (\<lambda>b. if ap_id b = ap_id a then a else b) (approvals w)\<rparr>"

definition insert_attempt :: "action_attempt \<Rightarrow> world \<Rightarrow> exn + world" where
  "insert_attempt a w =
     (if proposal_index a \<le> 0 \<or> list_ex (\<lambda>b. at_id b = at_id a \<or>
          at_turn_id b = at_turn_id a \<and> proposal_index b = proposal_index a) (attempts w)
      then Inl IntegrityError else Inr (w\<lparr>attempts := attempts w @ [a]\<rparr>))"

definition insert_approval :: "approval_request \<Rightarrow> world \<Rightarrow> exn + world" where
  "insert_approval a w =
     (if list_ex (\<lambda>b. ap_id b = ap_id a \<or> ap_attempt_id b = ap_attempt_id a) (approvals w)
      then Inl IntegrityError else Inr (w\<lparr>approvals := approvals w @ [a]\<rparr>))"

definition insert_private_payload :: "private_payload \<Rightarrow> world \<Rightarrow> exn + world" where
  "insert_private_payload p w =
     (if list_ex (\<lambda>b. pp_id b = pp_id p \<or> pp_attempt_id b = pp_attempt_id p) (private_payloads w)
      then Inl IntegrityError else Inr (w\<lparr>private_payloads := private_payloads w @ [p]\<rparr>))"

definition add_turn_event :: "services \<Rightarrow> string \<Rightarrow> int \<Rightarrow> string \<Rightarrow> dict \<Rightarrow> world \<Rightarrow> world" where
  "add_turn_event rt turn_id sequence event_type payload w =
     (let (new_id, w) = fresh_id rt ''evn'' w; (now, w) = tick rt w
      in w\<lparr>events := append_turn_event (jsonable_encoder rt) (events w) turn_id sequence event_type
             (JObj payload) new_id now\<rparr>)"

section \<open>Background tasks\<close>

text \<open>The id of a task comes from the same generator as every other id.\<close>

definition enqueue_background_task ::
  "services \<Rightarrow> string \<Rightarrow> dict \<Rightarrow> int \<Rightarrow> string option \<Rightarrow> int option \<Rightarrow> int option \<Rightarrow> world
     \<Rightarrow> exn + (background_task \<times> world)" where
  "enqueue_background_task rt ttype payload now key after recurrence w =
     (case (case key of None \<Rightarrow> None | Some k \<Rightarrow> find (\<lambda>t. idempotency_key t = Some k) (tasks w)) of
        Some existing_task \<Rightarrow> Inr (existing_task, w)
      | None \<Rightarrow>
          proceed
            (if ttype = ''provider_write_reconcile_due'' then
               (case as_str (jget payload ''provider_write_receipt_id'') of
                  None \<Rightarrow> Inl (RuntimeError ''provider_write_reconcile_due task payload invalid'')
                | Some receipt_id \<Rightarrow>
                    if receipt_id = []
                    then Inl (RuntimeError ''provider_write_reconcile_due task payload invalid'')
                    else Inr (Some receipt_id))
             else Inr None) (\<lambda>receipt.
          let (new_id, w) = fresh_id rt ''tsk'' w;
              task = \<lparr>task_id = new_id, task_type = ttype, idempotency_key = key,
                provider_write_receipt_id = receipt, task_payload = JObj payload, task_attempts = 0,
                recurrence_seconds = recurrence,
                run_after = (case after of None \<Rightarrow> now | Some t \<Rightarrow> t),
                task_created_at = now, task_updated_at = now\<rparr>
          in if list_ex (\<lambda>t. task_id t = new_id \<or>
                   receipt \<noteq> None \<and> provider_write_receipt_id t = receipt) (tasks w)
             then Inl IntegrityError
             else Inr (task, w\<lparr>tasks := tasks w @ [task]\<rparr>)))"

definition enqueue_action_execution_task ::
  "services \<Rightarrow> action_attempt \<Rightarrow> world \<Rightarrow> exn + (background_task \<times> world)" where
  "enqueue_action_execution_task rt a w =
     (let (now, w) = tick rt w
      in enqueue_background_task rt ''execute_action_attempt''
           [(''action_attempt_id'', JStr (at_id a))] now None None None w)"

section \<open>Private inputs\<close>

text \<open>
  The body of a mail and the description of a calendar event are kept out of the attempt's row: a
  marker stands in for the text and the whole input is sealed in its own table.
\<close>

definition google_private_input_keys :: "string \<Rightarrow> string list" where
  "google_private_input_keys cid =
     (if List.member [''cap.email.draft'', ''cap.email.send''] cid then [''body'']
      else if List.member [''cap.calendar.create_event'', ''cap.calendar.update_event''] cid
      then [''description'']
      else [])"

definition private_payload_marker :: "services \<Rightarrow> string \<Rightarrow> json" where
  "private_payload_marker rt value =
     JObj [(''redacted'', JBool True), (''digest'', JStr (email_hash rt value)),
       (''char_count'', JInt (int (length value))), (''private_payload'', JBool True)]"

fun mark_private_keys :: "services \<Rightarrow> string list \<Rightarrow> dict \<Rightarrow> bool \<Rightarrow> dict \<times> bool" where
  "mark_private_keys rt [] stored needed = (stored, needed)"
| "mark_private_keys rt (key # rest) stored needed =
     (case as_str (jget stored key) of
        None \<Rightarrow> mark_private_keys rt rest stored needed
      | Some value \<Rightarrow>
          mark_private_keys rt rest (AList.update key (private_payload_marker rt value) stored) True)"

definition stored_action_input_payload :: "services \<Rightarrow> string \<Rightarrow> dict \<Rightarrow> dict \<times> dict option" where
  "stored_action_input_payload rt cid input_payload =
     (let private_keys = google_private_input_keys cid
      in if private_keys = [] then (input_payload, None)
         else let (stored, needed) = mark_private_keys rt private_keys input_payload False
              in (stored, if needed then Some input_payload else None))"

definition store_action_private_payload ::
  "services \<Rightarrow> action_attempt \<Rightarrow> dict \<Rightarrow> google_runtime \<Rightarrow> int \<Rightarrow> world \<Rightarrow> exn + world" where
  "store_action_private_payload rt a private google now w =
     (let (new_id, w) = fresh_id rt ''app'' w;
          nonce = nonce_at rt (serial w)
      in proceed (encrypt_secret (service_crypto rt) (encryption_secret google)
             (encryption_key_version google) (encryption_keys google) nonce
             (json_dumps rt (jsonable_encoder rt (JObj private)))) (\<lambda>enc.
         insert_private_payload
           \<lparr>pp_id = new_id, pp_attempt_id = at_id a, payload_kind = ''google_provider_write_input'',
             payload_digest = json_digest rt (JObj private), payload_enc = enc,
             pp_key_version = encryption_key_version google, pp_created_at = now, pp_updated_at = now\<rparr> w))"

text \<open>The loop over the private keys: an error, or whether a sealed payload is needed.\<close>

fun scan_private_keys :: "string list \<Rightarrow> dict \<Rightarrow> bool \<Rightarrow> string + bool" where
  "scan_private_keys [] stored needed = Inr needed"
| "scan_private_keys (key # rest) stored needed =
     (case jget stored key of
        JStr value \<Rightarrow> Inl ''private_action_payload_not_sealed''
      | JObj d \<Rightarrow> scan_private_keys rest stored (needed \<or> jget d ''private_payload'' = JBool True)
      | _ \<Rightarrow> scan_private_keys rest stored needed)"

text \<open>
  What opening the sealed row gives: the decoded JSON value, or \<open>Inl\<close> when the decryption or the
  parser raises one of the exceptions the code catches.
\<close>

definition unsealed_payload :: "services \<Rightarrow> google_runtime \<Rightarrow> private_payload \<Rightarrow> exn + json" where
  "unsealed_payload rt google p =
     proceed (decrypt_secret (service_crypto rt) (encryption_secret google)
       (encryption_key_version google) (encryption_keys google) (payload_enc p))
     (json_loads (service_crypto rt))"

definition opened_payload ::
  "services \<Rightarrow> action_attempt \<Rightarrow> private_payload \<Rightarrow> json \<Rightarrow> string + dict" where
  "opened_payload rt a p decoded =
     (if as_dict decoded = None then Inl ''private_action_payload_invalid''
      else case as_dict (jsonable_encoder rt decoded) of
        None \<Rightarrow> Inl ''private_action_payload_invalid''
      | Some full_payload \<Rightarrow>
          if json_digest rt (JObj full_payload) \<noteq> payload_digest p
          then Inl ''private_action_payload_digest_mismatch''
          else if hash_of rt (canonical_action_payload (at_capability_id a) full_payload) \<noteq> at_payload_hash a
          then Inl ''private_action_payload_hash_mismatch''
          else Inr full_payload)"

definition full_action_input_payload ::
  "services \<Rightarrow> world \<Rightarrow> action_attempt \<Rightarrow> google_runtime option \<Rightarrow> exn + (string + dict)" where
  "full_action_input_payload rt w a google =
     (case as_dict (proposed_input a) of
        None \<Rightarrow> Inr (Inl ''action_input_invalid'')
      | Some stored_payload \<Rightarrow>
         (case scan_private_keys (google_private_input_keys (at_capability_id a)) stored_payload False of
            Inl e \<Rightarrow> Inr (Inl e)
          | Inr False \<Rightarrow> Inr (Inr stored_payload)
          | Inr True \<Rightarrow>
             (case google of
                None \<Rightarrow> Inr (Inl ''google_runtime_not_bound'')
              | Some runtime \<Rightarrow>
                 (case find (\<lambda>p. pp_attempt_id p = at_id a \<and> payload_kind p = ''google_provider_write_input'')
                          (private_payloads w) of
                    None \<Rightarrow> Inr (Inl ''private_action_payload_missing'')
                  | Some p \<Rightarrow>
                     (case unsealed_payload rt runtime p of
                        Inr decoded \<Rightarrow> Inr (opened_payload rt a p decoded)
                      | Inl ValueError \<Rightarrow> Inr (Inl ''private_action_payload_unreadable'')
                      | Inl (RuntimeError m) \<Rightarrow> Inr (Inl ''private_action_payload_unreadable'')
                      | Inl e \<Rightarrow> Inl e)))))"

section \<open>Failures\<close>

definition append_action_execution_event ::
  "services \<Rightarrow> action_attempt \<Rightarrow> string \<Rightarrow> dict \<Rightarrow> world \<Rightarrow> world" where
  "append_action_execution_event rt a event_type payload w =
     add_turn_event rt (at_turn_id a) (next_turn_event_sequence (events w) (at_turn_id a)) event_type payload w"

definition or_null_ref :: "approval_request option \<Rightarrow> json" where
  "or_null_ref ap = (case ap of None \<Rightarrow> JNull | Some a \<Rightarrow> JStr (ap_id a))"

definition fail_action_execution ::
  "services \<Rightarrow> action_attempt \<Rightarrow> string \<Rightarrow> json \<Rightarrow> world \<Rightarrow> world" where
  "fail_action_execution rt a error output w =
     (let (now, w) = tick rt w;
          a = a\<lparr>at_status := FailedAction, execution_output := output, execution_error := Some error,
            at_updated_at := now\<rparr>;
          w = save_attempt a w
      in append_action_execution_event rt a ''evt.action.execution.failed''
           [(''action_attempt_id'', JStr (at_id a)), (''error'', JStr error), (''output'', output),
            (''approval_ref'', or_null_ref (find (\<lambda>ap. ap_attempt_id ap = at_id a) (approvals w)))] w)"

definition execution_integrity_error :: "services \<Rightarrow> action_attempt \<Rightarrow> capability \<Rightarrow> string option" where
  "execution_integrity_error rt a c =
     (if at_capability_id a \<noteq> capability_id c then Some ''integrity_mismatch:capability_id''
      else if at_capability_version a \<noteq> version c then Some ''integrity_mismatch:capability_version''
      else if at_contract_hash a \<noteq> contract_hash_of rt c then Some ''integrity_mismatch:capability_contract''
      else None)"

section \<open>Tables with keys\<close>

lemma find_distinct:
  "distinct (map k rs) \<Longrightarrow> r \<in> set rs \<Longrightarrow> find (\<lambda>q. k q = k r) rs = Some r"
  by (induction rs) auto

text \<open>
  What the operations need of a table whose rows are found by a key and written back over it. The
  attempts and the approvals are such tables.
\<close>

locale keyed_table =
  fixes key :: "'r \<Rightarrow> string" and rows :: "'w \<Rightarrow> 'r list"
    and lookup :: "'w \<Rightarrow> string \<Rightarrow> 'r option" and save :: "'r \<Rightarrow> 'w \<Rightarrow> 'w"
  assumes lookup_rows: "lookup w i = find (\<lambda>r. key r = i) (rows w)"
    and rows_save: "rows (save r w) = map (\<lambda>q. if key q = key r then r else q) (rows w)"
begin

lemma lookup_Some: "lookup w i = Some r \<Longrightarrow> key r = i \<and> r \<in> set (rows w)"
  by (auto simp: lookup_rows find_Some_iff)

lemma lookup_None: "lookup w i = None \<longleftrightarrow> (\<forall>r \<in> set (rows w). key r \<noteq> i)"
  by (auto simp: lookup_rows find_None_iff)

lemma keys_save [simp]: "map key (rows (save r w)) = map key (rows w)"
  by (simp add: rows_save)

lemma save_member: "q \<in> set (rows (save r w)) \<Longrightarrow> q = r \<or> q \<in> set (rows w) \<and> key q \<noteq> key r"
  by (auto simp: rows_save)

lemma save_other: "q \<in> set (rows w) \<Longrightarrow> key q \<noteq> key r \<Longrightarrow> q \<in> set (rows (save r w))"
  by (force simp: rows_save)

lemma save_stored: "lookup w (key r) \<noteq> None \<Longrightarrow> r \<in> set (rows (save r w))"
  by (auto simp: lookup_rows find_None_iff rows_save image_iff)

lemma find_map_key:
  "(\<And>q. key (f q) = key q) \<Longrightarrow> find (\<lambda>q. key q = i) (map f qs) = map_option f (find (\<lambda>q. key q = i) qs)"
  by (induction qs) auto

lemma lookup_save:
  "lookup (save r w) i = (if i = key r \<and> lookup w i \<noteq> None then Some r else lookup w i)"
proof -
  have "lookup (save r w) i = map_option (\<lambda>q. if key q = key r then r else q) (lookup w i)"
    unfolding lookup_rows rows_save by (rule find_map_key) simp
  then show ?thesis using lookup_Some [of w i] by (cases "lookup w i") auto
qed

lemma rows_save_save: "key r = key r' \<Longrightarrow> rows (save r (save r' w)) = rows (save r w)"
  by (simp add: rows_save comp_def cong: if_cong)

lemma rows_save_cong: "rows w = rows w' \<Longrightarrow> rows (save r w) = rows (save r w')"
  by (simp add: rows_save)

lemma lookup_distinct:
  "distinct (map key (rows w)) \<Longrightarrow> r \<in> set (rows w) \<Longrightarrow> lookup w (key r) = Some r"
  unfolding lookup_rows by (rule find_distinct)

end

interpretation attempt_table: keyed_table at_id attempts find_attempt save_attempt
  by unfold_locales (simp_all add: find_attempt_def save_attempt_def)

interpretation approval_table: keyed_table ap_id approvals find_approval save_approval
  by unfold_locales (simp_all add: find_approval_def save_approval_def)

section \<open>What each step leaves alone\<close>

lemma tick_simps [simp]:
  "fst (tick rt w) = now_at rt (clock w)" "attempts (snd (tick rt w)) = attempts w"
  "approvals (snd (tick rt w)) = approvals w" "tasks (snd (tick rt w)) = tasks w"
  "private_payloads (snd (tick rt w)) = private_payloads w" "events (snd (tick rt w)) = events w"
  by (simp_all add: tick_def)

lemma fresh_id_simps [simp]:
  "fst (fresh_id rt p w) = id_at rt (serial w) p" "attempts (snd (fresh_id rt p w)) = attempts w"
  "approvals (snd (fresh_id rt p w)) = approvals w" "tasks (snd (fresh_id rt p w)) = tasks w"
  "private_payloads (snd (fresh_id rt p w)) = private_payloads w" "events (snd (fresh_id rt p w)) = events w"
  by (simp_all add: fresh_id_def)

lemma save_attempt_simps [simp]:
  "approvals (save_attempt a w) = approvals w" "tasks (save_attempt a w) = tasks w"
  "private_payloads (save_attempt a w) = private_payloads w" "events (save_attempt a w) = events w"
  "clock (save_attempt a w) = clock w" "serial (save_attempt a w) = serial w"
  by (simp_all add: save_attempt_def)

lemma save_approval_simps [simp]:
  "attempts (save_approval a w) = attempts w" "tasks (save_approval a w) = tasks w"
  "private_payloads (save_approval a w) = private_payloads w" "events (save_approval a w) = events w"
  "clock (save_approval a w) = clock w" "serial (save_approval a w) = serial w"
  by (simp_all add: save_approval_def)

lemma add_turn_event_simps [simp]:
  "attempts (add_turn_event rt t q y p w) = attempts w" "approvals (add_turn_event rt t q y p w) = approvals w"
  "tasks (add_turn_event rt t q y p w) = tasks w"
  "private_payloads (add_turn_event rt t q y p w) = private_payloads w"
  by (simp_all add: add_turn_event_def Let_def split_beta)

lemma add_turn_event_events:
  "\<exists>e. events (add_turn_event rt t q y p w) = events w @ [e] \<and> ev_turn_id e = t \<and> ev_sequence e = q
     \<and> ev_type e = y \<and> ev_payload e = jsonable_encoder rt (JObj p)"
  by (simp add: add_turn_event_def Let_def split_beta append_turn_event_def)

lemma finds_simps [simp]:
  "find_attempt (snd (tick rt w)) = find_attempt w" "find_approval (snd (tick rt w)) = find_approval w"
  "find_attempt (save_approval ap w) = find_attempt w" "find_approval (save_attempt a w) = find_approval w"
  "find_attempt (add_turn_event rt t q y p w) = find_attempt w"
  "find_approval (add_turn_event rt t q y p w) = find_approval w"
  by (simp_all add: find_attempt_def find_approval_def fun_eq_iff)

lemma full_action_input_payload_cong:
  assumes "private_payloads w = private_payloads w'"
  shows "full_action_input_payload rt w a google = full_action_input_payload rt w' a google"
  unfolding full_action_input_payload_def assms ..

text \<open>A queued task: one new row, and nothing else of the world that the actions read.\<close>

lemma enqueue_new_task:
  assumes "enqueue_background_task rt ty p now None after r w = Inr (task, w')"
  shows "tasks w' = tasks w @ [task]" "attempts w' = attempts w" "approvals w' = approvals w"
    "private_payloads w' = private_payloads w" "events w' = events w"
    "task_type task = ty" "task_payload task = JObj p" "task_attempts task = 0"
    "\<forall>t \<in> set (tasks w). task_id t \<noteq> task_id task"
  using assms
  by (auto simp: enqueue_background_task_def Let_def split_beta list_ex_iff split: if_split_asm option.split_asm)

lemma enqueue_execution:
  assumes "enqueue_action_execution_task rt a w = Inr (task, w')"
  shows "tasks w' = tasks w @ [task]" "attempts w' = attempts w" "approvals w' = approvals w"
    "private_payloads w' = private_payloads w" "events w' = events w"
    "task_type task = ''execute_action_attempt''"
    "task_payload task = JObj [(''action_attempt_id'', JStr (at_id a))]" "task_attempts task = 0"
    "\<forall>t \<in> set (tasks w). task_id t \<noteq> task_id task"
  using enqueue_new_task [where w = "snd (tick rt w)"] assms
  by (auto simp: enqueue_action_execution_task_def Let_def split_beta)

section \<open>Sample services\<close>

definition sample_services :: services where
  "sample_services = \<lparr>service_env = sample_env, service_providers = sample_providers,
     service_crypto = sample_crypto, sha256_hex = (\<lambda>s. s), json_dumps = (\<lambda>v. []),
     jsonable_encoder = (\<lambda>v. v), weather_default_setting = Some '' Rome '',
     now_at = int, id_at = (\<lambda>n prefix. prefix @ replicate n (CHR ''1'')),
     nonce_at = (\<lambda>n. replicate 12 CHR ''n'')\<rparr>"

definition empty_world :: world where
  "empty_world = \<lparr>attempts = [], approvals = [], private_payloads = [], tasks = [], events = [],
     weather_row = None, clock = 0, serial = 0\<rparr>"

end
