(* ===== verification/Discord_Actions.thy ===== *)
theory Discord_Actions
  imports Ariel_Prelude
begin

text \<open>
  \<open>src/ariel/discord_actions.py\<close>: the custom id a Discord approval button carries, printed by the
  worker when it delivers a pending approval and parsed by the bot when the button is pressed.
\<close>

datatype approval_decision = Approve | DenyRequest

definition APPROVAL_CUSTOM_ID_PREFIX :: string where
  "APPROVAL_CUSTOM_ID_PREFIX = ''ariel:approval:''"

fun decision_text :: "approval_decision \<Rightarrow> string" where
  "decision_text Approve = ''approve''"
| "decision_text DenyRequest = ''deny''"

definition approval_custom_id :: "approval_decision \<Rightarrow> string \<Rightarrow> exn + string" where
  "approval_custom_id decision approval_ref =
     (let normalized_ref = strip approval_ref
      in if normalized_ref = [] then Inl ValueError
         else Inr (APPROVAL_CUSTOM_ID_PREFIX @ decision_text decision @ '':'' @ normalized_ref))"

definition is_ariel_custom_id :: "string \<Rightarrow> bool" where
  "is_ariel_custom_id custom_id = starts_with APPROVAL_CUSTOM_ID_PREFIX custom_id"

definition parse_approval_custom_id :: "string \<Rightarrow> (approval_decision \<times> string) option" where
  "parse_approval_custom_id custom_id =
     (if \<not> is_ariel_custom_id custom_id then None
      else case partition_at CHR '':'' (drop (length APPROVAL_CUSTOM_ID_PREFIX) custom_id) of
        None \<Rightarrow> None
      | Some (dtext, approval_ref) \<Rightarrow>
          let normalized_ref = strip approval_ref
          in if dtext \<notin> {''approve'', ''deny''} \<or> normalized_ref = [] then None
             else Some (if dtext = ''approve'' then Approve else DenyRequest, normalized_ref))"

lemma partition_at_decision: "partition_at CHR '':'' (decision_text d @ CHR '':'' # r) = Some (decision_text d, r)"
  by (cases d) simp_all

lemma parse_printed:
  "parse_approval_custom_id (APPROVAL_CUSTOM_ID_PREFIX @ decision_text d @ '':'' @ r)
   = (if strip r = [] then None else Some (d, strip r))"
  by (cases d) (simp_all add: parse_approval_custom_id_def is_ariel_custom_id_def starts_with_iff Let_def
      partition_at_decision [of Approve, simplified] partition_at_decision [of DenyRequest, simplified])

lemma parsed_ref: "parse_approval_custom_id cid = Some (d, r) \<Longrightarrow> strip r = r \<and> r \<noteq> []"
  by (auto simp: parse_approval_custom_id_def Let_def split: if_splits option.splits)

text \<open>
  C40. Button ids round-trip: whatever \<open>approval_custom_id\<close> prints for a decision and a reference, the
  bot recognises as Ariel's and parses back to that decision and the trimmed reference; a blank
  reference is refused with \<open>ValueError\<close> instead of printing an id that would not parse.
\<close>

theorem approval_custom_id_roundtrip:
  "case approval_custom_id d r of
     Inl e \<Rightarrow> e = ValueError \<and> strip r = []
   | Inr cid \<Rightarrow> is_ariel_custom_id cid \<and> parse_approval_custom_id cid = Some (d, strip r)"
  using parse_printed [of d "strip r"]
  by (auto simp: approval_custom_id_def Let_def is_ariel_custom_id_def starts_with_iff)

text \<open>
  Parsing is sound: an id that parses names a decision and a trimmed non-blank reference, and
  printing them gives a canonical id that parses to the same pair; so no two decisions share an id.
\<close>

theorem parse_approval_custom_id_canonical:
  assumes "parse_approval_custom_id cid = Some (d, r)"
  shows "approval_custom_id d r = Inr (APPROVAL_CUSTOM_ID_PREFIX @ decision_text d @ '':'' @ r)
    \<and> parse_approval_custom_id (APPROVAL_CUSTOM_ID_PREFIX @ decision_text d @ '':'' @ r) = Some (d, r)"
  using parsed_ref [OF assms] parse_printed [of d r] by (simp add: approval_custom_id_def)

theorem parse_approval_custom_id_canonical_witness:
  "approval_custom_id DenyRequest ''apr_1'' = Inr ''ariel:approval:deny:apr_1''"
proof -
  have h: "parse_approval_custom_id ''ariel:approval:deny: apr_1 '' = Some (DenyRequest, ''apr_1'')" by code_simp
  show ?thesis
    using parse_approval_custom_id_canonical [OF h] by (simp add: APPROVAL_CUSTOM_ID_PREFIX_def)
qed

end
