(* ===== verification/Approvals.thy ===== *)
theory Approvals
  imports Actions Discord_Actions
begin

text \<open>
  Deciding approvals, \<open>src/ariel/action_runtime.py\<close>: the expiry of a pending approval, the
  reconciliation of overdue ones, and \<open>resolve_approval_decision\<close>. The outcome of a decision is an
  uncaught exception (the transaction is rolled back, so no world is returned), or a new world with a
  typed \<open>ActionRuntimeError\<close> or a decision result.
\<close>

section \<open>Outcomes\<close>

record action_error =
  status_code :: int
  error_code :: string
  error_message :: string
  error_details :: dict
  retryable :: bool

record decision_result =
  decided_approval :: approval_request
  decided_attempt :: action_attempt
  assistant_message :: string
  execution_task_id :: "string option"

type_synonym decided = "exn + world \<times> (action_error + decision_result)"

definition refuse :: "world \<Rightarrow> int \<Rightarrow> string \<Rightarrow> string \<Rightarrow> dict \<Rightarrow> decided" where
  "refuse w status ecode message details =
     Inr (w, Inl \<lparr>status_code = status, error_code = ecode, error_message = message,
       error_details = details, retryable = False\<rparr>)"

definition typed_auth_recovery :: "(string \<times> string) list" where
  "typed_auth_recovery =
     [(''not_connected'', ''Connect Google to continue.''),
      (''consent_required'', ''Reconnect Google and grant the requested scope.''),
      (''scope_missing'', ''Reconnect Google and re-consent to required scopes.''),
      (''token_expired'', ''Retry once; if it still fails, reconnect Google.''),
      (''access_revoked'', ''Reconnect Google from scratch.'')]"

definition typed_provider_recovery :: "(string \<times> string) list" where
  "typed_provider_recovery =
     [(''provider_timeout'', ''Provider timed out. Retry shortly.''),
      (''provider_network_failure'', ''Provider network request failed. Retry shortly.''),
      (''provider_rate_limited'', ''Provider rate limited this request. Wait briefly, then retry.''),
      (''provider_upstream_failure'', ''Provider is degraded right now. Retry shortly.''),
      (''provider_permission_denied'', ''Provider denied access. Verify scopes, API key restrictions, or file permissions and retry.''),
      (''provider_request_rejected'', ''Provider rejected this request. Verify inputs and retry.''),
      (''resource_unavailable'', ''The provider resource is unavailable. Verify ID and access, then retry.''),
      (''provider_invalid_payload'', ''Provider returned an invalid payload. Retry shortly.''),
      (''provider_unreachable'', ''Provider could not be reached. Retry shortly.'')]"

definition approval_execution_failure_message :: "string \<Rightarrow> string" where
  "approval_execution_failure_message error =
     (let reason = (if strip error = [] then ''execution_failed'' else strip error);
          reason = (if starts_with ''integrity_mismatch'' reason
                    then ''integrity mismatch'' @ drop (length ''integrity_mismatch'') reason else reason);
          recovery = (case map_of typed_auth_recovery reason of
                        None \<Rightarrow> map_of typed_provider_recovery reason | Some r \<Rightarrow> Some r);
          message = ''approval recorded, but action execution failed: '' @ reason
      in case recovery of None \<Rightarrow> message | Some r \<Rightarrow> message @ ''. '' @ r)"

section \<open>Expiry\<close>

definition mark_approval_expired ::
  "services \<Rightarrow> approval_request \<Rightarrow> action_attempt \<Rightarrow> int \<Rightarrow> world \<Rightarrow> exn + world" where
  "mark_approval_expired rt ap a now w =
     (if ap_status ap \<noteq> Pending then Inl (RuntimeError ''expiry reconciliation requires a pending approval'')
      else if ap_attempt_id ap \<noteq> at_id a
      then Inl (RuntimeError ''approval/action attempt mismatch during expiry reconciliation'')
      else if ap_turn_id ap \<noteq> at_turn_id a
      then Inl (RuntimeError ''approval/action attempt scope mismatch during expiry reconciliation'')
      else
        let w = save_approval (ap\<lparr>ap_status := Expired, decision_reason := Some ''approval_expired'',
                  decided_at := Some now, ap_updated_at := now\<rparr>) w;
            w = save_attempt (a\<lparr>at_status := ExpiredAction, policy_reason := Some ''approval_expired'',
                  at_updated_at := now\<rparr>) w
        in Inr (add_turn_event rt (ap_turn_id ap) (next_turn_event_sequence (events w) (ap_turn_id ap))
             ''evt.action.approval.expired''
             [(''action_attempt_id'', JStr (at_id a)), (''approval_ref'', JStr (ap_id ap)),
              (''reason'', JStr ''approval_expired'')] w))"

text \<open>The query: pending and overdue, in order of expiry and then id.\<close>

definition overdue :: "int \<Rightarrow> approval_request \<Rightarrow> bool" where
  "overdue now ap \<longleftrightarrow> ap_status ap = Pending \<and> expires_at ap < now"

definition overdue_approvals :: "int \<Rightarrow> world \<Rightarrow> approval_request list" where
  "overdue_approvals now w =
     sort_key expires_at (sort_key ap_id (filter (overdue now) (approvals w)))"

fun reconcile_each :: "services \<Rightarrow> int \<Rightarrow> approval_request list \<Rightarrow> int \<Rightarrow> world \<Rightarrow> exn + (int \<times> world)" where
  "reconcile_each rt now [] reconciled_count w = Inr (reconciled_count, w)"
| "reconcile_each rt now (ap # rest) reconciled_count w =
     (case find_attempt w (ap_attempt_id ap) of
        None \<Rightarrow> Inl (RuntimeError ''approval references missing action attempt'')
      | Some a \<Rightarrow>
          proceed (mark_approval_expired rt ap a now w) (\<lambda>w.
          reconcile_each rt now rest (reconciled_count + 1) w))"

definition reconcile_expired_approvals :: "services \<Rightarrow> world \<Rightarrow> exn + (int \<times> world)" where
  "reconcile_expired_approvals rt w =
     (let (now, w) = tick rt w in reconcile_each rt now (overdue_approvals now w) 0 w)"

section \<open>Decisions\<close>

definition reason_or :: "string option \<Rightarrow> string \<Rightarrow> string" where
  "reason_or reason fallback =
     (case reason of None \<Rightarrow> fallback | Some r \<Rightarrow> if r = [] then fallback else r)"

definition about_approval :: "action_attempt \<Rightarrow> approval_request \<Rightarrow> dict" where
  "about_approval a ap = [(''action_attempt_id'', JStr (at_id a)), (''approval_ref'', JStr (ap_id ap))]"

text \<open>
  The three ways a pending approval is voided while it is being decided (an unreadable or changed
  payload, a changed policy) write the same rows and the same event.
\<close>

definition void_approval ::
  "services \<Rightarrow> int \<Rightarrow> int \<Rightarrow> approval_request \<Rightarrow> action_attempt \<Rightarrow> string \<Rightarrow> string \<Rightarrow> string \<Rightarrow> world \<Rightarrow> world" where
  "void_approval rt now sequence ap a reason error preason w =
     (let w = save_approval (ap\<lparr>ap_status := Expired, decision_reason := Some reason,
                decided_at := Some now, ap_updated_at := now\<rparr>) w;
          w = save_attempt (a\<lparr>at_status := FailedAction, execution_error := Some error,
                policy_reason := Some preason, at_updated_at := now\<rparr>) w
      in add_turn_event rt (ap_turn_id ap) (sequence + 1) ''evt.action.execution.failed''
           (about_approval a ap @ [(''error'', JStr error)]) w)"

definition deny_approval ::
  "services \<Rightarrow> int \<Rightarrow> int \<Rightarrow> string option \<Rightarrow> approval_request \<Rightarrow> action_attempt \<Rightarrow> world \<Rightarrow> decided" where
  "deny_approval rt now sequence reason ap a w =
     (let ap = ap\<lparr>ap_status := Denied, decision_reason := Some (reason_or reason ''denied_by_actor''),
            decided_at := Some now, ap_updated_at := now\<rparr>;
          a = a\<lparr>at_status := DeniedAction, policy_reason := Some ''approval_denied'', at_updated_at := now\<rparr>;
          w = save_attempt a (save_approval ap w);
          w = add_turn_event rt (ap_turn_id ap) (sequence + 1) ''evt.action.approval.denied''
            (about_approval a ap @ [(''actor_id'', JStr (actor_id ap)),
              (''reason'', JStr (reason_or reason ''denied_by_actor''))]) w
      in Inr (w, Inr \<lparr>decided_approval = ap, decided_attempt = a,
           assistant_message = ''approval denied. action was not executed.'', execution_task_id = None\<rparr>))"

text \<open>An approved action that cannot be executed after all.\<close>

definition fail_approved ::
  "services \<Rightarrow> int \<Rightarrow> approval_request \<Rightarrow> action_attempt \<Rightarrow> string \<Rightarrow> string \<Rightarrow> world \<Rightarrow> decided" where
  "fail_approved rt sequence ap a error preason w =
     (let (later, w) = tick rt w;
          a = a\<lparr>at_status := FailedAction, execution_error := Some error, policy_reason := Some preason,
            at_updated_at := later\<rparr>;
          w = add_turn_event rt (ap_turn_id ap) (sequence + 2) ''evt.action.execution.failed''
            [(''action_attempt_id'', JStr (at_id a)), (''error'', JStr error)] (save_attempt a w)
      in Inr (w, Inr \<lparr>decided_approval = ap, decided_attempt = a,
           assistant_message = approval_execution_failure_message
             (if error = [] then ''execution_failed'' else error), execution_task_id = None\<rparr>))"

definition start_approved ::
  "services \<Rightarrow> int \<Rightarrow> approval_request \<Rightarrow> action_attempt \<Rightarrow> world \<Rightarrow> decided" where
  "start_approved rt sequence ap a w =
     (let (later, w) = tick rt w;
          a = a\<lparr>at_status := Executing, at_updated_at := later\<rparr>
      in proceed (enqueue_action_execution_task rt a (save_attempt a w)) (\<lambda>(task, w).
         let w = add_turn_event rt (ap_turn_id ap) (sequence + 2) ''evt.action.execution.started''
               [(''action_attempt_id'', JStr (at_id a)), (''capability_id'', JStr (at_capability_id a)),
                (''task_id'', JStr (task_id task))] w
         in Inr (w, Inr \<lparr>decided_approval = ap, decided_attempt = a,
              assistant_message = ''approval recorded. action execution queued.'',
              execution_task_id = Some (task_id task)\<rparr>)))"

text \<open>The approval is recorded; then the capability is checked once more before the task is queued.\<close>

definition execute_approved ::
  "services \<Rightarrow> int \<Rightarrow> approval_request \<Rightarrow> action_attempt \<Rightarrow> dict \<Rightarrow> world \<Rightarrow> decided" where
  "execute_approved rt sequence ap a full_input w =
     proceed (get_capability (service_env rt) (service_providers rt) (at_capability_id a)) (\<lambda>capability.
     case capability of
       None \<Rightarrow> fail_approved rt sequence ap a ''unknown_capability'' ''unknown_capability'' w
     | Some c \<Rightarrow>
        (case execution_integrity_error rt a c of
           Some e \<Rightarrow> fail_approved rt sequence ap a e ''integrity_mismatch'' w
         | None \<Rightarrow>
            (case validate_input c full_input of
               Inl (Raised e) \<Rightarrow> Inl e
             | Inl (Rejected ecode) \<Rightarrow> fail_approved rt sequence ap a ''schema_invalid'' ''schema_invalid'' w
             | Inr normalized_input \<Rightarrow>
                (case preflight_capability_execution c normalized_input of
                   Inl (Raised e) \<Rightarrow> Inl e
                 | Inl (Rejected e) \<Rightarrow> fail_approved rt sequence ap a e e w
                 | Inr _ \<Rightarrow> start_approved rt sequence ap a w))))"

definition record_approval ::
  "services \<Rightarrow> int \<Rightarrow> int \<Rightarrow> string option \<Rightarrow> approval_request \<Rightarrow> action_attempt \<Rightarrow> dict \<Rightarrow> world \<Rightarrow> decided" where
  "record_approval rt now sequence reason ap a full_input w =
     (let ap = ap\<lparr>ap_status := Approved, decision_reason := Some (reason_or reason ''approved_by_actor''),
            decided_at := Some now, ap_updated_at := now\<rparr>;
          a = a\<lparr>at_status := ApprovedAction, policy_reason := Some ''approval_approved'', at_updated_at := now\<rparr>;
          w = save_attempt a (save_approval ap w);
          w = add_turn_event rt (ap_turn_id ap) (sequence + 1) ''evt.action.approval.approved''
            (about_approval a ap @ [(''actor_id'', JStr (actor_id ap))]) w
      in execute_approved rt sequence ap a full_input w)"

definition revalidated :: "services \<Rightarrow> action_attempt \<Rightarrow> dict \<Rightarrow> exn + evaluation" where
  "revalidated rt a full_input =
     (let untrusted = (policy_reason a = Some ''taint_escalated_requires_approval'')
      in evaluate_proposal (service_env rt) (service_providers rt) (at_capability_id a) full_input
           False untrusted (Some (if untrusted then Tainted else Clean)))"

definition approve_approval ::
  "services \<Rightarrow> int \<Rightarrow> int \<Rightarrow> string option \<Rightarrow> google_runtime option \<Rightarrow> approval_request \<Rightarrow> action_attempt
     \<Rightarrow> world \<Rightarrow> decided" where
  "approve_approval rt now sequence reason google ap a w =
     proceed (full_action_input_payload rt w a google) (\<lambda>full_input.
     let mismatch = (\<lambda>w. refuse w 409 ''E_APPROVAL_PAYLOAD_MISMATCH'' ''approval payload mismatch''
           [(''approval_ref'', JStr (ap_id ap))])
     in case full_input of
          Inl e \<Rightarrow> mismatch (void_approval rt now sequence ap a e e ''private_action_payload_invalid'' w)
        | Inr payload \<Rightarrow>
            let expected_hash = hash_of rt (canonical_action_payload (at_capability_id a) payload)
            in if expected_hash \<noteq> ap_payload_hash ap \<or> expected_hash \<noteq> at_payload_hash a then
                 mismatch (void_approval rt now sequence ap a ''payload_hash_mismatch''
                   ''approval payload mismatch'' ''payload_hash_mismatch'' w)
               else
                 proceed (revalidated rt a payload) (\<lambda>policy.
                 if ev_decision policy \<noteq> RequiresApproval then
                   refuse (void_approval rt now sequence ap a
                       (''policy_revalidation_'' @ policy_name (ev_decision policy))
                       ''approval policy revalidation failed'' (ev_reason policy) w)
                     409 ''E_APPROVAL_POLICY_CHANGED'' ''approval policy changed before execution''
                     [(''approval_ref'', JStr (ap_id ap)),
                      (''policy_decision'', JStr (policy_name (ev_decision policy))),
                      (''policy_reason'', JStr (ev_reason policy))]
                 else record_approval rt now sequence reason ap a payload w))"

definition resolve_approval_decision ::
  "services \<Rightarrow> google_runtime option \<Rightarrow> string \<Rightarrow> approval_decision \<Rightarrow> string \<Rightarrow> string option \<Rightarrow> world
     \<Rightarrow> decided" where
  "resolve_approval_decision rt google approval_ref decision actor reason w =
     (case find_approval w approval_ref of
        None \<Rightarrow> refuse w 404 ''E_APPROVAL_NOT_FOUND'' ''approval request not found''
          [(''approval_ref'', JStr approval_ref)]
      | Some ap \<Rightarrow>
         (case find_attempt w (ap_attempt_id ap) of
            None \<Rightarrow> Inl (RuntimeError ''approval references missing action attempt'')
          | Some a \<Rightarrow>
              if actor \<noteq> actor_id ap then
                refuse w 403 ''E_APPROVAL_ACTOR_MISMATCH'' ''approval actor does not match the pending request''
                  [(''approval_ref'', JStr (ap_id ap)), (''expected_actor_id'', JStr (actor_id ap)),
                   (''received_actor_id'', JStr actor)]
              else if ap_status ap \<noteq> Pending then
                refuse w 409 ''E_APPROVAL_NOT_PENDING'' ''approval request is already resolved''
                  [(''approval_ref'', JStr (ap_id ap)), (''status'', JStr (approval_status_name (ap_status ap)))]
              else
                let (now, w) = tick rt w
                in if expires_at ap < now then
                     proceed (mark_approval_expired rt ap a now w) (\<lambda>w.
                     refuse w 409 ''E_APPROVAL_EXPIRED'' ''approval request has expired''
                       [(''approval_ref'', JStr (ap_id ap)), (''expires_at'', JStr (to_rfc3339 (expires_at ap)))])
                   else
                     let sequence = next_turn_event_sequence (events w) (ap_turn_id ap) - 1
                     in case decision of
                          DenyRequest \<Rightarrow> deny_approval rt now sequence reason ap a w
                        | Approve \<Rightarrow> approve_approval rt now sequence reason google ap a w))"

end
