(* ===== verification/Weather_State.thy ===== *)
theory Weather_State
  imports Actions
begin

text \<open>
  The default location of the weather capability, \<open>src/ariel/weather_state.py\<close>: one row, written by
  the first reader from the settings or by the user. Another transaction may write the row between
  the read and the insert; what it wrote is the argument \<open>raced\<close>, \<open>None\<close> when nothing did.
\<close>

record weather_state =
  ws_location :: "string option"
  ws_source :: string
  ws_updated_at :: "int option"

definition normalize_location :: "string option \<Rightarrow> string option" where
  "normalize_location v =
     (case v of
        None \<Rightarrow> None
      | Some s \<Rightarrow> if strip s = [] \<or> 200 < length (strip s) then None else Some (strip s))"

definition sanitize_source :: "string \<Rightarrow> string" where
  "sanitize_source v = (if v = ''bootstrap'' then ''bootstrap'' else ''user'')"

definition state_from_record :: "weather_row \<Rightarrow> weather_state" where
  "state_from_record r =
     \<lparr>ws_location = Some (default_location r), ws_source = sanitize_source (location_source r),
       ws_updated_at = Some (wr_updated_at r)\<rparr>"

definition unset_state :: weather_state where
  "unset_state = \<lparr>ws_location = None, ws_source = ''unset'', ws_updated_at = None\<rparr>"

text \<open>The insert inside its savepoint: the row when it went in, \<open>None\<close> on \<open>IntegrityError\<close>.\<close>

definition try_insert_location :: "weather_row option \<Rightarrow> weather_row \<Rightarrow> world \<Rightarrow> weather_row option \<times> world" where
  "try_insert_location raced candidate w =
     (case raced of
        Some r \<Rightarrow> (None, w\<lparr>weather_row := Some r\<rparr>)
      | None \<Rightarrow> (Some candidate, w\<lparr>weather_row := Some candidate\<rparr>))"

definition get_weather_default_location_state ::
  "services \<Rightarrow> weather_row option \<Rightarrow> bool \<Rightarrow> world \<Rightarrow> weather_state \<times> world" where
  "get_weather_default_location_state rt raced bootstrap_if_unset w =
     (case weather_row w of
        Some r \<Rightarrow> (state_from_record r, w)
      | None \<Rightarrow>
          if \<not> bootstrap_if_unset then (unset_state, w)
          else case normalize_location (weather_default_setting rt) of
            None \<Rightarrow> (unset_state, w)
          | Some location \<Rightarrow>
              let (now, w) = tick rt w;
                  (inserted, w) = try_insert_location raced \<lparr>default_location = location,
                    location_source = ''bootstrap'', wr_created_at = now, wr_updated_at = now\<rparr> w
              in case inserted of
                   Some r \<Rightarrow> (state_from_record r, w)
                 | None \<Rightarrow>
                    (case weather_row w of
                       Some latest \<Rightarrow> (state_from_record latest, w)
                     | None \<Rightarrow> (unset_state, w)))"

definition set_weather_default_location ::
  "services \<Rightarrow> weather_row option \<Rightarrow> string \<Rightarrow> world \<Rightarrow> exn + (weather_state \<times> world)" where
  "set_weather_default_location rt raced location w =
     (case normalize_location (Some location) of
        None \<Rightarrow> Inl ValueError
      | Some normalized \<Rightarrow>
          let found = weather_row w;
              (now, w) = tick rt w;
              (record_row, w) =
                (case found of
                   Some r \<Rightarrow> (Some r, w)
                 | None \<Rightarrow>
                     let (inserted, w) = try_insert_location raced \<lparr>default_location = normalized,
                           location_source = ''user'', wr_created_at = now, wr_updated_at = now\<rparr> w
                     in (case inserted of Some r \<Rightarrow> Some r | None \<Rightarrow> weather_row w, w))
          in case record_row of
               None \<Rightarrow> Inl (RuntimeError ''failed to initialize canonical weather default location state'')
             | Some r \<Rightarrow>
                 let r = r\<lparr>default_location := normalized, location_source := ''user'', wr_updated_at := now\<rparr>
                 in Inr (state_from_record r, w\<lparr>weather_row := Some r\<rparr>))"

definition resolve_weather_location ::
  "services \<Rightarrow> weather_row option \<Rightarrow> string option \<Rightarrow> world \<Rightarrow> (string option \<times> string) \<times> world" where
  "resolve_weather_location rt raced explicit w =
     (case normalize_location explicit of
        Some location \<Rightarrow> ((Some location, ''explicit''), w)
      | None \<Rightarrow>
          let (state, w) = get_weather_default_location_state rt raced True w
          in case ws_location state of
               Some location \<Rightarrow> ((Some location, ''default''), w)
             | None \<Rightarrow> ((None, ''unresolved''), w))"

section \<open>What the user set stays\<close>

lemma resolve_keeps_row:
  "weather_row w = Some r \<Longrightarrow> snd (resolve_weather_location rt raced explicit w) = w"
  by (simp add: resolve_weather_location_def get_weather_default_location_state_def state_from_record_def
      split: option.split)



end
