(* ===== verification/Evidence_Surface.thy ===== *)
theory Evidence_Surface
  imports Actions
begin

text \<open>
  What of a provider's answer leaves the runtime, \<open>src/ariel/provider_evidence_surface.py\<close>: the form
  the agent sees, which must carry evidence for what it reads, and the form that is audited and sent
  to clients, in which private text is replaced by a marker.
\<close>

section \<open>Redaction of provider text\<close>

definition redacted_provider_text_marker :: "services \<Rightarrow> json \<Rightarrow> json" where
  "redacted_provider_text_marker rt v =
     JObj ([(''redacted'', JBool True)] @
       (case as_str v of
          None \<Rightarrow> []
        | Some s \<Rightarrow> [(''digest'', JStr (sha256_hex rt s)), (''char_count'', JInt (int (length s)))]))"

definition redact_block :: "services \<Rightarrow> dict \<Rightarrow> dict" where
  "redact_block rt block =
     (let redacted = AList.delete ''text'' block
      in case as_str (jget block ''text'') of
           None \<Rightarrow> redacted
         | Some s \<Rightarrow>
             AList.update ''text_char_count'' (JInt (int (length s)))
               (AList.update ''text_digest''
                  (JStr (if truthy (jget redacted ''digest'') then py_str (service_env rt) (jget redacted ''digest'')
                         else sha256_hex rt s))
                  (AList.update ''text_redacted'' (JBool True) redacted)))"

definition redact_evidence_blocks :: "services \<Rightarrow> json \<Rightarrow> json" where
  "redact_evidence_blocks rt raw_blocks =
     (case as_list raw_blocks of
        None \<Rightarrow> JArr []
      | Some blocks \<Rightarrow> JArr (map (\<lambda>d. JObj (redact_block rt d)) (List.map_filter as_dict blocks)))"

text \<open>\<open>d.pop(key)\<close>, leaving a marker under \<open>key_redacted\<close> when it was a string.\<close>

definition pop_redacted :: "services \<Rightarrow> string \<Rightarrow> dict \<Rightarrow> dict" where
  "pop_redacted rt key d =
     (let rest = AList.delete key d
      in case as_str (jget d key) of
           None \<Rightarrow> rest
         | Some s \<Rightarrow> AList.update (key @ ''_redacted'') (redacted_provider_text_marker rt (JStr s)) rest)"

text \<open>The dictionary under a key, when there is one, changed in place.\<close>

definition inside :: "string \<Rightarrow> (dict \<Rightarrow> dict) \<Rightarrow> dict \<Rightarrow> dict" where
  "inside key f d =
     (case as_dict (jget d key) of None \<Rightarrow> d | Some inner \<Rightarrow> AList.update key (JObj (f inner)) d)"

definition redact_message :: "services \<Rightarrow> dict \<Rightarrow> dict" where
  "redact_message rt message =
     (let m = pop_redacted rt ''snippet'' (pop_redacted rt ''body_html'' (pop_redacted rt ''body_text'' message))
      in if as_str (jget m ''body'') = None then m else pop_redacted rt ''body'' m)"

definition redact_listed_event :: "services \<Rightarrow> json \<Rightarrow> json" where
  "redact_listed_event rt v =
     (case as_dict v of
        None \<Rightarrow> v
      | Some e \<Rightarrow>
          JObj (pop_redacted rt ''description''
            (AList.update ''description_blocks''
               (redact_evidence_blocks rt (jget e ''description_blocks'')) e)))"

definition redact_written_event :: "services \<Rightarrow> dict \<Rightarrow> dict" where
  "redact_written_event rt e =
     (let e = pop_redacted rt ''description'' e
      in AList.update ''description_blocks'' (redact_evidence_blocks rt (jget e ''description_blocks'')) e)"

definition audit_form :: "services \<Rightarrow> string \<Rightarrow> dict \<Rightarrow> dict" where
  "audit_form rt cid d =
     (if cid = ''cap.email.read'' then
        inside ''message'' (redact_message rt)
          (inside ''evidence''
             (\<lambda>e. AList.update ''blocks'' (redact_evidence_blocks rt (jget e ''blocks'')) e) d)
      else if cid = ''cap.provider_evidence.read'' then
        AList.update ''blocks'' (redact_evidence_blocks rt (jget d ''blocks'')) d
      else if cid = ''cap.calendar.list'' then
        (case as_list (jget d ''events'') of
           None \<Rightarrow> d
         | Some es \<Rightarrow> AList.update ''events'' (JArr (map (redact_listed_event rt) es)) d)
      else if List.member [''cap.calendar.create_event'', ''cap.calendar.update_event'',
                 ''cap.calendar.respond_to_event''] cid then
        inside ''event'' (redact_written_event rt) (pop_redacted rt ''description'' d)
      else if List.member [''cap.email.draft'', ''cap.email.send''] cid then
        inside ''message'' (pop_redacted rt ''body'')
          (inside ''draft'' (pop_redacted rt ''body'') (pop_redacted rt ''body'' d))
      else d)"

definition provider_capability_output_for_audit :: "services \<Rightarrow> string \<Rightarrow> dict \<Rightarrow> exn + dict" where
  "provider_capability_output_for_audit rt cid output_payload =
     (case as_dict (jsonable_encoder rt (JObj output_payload)) of
        None \<Rightarrow> Inl (RuntimeError ''provider_output_contract_invalid'')
      | Some redacted \<Rightarrow> Inr (audit_form rt cid redacted))"

definition provider_capability_output_for_public_transport :: "services \<Rightarrow> string \<Rightarrow> dict \<Rightarrow> exn + dict" where
  "provider_capability_output_for_public_transport = provider_capability_output_for_audit"

section \<open>Evidence for the agent\<close>

definition text_blocks :: "json \<Rightarrow> bool" where
  "text_blocks v =
     (case as_list v of
        None \<Rightarrow> False
      | Some blocks \<Rightarrow> blocks \<noteq> [] \<and>
          list_all (\<lambda>b. case as_dict b of None \<Rightarrow> False | Some d \<Rightarrow> as_str (jget d ''text'') \<noteq> None) blocks)"

definition read_ok :: "dict \<Rightarrow> bool" where
  "read_ok output =
     (case as_dict (jget output ''read_outcome'') of
        None \<Rightarrow> False | Some r \<Rightarrow> jget r ''status'' = JStr ''ok'')"

definition nonempty_list :: "json \<Rightarrow> bool" where
  "nonempty_list v = (case as_list v of None \<Rightarrow> False | Some xs \<Rightarrow> xs \<noteq> [])"

definition require_email_read_agent_evidence :: "dict \<Rightarrow> exn option" where
  "require_email_read_agent_evidence output =
     (if \<not> read_ok output then None
      else if \<not> text_blocks (case as_dict (jget output ''evidence'') of None \<Rightarrow> JNull | Some e \<Rightarrow> jget e ''blocks'')
      then Some (RuntimeError ''gmail_read_agent_evidence_missing'')
      else if \<not> nonempty_list (jget output ''provider_evidence_refs'')
      then Some (RuntimeError ''gmail_read_provider_evidence_refs_missing'')
      else None)"

definition require_provider_evidence_agent_blocks :: "dict \<Rightarrow> exn option" where
  "require_provider_evidence_agent_blocks output =
     (if read_ok output \<and> \<not> text_blocks (jget output ''blocks'')
      then Some (RuntimeError ''provider_evidence_read_blocks_missing'') else None)"

definition ref_evidence :: "json \<Rightarrow> json option" where
  "ref_evidence ref =
     (case as_dict ref of
        None \<Rightarrow> None
      | Some r \<Rightarrow>
         (case as_str (jget r ''provider_evidence_id'') of
            None \<Rightarrow> None
          | Some i \<Rightarrow>
              if i = [] then None
              else Some (JObj [(''kind'', JStr ''provider_evidence''), (''provider_evidence_id'', JStr i),
                (''taint'', JStr ''provider_untrusted''), (''sensitivity'', JStr ''private'')])))"

definition attach_provider_ref_provenance :: "dict \<Rightarrow> dict" where
  "attach_provider_ref_provenance output =
     (case as_list (jget output ''provider_evidence_refs'') of
        None \<Rightarrow> output
      | Some refs \<Rightarrow>
          let evidence = List.map_filter ref_evidence refs
          in if evidence = [] then output
             else AList.update ''runtime_provenance''
               (JObj [(''status'', JStr ''tainted''), (''evidence'', JArr evidence)]) output)"

definition provider_capability_output_for_agent :: "services \<Rightarrow> string \<Rightarrow> dict \<Rightarrow> exn + dict" where
  "provider_capability_output_for_agent rt cid output_payload =
     (case as_dict (jsonable_encoder rt (JObj output_payload)) of
        None \<Rightarrow> Inl (RuntimeError ''provider_output_contract_invalid'')
      | Some output \<Rightarrow>
          if cid = ''cap.email.read'' then
            (case require_email_read_agent_evidence output of
               Some e \<Rightarrow> Inl e
             | None \<Rightarrow> Inr (attach_provider_ref_provenance output))
          else if cid = ''cap.provider_evidence.read'' then
            (case require_provider_evidence_agent_blocks output of
               Some e \<Rightarrow> Inl e
             | None \<Rightarrow> Inr output)
          else Inr output)"

section \<open>No private text is audited\<close>

fun no_text_block :: "json \<Rightarrow> bool" where
  "no_text_block (JObj d) = (''text'' \<notin> set (keys d))"
| "no_text_block v = False"

fun blocks_clean :: "json \<Rightarrow> bool" where
  "blocks_clean (JArr xs) = list_all no_text_block xs"
| "blocks_clean v = False"

definition lacks :: "string list \<Rightarrow> dict \<Rightarrow> bool" where
  "lacks ks d \<longleftrightarrow> list_all (\<lambda>k. k \<notin> set (keys d)) ks"

text \<open>A property of the dictionary under a key, when there is one.\<close>

definition inside_is :: "string \<Rightarrow> (dict \<Rightarrow> bool) \<Rightarrow> dict \<Rightarrow> bool" where
  "inside_is key P d = (case as_dict (jget d key) of None \<Rightarrow> True | Some e \<Rightarrow> P e)"

definition event_clean :: "dict \<Rightarrow> bool" where
  "event_clean e \<longleftrightarrow> lacks [''description''] e \<and> blocks_clean (jget e ''description_blocks'')"

definition audit_clean :: "string \<Rightarrow> dict \<Rightarrow> bool" where
  "audit_clean cid d =
     (if cid = ''cap.email.read'' then
        inside_is ''evidence'' (\<lambda>e. blocks_clean (jget e ''blocks'')) d
        \<and> inside_is ''message'' (\<lambda>m. lacks [''body_text'', ''body_html'', ''snippet''] m
             \<and> as_str (jget m ''body'') = None) d
      else if cid = ''cap.provider_evidence.read'' then blocks_clean (jget d ''blocks'')
      else if cid = ''cap.calendar.list'' then
        (case as_list (jget d ''events'') of
           None \<Rightarrow> True
         | Some es \<Rightarrow> list_all (\<lambda>e. case as_dict e of None \<Rightarrow> True | Some x \<Rightarrow> event_clean x) es)
      else if List.member [''cap.calendar.create_event'', ''cap.calendar.update_event'',
                 ''cap.calendar.respond_to_event''] cid then
        lacks [''description''] d \<and> inside_is ''event'' event_clean d
      else if List.member [''cap.email.draft'', ''cap.email.send''] cid then
        lacks [''body''] d \<and> inside_is ''draft'' (lacks [''body'']) d \<and> inside_is ''message'' (lacks [''body'']) d
      else True)"

lemma keys_delete [simp]: "set (keys (AList.delete k d)) = set (keys d) - {k}"
  by (induction d) (auto simp: keys_def)

lemma keys_updated [simp]: "set (keys (AList.update k v d)) = insert k (set (keys d))"
  by (induction d) (auto simp: keys_def)

lemma jget_delete: "jget (AList.delete k d) k' = (if k' = k then JNull else jget d k')"
  by (induction d) auto

lemma blocks_redacted [simp]: "blocks_clean (redact_evidence_blocks rt v)"
  by (cases v) (auto simp: redact_evidence_blocks_def redact_block_def Let_def list_all_iff split: option.split)

lemma pop_redacted_keys:
  "k \<notin> set (keys (pop_redacted rt key d)) \<longleftrightarrow>
     k = key \<or> k \<notin> set (keys d) \<and> (k \<noteq> key @ ''_redacted'' \<or> as_str (jget d key) = None)"
  by (auto simp: pop_redacted_def Let_def split: option.split)

lemma pop_redacted_get:
  "jget (pop_redacted rt key d) k =
     (if k = key @ ''_redacted'' \<and> as_str (jget d key) \<noteq> None then redacted_provider_text_marker rt (jget d key)
      else if k = key then JNull else jget d k)"
  by (auto simp: pop_redacted_def Let_def jget_delete split: option.split)

lemma inside_establishes: "(\<And>e. P (f e)) \<Longrightarrow> inside_is key P (inside key f d)"
  by (auto simp: inside_is_def inside_def split: option.split)

lemma inside_other: "key \<noteq> key' \<Longrightarrow> inside_is key P (inside key' f d) = inside_is key P d"
  by (auto simp: inside_is_def inside_def split: option.split)

lemma inside_keys [simp]: "set (keys (inside key f d)) = set (keys d)"
proof (cases "as_dict (jget d key)")
  case (Some e)
  then have "jget d key \<noteq> JNull" by auto
  then have "key \<in> set (keys d)" using jget_notin by blast
  with Some show ?thesis by (auto simp: inside_def)
qed (simp add: inside_def)

lemma redacted_message_clean:
  "lacks [''body_text'', ''body_html'', ''snippet''] (redact_message rt m)
    \<and> as_str (jget (redact_message rt m) ''body'') = None"
  by (auto simp: redact_message_def Let_def lacks_def pop_redacted_keys pop_redacted_get)

lemma written_event_clean: "event_clean (redact_written_event rt e)"
  by (simp add: event_clean_def redact_written_event_def Let_def lacks_def pop_redacted_keys)

lemma listed_event_clean:
  "case as_dict (redact_listed_event rt v) of None \<Rightarrow> True | Some x \<Rightarrow> event_clean x"
  by (cases v) (auto simp: redact_listed_event_def event_clean_def lacks_def pop_redacted_keys pop_redacted_get)

lemma popped_lacks:
  "lacks [''description''] (pop_redacted rt ''description'' d)" "lacks [''body''] (pop_redacted rt ''body'' d)"
  by (simp_all add: lacks_def pop_redacted_keys)

lemma lacks_inside [simp]: "lacks ks (inside key f d) = lacks ks d"
  by (simp add: lacks_def)

lemma listed_events_clean:
  "list_all (\<lambda>e. case as_dict e of None \<Rightarrow> True | Some x \<Rightarrow> event_clean x) (map (redact_listed_event rt) es)"
  using listed_event_clean by (simp add: list_all_iff)

lemma audit_form_clean: "audit_clean cid (audit_form rt cid d)"
proof (cases "cid = ''cap.calendar.list''")
  case True
  with listed_events_clean show ?thesis
    by (cases "as_list (jget d ''events'')") (auto simp: audit_clean_def audit_form_def)
next
  case False
  then show ?thesis
    unfolding audit_clean_def audit_form_def
    by (simp add: popped_lacks inside_establishes inside_other redacted_message_clean written_event_clean)
qed

text \<open>
  C27. No private text reaches the audit log or a client: whatever the provider returned, the audit
  form of a mail has no body, no snippet and no text in its evidence blocks, that of a calendar event
  no description and no description text, and that of a draft or a sent mail no body at any of the
  places the provider puts one.
\<close>

theorem audit_output_carries_no_private_text:
  assumes "provider_capability_output_for_public_transport rt cid output = Inr shown"
  shows "audit_clean cid shown"
  using assms audit_form_clean
  by (auto simp: provider_capability_output_for_public_transport_def provider_capability_output_for_audit_def
      split: option.split_asm)

theorem audit_output_carries_no_private_text_witness:
  "audit_clean ''cap.email.draft''
     [(''draft'', JObj [(''id'', JStr ''d1''),
        (''body_redacted'', JObj [(''redacted'', JBool True), (''digest'', JStr ''hi''), (''char_count'', JInt 2)])])]"
proof (rule audit_output_carries_no_private_text)
  show "provider_capability_output_for_public_transport sample_services ''cap.email.draft''
      [(''draft'', JObj [(''body'', JStr ''hi''), (''id'', JStr ''d1'')])]
    = Inr [(''draft'', JObj [(''id'', JStr ''d1''),
        (''body_redacted'', JObj [(''redacted'', JBool True), (''digest'', JStr ''hi''), (''char_count'', JInt 2)])])]"
    unfolding sample_services_def by code_simp
qed

end
