(* ===== verification/Google_Scopes.thy ===== *)
theory Google_Scopes
  imports Callables Secret_Cipher
begin

text \<open>
  The scopes of the Google connector, \<open>src/ariel/google_connector.py\<close>: which scopes each capability
  needs, the scopes asked for on a reconnect, the account identity, and the classes of provider
  failures. A Python set is a list in a fixed order of its elements; \<open>sorted\<close> orders text by code
  point.
\<close>

definition GOOGLE_OPENID_SCOPE :: string where
  "GOOGLE_OPENID_SCOPE = ''openid''"

definition GOOGLE_USERINFO_EMAIL_SCOPE :: string where
  "GOOGLE_USERINFO_EMAIL_SCOPE = ''https://www.googleapis.com/auth/userinfo.email''"

definition GOOGLE_USERINFO_PROFILE_SCOPE :: string where
  "GOOGLE_USERINFO_PROFILE_SCOPE = ''https://www.googleapis.com/auth/userinfo.profile''"

definition GOOGLE_READ_CAPABILITY_SCOPES :: "(string \<times> string list) list" where
  "GOOGLE_READ_CAPABILITY_SCOPES =
     [(''cap.calendar.list'', [GOOGLE_CALENDAR_READ_SCOPE]),
      (''cap.calendar.list_calendars'', [GOOGLE_CALENDAR_READ_SCOPE]),
      (''cap.calendar.propose_slots'', [GOOGLE_CALENDAR_READ_SCOPE]),
      (''cap.email.search'', [GOOGLE_GMAIL_READ_SCOPE]),
      (''cap.email.read'', [GOOGLE_GMAIL_READ_SCOPE]),
      (''cap.drive.search'', [GOOGLE_DRIVE_METADATA_READ_SCOPE]),
      (''cap.drive.read'', [GOOGLE_DRIVE_READ_SCOPE])]"

definition GOOGLE_WRITE_CAPABILITY_SCOPES :: "(string \<times> string list) list" where
  "GOOGLE_WRITE_CAPABILITY_SCOPES =
     [(''cap.calendar.create_event'', [GOOGLE_CALENDAR_WRITE_SCOPE]),
      (''cap.calendar.update_event'', [GOOGLE_CALENDAR_WRITE_SCOPE]),
      (''cap.calendar.respond_to_event'', [GOOGLE_CALENDAR_WRITE_SCOPE]),
      (''cap.email.draft'', [GOOGLE_GMAIL_COMPOSE_SCOPE]),
      (''cap.email.send'', [GOOGLE_GMAIL_SEND_SCOPE]),
      (''cap.email.archive'', [GOOGLE_GMAIL_MODIFY_SCOPE]),
      (''cap.email.trash'', [GOOGLE_GMAIL_MODIFY_SCOPE]),
      (''cap.email.labels.modify'', [GOOGLE_GMAIL_MODIFY_SCOPE]),
      (''cap.email.undo'', [GOOGLE_GMAIL_MODIFY_SCOPE]),
      (''cap.drive.share'', [GOOGLE_DRIVE_SHARE_SCOPE])]"

definition GOOGLE_CAPABILITY_SCOPES :: "(string \<times> string list) list" where
  "GOOGLE_CAPABILITY_SCOPES = GOOGLE_READ_CAPABILITY_SCOPES @ GOOGLE_WRITE_CAPABILITY_SCOPES"

definition GOOGLE_READ_CAPABILITY_IDS :: "string list" where
  "GOOGLE_READ_CAPABILITY_IDS = map fst GOOGLE_READ_CAPABILITY_SCOPES"

definition GOOGLE_CAPABILITY_IDS :: "string list" where
  "GOOGLE_CAPABILITY_IDS = map fst GOOGLE_CAPABILITY_SCOPES"

definition GOOGLE_RECONNECT_INTENT_EXTRA_SCOPES :: "(string \<times> string list) list" where
  "GOOGLE_RECONNECT_INTENT_EXTRA_SCOPES =
     [(''cap.calendar.propose_slots'', [GOOGLE_CALENDAR_FREEBUSY_SCOPE])]"

definition GOOGLE_MINIMUM_READ_SCOPES :: "string list" where
  "GOOGLE_MINIMUM_READ_SCOPES = [GOOGLE_CALENDAR_READ_SCOPE, GOOGLE_GMAIL_READ_SCOPE]"

definition GOOGLE_DEFAULT_REQUESTED_SCOPES :: "string list" where
  "GOOGLE_DEFAULT_REQUESTED_SCOPES = GOOGLE_MINIMUM_READ_SCOPES @
     [GOOGLE_OPENID_SCOPE, GOOGLE_USERINFO_EMAIL_SCOPE, GOOGLE_USERINFO_PROFILE_SCOPE]"

section \<open>Scope lists\<close>

text \<open>\<open>s.split()\<close>: the maximal runs of characters that are not white space.\<close>

fun split_words :: "string \<Rightarrow> string \<Rightarrow> string list" where
  "split_words word [] = (if word = [] then [] else [rev word])"
| "split_words word (c # cs) =
     (if is_space c then (if word = [] then split_words [] cs else rev word # split_words [] cs)
      else split_words (c # word) cs)"

text \<open>The stripped, nonempty entries, each at its first occurrence.\<close>

fun distinct_stripped :: "string list \<Rightarrow> string list \<Rightarrow> string list" where
  "distinct_stripped seen [] = seen"
| "distinct_stripped seen (candidate # rest) =
     (let scope = strip candidate
      in if scope = [] \<or> List.member seen scope then distinct_stripped seen rest
         else distinct_stripped (seen @ [scope]) rest)"

definition normalize_scope_list :: "json \<Rightarrow> string list" where
  "normalize_scope_list raw_scopes =
     distinct_stripped []
       (case raw_scopes of
          JStr s \<Rightarrow> split_words [] s
        | JArr xs \<Rightarrow> List.map_filter as_str xs
        | _ \<Rightarrow> [])"

definition normalize_capability_intents :: "string option \<Rightarrow> string list" where
  "normalize_capability_intents capability_intent =
     (case capability_intent of None \<Rightarrow> [] | Some s \<Rightarrow> distinct_stripped [] (split_commas s))"

fun intent_scopes :: "string list \<Rightarrow> exn + string list" where
  "intent_scopes [] = Inr []"
| "intent_scopes (intent # rest) =
     (case map_of GOOGLE_CAPABILITY_SCOPES intent of
        None \<Rightarrow> Inl (RuntimeError (''unsupported capability intent: '' @ intent))
      | Some required \<Rightarrow>
         (case intent_scopes rest of
            Inl e \<Rightarrow> Inl e
          | Inr scopes \<Rightarrow>
              Inr (required @
                (case map_of GOOGLE_RECONNECT_INTENT_EXTRA_SCOPES intent of None \<Rightarrow> [] | Some xs \<Rightarrow> xs) @ scopes)))"

definition resolve_reconnect_scopes ::
  "json \<Rightarrow> string option \<Rightarrow> exn + (string list \<times> string list)" where
  "resolve_reconnect_scopes granted capability_intent =
     (let intents = normalize_capability_intents capability_intent
      in case intent_scopes intents of
           Inl e \<Rightarrow> Inl e
         | Inr scopes \<Rightarrow>
             Inr (sort (remdups (normalize_scope_list granted @ GOOGLE_DEFAULT_REQUESTED_SCOPES @ scopes)), intents))"

section \<open>Accounts and failures\<close>

definition google_account_subject :: "string option \<Rightarrow> string option" where
  "google_account_subject v =
     (case v of
        None \<Rightarrow> None
      | Some s \<Rightarrow> if strip s = [] \<or> list_ex is_space (strip s) then None else Some (strip s))"

definition google_account_email :: "string option \<Rightarrow> string option" where
  "google_account_email v =
     (case v of
        None \<Rightarrow> None
      | Some s \<Rightarrow>
          let normalized = strip s
          in if normalized = [] \<or> list_ex is_space normalized
                \<or> length (filter (\<lambda>c. c = CHR ''@'') normalized) \<noteq> 1
                \<or> hd normalized = CHR ''@'' \<or> last normalized = CHR ''@''
             then None else Some normalized)"

definition classify_google_provider_failure :: "string \<Rightarrow> string option" where
  "classify_google_provider_failure error_reason =
     (let normalized = lower (strip error_reason)
      in if normalized = [] then None
         else if normalized = ''google_upstream_timeout'' then Some ''provider_timeout''
         else if normalized = ''google_upstream_network_failure'' then Some ''provider_network_failure''
         else if normalized = ''google_upstream_429'' then Some ''provider_rate_limited''
         else if starts_with ''google_upstream_5'' normalized then Some ''provider_upstream_failure''
         else if normalized = ''google_forbidden'' then Some ''provider_permission_denied''
         else if starts_with ''google_request_failed:4'' normalized then Some ''provider_request_rejected''
         else if normalized = ''resource_not_found'' then Some ''resource_unavailable''
         else if normalized = ''google_invalid_payload'' then Some ''provider_invalid_payload''
         else if normalized = ''google_request_unreachable'' then Some ''provider_unreachable''
         else if normalized = ''google_response_too_large'' then Some ''provider_response_too_large''
         else None)"

section \<open>The two scope tables agree\<close>

lemma scope_tables:
  "list_all (\<lambda>(cid, c). required_google_scopes (Some c) =
     (case map_of GOOGLE_CAPABILITY_SCOPES cid of None \<Rightarrow> [] | Some scopes \<Rightarrow> scopes))
     (capability_registry env prov)"
  unfolding capability_registry_def GOOGLE_CAPABILITY_SCOPES_def GOOGLE_READ_CAPABILITY_SCOPES_def
    GOOGLE_WRITE_CAPABILITY_SCOPES_def
  by (simp add: required_google_scopes_def string_items_def capability_defs map_filter_simps)

text \<open>
  The connector and the registry agree on scopes: the scopes the connector checks before it runs
  a capability are those the capability's contract requires, by which it was offered to the turn; a
  registered capability that requires none is none of the connector's.
\<close>

theorem connector_and_registry_scopes_agree:
  assumes "get_capability env prov cid = Inr (Some c)"
  shows "required_google_scopes (Some c) =
    (case map_of GOOGLE_CAPABILITY_SCOPES cid of None \<Rightarrow> [] | Some scopes \<Rightarrow> scopes)"
  using assms
proof (rule get_capability_Some)
  fix c0 hosts
  assume "(cid, c0) \<in> set (capability_registry env prov)" "c = c0\<lparr>allowed_egress_destinations := hosts\<rparr>"
  then show ?thesis
    using scope_tables [of env prov] by (auto simp: list_all_iff required_google_scopes_def)
qed

theorem connector_and_registry_scopes_agree_witness:
  "required_google_scopes (Some (cap_drive_share sample_env sample_providers)) =
    (case map_of GOOGLE_CAPABILITY_SCOPES ''cap.drive.share'' of None \<Rightarrow> [] | Some scopes \<Rightarrow> scopes)"
  by (rule connector_and_registry_scopes_agree) (simp add: get_capability_def capability_registry_def)

section \<open>Reconnecting asks for enough\<close>

lemma distinct_stripped_set:
  "set (distinct_stripped seen xs) = set seen \<union> {strip x |x. x \<in> set xs \<and> strip x \<noteq> []}"
  by (induction seen xs rule: distinct_stripped.induct) (auto simp: Let_def)

lemma distinct_stripped_distinct: "distinct seen \<Longrightarrow> distinct (distinct_stripped seen xs)"
  by (induction seen xs rule: distinct_stripped.induct) (auto simp: Let_def)

lemma intent_scopes_cover:
  "intent_scopes is = Inr scopes \<Longrightarrow> i \<in> set is \<Longrightarrow>
    \<exists>required. map_of GOOGLE_CAPABILITY_SCOPES i = Some required \<and> set required \<subseteq> set scopes"
proof (induction "is" arbitrary: scopes)
  case (Cons j js)
  then obtain required rest extra where j: "map_of GOOGLE_CAPABILITY_SCOPES j = Some required"
    "intent_scopes js = Inr rest" "scopes = required @ extra @ rest"
    by (auto split: option.split_asm sum.split_asm)
  show ?case
  proof (cases "i = j")
    case False
    with Cons.prems(2) Cons.IH [OF j(2)] show ?thesis by (auto simp: j(3))
  qed (use j in simp)
qed simp

text \<open>
  C30. One consent is enough: the scopes a reconnect asks for are sorted and distinct, keep every
  scope granted before, include the minimum the connector needs to be ready, and cover every
  capability named in the intent, each named once, so that all of them can run when it is granted.
\<close>

theorem reconnect_scopes_cover:
  assumes "resolve_reconnect_scopes granted intent = Inr (requested, intents)"
  shows "sorted requested \<and> distinct requested \<and> distinct intents
    \<and> set (normalize_scope_list granted) \<union> set GOOGLE_MINIMUM_READ_SCOPES \<subseteq> set requested
    \<and> list_all (\<lambda>i. case map_of GOOGLE_CAPABILITY_SCOPES i of
         None \<Rightarrow> False | Some required \<Rightarrow> list_all (List.member requested) required) intents"
proof -
  from assms obtain scopes where i: "intents = normalize_capability_intents intent"
    and s: "intent_scopes intents = Inr scopes"
    and r: "requested = sort (remdups (normalize_scope_list granted @ GOOGLE_DEFAULT_REQUESTED_SCOPES @ scopes))"
    by (auto simp: resolve_reconnect_scopes_def Let_def split: sum.split_asm)
  have "distinct intents"
    unfolding i normalize_capability_intents_def by (simp add: distinct_stripped_distinct split: option.split)
  moreover have "case map_of GOOGLE_CAPABILITY_SCOPES j of
      None \<Rightarrow> False | Some required \<Rightarrow> list_all (List.member requested) required" if "j \<in> set intents" for j
    using intent_scopes_cover [OF s that] by (auto simp: r list_all_iff)
  ultimately show ?thesis
    by (auto simp: r list_all_iff GOOGLE_DEFAULT_REQUESTED_SCOPES_def)
qed

theorem reconnect_scopes_cover_witness:
  "sorted (sort (remdups ([GOOGLE_DRIVE_READ_SCOPE] @ GOOGLE_DEFAULT_REQUESTED_SCOPES @
      [GOOGLE_CALENDAR_READ_SCOPE, GOOGLE_CALENDAR_FREEBUSY_SCOPE])))
    \<and> distinct (sort (remdups ([GOOGLE_DRIVE_READ_SCOPE] @ GOOGLE_DEFAULT_REQUESTED_SCOPES @
      [GOOGLE_CALENDAR_READ_SCOPE, GOOGLE_CALENDAR_FREEBUSY_SCOPE])))
    \<and> distinct [''cap.calendar.propose_slots'']
    \<and> set (normalize_scope_list (JArr [JStr GOOGLE_DRIVE_READ_SCOPE, JNull])) \<union> set GOOGLE_MINIMUM_READ_SCOPES
      \<subseteq> set (sort (remdups ([GOOGLE_DRIVE_READ_SCOPE] @ GOOGLE_DEFAULT_REQUESTED_SCOPES @
      [GOOGLE_CALENDAR_READ_SCOPE, GOOGLE_CALENDAR_FREEBUSY_SCOPE])))
    \<and> list_all (\<lambda>i. case map_of GOOGLE_CAPABILITY_SCOPES i of
         None \<Rightarrow> False
       | Some required \<Rightarrow> list_all (List.member (sort (remdups ([GOOGLE_DRIVE_READ_SCOPE] @ GOOGLE_DEFAULT_REQUESTED_SCOPES @
      [GOOGLE_CALENDAR_READ_SCOPE, GOOGLE_CALENDAR_FREEBUSY_SCOPE])))) required) [''cap.calendar.propose_slots'']"
proof (rule reconnect_scopes_cover)
  have "normalize_scope_list (JArr [JStr GOOGLE_DRIVE_READ_SCOPE, JNull]) = [GOOGLE_DRIVE_READ_SCOPE]"
    "normalize_capability_intents (Some '' cap.calendar.propose_slots,,'') = [''cap.calendar.propose_slots'']"
    "intent_scopes [''cap.calendar.propose_slots'']
      = Inr [GOOGLE_CALENDAR_READ_SCOPE, GOOGLE_CALENDAR_FREEBUSY_SCOPE]"
    by code_simp+
  then show "resolve_reconnect_scopes (JArr [JStr GOOGLE_DRIVE_READ_SCOPE, JNull])
      (Some '' cap.calendar.propose_slots,,'')
    = Inr (sort (remdups ([GOOGLE_DRIVE_READ_SCOPE] @ GOOGLE_DEFAULT_REQUESTED_SCOPES @
        [GOOGLE_CALENDAR_READ_SCOPE, GOOGLE_CALENDAR_FREEBUSY_SCOPE])), [''cap.calendar.propose_slots''])"
    by (simp only: resolve_reconnect_scopes_def Let_def sum.case)
qed

end
