(* ===== verification/Proposals.thy ===== *)
theory Proposals
  imports Approvals Weather_State Evidence_Surface Google_Scopes
begin

text \<open>
  One call of a turn's program, \<open>process_one_call\<close> of \<open>src/ariel/action_runtime.py\<close>: the scope of the
  turn, the proposal's provenance, the policy decision, and its outcome, which is a refusal, a pending
  approval, a queued execution or an inline execution. The call context and the event counter of the
  turn (\<open>add_event\<close> of \<open>src/ariel/app.py\<close>) are threaded with the world.

  What runs inline outside this file is a field of \<open>executors\<close>: the Google, agency and attachment
  runtimes, the memory layer, and the evidence and citation stores. Their own tables are not part of
  the world.
\<close>

section \<open>Provenance\<close>

record runtime_provenance =
  rp_status :: string
  rp_evidence :: "json list"

definition merge :: "runtime_provenance \<Rightarrow> runtime_provenance option \<Rightarrow> runtime_provenance" where
  "merge p other =
     (case other of
        None \<Rightarrow> p
      | Some q \<Rightarrow>
          \<lparr>rp_status = (if rp_status p = ''tainted'' \<or> rp_status q = ''tainted'' then ''tainted'' else ''clean''),
           rp_evidence = rp_evidence p @ rp_evidence q\<rparr>)"

definition merge_optional ::
  "runtime_provenance option \<Rightarrow> runtime_provenance option \<Rightarrow> runtime_provenance option" where
  "merge_optional baseline ingress =
     (case baseline of None \<Rightarrow> ingress | Some p \<Rightarrow> Some (merge p ingress))"

datatype declared_taint = Missing | DeclaredTrue | DeclaredFalse | Malformed

definition declared_name :: "declared_taint \<Rightarrow> string" where
  "declared_name t = (case t of Missing \<Rightarrow> ''missing'' | DeclaredTrue \<Rightarrow> ''true''
     | DeclaredFalse \<Rightarrow> ''false'' | Malformed \<Rightarrow> ''malformed'')"

definition model_declared_taint_status :: "dict \<Rightarrow> declared_taint" where
  "model_declared_taint_status proposal =
     (if \<not> has_key proposal ''influenced_by_untrusted_content'' then Missing
      else case jget proposal ''influenced_by_untrusted_content'' of
        JBool True \<Rightarrow> DeclaredTrue
      | JBool False \<Rightarrow> DeclaredFalse
      | _ \<Rightarrow> Malformed)"

definition effective_provenance_status :: "runtime_provenance option \<Rightarrow> declared_taint \<Rightarrow> provenance" where
  "effective_provenance_status runtime declared =
     (case runtime of
        None \<Rightarrow> if declared = DeclaredTrue then Tainted else Ambiguous
      | Some p \<Rightarrow>
          if rp_status p = ''tainted'' then Tainted
          else if rp_status p \<noteq> ''clean'' then Ambiguous
          else if declared = DeclaredTrue then Tainted
          else if declared = Malformed then Ambiguous
          else Clean)"

definition provenance_name :: "provenance \<Rightarrow> string" where
  "provenance_name p = (case p of Clean \<Rightarrow> ''clean'' | Tainted \<Rightarrow> ''tainted'' | Ambiguous \<Rightarrow> ''ambiguous'')"

definition influenced_by_untrusted :: "provenance \<Rightarrow> bool" where
  "influenced_by_untrusted p \<longleftrightarrow> p = Tainted \<or> p = Ambiguous"

definition taint_event_payload :: "provenance \<Rightarrow> runtime_provenance option \<Rightarrow> declared_taint \<Rightarrow> json" where
  "taint_event_payload p runtime declared =
     JObj [(''influenced_by_untrusted_content'', JBool (influenced_by_untrusted p)),
       (''provenance_status'', JStr (provenance_name p)),
       (''runtime_provenance'', JObj
          [(''status'', JStr (case runtime of None \<Rightarrow> ''ambiguous'' | Some r \<Rightarrow> rp_status r)),
           (''evidence'', JArr (case runtime of
              None \<Rightarrow> [JObj [(''kind'', JStr ''runtime_provenance_missing'')]]
            | Some r \<Rightarrow> map (\<lambda>e. if as_dict e \<noteq> None then e
                  else JObj [(''kind'', JStr ''runtime_provenance_evidence_malformed'')]) (rp_evidence r)))]),
       (''model_declared_taint'', JObj [(''status'', JStr (declared_name declared))])]"

section \<open>The state of a turn\<close>

record call_context =
  inline_results :: "json list"
  pending_approvals :: "json list"
  blocked_reasons :: "string list"
  function_call_outputs :: "json list"
  created_action_attempts :: "string list"
  pending_approval_created :: bool
  retrieval_requested :: bool
  retrieval_errors :: "string list"
  retrieval_sources :: "json list"
  retrieval_capability_ids :: "string list"
  result_runtime_provenance :: "runtime_provenance option"
  silent_response :: bool
  call_ids_by_attempt_id :: "(string \<times> string) list"
  taint_by_attempt_id :: "(string \<times> json) list"
  interpreter_reason_codes_by_attempt_id :: "(string \<times> string list) list"

definition empty_context :: call_context where
  "empty_context = \<lparr>inline_results = [], pending_approvals = [], blocked_reasons = [],
     function_call_outputs = [], created_action_attempts = [], pending_approval_created = False,
     retrieval_requested = False, retrieval_errors = [], retrieval_sources = [],
     retrieval_capability_ids = [], result_runtime_provenance = None, silent_response = False,
     call_ids_by_attempt_id = [], taint_by_attempt_id = [],
     interpreter_reason_codes_by_attempt_id = []\<rparr>"

record call_state =
  cs_world :: world
  cs_ctx :: call_context
  cs_sequence :: int

text \<open>
  The result of a provider runtime: an output, or an error with the class and recovery of an
  authorization failure.
\<close>

record provider_result =
  pr_succeeded :: bool
  pr_output :: "dict option"
  pr_auth_failure :: "(string \<times> string) option"
  pr_error :: "string option"

record executors =
  run_google :: "string \<Rightarrow> dict \<Rightarrow> exn + provider_result"
  run_agency :: "string \<Rightarrow> dict \<Rightarrow> exn + provider_result"
  run_attachment :: "dict \<Rightarrow> exn + provider_result"
  run_memory :: "string \<Rightarrow> dict \<Rightarrow> exn + (string + dict)"
  run_provider_evidence :: "string \<Rightarrow> dict \<Rightarrow> exn + dict"
  persist_provider_evidence :: "string \<Rightarrow> dict \<Rightarrow> exn + json list"
  cited_sources :: "dict \<Rightarrow> json list"
  persist_sources :: "string \<Rightarrow> json list \<Rightarrow> exn + json list"

text \<open>
  What a turn passes to every call; the flags say which runtimes are bound.
\<close>

record call_env =
  ce_turn_id :: string
  ce_ttl_seconds :: int
  ce_actor_id :: string
  ce_provenance :: "runtime_provenance option"
  ce_google :: "google_runtime option"
  ce_agency :: bool
  ce_attachment :: bool
  ce_session_factory :: bool
  ce_allowed :: "string list"
  ce_weather_raced :: "weather_row option"
  ce_run :: executors

section \<open>Steps on the state\<close>

definition add_event :: "services \<Rightarrow> call_env \<Rightarrow> string \<Rightarrow> dict \<Rightarrow> call_state \<Rightarrow> call_state" where
  "add_event rt ce event_type payload s =
     s\<lparr>cs_sequence := cs_sequence s + 1,
       cs_world := add_turn_event rt (ce_turn_id ce) (cs_sequence s + 1) event_type payload (cs_world s)\<rparr>"

definition ctx_map :: "(call_context \<Rightarrow> call_context) \<Rightarrow> call_state \<Rightarrow> call_state" where
  "ctx_map f s = s\<lparr>cs_ctx := f (cs_ctx s)\<rparr>"

definition blocked :: "string \<Rightarrow> string \<Rightarrow> call_state \<Rightarrow> call_state" where
  "blocked cid reason = ctx_map (\<lambda>c. c\<lparr>blocked_reasons := blocked_reasons c @ [cid @ '': '' @ reason]\<rparr>)"

definition response_function_call_output :: "services \<Rightarrow> string \<Rightarrow> dict \<Rightarrow> json" where
  "response_function_call_output rt call_id payload =
     JObj [(''type'', JStr ''function_call_output''), (''call_id'', JStr call_id),
       (''output'', JStr (json_dumps rt (jsonable_encoder rt (JObj payload))))]"

text \<open>\<open>if call_id: ctx.function_call_outputs.append(...)\<close>\<close>

definition respond :: "services \<Rightarrow> string \<Rightarrow> dict \<Rightarrow> call_state \<Rightarrow> call_state" where
  "respond rt call_id payload s =
     (if call_id = [] then s
      else ctx_map (\<lambda>c. c\<lparr>function_call_outputs := function_call_outputs c @
             [response_function_call_output rt call_id payload]\<rparr>) s)"

definition is_retrieval_call :: "string \<Rightarrow> bool" where
  "is_retrieval_call cid \<longleftrightarrow>
     List.member ([''cap.search.web'', ''cap.weather.forecast''] @ MAPS_CAPABILITY_IDS @ [''cap.web.extract'']
       @ ATTACHMENT_CAPABILITY_IDS @ GOOGLE_READ_CAPABILITY_IDS @ PROVIDER_EVIDENCE_CAPABILITY_IDS) cid"

definition mark_retrieval :: "string \<Rightarrow> call_state \<Rightarrow> call_state" where
  "mark_retrieval cid s =
     (if is_retrieval_call cid
      then ctx_map (\<lambda>c. c\<lparr>retrieval_requested := True,
             retrieval_capability_ids := List.insert cid (retrieval_capability_ids c)\<rparr>) s
      else s)"

definition retrieval_error :: "string \<Rightarrow> string \<Rightarrow> call_state \<Rightarrow> call_state" where
  "retrieval_error cid e s =
     (if is_retrieval_call cid
      then ctx_map (\<lambda>c. c\<lparr>retrieval_errors := retrieval_errors c @ [e]\<rparr>) s else s)"

definition on_world :: "(world \<Rightarrow> world) \<Rightarrow> call_state \<Rightarrow> call_state" where
  "on_world f s = s\<lparr>cs_world := f (cs_world s)\<rparr>"

text \<open>\<open>now_fn()\<close> and the write of the changed attempt it stamps.\<close>

definition update_attempt ::
  "services \<Rightarrow> (action_attempt \<Rightarrow> action_attempt) \<Rightarrow> action_attempt \<Rightarrow> call_state \<Rightarrow> action_attempt \<times> call_state" where
  "update_attempt rt f a s =
     (let (now, w) = tick rt (cs_world s);
          a = f (a\<lparr>at_updated_at := now\<rparr>)
      in (a, s\<lparr>cs_world := save_attempt a w\<rparr>))"

section \<open>Reading the call\<close>

definition call_id_of :: "dict \<Rightarrow> string" where
  "call_id_of fcp = (case as_str (jget fcp ''call_id'') of None \<Rightarrow> [] | Some i \<Rightarrow> strip i)"

definition capability_id_of :: "dict \<Rightarrow> string" where
  "capability_id_of fcp =
     (case as_str (jget fcp ''capability_id'') of None \<Rightarrow> ''invalid.capability'' | Some i \<Rightarrow> strip i)"

definition tool_name_of :: "dict \<Rightarrow> string" where
  "tool_name_of fcp =
     (case as_str (jget fcp ''tool_name'') of
        None \<Rightarrow> capability_id_of fcp
      | Some t \<Rightarrow> if strip t = [] then capability_id_of fcp else strip t)"

definition opt_str :: "string option \<Rightarrow> json" where
  "opt_str v = (case v of None \<Rightarrow> JNull | Some s \<Rightarrow> JStr s)"

definition call_input :: "services \<Rightarrow> call_env \<Rightarrow> dict \<Rightarrow> world \<Rightarrow> dict \<times> world" where
  "call_input rt ce fcp w =
     (let input = (case as_dict (jget fcp ''input'') of
            None \<Rightarrow> []
          | Some d \<Rightarrow> (case as_dict (jsonable_encoder rt (JObj d)) of None \<Rightarrow> [] | Some e \<Rightarrow> e))
      in if capability_id_of fcp = ''cap.weather.forecast''
            \<and> list_all (List.member [''location'', ''timeframe'']) (keys input)
         then
           let ((location, _), w) =
             resolve_weather_location rt (ce_weather_raced ce) (as_str (jget input ''location'')) w
           in (AList.update ''location'' (opt_str location) input, w)
         else (input, w))"

definition redact_google_action_input_for_event :: "services \<Rightarrow> string \<Rightarrow> dict \<Rightarrow> dict" where
  "redact_google_action_input_for_event rt cid input =
     (let mark = (\<lambda>key d. if as_str (jget d key) = None then d
            else AList.update key (redacted_provider_text_marker rt (jget d key)) d);
          d = (if List.member [''cap.calendar.create_event'', ''cap.calendar.update_event''] cid
               then mark ''description'' input else input)
      in if List.member [''cap.email.draft'', ''cap.email.send''] cid then mark ''body'' d else d)"

text \<open>What stays fixed during one call.\<close>

record call_info =
  ci_index :: int
  ci_call_id :: string
  ci_capability_id :: string
  ci_taint :: json

definition deny_out_of_scope :: "services \<Rightarrow> call_env \<Rightarrow> int \<Rightarrow> dict \<Rightarrow> call_state \<Rightarrow> call_state" where
  "deny_out_of_scope rt ce index fcp s =
     (let cid = capability_id_of fcp;
          s = add_event rt ce ''evt.action.call_denied''
            [(''call_index'', JInt index),
             (''call_id'', if call_id_of fcp = [] then JNull else JStr (call_id_of fcp)),
             (''tool_name'', JStr (tool_name_of fcp)), (''capability_id'', JStr cid),
             (''reason'', JStr ''tool_not_in_turn_scope'')]
            (blocked cid ''tool_not_in_turn_scope'' s)
      in respond rt (call_id_of fcp)
           [(''status'', JStr ''denied''), (''capability_id'', JStr cid),
            (''error'', JStr ''tool_not_in_turn_scope'')] s)"

section \<open>The attempt is recorded\<close>

definition new_attempt ::
  "services \<Rightarrow> call_env \<Rightarrow> call_info \<Rightarrow> evaluation \<Rightarrow> dict \<Rightarrow> dict \<Rightarrow> int \<Rightarrow> string \<Rightarrow> action_attempt" where
  "new_attempt rt ce ci evaluation frozen stored now new_id =
     (let cid = ci_capability_id ci
      in \<lparr>at_id = new_id, at_turn_id = ce_turn_id ce, proposal_index = ci_index ci,
          at_capability_id = cid,
          at_capability_version =
            (case ev_capability evaluation of None \<Rightarrow> ''unknown'' | Some c \<Rightarrow> version c),
          at_contract_hash =
            (case ev_capability evaluation of
               None \<Rightarrow> hash_of rt (JObj [(''capability_id'', JStr cid), (''contract'', JStr ''unknown'')])
             | Some c \<Rightarrow> contract_hash_of rt c),
          at_impact_level = ev_impact_level evaluation, proposed_input = JObj stored,
          at_payload_hash = hash_of rt (canonical_action_payload cid frozen),
          at_policy_decision = Deny, policy_reason = None, at_status = Proposed,
          approval_required = False, execution_output = JNull, execution_error = None,
          at_created_at = now, at_updated_at = now\<rparr>)"

definition track_attempt :: "call_info \<Rightarrow> action_attempt \<Rightarrow> call_context \<Rightarrow> call_context" where
  "track_attempt ci a c =
     c\<lparr>created_action_attempts := created_action_attempts c @ [at_id a],
       call_ids_by_attempt_id := (if ci_call_id ci = [] then call_ids_by_attempt_id c
          else AList.update (at_id a) (ci_call_id ci) (call_ids_by_attempt_id c)),
       taint_by_attempt_id := AList.update (at_id a) (ci_taint ci) (taint_by_attempt_id c)\<rparr>"

definition record_proposal ::
  "services \<Rightarrow> call_env \<Rightarrow> call_info \<Rightarrow> evaluation \<Rightarrow> dict \<Rightarrow> call_state
     \<Rightarrow> exn + (action_attempt \<times> dict option \<times> call_state)" where
  "record_proposal rt ce ci evaluation input s =
     (let cid = ci_capability_id ci;
          (now, w) = tick rt (cs_world s);
          frozen = (case ev_normalized_input evaluation of None \<Rightarrow> input | Some y \<Rightarrow> y);
          (stored, private) = stored_action_input_payload rt cid frozen;
          (new_id, w) = fresh_id rt ''aat'' w;
          a = new_attempt rt ce ci evaluation frozen stored now new_id
      in proceed (insert_attempt a w) (\<lambda>w.
         proceed (case (private, ce_google ce) of
                    (Some p, Some google) \<Rightarrow> store_action_private_payload rt a p google now w
                  | _ \<Rightarrow> Inr w) (\<lambda>w.
         let s = ctx_map (track_attempt ci a)
                 (s\<lparr>cs_world := w\<rparr>)
         in Inr (a, private, add_event rt ce ''evt.action.proposed''
              [(''action_attempt_id'', JStr (at_id a)), (''capability_id'', JStr cid),
               (''input'', JObj (if List.member GOOGLE_CAPABILITY_IDS cid
                  then redact_google_action_input_for_event rt cid stored else stored)),
               (''taint'', ci_taint ci)] s))))"

section \<open>Refusals\<close>

definition policy_decided ::
  "services \<Rightarrow> call_env \<Rightarrow> call_info \<Rightarrow> action_attempt \<Rightarrow> policy \<Rightarrow> string \<Rightarrow> call_state \<Rightarrow> call_state" where
  "policy_decided rt ce ci a decision reason =
     add_event rt ce ''evt.action.policy_decided''
       [(''action_attempt_id'', JStr (at_id a)), (''decision'', JStr (policy_name decision)),
        (''reason'', JStr reason), (''taint'', ci_taint ci)]"

text \<open>\<open>status = "rejected"\<close>, the blocked reason and the answer to the program.\<close>

definition reject_attempt ::
  "services \<Rightarrow> call_info \<Rightarrow> action_attempt \<Rightarrow> string \<Rightarrow> dict \<Rightarrow> call_state \<Rightarrow> call_state" where
  "reject_attempt rt ci a reason expected s =
     (let cid = ci_capability_id ci;
          (a, s) = update_attempt rt (\<lambda>a. a\<lparr>at_status := Refused, at_policy_decision := Deny,
            policy_reason := Some reason\<rparr>) a s
      in respond rt (ci_call_id ci)
           ([(''status'', JStr ''blocked''), (''capability_id'', JStr cid), (''reason'', JStr reason)] @ expected)
           (blocked cid reason s))"

definition expected_signature :: "string \<Rightarrow> string \<Rightarrow> dict" where
  "expected_signature cid reason =
     (if reason = ''schema_invalid'' then
        (case run_callable_name_for_capability_id cid of
           None \<Rightarrow> []
         | Some name \<Rightarrow>
             if run_callable_signature name = [] then []
             else [(''expected'', JStr (name @ run_callable_signature name))])
      else [])"

definition deny_proposal ::
  "services \<Rightarrow> call_env \<Rightarrow> call_info \<Rightarrow> action_attempt \<Rightarrow> string \<Rightarrow> call_state \<Rightarrow> call_state" where
  "deny_proposal rt ce ci a reason s =
     retrieval_error (ci_capability_id ci) reason
       (policy_decided rt ce ci a Deny reason
         (reject_attempt rt ci a reason (expected_signature (ci_capability_id ci) reason) s))"

definition policy_invariant_violation ::
  "services \<Rightarrow> call_env \<Rightarrow> call_info \<Rightarrow> action_attempt \<Rightarrow> call_state \<Rightarrow> call_state" where
  "policy_invariant_violation rt ce ci a s =
     policy_decided rt ce ci a Deny ''policy_invariant_violation''
       (reject_attempt rt ci a ''policy_invariant_violation'' [] s)"

section \<open>Asking for an approval\<close>

definition failed_output :: "services \<Rightarrow> call_info \<Rightarrow> string \<Rightarrow> call_state \<Rightarrow> call_state" where
  "failed_output rt ci error =
     respond rt (ci_call_id ci)
       [(''status'', JStr ''failed''), (''capability_id'', JStr (ci_capability_id ci)), (''error'', JStr error)]"

definition preflight_refused ::
  "services \<Rightarrow> call_env \<Rightarrow> call_info \<Rightarrow> action_attempt \<Rightarrow> string \<Rightarrow> call_state \<Rightarrow> call_state" where
  "preflight_refused rt ce ci a error s =
     (let (a, s) = update_attempt rt (\<lambda>a. a\<lparr>at_status := FailedAction, at_policy_decision := Deny,
            policy_reason := Some error, execution_error := Some error\<rparr>) a s
      in add_event rt ce ''evt.action.execution.failed''
           [(''action_attempt_id'', JStr (at_id a)), (''error'', JStr error), (''approval_ref'', JNull)]
           (policy_decided rt ce ci a Deny error
             (failed_output rt ci error (blocked (ci_capability_id ci) error s))))"

text \<open>\<open>now_fn() + timedelta(seconds=approval_ttl_seconds)\<close>\<close>

definition expiry_after :: "int \<Rightarrow> int \<Rightarrow> exn + int" where
  "expiry_after ttl now =
     (case of_micros (now + ttl * 1000000) of Inl e \<Rightarrow> Inl e | Inr _ \<Rightarrow> Inr (now + ttl * 1000000))"

definition announce_approval ::
  "services \<Rightarrow> call_env \<Rightarrow> call_info \<Rightarrow> approval_request \<Rightarrow> call_state \<Rightarrow> call_state" where
  "announce_approval rt ce ci ap s =
     (let cid = ci_capability_id ci;
          expires = JStr (to_rfc3339 (expires_at ap));
          s = ctx_map (\<lambda>c. c\<lparr>pending_approval_created := True,
                pending_approvals := pending_approvals c @
                  [JObj [(''approval_ref'', JStr (ap_id ap)), (''capability_id'', JStr cid),
                    (''expires_at'', expires)]]\<rparr>) s;
          s = respond rt (ci_call_id ci)
                [(''status'', JStr ''approval_required''), (''capability_id'', JStr cid),
                 (''approval_ref'', JStr (ap_id ap)), (''expires_at'', expires)] s
      in add_event rt ce ''evt.action.approval.requested''
           [(''action_attempt_id'', JStr (ap_attempt_id ap)), (''approval_ref'', JStr (ap_id ap)),
            (''actor_id'', JStr (actor_id ap)), (''expires_at'', expires)] s)"

definition request_approval ::
  "services \<Rightarrow> call_env \<Rightarrow> call_info \<Rightarrow> action_attempt \<Rightarrow> capability \<Rightarrow> dict \<Rightarrow> string \<Rightarrow> call_state
     \<Rightarrow> exn + call_state" where
  "request_approval rt ce ci a c normalized_input reason s =
     (case preflight_capability_execution c normalized_input of
        Inl (Raised e) \<Rightarrow> Inl e
      | Inl (Rejected e) \<Rightarrow> Inr (preflight_refused rt ce ci a e s)
      | Inr _ \<Rightarrow>
          let (a, s) = update_attempt rt (\<lambda>a. a\<lparr>at_status := AwaitingApproval,
                at_policy_decision := RequiresApproval, policy_reason := Some reason,
                approval_required := True\<rparr>) a s;
              s = policy_decided rt ce ci a RequiresApproval reason s;
              (now, w) = tick rt (cs_world s)
          in proceed (expiry_after (ce_ttl_seconds ce) now) (\<lambda>expires.
             let (new_id, w) = fresh_id rt ''apr'' w;
                 (created, w) = tick rt w;
                 (updated, w) = tick rt w;
                 ap = \<lparr>ap_id = new_id, ap_attempt_id = at_id a, ap_turn_id = ce_turn_id ce,
                   actor_id = ce_actor_id ce, ap_status = Pending, ap_payload_hash = at_payload_hash a,
                   expires_at = expires, decision_reason = None, decided_at = None,
                   ap_created_at = created, ap_updated_at = updated\<rparr>
             in proceed (insert_approval ap w) (\<lambda>w.
                Inr (retrieval_error (ci_capability_id ci) reason
                  (announce_approval rt ce ci ap (s\<lparr>cs_world := w\<rparr>))))))"

section \<open>Running at once\<close>

text \<open>A call that was allowed and then failed: the attempt, the answer, the reason and the event.\<close>

definition inline_failed ::
  "services \<Rightarrow> call_env \<Rightarrow> call_info \<Rightarrow> action_attempt \<Rightarrow> string \<Rightarrow> (action_attempt \<Rightarrow> action_attempt)
     \<Rightarrow> string \<Rightarrow> dict \<Rightarrow> call_state \<Rightarrow> call_state" where
  "inline_failed rt ce ci a error change blocked_reason event_extra s =
     (let cid = ci_capability_id ci;
          (a, s) = update_attempt rt (\<lambda>a. change (a\<lparr>execution_output := JNull,
            execution_error := Some error, at_status := FailedAction\<rparr>)) a s
      in add_event rt ce ''evt.action.execution.failed''
           ([(''action_attempt_id'', JStr (at_id a)), (''error'', JStr error)] @ event_extra)
           (retrieval_error cid error (failed_output rt ci error (blocked cid blocked_reason s))))"

definition queue_execution ::
  "services \<Rightarrow> call_env \<Rightarrow> call_info \<Rightarrow> action_attempt \<Rightarrow> call_state \<Rightarrow> exn + call_state" where
  "queue_execution rt ce ci a s =
     (let cid = ci_capability_id ci
      in proceed (enqueue_action_execution_task rt a (cs_world s)) (\<lambda>(task, w).
         let queued = [(''status'', JStr ''queued''), (''task_id'', JStr (task_id task))];
             s = add_event rt ce ''evt.action.execution.started''
                   [(''action_attempt_id'', JStr (at_id a)), (''capability_id'', JStr cid),
                    (''task_id'', JStr (task_id task))] (s\<lparr>cs_world := w\<rparr>);
             s = ctx_map (\<lambda>c. c\<lparr>inline_results := inline_results c @
                   [JObj [(''capability_id'', JStr cid), (''output'', JObj queued)]]\<rparr>) s
         in Inr (respond rt (ci_call_id ci)
              [(''status'', JStr ''queued''), (''capability_id'', JStr cid),
               (''task_id'', JStr (task_id task))] s)))"

text \<open>
  The syscalls that write a background task in the caller's transaction: a wake-up at a time the
  validator has normalized (so that it has an offset; a time without one is read as UTC), and a
  research run.
\<close>

definition dict_item :: "dict \<Rightarrow> string \<Rightarrow> (json \<Rightarrow> exn + 'a) \<Rightarrow> exn + 'a" where
  "dict_item d key k = (case map_of d key of None \<Rightarrow> Inl KeyError | Some v \<Rightarrow> k v)"

definition parsed_instant :: "string \<Rightarrow> exn + int" where
  "parsed_instant v =
     (case fromisoformat (replace ''Z'' ''+00:00'' v) of
        None \<Rightarrow> Inl ValueError
      | Some d \<Rightarrow> Inr (naive_micros d - (case dt_offset d of None \<Rightarrow> 0 | Some off \<Rightarrow> off)))"

definition execute_proactive_capability ::
  "services \<Rightarrow> string \<Rightarrow> dict \<Rightarrow> world \<Rightarrow> exn + (dict \<times> world)" where
  "execute_proactive_capability rt cid input w =
     (if cid \<noteq> ''cap.proactive.schedule'' then Inl (RuntimeError ''unknown_proactive_capability'')
      else dict_item input ''when'' (\<lambda>when_raw.
        proceed (parsed_instant (py_str (service_env rt) when_raw)) (\<lambda>after.
        dict_item input ''note'' (\<lambda>note.
        let (now, w) = tick rt w
        in proceed (enqueue_background_task rt ''agent_wake''
              [(''note'', JStr (py_str (service_env rt) note))] now None (Some after) None w) (\<lambda>(task, w).
           Inr ([(''status'', JStr ''scheduled''), (''task_id'', JStr (task_id task)),
             (''run_after'', JStr (to_rfc3339 after))], w))))))"

definition execute_research_capability ::
  "services \<Rightarrow> string \<Rightarrow> dict \<Rightarrow> world \<Rightarrow> exn + (dict \<times> world)" where
  "execute_research_capability rt cid input w =
     (if cid \<noteq> ''cap.research.investigate'' then Inl (RuntimeError ''unknown_research_capability'')
      else dict_item input ''question'' (\<lambda>question.
        dict_item input ''mode'' (\<lambda>mode.
        let (now, w) = tick rt w
        in proceed (enqueue_background_task rt ''research_run''
              [(''question'', JStr (py_str (service_env rt) question)),
               (''mode'', JStr (py_str (service_env rt) mode))] now None None None w) (\<lambda>(task, w).
           Inr ([(''status'', JStr ''queued''), (''research_id'', JStr (task_id task))], w)))))"

definition inline_failure :: "string \<Rightarrow> provider_result" where
  "inline_failure error =
     \<lparr>pr_succeeded = False, pr_output = None, pr_auth_failure = None, pr_error = Some error\<rparr>"

definition inline_success :: "dict \<Rightarrow> provider_result" where
  "inline_success output =
     \<lparr>pr_succeeded = True, pr_output = Some output, pr_auth_failure = None, pr_error = None\<rparr>"

definition of_execution :: "execution_result \<Rightarrow> provider_result" where
  "of_execution r = (case r of Succeeded output \<Rightarrow> inline_success output | Failed e \<Rightarrow> inline_failure e)"

text \<open>Which runtime runs the capability; only the last two syscalls write to the world.\<close>

definition dispatch_inline ::
  "services \<Rightarrow> call_env \<Rightarrow> capability \<Rightarrow> string \<Rightarrow> dict \<Rightarrow> world \<Rightarrow> exn + (provider_result \<times> world)" where
  "dispatch_inline rt ce c cid input w =
     (let run = ce_run ce; keep = (\<lambda>r. proceed r (\<lambda>v. Inr (v, w)))
      in if List.member GOOGLE_CAPABILITY_IDS cid then
           (if ce_google ce \<noteq> None then keep (run_google run cid input)
            else Inr (inline_failure ''google_runtime_not_bound'', w))
         else if List.member AGENCY_CAPABILITY_IDS cid \<and> ce_agency ce then keep (run_agency run cid input)
         else if List.member ATTACHMENT_CAPABILITY_IDS cid then
           (if ce_attachment ce then keep (run_attachment run input)
            else Inr (inline_failure ''attachment_runtime_not_bound'', w))
         else if List.member MEMORY_CAPABILITY_IDS cid then
           (if \<not> ce_session_factory ce then Inr (inline_failure ''memory_runtime_not_bound'', w)
            else proceed (run_memory run cid input) (\<lambda>r.
              Inr (case r of Inl e \<Rightarrow> inline_failure e | Inr output \<Rightarrow> inline_success output, w)))
         else if List.member PROACTIVE_CAPABILITY_IDS cid then
           proceed (execute_proactive_capability rt cid input w) (\<lambda>(output, w). Inr (inline_success output, w))
         else if List.member PROVIDER_EVIDENCE_CAPABILITY_IDS cid then
           proceed (run_provider_evidence run cid input) (\<lambda>output. Inr (inline_success output, w))
         else if List.member RESEARCH_CAPABILITY_IDS cid then
           proceed (execute_research_capability rt cid input w) (\<lambda>(output, w). Inr (inline_success output, w))
         else keep (map_sum id of_execution (execute_capability (jsonable_encoder rt) c input)))"

text \<open>
  The outputs for the agent and for the audit: those of a Google read carry evidence, or the read
  fails for want of it.
\<close>

definition google_outputs ::
  "services \<Rightarrow> call_env \<Rightarrow> string \<Rightarrow> dict \<Rightarrow> exn + (string + dict \<times> dict)" where
  "google_outputs rt ce cid output =
     proceed (persist_provider_evidence (ce_run ce) cid output) (\<lambda>refs.
     let output = (if refs = [] then output else AList.update ''provider_evidence_refs'' (JArr refs) output)
     in if refs = [] \<and> cid = ''cap.email.read'' \<and> read_ok output
        then Inr (Inl ''gmail_read_evidence_missing'')
        else if refs = [] \<and> cid = ''cap.calendar.list'' \<and> nonempty_list (jget output ''events'')
        then Inr (Inl ''calendar_event_evidence_missing'')
        else proceed (provider_capability_output_for_agent rt cid output) (\<lambda>agent.
             proceed (provider_capability_output_for_audit rt cid output) (\<lambda>audit.
             Inr (Inr (agent, audit)))))"

definition inline_outputs ::
  "services \<Rightarrow> call_env \<Rightarrow> string \<Rightarrow> dict \<Rightarrow> exn + (string + dict \<times> dict)" where
  "inline_outputs rt ce cid output =
     (if List.member GOOGLE_CAPABILITY_IDS cid then google_outputs rt ce cid output
      else if List.member PROVIDER_EVIDENCE_CAPABILITY_IDS cid then
        proceed (provider_capability_output_for_agent rt cid output) (\<lambda>agent.
        proceed (provider_capability_output_for_audit rt cid output) (\<lambda>audit.
        Inr (Inr (agent, audit))))
      else Inr (Inr (output, output)))"

section \<open>What a result taints\<close>

definition tainted_row :: "json \<Rightarrow> bool" where
  "tainted_row v = (case as_dict v of None \<Rightarrow> False | Some d \<Rightarrow> jget d ''taint'' = JStr ''tainted'')"

definition list_items :: "json \<Rightarrow> json list" where
  "list_items v = (case as_list v of None \<Rightarrow> [] | Some xs \<Rightarrow> xs)"

definition dict_or_empty :: "json \<Rightarrow> dict" where
  "dict_or_empty v = (case as_dict v of None \<Rightarrow> [] | Some d \<Rightarrow> d)"

definition memory_output_runtime_provenance ::
  "string \<Rightarrow> action_attempt \<Rightarrow> dict \<Rightarrow> runtime_provenance option" where
  "memory_output_runtime_provenance cid a output =
     (let tainted =
        (if cid = ''cap.memory.recall''
         then list_ex tainted_row (list_items (jget (dict_or_empty (jget output ''recall'')) ''items''))
         else if cid = ''cap.memory.search'' then list_ex tainted_row (list_items (jget output ''hits''))
         else if cid = ''cap.memory.read''
         then jget output ''status'' = JStr ''found'' \<and> jget output ''taint'' = JStr ''tainted''
         else False)
      in if \<not> tainted then None
         else Some \<lparr>rp_status = ''tainted'',
           rp_evidence = [JObj [(''kind'', JStr ''prior_tool_output_in_context''),
             (''turn_id'', JStr (at_turn_id a)), (''action_attempt_id'', JStr (at_id a)),
             (''capability_id'', JStr cid), (''impact_level'', JStr (impact_name (at_impact_level a)))]]\<rparr>)"

text \<open>The taint an output declares itself, when it lists its evidence.\<close>

definition declared_output_provenance :: "dict \<Rightarrow> runtime_provenance option" where
  "declared_output_provenance output =
     (let p = dict_or_empty (jget output ''runtime_provenance'')
      in if jget p ''status'' = JStr ''tainted'' \<and> as_list (jget p ''evidence'') \<noteq> None
         then Some \<lparr>rp_status = ''tainted'',
           rp_evidence = filter (\<lambda>e. as_dict e \<noteq> None) (list_items (jget p ''evidence''))\<rparr>
         else None)"

definition result_provenance ::
  "string \<Rightarrow> action_attempt \<Rightarrow> dict \<Rightarrow> runtime_provenance option \<Rightarrow> runtime_provenance option" where
  "result_provenance cid a output current =
     (let p = (if List.member MEMORY_CAPABILITY_IDS cid
               then merge_optional current (memory_output_runtime_provenance cid a output) else current);
          declared = declared_output_provenance output
      in if declared = None then p
         else if List.member ATTACHMENT_CAPABILITY_IDS cid then declared
         else merge_optional p declared)"

section \<open>The result of an inline run\<close>

fun append_missing :: "string list \<Rightarrow> string list \<Rightarrow> string list" where
  "append_missing current [] = current"
| "append_missing current (r # rs) =
     append_missing (if List.member current r then current else current @ [r]) rs"

definition append_reason_codes ::
  "(string \<times> string list) list \<Rightarrow> string \<Rightarrow> string list \<Rightarrow> (string \<times> string list) list" where
  "append_reason_codes existing attempt_id codes =
     (if codes = [] then existing
      else AList.update attempt_id
        (append_missing (case map_of existing attempt_id of None \<Rightarrow> [] | Some cs \<Rightarrow> cs) codes) existing)"

text \<open>Which results go to the interpreter: large ones, and those with a part that is not text.\<close>

definition MAX_DIRECT_TOOL_OUTPUT_JSON_CHARS :: nat where
  "MAX_DIRECT_TOOL_OUTPUT_JSON_CHARS = 6000"

definition MODALITY_HEAVY_VALUES :: "string list" where
  "MODALITY_HEAVY_VALUES = [''audio'', ''document'', ''image'', ''video'']"

definition json_payload_size :: "services \<Rightarrow> json \<Rightarrow> nat" where
  "json_payload_size rt v = length (json_dumps rt (jsonable_encoder rt v))"

definition heavy_block :: "json \<Rightarrow> bool" where
  "heavy_block block =
     (case as_dict block of None \<Rightarrow> False
      | Some d \<Rightarrow>
         (case as_str (jget d ''kind'') of None \<Rightarrow> False
          | Some kind \<Rightarrow> \<not> List.member [[], ''text''] (lower (strip kind))))"

definition has_modality_heavy_output :: "json \<Rightarrow> bool" where
  "has_modality_heavy_output output =
     (case as_dict output of None \<Rightarrow> False
      | Some d \<Rightarrow>
          (case as_str (jget d ''modality'') of
             None \<Rightarrow> False
           | Some modality \<Rightarrow> List.member MODALITY_HEAVY_VALUES (lower (strip modality)))
          \<or> list_ex heavy_block (list_items (jget d ''blocks'')))"

definition tool_result_interpretation_reason_codes :: "services \<Rightarrow> json \<Rightarrow> string list" where
  "tool_result_interpretation_reason_codes rt output =
     (if json_payload_size rt output > MAX_DIRECT_TOOL_OUTPUT_JSON_CHARS then [''large''] else [])
     @ (if has_modality_heavy_output output then [''modality_heavy''] else [])"

definition MAX_CITED_SOURCES :: nat where
  "MAX_CITED_SOURCES = 4"

definition cite_sources ::
  "call_env \<Rightarrow> string \<Rightarrow> string \<Rightarrow> dict \<Rightarrow> dict \<Rightarrow> call_state \<Rightarrow> exn + call_state" where
  "cite_sources ce cid attempt_id agent audit s =
     (if \<not> is_retrieval_call cid then Inr s
      else
        let status = jget (dict_or_empty (jget agent ''read_outcome'')) ''status'';
            s = (case as_str status of
                   None \<Rightarrow> s
                 | Some t \<Rightarrow>
                     if List.member ATTACHMENT_CAPABILITY_IDS cid \<and> t \<noteq> ''ok''
                     then retrieval_error cid t s else s);
            remaining = MAX_CITED_SOURCES - length (retrieval_sources (cs_ctx s));
            candidates = cited_sources (ce_run ce) audit
        in if remaining = 0 then Inr s
           else if candidates = [] then
             Inr (retrieval_error cid
               (if cid = ''cap.email.search'' then ''gmail_read_required'' else ''insufficient_evidence'') s)
           else proceed (persist_sources (ce_run ce) attempt_id (take remaining candidates)) (\<lambda>sources.
             Inr (ctx_map (\<lambda>c. c\<lparr>retrieval_sources := retrieval_sources c @ sources\<rparr>) s)))"

definition inline_succeeded ::
  "services \<Rightarrow> call_env \<Rightarrow> call_info \<Rightarrow> action_attempt \<Rightarrow> dict \<Rightarrow> dict \<Rightarrow> call_state \<Rightarrow> exn + call_state" where
  "inline_succeeded rt ce ci a agent audit s =
     (let cid = ci_capability_id ci;
          (a, s) = update_attempt rt (\<lambda>a. a\<lparr>execution_output := JObj audit, execution_error := None,
            at_status := SucceededAction\<rparr>) a s;
          s = ctx_map (\<lambda>c. c\<lparr>interpreter_reason_codes_by_attempt_id :=
                append_reason_codes (interpreter_reason_codes_by_attempt_id c) (at_id a)
                  (tool_result_interpretation_reason_codes rt (JObj agent))\<rparr>) s;
          s = ctx_map (\<lambda>c. if List.member DISCORD_CAPABILITY_IDS cid then c\<lparr>silent_response := True\<rparr>
                else c\<lparr>inline_results := inline_results c @
                  [JObj [(''capability_id'', JStr cid), (''output'', JObj agent)]]\<rparr>) s;
          s = respond rt (ci_call_id ci)
                [(''status'', JStr ''succeeded''), (''capability_id'', JStr cid), (''output'', JObj agent)] s;
          s = ctx_map (\<lambda>c. c\<lparr>result_runtime_provenance :=
                result_provenance cid a agent (result_runtime_provenance c)\<rparr>) s
      in proceed (cite_sources ce cid (at_id a) agent audit s) (\<lambda>s.
         Inr (add_event rt ce ''evt.action.execution.succeeded''
           [(''action_attempt_id'', JStr (at_id a)), (''capability_id'', JStr cid),
            (''status'', JStr ''succeeded''), (''execution_output'', JObj audit)] s)))"

definition provider_error :: "provider_result \<Rightarrow> string \<times> string" where
  "provider_error r =
     (let error = (case pr_error r of
            None \<Rightarrow> ''execution_output_missing''
          | Some e \<Rightarrow> if e = [] then ''execution_output_missing'' else e)
      in case pr_auth_failure r of
           None \<Rightarrow> (error, error)
         | Some (failure_class, recovery) \<Rightarrow> (failure_class, failure_class @ '' ('' @ recovery @ '')''))"

definition finish_inline ::
  "services \<Rightarrow> call_env \<Rightarrow> call_info \<Rightarrow> action_attempt \<Rightarrow> provider_result \<Rightarrow> call_state \<Rightarrow> exn + call_state" where
  "finish_inline rt ce ci a r s =
     (case (if pr_succeeded r then pr_output r else None) of
        None \<Rightarrow>
          let (error, reason) = provider_error r
          in Inr (inline_failed rt ce ci a error (\<lambda>a. a) reason [(''output'', JNull)] s)
      | Some output \<Rightarrow>
          proceed (inline_outputs rt ce (ci_capability_id ci) output) (\<lambda>outputs.
          case outputs of
            Inl e \<Rightarrow> Inr (inline_failed rt ce ci a e (\<lambda>a. a) e [] s)
          | Inr (agent, audit) \<Rightarrow> inline_succeeded rt ce ci a agent audit s))"

definition run_inline ::
  "services \<Rightarrow> call_env \<Rightarrow> call_info \<Rightarrow> action_attempt \<Rightarrow> capability \<Rightarrow> dict \<Rightarrow> call_state \<Rightarrow> exn + call_state" where
  "run_inline rt ce ci a c normalized_input s =
     (let s = add_event rt ce ''evt.action.execution.started''
            [(''action_attempt_id'', JStr (at_id a)), (''capability_id'', JStr (ci_capability_id ci))] s
      in proceed (dispatch_inline rt ce c (ci_capability_id ci) normalized_input (cs_world s)) (\<lambda>(r, w).
         finish_inline rt ce ci a r (s\<lparr>cs_world := w\<rparr>)))"

text \<open>
  A capability the policy allows inline: the integrity and egress checks, then the durable queue for
  a write of another system, or the run itself.
\<close>

definition allow_inline ::
  "services \<Rightarrow> call_env \<Rightarrow> call_info \<Rightarrow> action_attempt \<Rightarrow> capability \<Rightarrow> dict \<Rightarrow> string \<Rightarrow> call_state
     \<Rightarrow> exn + call_state" where
  "allow_inline rt ce ci a c normalized_input reason s =
     (let cid = ci_capability_id ci;
          (a, s) = update_attempt rt (\<lambda>a. a\<lparr>at_status := Executing, at_policy_decision := AllowInline,
            policy_reason := None\<rparr>) a s;
          s = policy_decided rt ce ci a AllowInline reason s
      in case execution_integrity_error rt a c of
           Some e \<Rightarrow>
             Inr (inline_failed rt ce ci a e (\<lambda>a. a\<lparr>policy_reason := Some ''integrity_mismatch''\<rparr>) e [] s)
         | None \<Rightarrow>
            (case preflight_capability_execution c normalized_input of
               Inl (Raised e) \<Rightarrow> Inl e
             | Inl (Rejected e) \<Rightarrow>
                 Inr (inline_failed rt ce ci a e (\<lambda>a. a\<lparr>policy_reason := Some e\<rparr>) e [] s)
             | Inr _ \<Rightarrow>
                 if impact_level c \<noteq> Read \<and> \<not> List.member MEMORY_CAPABILITY_IDS cid
                    \<and> \<not> List.member PROACTIVE_CAPABILITY_IDS cid
                 then queue_execution rt ce ci a s
                 else run_inline rt ce ci a c normalized_input s))"

section \<open>One call\<close>

definition decide_proposal ::
  "services \<Rightarrow> call_env \<Rightarrow> call_info \<Rightarrow> evaluation \<Rightarrow> action_attempt \<Rightarrow> bool \<Rightarrow> call_state \<Rightarrow> exn + call_state" where
  "decide_proposal rt ce ci evaluation a unsealed s =
     (let reason = ev_reason evaluation
      in if unsealed then Inr (reject_attempt rt ci a ''private_action_payload_storage_unavailable'' [] s)
         else if ev_decision evaluation = Deny then Inr (deny_proposal rt ce ci a reason s)
         else case (ev_capability evaluation, ev_normalized_input evaluation) of
           (Some c, Some y) \<Rightarrow>
             if ev_decision evaluation = RequiresApproval then request_approval rt ce ci a c y reason s
             else allow_inline rt ce ci a c y reason s
         | _ \<Rightarrow>
             let s = policy_invariant_violation rt ce ci a s
             in Inr (if ev_decision evaluation = RequiresApproval then s
                     else retrieval_error (ci_capability_id ci) ''policy_invariant_violation'' s))"

definition process_one_call :: "services \<Rightarrow> call_env \<Rightarrow> int \<Rightarrow> json \<Rightarrow> call_state \<Rightarrow> exn + call_state" where
  "process_one_call rt ce index raw s =
     (let fcp = dict_or_empty raw; cid = capability_id_of fcp
      in if \<not> List.member (ce_allowed ce) cid then Inr (deny_out_of_scope rt ce index fcp s)
         else
           let s = mark_retrieval cid s;
               (input, w) = call_input rt ce fcp (cs_world s);
               s = s\<lparr>cs_world := w\<rparr>;
               declared = model_declared_taint_status fcp;
               status = effective_provenance_status (ce_provenance ce) declared;
               ci = \<lparr>ci_index = index, ci_call_id = call_id_of fcp, ci_capability_id = cid,
                 ci_taint = taint_event_payload status (ce_provenance ce) declared\<rparr>
           in proceed (evaluate_proposal (service_env rt) (service_providers rt) cid input
                 (pending_approval_created (cs_ctx s)) (influenced_by_untrusted status) (Some status)) (\<lambda>evaluation.
              proceed (record_proposal rt ce ci evaluation input s) (\<lambda>(a, private, s).
              decide_proposal rt ce ci evaluation a (private \<noteq> None \<and> ce_google ce = None) s)))"

end
