(* ===== verification/Sandbox_Channel.thy ===== *)
theory Sandbox_Channel
  imports Proposals
begin

text \<open>
  The host side of the channel to a sandboxed program, \<open>src/ariel/sandbox_runtime.py\<close>: every line of
  the guest is untrusted, is checked for its size and form, and is answered; the program ends in a
  \<open>ProgramResult\<close>. The guest itself, the process that runs model-written code, is any behaviour at
  all: what it says next may depend on every answer.

  The container's start and stop and the process calls are not modelled; the exit code and the
  watchdog's kill are part of the guest's behaviour.
\<close>

section \<open>The guest\<close>

datatype guest =
    Closed int
  | Overrun
  | Says string int "string \<Rightarrow> guest"

text \<open>
  \<open>Closed c\<close>: the output ends and the process exits with code \<open>c\<close>. \<open>Overrun\<close>: the watchdog kills the
  process. \<open>Says line c k\<close>: the next line, the exit code of the process should the host hang up on
  it, and how it goes on after the host's answer.
\<close>

record program_result =
  pgm_ok :: bool
  pgm_error :: "string option"
  syscall_count :: nat

definition SANDBOX_MAX_MESSAGE_BYTES :: nat where
  "SANDBOX_MAX_MESSAGE_BYTES = 256 * 1024"

section \<open>Messages\<close>

datatype guest_message = Syscall string dict | Program_Result bool "string option"

text \<open>\<open>_validate_guest_message\<close>: an uncaught exception, a \<open>SandboxRuntimeError\<close> or a message.\<close>

definition guest_fault :: "string \<Rightarrow> exn + (string + guest_message)" where
  "guest_fault reason = Inr (Inl reason)"

definition check_guest_message :: "dict \<Rightarrow> exn + (string + guest_message)" where
  "check_guest_message message =
     (let message_type = jget message ''type''
      in if message_type = JStr ''syscall'' then
           (case as_str (jget message ''name'') of
              None \<Rightarrow> guest_fault ''guest syscall message had an invalid name''
            | Some name \<Rightarrow>
                if name = [] then guest_fault ''guest syscall message had an invalid name''
                else case as_dict (jget message ''input'') of
                  None \<Rightarrow> guest_fault ''guest syscall message had a non-object input''
                | Some input \<Rightarrow> Inr (Inr (Syscall name input)))
         else if message_type = JStr ''program-result'' then
           (case as_bool (jget message ''ok'') of
              None \<Rightarrow> guest_fault ''guest program-result had a non-boolean ok''
            | Some ok \<Rightarrow>
                if jget message ''error'' = JNull then Inr (Inr (Program_Result ok None))
                else case as_str (jget message ''error'') of
                  None \<Rightarrow> guest_fault ''guest program-result had a non-string error''
                | Some error \<Rightarrow> Inr (Inr (Program_Result ok (Some error))))
         else guest_fault ''guest sent an unknown message type'')"

definition validate_guest_message :: "services \<Rightarrow> string \<Rightarrow> exn + (string + guest_message)" where
  "validate_guest_message rt line =
     (if length (utf8_encode line) > SANDBOX_MAX_MESSAGE_BYTES
      then guest_fault ''guest message exceeded the maximum message size''
      else case json_loads (service_crypto rt) line of
        Inl ValueError \<Rightarrow> guest_fault ''guest emitted invalid JSON''
      | Inl e \<Rightarrow> Inl e
      | Inr v \<Rightarrow>
         (case as_dict v of
            None \<Rightarrow> guest_fault ''guest message was not a JSON object''
          | Some message \<Rightarrow> check_guest_message message))"

definition encode_host_message :: "services \<Rightarrow> dict \<Rightarrow> string" where
  "encode_host_message rt message = json_dumps rt (JObj message) @ [CHR 0x0A]"

definition syscall_answer :: "services \<Rightarrow> bool \<times> json \<Rightarrow> dict" where
  "syscall_answer rt outcome =
     (case outcome of (ok, v) \<Rightarrow>
        if ok then [(''type'', JStr ''syscall-result''), (''ok'', JBool True), (''value'', v)]
        else [(''type'', JStr ''syscall-result''), (''ok'', JBool False),
              (''error'', JStr (py_str (service_env rt) v))])"

section \<open>The conversation\<close>

text \<open>How many decimal digits a number has, and which.\<close>

fun decimal_nat :: "nat \<Rightarrow> string" where
  "decimal_nat n = (if n < 10 then [digit_char (int n)] else decimal_nat (n div 10) @ [digit_char (int (n mod 10))])"

declare decimal_nat.simps [simp del]

definition decimal :: "int \<Rightarrow> string" where
  "decimal i = (if i < 0 then ''-'' @ decimal_nat (nat (- i)) else decimal_nat (nat i))"

text \<open>How a conversation ends: cut off, hung up on, or with the program's own result.\<close>

datatype ending =
    Closed_Early int
  | Timed_Out
  | Violation string
  | Reported bool "string option" int

text \<open>
  The loop of \<open>_conversation\<close>: the callback runs on the state of the caller, and an exception of the
  callback or of the validation leaves the loop.
\<close>

primrec conversation ::
  "guest \<Rightarrow> services \<Rightarrow> (string \<Rightarrow> dict \<Rightarrow> 's \<Rightarrow> exn + ((bool \<times> json) \<times> 's)) \<Rightarrow> nat \<Rightarrow> 's
     \<Rightarrow> exn + (ending \<times> nat \<times> 's)" where
  "conversation (Closed c) = (\<lambda>rt callback n s. Inr (Closed_Early c, n, s))"
| "conversation Overrun = (\<lambda>rt callback n s. Inr (Timed_Out, n, s))"
| "conversation (Says line c k) = (\<lambda>rt callback n s.
     proceed (validate_guest_message rt line) (\<lambda>checked.
     case checked of
       Inl reason \<Rightarrow> Inr (Violation reason, n, s)
     | Inr (Program_Result ok error) \<Rightarrow> Inr (Reported ok error c, n, s)
     | Inr (Syscall name input) \<Rightarrow>
         proceed (callback name input s) (\<lambda>(outcome, s).
         conversation (k (encode_host_message rt (syscall_answer rt outcome))) rt callback (Suc n) s)))"

definition program_outcome :: "ending \<Rightarrow> nat \<Rightarrow> program_result" where
  "program_outcome e n =
     (case e of
        Timed_Out \<Rightarrow> \<lparr>pgm_ok = False, pgm_error = Some ''program exceeded the wall-clock limit'', syscall_count = n\<rparr>
      | Violation reason \<Rightarrow>
          \<lparr>pgm_ok = False, pgm_error = Some (''guest violated the channel protocol: '' @ reason), syscall_count = 0\<rparr>
      | Closed_Early c \<Rightarrow>
          \<lparr>pgm_ok = False,
           pgm_error = Some (if c = 137 then ''program exceeded its CPU-time or memory limit''
             else ''guest process exited with code '' @ decimal c), syscall_count = n\<rparr>
      | Reported ok error c \<Rightarrow>
          if ok \<and> c \<noteq> 0
          then \<lparr>pgm_ok = False, pgm_error = Some (''guest process exited with code '' @ decimal c), syscall_count = n\<rparr>
          else \<lparr>pgm_ok = ok, pgm_error = error, syscall_count = n\<rparr>)"

text \<open>
  The guest is written to before it first speaks; its first line may depend on nothing else.
\<close>

definition drive_program ::
  "services \<Rightarrow> guest \<Rightarrow> (string \<Rightarrow> dict \<Rightarrow> 's \<Rightarrow> exn + ((bool \<times> json) \<times> 's)) \<Rightarrow> 's
     \<Rightarrow> exn + (program_result \<times> 's)" where
  "drive_program rt g callback s =
     proceed (conversation g rt callback 0 s) (\<lambda>(e, n, s). Inr (program_outcome e n, s))"

section \<open>Laws\<close>

text \<open>What every syscall keeps, every program keeps.\<close>

lemma conversation_keeps:
  assumes "\<And>name input s outcome s'. callback name input s = Inr (outcome, s') \<Longrightarrow> I s \<Longrightarrow> I s'"
  shows "conversation g rt callback n s = Inr (e, m, s') \<Longrightarrow> I s \<Longrightarrow> I s'"
proof (induction g arbitrary: n s)
  case (Says line c k)
  from Says.prems(1) obtain checked where ch: "validate_guest_message rt line = Inr checked"
    and rest: "(case checked of
       Inl reason \<Rightarrow> Inr (Violation reason, n, s)
     | Inr (Program_Result ok error) \<Rightarrow> Inr (Reported ok error c, n, s)
     | Inr (Syscall name input) \<Rightarrow>
         proceed (callback name input s) (\<lambda>(outcome, s).
         conversation (k (encode_host_message rt (syscall_answer rt outcome))) rt callback (Suc n) s)) = Inr (e, m, s')"
    by auto
  show ?case
  proof (cases "\<exists>name input. checked = Inr (Syscall name input)")
    case True
    then obtain name input where c: "checked = Inr (Syscall name input)" by blast
    with rest obtain outcome s1 where s1: "callback name input s = Inr (outcome, s1)"
      and r: "conversation (k (encode_host_message rt (syscall_answer rt outcome))) rt callback (Suc n) s1 = Inr (e, m, s')"
      by auto
    show ?thesis by (rule Says.IH [OF _ r assms [OF s1 Says.prems(2)]]) simp
  next
    case False
    with rest Says.prems(2) show ?thesis by (auto split: sum.split_asm guest_message.split_asm)
  qed
qed simp_all

lemma drive_keeps:
  assumes "drive_program rt g callback s = Inr (r, s')" "I s"
    and "\<And>name input s outcome s'. callback name input s = Inr (outcome, s') \<Longrightarrow> I s \<Longrightarrow> I s'"
  shows "I s'"
proof -
  from assms(1) obtain e n where "conversation g rt callback 0 s = Inr (e, n, s')"
    by (auto simp: drive_program_def)
  from conversation_keeps [of callback I, OF assms(3) this assms(2)] show ?thesis .
qed

end
