(* ===== verification/Run_Program.thy ===== *)
theory Run_Program
  imports Sandbox_Channel
begin

text \<open>
  One program of a turn, \<open>src/ariel/run_runtime.py\<close>: the syscalls the host answers itself (the output
  of the agent and the scratch store), the capability calls it passes to \<open>process_one_call\<close>, and the
  taint that flows from their results into the later calls of the program and out of it.
\<close>

section \<open>Constants\<close>

definition MAX_RUN_SOURCE_CHARS :: nat where
  "MAX_RUN_SOURCE_CHARS = 20000"

definition AGENT_SYSCALL_NAMES :: "string list" where
  "AGENT_SYSCALL_NAMES = [''agent.emit_message'', ''agent.emit_value'', ''agent.finish_silent'']"

definition SCRATCH_SYSCALL_NAMES :: "string list" where
  "SCRATCH_SYSCALL_NAMES = [''scratch.set'', ''scratch.get'']"

definition AGENT_EMIT_FINDING_MAIN_LOOP_ERROR :: string where
  "AGENT_EMIT_FINDING_MAIN_LOOP_ERROR =
     ''agent.emit_finding is not available in the main agent loop; finish the main loop with agent.emit_message''"

definition AGENT_EMIT_DONE_MAIN_LOOP_ERROR :: string where
  "AGENT_EMIT_DONE_MAIN_LOOP_ERROR =
     ''agent.emit_done is not available in the main agent loop; finish the main loop with agent.emit_message''"

definition SCRATCH_MAX_ENTRIES :: nat where
  "SCRATCH_MAX_ENTRIES = 64"

definition SCRATCH_MAX_VALUE_BYTES :: nat where
  "SCRATCH_MAX_VALUE_BYTES = 512 * 1024"

definition SCRATCH_MAX_TOTAL_BYTES :: nat where
  "SCRATCH_MAX_TOTAL_BYTES = 4 * 1024 * 1024"

definition MAX_EMITTED_VALUES :: nat where
  "MAX_EMITTED_VALUES = 10"

definition MAX_EMITTED_VALUE_BYTES :: nat where
  "MAX_EMITTED_VALUE_BYTES = 12000"

definition MAX_EMITTED_FINDING_BYTES :: nat where
  "MAX_EMITTED_FINDING_BYTES = 64000"

section \<open>The tool call\<close>

record tool_call =
  tc_name :: string
  tc_arguments :: dict

text \<open>\<open>set(d.keys()) == ks\<close> and \<open>set(d.keys()) - ks\<close> being empty.\<close>

definition keys_within :: "dict \<Rightarrow> string list \<Rightarrow> bool" where
  "keys_within d ks \<longleftrightarrow> list_all (List.member ks) (keys d)"

definition keys_are :: "dict \<Rightarrow> string list \<Rightarrow> bool" where
  "keys_are d ks \<longleftrightarrow> keys_within d ks \<and> list_all (has_key d) ks"

definition parse_run_function_call :: "tool_call list \<Rightarrow> string + string" where
  "parse_run_function_call tool_calls =
     (case tool_calls of
        [tc] \<Rightarrow>
          if tc_name tc \<noteq> ''run'' then Inl ''run_protocol_requires_run_tool''
          else (case (if keys_are (tc_arguments tc) [''source''] then as_str (jget (tc_arguments tc) ''source'') else None) of
             None \<Rightarrow> Inl ''run_arguments_schema_invalid''
           | Some s \<Rightarrow>
               let source = strip s
               in if source = [] then Inl ''run_source_empty''
                  else if length source > MAX_RUN_SOURCE_CHARS then Inl ''run_source_too_large''
                  else Inr source)
      | _ \<Rightarrow> Inl ''run_protocol_requires_exactly_one_tool_call'')"

definition eligible_syscall_names :: "string list \<Rightarrow> string list" where
  "eligible_syscall_names allowed =
     sort (remdups (AGENT_SYSCALL_NAMES @ SCRATCH_SYSCALL_NAMES @ [''agent.emit_finding'', ''agent.emit_done'']
       @ concat (map (\<lambda>cid. case run_callable_name_for_capability_id cid of None \<Rightarrow> [] | Some name \<Rightarrow> [name]) allowed)))"

section \<open>The state of a program\<close>

record scratch_entry =
  se_value :: json
  se_provenance :: "runtime_provenance option"

record program_state =
  ps_call :: call_state
  ps_message :: string
  ps_values :: "json list"
  ps_finding :: "dict option"
  ps_done :: "string option"
  ps_silent :: bool
  ps_silent_reason :: string
  callback_errors :: "string list"
  current_provenance :: "runtime_provenance option"
  taint_evidence :: "json list"
  call_index :: int
  ps_scratch :: "(string \<times> scratch_entry) list"

text \<open>
  What \<open>execute_run_program\<close> is called with; \<open>json_size v\<close> is
  \<open>len(json.dumps(v, sort_keys=True).encode("utf-8"))\<close>.
\<close>

record run_env =
  re_call :: call_env
  re_start :: int
  re_main :: bool
  json_size :: "json \<Rightarrow> nat"

type_synonym answer = "(bool \<times> json) \<times> program_state"

definition ok_answer :: "json \<Rightarrow> program_state \<Rightarrow> answer" where
  "ok_answer v st = ((True, v), st)"

definition refused :: "string \<Rightarrow> program_state \<Rightarrow> answer" where
  "refused e st = ((False, JStr e), st)"

text \<open>\<open>callback_errors.append(e); return False, e\<close>\<close>

definition faulted :: "string \<Rightarrow> program_state \<Rightarrow> answer" where
  "faulted e st = refused e (st\<lparr>callback_errors := callback_errors st @ [e]\<rparr>)"

section \<open>Output syscalls\<close>

definition emit_message :: "dict \<Rightarrow> program_state \<Rightarrow> answer" where
  "emit_message input st =
     (case (if keys_are input [''text''] then as_str (jget input ''text'') else None) of
        None \<Rightarrow> faulted ''agent_emit_message_schema_invalid'' st
      | Some text_value \<Rightarrow>
          if strip text_value = [] then faulted ''agent_emit_message_schema_invalid'' st
          else if ps_message st \<noteq> [] then faulted ''agent_emit_message_must_be_unique'' st
          else if ps_silent st then faulted ''agent_emit_message_after_finish_silent'' st
          else ok_answer JNull (st\<lparr>ps_message := strip text_value\<rparr>))"

definition emit_value :: "run_env \<Rightarrow> dict \<Rightarrow> program_state \<Rightarrow> answer" where
  "emit_value re input st =
     (if \<not> keys_are input [''value''] then faulted ''agent_emit_value_schema_invalid'' st
      else if MAX_EMITTED_VALUES \<le> length (ps_values st) then faulted ''agent_emit_value_too_many'' st
      else if json_size re (jget input ''value'') > MAX_EMITTED_VALUE_BYTES
      then faulted ''agent_emit_value_too_large'' st
      else ok_answer JNull (st\<lparr>ps_values := ps_values st @ [jget input ''value'']\<rparr>))"

definition finish_silent :: "dict \<Rightarrow> program_state \<Rightarrow> answer" where
  "finish_silent input st =
     (case (if keys_within input [''reason''] then as_str (jget_or input ''reason'' (JStr [])) else None) of
        None \<Rightarrow> faulted ''agent_finish_silent_schema_invalid'' st
      | Some reason \<Rightarrow>
          if ps_message st \<noteq> [] then faulted ''agent_finish_silent_after_emit_message'' st
          else ok_answer JNull (st\<lparr>ps_silent := True, ps_silent_reason := strip reason\<rparr>))"

definition emit_finding :: "run_env \<Rightarrow> dict \<Rightarrow> program_state \<Rightarrow> answer" where
  "emit_finding re input st =
     (if re_main re then faulted AGENT_EMIT_FINDING_MAIN_LOOP_ERROR st
      else if \<not> (keys_are input [''summary'', ''claims'', ''gaps'', ''sources'']
          \<and> as_str (jget input ''summary'') \<noteq> None \<and> as_list (jget input ''claims'') \<noteq> None
          \<and> as_list (jget input ''gaps'') \<noteq> None \<and> as_list (jget input ''sources'') \<noteq> None)
      then faulted ''agent_emit_finding_schema_invalid'' st
      else if json_size re (JObj input) > MAX_EMITTED_FINDING_BYTES then faulted ''agent_emit_finding_too_large'' st
      else ok_answer JNull (st\<lparr>ps_finding := Some input\<rparr>))"

definition emit_done :: "run_env \<Rightarrow> dict \<Rightarrow> program_state \<Rightarrow> answer" where
  "emit_done re input st =
     (if re_main re then faulted AGENT_EMIT_DONE_MAIN_LOOP_ERROR st
      else case (if keys_within input [''summary''] then as_str (jget_or input ''summary'' (JStr [])) else None) of
        None \<Rightarrow> faulted ''agent_emit_done_schema_invalid'' st
      | Some summary \<Rightarrow> ok_answer JNull (st\<lparr>ps_done := Some summary\<rparr>))"

section \<open>The scratch store\<close>

definition scratch_total :: "run_env \<Rightarrow> (string \<times> scratch_entry) list \<Rightarrow> nat" where
  "scratch_total re store =
     sum_list (map (\<lambda>(k, e). if se_value e = JNull then 0 else json_size re (se_value e)) store)"

definition scratch_set :: "run_env \<Rightarrow> dict \<Rightarrow> program_state \<Rightarrow> answer" where
  "scratch_set re input st =
     (if \<not> keys_are input [''key'', ''value''] then faulted ''scratch_set_schema_invalid'' st
      else case as_str (jget input ''key'') of
        None \<Rightarrow> faulted ''scratch_key_invalid'' st
      | Some k \<Rightarrow>
          let v = jget input ''value''; store = ps_scratch st; found = map_of store k
          in if k = [] then faulted ''scratch_key_invalid'' st
             else if json_size re v > SCRATCH_MAX_VALUE_BYTES then faulted ''scratch_value_too_large'' st
             else if found = None \<and> SCRATCH_MAX_ENTRIES \<le> length store then faulted ''scratch_store_full'' st
             else
               let projected = int (scratch_total re store) + int (json_size re v)
                     - (case found of None \<Rightarrow> 0 | Some e \<Rightarrow> int (json_size re (se_value e)))
               in if projected > int SCRATCH_MAX_TOTAL_BYTES then faulted ''scratch_store_full'' st
                  else ok_answer JNull (st\<lparr>ps_scratch := AList.update k
                    \<lparr>se_value = v, se_provenance = current_provenance st\<rparr> store\<rparr>))"

definition scratch_get :: "dict \<Rightarrow> program_state \<Rightarrow> answer" where
  "scratch_get input st =
     (if \<not> keys_are input [''key''] then faulted ''scratch_get_schema_invalid'' st
      else case (case as_str (jget input ''key'') of None \<Rightarrow> None | Some k \<Rightarrow> map_of (ps_scratch st) k) of
        None \<Rightarrow> refused ''scratch_key_missing'' st
      | Some entry \<Rightarrow>
          ok_answer (se_value entry)
            (case se_provenance entry of
               None \<Rightarrow> st
             | Some p \<Rightarrow>
                 if rp_status p = ''tainted''
                 then st\<lparr>current_provenance := Some p, taint_evidence := taint_evidence st @ rp_evidence p\<rparr>
                 else st))"

section \<open>Capability syscalls\<close>

text \<open>\<open>a or b or c\<close> of three values, the last of which is a string.\<close>

definition first_truthy :: "services \<Rightarrow> json \<Rightarrow> json \<Rightarrow> string \<Rightarrow> string" where
  "first_truthy rt a b c =
     (if truthy a then py_str (service_env rt) a else if truthy b then py_str (service_env rt) b else c)"

definition capability_syscall_value :: "services \<Rightarrow> json \<Rightarrow> exn + (bool \<times> json)" where
  "capability_syscall_value rt function_call_output =
     dict_item (dict_or_empty function_call_output) ''output'' (\<lambda>rendered.
     proceed (json_loads (service_crypto rt) (py_str (service_env rt) rendered)) (\<lambda>v.
     case as_dict v of
       None \<Rightarrow> Inl TypeError
     | Some payload \<Rightarrow>
         let status = jget payload ''status''
         in if status = JStr ''succeeded'' then dict_item payload ''output'' (\<lambda>v. Inr (True, v))
            else if status = JStr ''approval_required'' then
              Inr (True, JObj [(''status'', JStr ''approval_required''), (''approval_ref'', jget payload ''approval_ref'')])
            else if status = JStr ''queued'' then Inr (True, JObj payload)
            else if status = JStr ''blocked'' \<or> status = JStr ''denied'' then
              Inr (False, JStr (first_truthy rt (jget payload ''reason'') (jget payload ''error'')
                (py_str (service_env rt) status)))
            else if status = JStr ''failed'' then
              Inr (False, JStr (first_truthy rt (jget payload ''error'') (jget payload ''reason'')
                (py_str (service_env rt) status)))
            else Inl (RuntimeError (''unknown_call_status: '' @ py_str (service_env rt) status))))"

definition turn_action_attempt_count :: "world \<Rightarrow> string \<Rightarrow> int" where
  "turn_action_attempt_count w turn = int (length (filter (\<lambda>a. at_turn_id a = turn) (attempts w)))"

definition capability_call :: "string \<Rightarrow> string \<Rightarrow> int \<Rightarrow> dict \<Rightarrow> json" where
  "capability_call name cid turn_call_index input =
     JObj [(''call_id'', JStr (''run_call_'' @ decimal turn_call_index)), (''tool_name'', JStr name),
       (''capability_id'', JStr cid), (''input'', JObj input)]"

definition after_call :: "run_env \<Rightarrow> int \<Rightarrow> call_state \<Rightarrow> program_state \<Rightarrow> program_state" where
  "after_call re index s st =
     (let st = (case result_runtime_provenance (cs_ctx s) of
            None \<Rightarrow> st
          | Some p \<Rightarrow> st\<lparr>current_provenance := Some p, taint_evidence := taint_evidence st @ rp_evidence p\<rparr>)
      in st\<lparr>ps_call := s, call_index := max index
           (turn_action_attempt_count (cs_world s) (ce_turn_id (re_call re)) - re_start re)\<rparr>)"

definition call_capability ::
  "services \<Rightarrow> run_env \<Rightarrow> string \<Rightarrow> string \<Rightarrow> dict \<Rightarrow> program_state \<Rightarrow> exn + answer" where
  "call_capability rt re name cid input st =
     (let index = call_index st + 1;
          turn_call_index = re_start re + index;
          s = ctx_map (\<lambda>c. c\<lparr>result_runtime_provenance := None\<rparr>) (ps_call st);
          outputs_before = length (function_call_outputs (cs_ctx s))
      in proceed (process_one_call rt ((re_call re)\<lparr>ce_provenance := current_provenance st\<rparr>) turn_call_index
             (capability_call name cid turn_call_index input) s) (\<lambda>s'.
         let new_outputs = drop outputs_before (function_call_outputs (cs_ctx s'))
         in case new_outputs of
              [out] \<Rightarrow> proceed (capability_syscall_value rt out) (\<lambda>v. Inr (v, after_call re index s' st))
            | _ \<Rightarrow> Inl (RuntimeError (name @ '': process_one_call_output_count:''
                     @ decimal (int (length new_outputs))))))"

definition syscall_callback ::
  "services \<Rightarrow> run_env \<Rightarrow> string \<Rightarrow> dict \<Rightarrow> program_state \<Rightarrow> exn + answer" where
  "syscall_callback rt re name input st =
     (if name = ''agent.emit_message'' then Inr (emit_message input st)
      else if name = ''agent.emit_value'' then Inr (emit_value re input st)
      else if name = ''agent.finish_silent'' then Inr (finish_silent input st)
      else if name = ''scratch.set'' then Inr (scratch_set re input st)
      else if name = ''scratch.get'' then Inr (scratch_get input st)
      else if name = ''agent.emit_finding'' then Inr (emit_finding re input st)
      else if name = ''agent.emit_done'' then Inr (emit_done re input st)
      else case capability_id_for_run_callable name of
        None \<Rightarrow> Inr (refused ''unknown_callable''
          (st\<lparr>callback_errors := callback_errors st @ [name @ '': unknown_callable'']\<rparr>))
      | Some cid \<Rightarrow> call_capability rt re name cid input st)"

section \<open>The program\<close>

record run_result =
  emitted_message :: string
  emitted_values :: "json list"
  emitted_finding :: "dict option"
  emitted_done :: "string option"
  finished_silent :: bool
  silent_reason :: string
  action_attempts :: "string list"
  program_ok :: bool
  program_error :: "string option"
  rr_callback_errors :: "string list"
  rr_provenance :: "runtime_provenance option"

definition initial_program :: "run_env \<Rightarrow> world \<Rightarrow> int \<Rightarrow> (string \<times> scratch_entry) list \<Rightarrow> program_state" where
  "initial_program re w sequence store =
     \<lparr>ps_call = \<lparr>cs_world = w, cs_ctx = empty_context, cs_sequence = sequence\<rparr>, ps_message = [],
      ps_values = [], ps_finding = None, ps_done = None, ps_silent = False, ps_silent_reason = [],
      callback_errors = [], current_provenance = ce_provenance (re_call re), taint_evidence = [],
      call_index = 0, ps_scratch = store\<rparr>"

text \<open>The taint of the program as the caller sees it.\<close>

definition program_taint :: "program_state \<Rightarrow> runtime_provenance option" where
  "program_taint st =
     (if taint_evidence st = [] then None
      else Some \<lparr>rp_status = ''tainted'', rp_evidence = taint_evidence st\<rparr>)"

definition run_outcome :: "program_result \<Rightarrow> program_state \<Rightarrow> run_result" where
  "run_outcome r st =
     (let ok = pgm_ok r
      in \<lparr>emitted_message = (if ok then ps_message st else []), emitted_values = (if ok then ps_values st else []),
          emitted_finding = (if ok then ps_finding st else None), emitted_done = (if ok then ps_done st else None),
          finished_silent = (ok \<and> ps_silent st), silent_reason = (if ok then ps_silent_reason st else []),
          action_attempts = created_action_attempts (cs_ctx (ps_call st)), program_ok = ok,
          program_error = (if ok then None else pgm_error r), rr_callback_errors = callback_errors st,
          rr_provenance = program_taint st\<rparr>)"

definition execute_run_program ::
  "services \<Rightarrow> run_env \<Rightarrow> guest \<Rightarrow> world \<Rightarrow> int \<Rightarrow> (string \<times> scratch_entry) list
     \<Rightarrow> exn + (run_result \<times> program_state)" where
  "execute_run_program rt re g w sequence store =
     proceed (drive_program rt g (syscall_callback rt re) (initial_program re w sequence store)) (\<lambda>(r, st).
     Inr (run_outcome r st, st))"

end
