(* ===== verification/Approval_Laws.thy ===== *)
theory Approval_Laws
  imports Approvals
begin

text \<open>
  What a decision does to the rows of \<open>Approvals\<close>: every outcome of \<open>resolve_approval_decision\<close> and of
  the expiry either changes nothing or decides exactly one pending approval together with its
  attempt, and only an approval by its actor, in time and for the unchanged payload, queues a task.
\<close>

section \<open>The effect of a decision\<close>

text \<open>The two rows keep everything but their state.\<close>

definition same_request :: "approval_request \<Rightarrow> approval_request \<Rightarrow> bool" where
  "same_request ap ap' \<longleftrightarrow>
     ap' = ap\<lparr>ap_status := ap_status ap', decision_reason := decision_reason ap',
       decided_at := decided_at ap', ap_updated_at := ap_updated_at ap'\<rparr>"

definition same_action :: "action_attempt \<Rightarrow> action_attempt \<Rightarrow> bool" where
  "same_action a a' \<longleftrightarrow>
     a' = a\<lparr>at_status := at_status a', policy_reason := policy_reason a',
       execution_error := execution_error a', at_updated_at := at_updated_at a'\<rparr>"

lemma same_request_simps:
  assumes "same_request ap ap'"
  shows "ap_id ap' = ap_id ap" "ap_attempt_id ap' = ap_attempt_id ap" "ap_turn_id ap' = ap_turn_id ap"
    "actor_id ap' = actor_id ap" "ap_payload_hash ap' = ap_payload_hash ap" "expires_at ap' = expires_at ap"
  using assms by (cases ap; cases ap'; simp add: same_request_def)+

lemma same_action_simps:
  assumes "same_action a a'"
  shows "at_id a' = at_id a" "at_turn_id a' = at_turn_id a" "proposal_index a' = proposal_index a"
    "at_capability_id a' = at_capability_id a" "at_payload_hash a' = at_payload_hash a"
    "approval_required a' = approval_required a" "proposed_input a' = proposed_input a"
    "at_impact_level a' = at_impact_level a" "at_policy_decision a' = at_policy_decision a"
  using assms by (cases a; cases a'; simp add: same_action_def)+

lemma same_action_change:
  "same_action a a' \<Longrightarrow> same_action a (a'\<lparr>at_status := s, execution_error := e, policy_reason := p, at_updated_at := t\<rparr>)"
  "same_action a a' \<Longrightarrow> same_action a (a'\<lparr>at_status := s, at_updated_at := t\<rparr>)"
  by (cases a; cases a'; simp add: same_action_def)+

inductive outcome :: "approval_status \<Rightarrow> attempt_status \<Rightarrow> bool" where
  denied: "outcome Denied DeniedAction"
| expired: "outcome Expired ExpiredAction"
| voided: "outcome Expired FailedAction"
| failed: "outcome Approved FailedAction"
| started: "outcome Approved Executing"

inductive_simps outcome_simps [simp]: "outcome s t"

definition new_events :: "world \<Rightarrow> string \<Rightarrow> world \<Rightarrow> bool" where
  "new_events w turn w' \<longleftrightarrow>
     (\<exists>es. events w' = events w @ es \<and> es \<noteq> [] \<and> list_all (\<lambda>e. ev_turn_id e = turn) es
        \<and> map ev_sequence es = map (\<lambda>i. next_turn_event_sequence (events w) turn + int i) [0..<length es])"

definition decision_effect ::
  "world \<Rightarrow> approval_request \<Rightarrow> action_attempt \<Rightarrow> approval_request \<Rightarrow> action_attempt \<Rightarrow> world \<Rightarrow> bool" where
  "decision_effect w ap a ap' a' w' \<longleftrightarrow>
     same_request ap ap' \<and> same_action a a' \<and> outcome (ap_status ap') (at_status a')
     \<and> approvals w' = approvals (save_approval ap' w) \<and> attempts w' = attempts (save_attempt a' w)
     \<and> private_payloads w' = private_payloads w \<and> new_events w (ap_turn_id ap) w'
     \<and> (if at_status a' = Executing
        then \<exists>t. tasks w' = tasks w @ [t] \<and> task_type t = ''execute_action_attempt''
               \<and> task_payload t = JObj [(''action_attempt_id'', JStr (at_id a))] \<and> task_attempts t = 0
               \<and> (\<forall>u \<in> set (tasks w). task_id u \<noteq> task_id t)
        else tasks w' = tasks w)"


lemma one_event:
  assumes "events w0 = events w" "q = next_turn_event_sequence (events w) turn"
  shows "new_events w turn (add_turn_event rt turn q y p w0)"
proof -
  obtain e where "events (add_turn_event rt turn q y p w0) = events w @ [e]" "ev_turn_id e = turn" "ev_sequence e = q"
    using add_turn_event_events [of rt turn q y p w0] assms(1) by auto
  then show ?thesis unfolding new_events_def by (intro exI [of _ "[e]"]) (simp add: assms(2))
qed

lemma two_events:
  assumes "events w0 = events w" "events w1 = events (add_turn_event rt turn q y p w0)"
    and "q = next_turn_event_sequence (events w) turn"
  shows "new_events w turn (add_turn_event rt turn (q + 1) y' p' w1)"
proof -
  obtain e where e: "events (add_turn_event rt turn q y p w0) = events w @ [e]" "ev_turn_id e = turn" "ev_sequence e = q"
    using add_turn_event_events [of rt turn q y p w0] assms(1) by auto
  obtain e' where "events (add_turn_event rt turn (q + 1) y' p' w1) = events w @ [e, e']"
    "ev_turn_id e' = turn" "ev_sequence e' = q + 1"
    using add_turn_event_events [of rt turn "q + 1" y' p' w1] assms(2) e(1) by auto
  with e show ?thesis unfolding new_events_def by (intro exI [of _ "[e, e']"]) (simp add: assms(3))
qed

lemma expiry_effect:
  assumes "mark_approval_expired rt ap a now w = Inr w'"
  shows "\<exists>ap' a'. decision_effect w ap a ap' a' w' \<and> ap_status ap' = Expired \<and> at_status a' = ExpiredAction
    \<and> decided_at ap' = Some now \<and> ap_status ap = Pending \<and> ap_attempt_id ap = at_id a \<and> ap_turn_id ap = at_turn_id a"
proof -
  let ?ap = "ap\<lparr>ap_status := Expired, decision_reason := Some ''approval_expired'',
    decided_at := Some now, ap_updated_at := now\<rparr>"
  let ?a = "a\<lparr>at_status := ExpiredAction, policy_reason := Some ''approval_expired'', at_updated_at := now\<rparr>"
  from assms have w': "w' = add_turn_event rt (ap_turn_id ap) (next_turn_event_sequence (events w) (ap_turn_id ap))
      ''evt.action.approval.expired'' [(''action_attempt_id'', JStr (at_id a)), (''approval_ref'', JStr (ap_id ap)),
        (''reason'', JStr ''approval_expired'')] (save_attempt ?a (save_approval ?ap w))"
    and "ap_status ap = Pending" "ap_attempt_id ap = at_id a" "ap_turn_id ap = at_turn_id a"
    by (auto simp: mark_approval_expired_def Let_def split: if_split_asm)
  moreover have "new_events w (ap_turn_id ap) w'" unfolding w' by (rule one_event) simp_all
  ultimately show ?thesis
    by (intro exI [of _ ?ap] exI [of _ ?a])
      (simp add: decision_effect_def same_request_def same_action_def attempt_table.rows_save approval_table.rows_save)
qed

lemma void_effect:
  assumes "sequence + 1 = next_turn_event_sequence (events w) (ap_turn_id ap)"
  shows "\<exists>ap' a'. decision_effect w ap a ap' a' (void_approval rt now sequence ap a reason error preason w)
    \<and> ap_status ap' = Expired \<and> at_status a' = FailedAction"
proof -
  let ?ap = "ap\<lparr>ap_status := Expired, decision_reason := Some reason, decided_at := Some now, ap_updated_at := now\<rparr>"
  let ?a = "a\<lparr>at_status := FailedAction, execution_error := Some error, policy_reason := Some preason, at_updated_at := now\<rparr>"
  have "new_events w (ap_turn_id ap) (void_approval rt now sequence ap a reason error preason w)"
    unfolding void_approval_def Let_def by (rule one_event) (simp_all add: assms)
  then show ?thesis
    by (intro exI [of _ ?ap] exI [of _ ?a])
      (simp add: decision_effect_def same_request_def same_action_def void_approval_def Let_def
        attempt_table.rows_save approval_table.rows_save)
qed

lemma deny_effect:
  assumes "deny_approval rt now sequence reason ap a w = Inr (w', out)"
    and "sequence + 1 = next_turn_event_sequence (events w) (ap_turn_id ap)"
  shows "\<exists>ap' a'. decision_effect w ap a ap' a' w' \<and> ap_status ap' = Denied \<and> at_status a' = DeniedAction
    \<and> out = Inr \<lparr>decided_approval = ap', decided_attempt = a',
         assistant_message = ''approval denied. action was not executed.'', execution_task_id = None\<rparr>"
proof -
  let ?ap = "ap\<lparr>ap_status := Denied, decision_reason := Some (reason_or reason ''denied_by_actor''),
    decided_at := Some now, ap_updated_at := now\<rparr>"
  let ?a = "a\<lparr>at_status := DeniedAction, policy_reason := Some ''approval_denied'', at_updated_at := now\<rparr>"
  have "new_events w (ap_turn_id ap) w'"
    using assms(1) by (auto simp: deny_approval_def Let_def assms(2) intro: one_event)
  with assms(1) show ?thesis
    by (intro exI [of _ ?ap] exI [of _ ?a])
      (auto simp: decision_effect_def same_request_def same_action_def deny_approval_def Let_def
        attempt_table.rows_save approval_table.rows_save)
qed

lemma save_twice:
  "at_id a1 = at_id a2 \<Longrightarrow> attempts (save_attempt a2 (save_attempt a1 w)) = attempts (save_attempt a2 w)"
  by (simp add: attempt_table.rows_save_save)

text \<open>The world after the approval is recorded, before the capability is checked once more.\<close>

definition recorded ::
  "services \<Rightarrow> world \<Rightarrow> int \<Rightarrow> approval_request \<Rightarrow> action_attempt \<Rightarrow> approval_request \<Rightarrow> action_attempt \<Rightarrow> world \<Rightarrow> bool" where
  "recorded rt w sequence ap a ap1 a1 w1 \<longleftrightarrow>
     sequence + 1 = next_turn_event_sequence (events w) (ap_turn_id ap)
     \<and> same_request ap ap1 \<and> same_action a a1 \<and> ap_status ap1 = Approved
     \<and> attempts w1 = attempts (save_attempt a1 w) \<and> approvals w1 = approvals (save_approval ap1 w)
     \<and> tasks w1 = tasks w \<and> private_payloads w1 = private_payloads w
     \<and> (\<exists>y p w0. events w0 = events w
          \<and> events w1 = events (add_turn_event rt (ap_turn_id ap) (sequence + 1) y p w0))"

lemma recorded_event:
  assumes "recorded rt w sequence ap a ap1 a1 w1" "events w2 = events w1"
  shows "new_events w (ap_turn_id ap) (add_turn_event rt (ap_turn_id ap1) (sequence + 2) y' p' w2)"
proof -
  from assms obtain y p w0 where "events w0 = events w"
    "events w2 = events (add_turn_event rt (ap_turn_id ap) (sequence + 1) y p w0)"
    "sequence + 1 = next_turn_event_sequence (events w) (ap_turn_id ap)" unfolding recorded_def by auto
  from two_events [OF this, of y' p'] have "new_events w (ap_turn_id ap)
      (add_turn_event rt (ap_turn_id ap) (sequence + 2) y' p' w2)" by (simp add: add.assoc)
  moreover have "ap_turn_id ap1 = ap_turn_id ap"
    using assms(1) by (simp add: recorded_def same_request_simps)
  ultimately show ?thesis by simp
qed

lemma fail_approved_effect:
  assumes "recorded rt w sequence ap a ap1 a1 w1" "fail_approved rt sequence ap1 a1 e r w1 = Inr (w', out)"
  shows "\<exists>a' m. decision_effect w ap a ap1 a' w' \<and> at_status a' = FailedAction
    \<and> out = Inr \<lparr>decided_approval = ap1, decided_attempt = a', assistant_message = m, execution_task_id = None\<rparr>"
proof -
  let ?a = "a1\<lparr>at_status := FailedAction, execution_error := Some e, policy_reason := Some r,
    at_updated_at := now_at rt (clock w1)\<rparr>"
  have ev: "new_events w (ap_turn_id ap) w'"
    using assms(2) recorded_event [OF assms(1)] by (auto simp: fail_approved_def Let_def split_beta)
  from assms(1) have "same_action a ?a" by (simp add: recorded_def same_action_change)
  moreover have "attempts w' = attempts (save_attempt ?a w)"
    using assms by (auto simp: fail_approved_def recorded_def Let_def split_beta attempt_table.rows_save_save
        attempt_table.rows_save intro!: map_cong)
  ultimately show ?thesis
    using assms ev by (intro exI [of _ ?a])
      (auto simp: decision_effect_def fail_approved_def recorded_def Let_def split_beta)
qed

lemma start_approved_effect:
  assumes "recorded rt w sequence ap a ap1 a1 w1" "start_approved rt sequence ap1 a1 w1 = Inr (w', out)"
  shows "\<exists>a' m t. decision_effect w ap a ap1 a' w' \<and> at_status a' = Executing \<and> tasks w' = tasks w @ [t]
    \<and> out = Inr \<lparr>decided_approval = ap1, decided_attempt = a', assistant_message = m,
          execution_task_id = Some (task_id t)\<rparr>"
proof -
  let ?a = "a1\<lparr>at_status := Executing, at_updated_at := now_at rt (clock w1)\<rparr>"
  let ?w = "save_attempt ?a (snd (tick rt w1))"
  from assms(2) obtain t w2 where t: "enqueue_action_execution_task rt ?a ?w = Inr (t, w2)"
    and w': "w' = add_turn_event rt (ap_turn_id ap1) (sequence + 2) ''evt.action.execution.started''
       [(''action_attempt_id'', JStr (at_id a1)), (''capability_id'', JStr (at_capability_id a1)),
        (''task_id'', JStr (task_id t))] w2"
    and out: "out = Inr \<lparr>decided_approval = ap1, decided_attempt = ?a,
       assistant_message = ''approval recorded. action execution queued.'', execution_task_id = Some (task_id t)\<rparr>"
    by (auto simp: start_approved_def Let_def split_beta)
  note w2 = enqueue_execution [OF t]
  have "new_events w (ap_turn_id ap) w'"
    unfolding w' by (rule recorded_event [OF assms(1)]) (simp add: w2)
  moreover have "same_action a ?a" using assms(1) by (simp add: recorded_def same_action_change)
  moreover have "attempts w' = attempts (save_attempt ?a w)"
    using assms(1) by (simp add: w' w2 recorded_def attempt_table.rows_save)
  moreover have "at_id a1 = at_id a" using assms(1) by (simp add: recorded_def same_action_simps)
  ultimately show ?thesis
    using assms(1) w2 by (intro exI [of _ ?a]) (auto simp: decision_effect_def recorded_def out w')
qed

lemma execute_approved_cases:
  assumes "execute_approved rt sequence ap a payload w = Inr (w', out)"
  shows "(\<exists>e r. fail_approved rt sequence ap a e r w = Inr (w', out))
    \<or> start_approved rt sequence ap a w = Inr (w', out)
      \<and> (\<exists>c y. get_capability (service_env rt) (service_providers rt) (at_capability_id a) = Inr (Some c)
           \<and> execution_integrity_error rt a c = None \<and> validate_input c payload = Inr y
           \<and> preflight_capability_execution c y = Inr ())"
proof -
  from assms obtain capability where
    c: "get_capability (service_env rt) (service_providers rt) (at_capability_id a) = Inr capability"
    by (auto simp: execute_approved_def)
  show ?thesis
  proof (cases capability)
    case None
    with assms c show ?thesis by (auto simp: execute_approved_def)
  next
    case (Some d)
    show ?thesis
    proof (cases "execution_integrity_error rt a d")
      case (Some e)
      with assms c \<open>capability = _\<close> show ?thesis by (auto simp: execute_approved_def)
    next
      case None
      with assms c Some show ?thesis
        by (cases "validate_input d payload"; cases "preflight_capability_execution d (projr (validate_input d payload))")
          (auto simp: execute_approved_def split: verror.split_asm)
    qed
  qed
qed

lemma record_approval_effect:
  assumes "record_approval rt now sequence reason ap a payload w = Inr (w', out)"
    and "sequence + 1 = next_turn_event_sequence (events w) (ap_turn_id ap)"
  shows "\<exists>ap' a' r. decision_effect w ap a ap' a' w' \<and> ap_status ap' = Approved \<and> out = Inr r
    \<and> decided_attempt r = a' \<and> (execution_task_id r \<noteq> None \<longleftrightarrow> at_status a' = Executing)"
proof -
  let ?ap = "ap\<lparr>ap_status := Approved, decision_reason := Some (reason_or reason ''approved_by_actor''),
    decided_at := Some now, ap_updated_at := now\<rparr>"
  let ?a = "a\<lparr>at_status := ApprovedAction, policy_reason := Some ''approval_approved'', at_updated_at := now\<rparr>"
  let ?w = "add_turn_event rt (ap_turn_id ap) (sequence + 1) ''evt.action.approval.approved''
    (about_approval ?a ?ap @ [(''actor_id'', JStr (actor_id ap))]) (save_attempt ?a (save_approval ?ap w))"
  have "\<exists>y p w0. events w0 = events w
      \<and> events ?w = events (add_turn_event rt (ap_turn_id ap) (sequence + 1) y p w0)"
    by (intro exI conjI, rule save_attempt_simps(4) [THEN trans], rule save_approval_simps(4), rule refl)
  then have "recorded rt w sequence ap a ?ap ?a ?w"
    unfolding recorded_def using assms(2)
    by (simp add: same_request_def same_action_def attempt_table.rows_save approval_table.rows_save)
  moreover have "execute_approved rt sequence ?ap ?a payload ?w = Inr (w', out)"
    using assms(1) by (simp add: record_approval_def Let_def)
  ultimately show ?thesis
    using execute_approved_cases fail_approved_effect start_approved_effect by fastforce
qed

lemma decision_effect_cong:
  assumes "attempts w = attempts w0" "approvals w = approvals w0" "tasks w = tasks w0" "events w = events w0"
    "private_payloads w = private_payloads w0"
  shows "decision_effect w ap a ap' a' w' = decision_effect w0 ap a ap' a' w'"
  using assms by (simp add: decision_effect_def new_events_def attempt_table.rows_save approval_table.rows_save)

text \<open>What an approval that is not voided has passed.\<close>

definition sound_approval ::
  "services \<Rightarrow> google_runtime option \<Rightarrow> world \<Rightarrow> approval_request \<Rightarrow> action_attempt \<Rightarrow> bool" where
  "sound_approval rt google w ap a \<longleftrightarrow>
     (\<exists>payload policy. full_action_input_payload rt w a google = Inr (Inr payload)
        \<and> hash_of rt (canonical_action_payload (at_capability_id a) payload) = ap_payload_hash ap
        \<and> ap_payload_hash ap = at_payload_hash a
        \<and> revalidated rt a payload = Inr policy \<and> ev_decision policy = RequiresApproval)"

lemma refuse_Inr: "refuse w status c m d = Inr (w', out) \<Longrightarrow> w' = w \<and> (\<forall>r. out \<noteq> Inr r)"
  by (auto simp: refuse_def)

lemma approve_effect:
  assumes "approve_approval rt now sequence reason google ap a w = Inr (w', out)"
    and "sequence + 1 = next_turn_event_sequence (events w) (ap_turn_id ap)"
  shows "\<exists>ap' a'. decision_effect w ap a ap' a' w'
    \<and> (ap_status ap' = Approved \<longrightarrow> sound_approval rt google w ap a)
    \<and> (\<forall>r. out = Inr r \<and> execution_task_id r \<noteq> None \<longrightarrow> at_status a' = Executing)"
proof -
  have voided: ?thesis if "refuse (void_approval rt now sequence ap a x y z w) status c m d = Inr (w', out)"
    for x y z status c m d
  proof -
    from refuse_Inr [OF that] have "w' = void_approval rt now sequence ap a x y z w" "\<forall>r. out \<noteq> Inr r" by auto
    moreover obtain ap' a' where "decision_effect w ap a ap' a' (void_approval rt now sequence ap a x y z w)"
      "ap_status ap' = Expired" using void_effect [OF assms(2)] by blast
    ultimately show ?thesis by (intro exI [of _ ap'] exI [of _ a']) simp
  qed
  from assms(1) obtain full where f: "full_action_input_payload rt w a google = Inr full"
    by (auto simp: approve_approval_def)
  show ?thesis
  proof (cases full)
    case (Inl e)
    show ?thesis by (rule voided) (use assms(1) f Inl in \<open>simp add: approve_approval_def\<close>)
  next
    case (Inr payload)
    let ?h = "hash_of rt (canonical_action_payload (at_capability_id a) payload)"
    show ?thesis
    proof (cases "?h \<noteq> ap_payload_hash ap \<or> ?h \<noteq> at_payload_hash a")
      case True
      show ?thesis by (rule voided) (use assms(1) f Inr True in \<open>simp add: approve_approval_def Let_def\<close>)
    next
      case False
      with assms(1) f Inr obtain policy where p: "revalidated rt a payload = Inr policy"
        by (auto simp: approve_approval_def Let_def)
      show ?thesis
      proof (cases "ev_decision policy = RequiresApproval")
        case True
        with assms(1) f Inr False p have r: "record_approval rt now sequence reason ap a payload w = Inr (w', out)"
          by (simp add: approve_approval_def Let_def)
        from True f Inr False p have "sound_approval rt google w ap a" by (auto simp: sound_approval_def)
        with record_approval_effect [OF r assms(2)] show ?thesis by blast
      next
        case no: False
        show ?thesis by (rule voided) (use assms(1) f Inr False p no in \<open>simp add: approve_approval_def Let_def\<close>)
      qed
    qed
  qed
qed

text \<open>The shapes of every outcome: nothing changed and a typed error, or one pending request decided.\<close>

definition unchanged :: "world \<Rightarrow> world \<Rightarrow> bool" where
  "unchanged w w' \<longleftrightarrow> attempts w' = attempts w \<and> approvals w' = approvals w \<and> tasks w' = tasks w
     \<and> private_payloads w' = private_payloads w \<and> events w' = events w"

definition decides ::
  "services \<Rightarrow> google_runtime option \<Rightarrow> string \<Rightarrow> approval_decision \<Rightarrow> string \<Rightarrow> world
     \<Rightarrow> approval_request \<Rightarrow> action_attempt \<Rightarrow> approval_request \<Rightarrow> action_attempt \<Rightarrow> world \<Rightarrow> bool" where
  "decides rt google ref decision actor w ap a ap' a' w' \<longleftrightarrow>
     find_approval w ref = Some ap \<and> find_attempt w (ap_attempt_id ap) = Some a
     \<and> actor = actor_id ap \<and> ap_status ap = Pending \<and> decision_effect w ap a ap' a' w'
     \<and> (ap_status ap' = Approved \<longrightarrow>
          decision = Approve \<and> now_at rt (clock w) \<le> expires_at ap \<and> sound_approval rt google w ap a)"

lemma resolve_shapes:
  assumes "resolve_approval_decision rt google ref decision actor reason w = Inr (w', out)"
  shows "unchanged w w' \<and> (\<forall>r. out \<noteq> Inr r)
    \<or> (\<exists>ap a ap' a'. decides rt google ref decision actor w ap a ap' a' w'
         \<and> (\<forall>r. out = Inr r \<and> execution_task_id r \<noteq> None \<longrightarrow> at_status a' = Executing))"
proof (cases "find_approval w ref")
  case None
  with assms show ?thesis by (auto simp: resolve_approval_decision_def refuse_def unchanged_def)
next
  case ap: (Some ap)
  from assms ap obtain a where a: "find_attempt w (ap_attempt_id ap) = Some a"
    by (auto simp: resolve_approval_decision_def split: option.split_asm)
  show ?thesis
  proof (cases "actor = actor_id ap \<and> ap_status ap = Pending")
    case False
    with assms ap a show ?thesis
      by (auto simp: resolve_approval_decision_def refuse_def unchanged_def split: if_split_asm)
  next
    case pending: True
    let ?now = "now_at rt (clock w)" and ?w = "snd (tick rt w)"
    have cong: "decision_effect ?w x y x' y' v = decision_effect w x y x' y' v" for x y x' y' v
      by (rule decision_effect_cong) simp_all
    have sound: "sound_approval rt google ?w x y = sound_approval rt google w x y" for x y
      unfolding sound_approval_def by (subst full_action_input_payload_cong [of ?w w]) simp_all
    let ?seq = "next_turn_event_sequence (events ?w) (ap_turn_id ap) - 1"
    consider (late) "expires_at ap < ?now" | (deny) "\<not> expires_at ap < ?now" "decision = DenyRequest"
      | (approve) "\<not> expires_at ap < ?now" "decision = Approve" by (cases decision) auto
    then show ?thesis
    proof cases
      case late
      with assms ap a pending obtain v where v: "mark_approval_expired rt ap a ?now ?w = Inr v"
        and "refuse v 409 ''E_APPROVAL_EXPIRED'' ''approval request has expired''
          [(''approval_ref'', JStr (ap_id ap)), (''expires_at'', JStr (to_rfc3339 (expires_at ap)))] = Inr (w', out)"
        by (auto simp: resolve_approval_decision_def Let_def split_beta)
      with refuse_Inr have "w' = v" "\<forall>r. out \<noteq> Inr r" by blast+
      moreover obtain ap' a' where "decision_effect w ap a ap' a' v" "ap_status ap' = Expired"
        using expiry_effect [OF v] unfolding cong by blast
      ultimately have "decides rt google ref decision actor w ap a ap' a' w'"
        using ap a pending by (simp add: decides_def)
      with \<open>\<forall>r. out \<noteq> Inr r\<close> show ?thesis by blast
    next
      case deny
      with assms ap a pending have "deny_approval rt ?now ?seq reason ap a ?w = Inr (w', out)"
        by (simp add: resolve_approval_decision_def Let_def split_beta)
      from deny_effect [OF this] obtain ap' a' m where "decision_effect w ap a ap' a' w'"
        "ap_status ap' = Denied" "out = Inr \<lparr>decided_approval = ap', decided_attempt = a',
          assistant_message = m, execution_task_id = None\<rparr>" unfolding cong by auto
      moreover from this have "decides rt google ref decision actor w ap a ap' a' w'"
        using ap a pending by (simp add: decides_def)
      ultimately show ?thesis by auto
    next
      case approve
      with assms ap a pending have "approve_approval rt ?now ?seq reason google ap a ?w = Inr (w', out)"
        by (simp add: resolve_approval_decision_def Let_def split_beta)
      from approve_effect [OF this] obtain ap' a' where "decision_effect w ap a ap' a' w'"
        "ap_status ap' = Approved \<longrightarrow> sound_approval rt google w ap a"
        and ex: "\<forall>r. out = Inr r \<and> execution_task_id r \<noteq> None \<longrightarrow> at_status a' = Executing"
        unfolding cong sound by auto
      then have "decides rt google ref decision actor w ap a ap' a' w'"
        using ap a pending approve by (simp add: decides_def)
      with ex show ?thesis by blast
    qed
  qed
qed

section \<open>Only a sound approval starts an execution\<close>

text \<open>
  C5. A decision queues work only when it is an approval, by the actor the request names, of a request
  that is pending and not past its expiry, for an input whose hash is still the one both rows were
  frozen with, and which the policy still sends to an approval. It then queues exactly one task,
  naming the attempt, which becomes executing, and the request becomes approved.
\<close>

theorem only_sound_approvals_queue_work:
  assumes "resolve_approval_decision rt google ref decision actor reason w = Inr (w', out)"
    and "tasks w' \<noteq> tasks w"
  shows "decision = Approve \<and> (\<exists>ap a t payload policy.
    find_approval w ref = Some ap \<and> find_attempt w (ap_attempt_id ap) = Some a
    \<and> actor = actor_id ap \<and> ap_status ap = Pending \<and> now_at rt (clock w) \<le> expires_at ap
    \<and> full_action_input_payload rt w a google = Inr (Inr payload)
    \<and> hash_of rt (canonical_action_payload (at_capability_id a) payload) = ap_payload_hash ap
    \<and> ap_payload_hash ap = at_payload_hash a
    \<and> revalidated rt a payload = Inr policy \<and> ev_decision policy = RequiresApproval
    \<and> tasks w' = tasks w @ [t] \<and> task_type t = ''execute_action_attempt''
    \<and> task_payload t = JObj [(''action_attempt_id'', JStr (at_id a))]
    \<and> map_option ap_status (find_approval w' ref) = Some Approved
    \<and> map_option at_status (find_attempt w' (at_id a)) = Some Executing)"
proof -
  from assms resolve_shapes [OF assms(1)] obtain ap a ap' a' where
    d: "decides rt google ref decision actor w ap a ap' a' w'" by (auto simp: unchanged_def)
  have ex: "at_status a' = Executing"
    using d assms(2) by (auto simp: decides_def decision_effect_def split: if_split_asm)
  with d have s: "ap_status ap' = Approved" by (auto simp: decides_def decision_effect_def)
  have id: "ap_id ap = ref" "at_id a = ap_attempt_id ap"
    using d approval_table.lookup_Some attempt_table.lookup_Some by (auto simp: decides_def)
  have "find_approval w' ref = Some ap'" "find_attempt w' (at_id a) = Some a'"
  proof -
    have "find_approval w' ref = find_approval (save_approval ap' w) ref"
      "find_attempt w' (at_id a) = find_attempt (save_attempt a' w) (at_id a)"
      using d by (simp_all add: decides_def decision_effect_def find_approval_def find_attempt_def)
    then show "find_approval w' ref = Some ap'" "find_attempt w' (at_id a) = Some a'"
      using d id by (auto simp: approval_table.lookup_save attempt_table.lookup_save decides_def
          decision_effect_def same_request_simps same_action_simps)
  qed
  with d s ex show ?thesis
    by (auto simp: decides_def decision_effect_def sound_approval_def)
qed

section \<open>A sound approval does start it\<close>

lemma start_succeeds:
  assumes "\<And>n t. t \<in> set (tasks w) \<Longrightarrow> task_id t \<noteq> id_at rt n ''tsk''"
  shows "\<exists>w' r. start_approved rt sequence ap a w = Inr (w', Inr r) \<and> execution_task_id r \<noteq> None
    \<and> at_status (decided_attempt r) = Executing \<and> tasks w' \<noteq> tasks w"
  using assms
  by (auto simp: start_approved_def enqueue_action_execution_task_def enqueue_background_task_def
      Let_def split_beta list_ex_iff)

lemma integrity_unaffected:
  "same_action a a' \<Longrightarrow> at_capability_version a' = at_capability_version a \<and> at_contract_hash a' = at_contract_hash a"
  by (cases a; cases a'; simp add: same_action_def)

lemma approval_starts:
  assumes "find_approval w ref = Some ap" "find_attempt w (ap_attempt_id ap) = Some a"
    and "ap_status ap = Pending" "now_at rt (clock w) \<le> expires_at ap"
    and "full_action_input_payload rt w a google = Inr (Inr payload)"
    and "hash_of rt (canonical_action_payload (at_capability_id a) payload) = ap_payload_hash ap"
    and "ap_payload_hash ap = at_payload_hash a"
    and "revalidated rt a payload = Inr policy" "ev_decision policy = RequiresApproval"
    and "ev_capability policy = Some c" "ev_normalized_input policy = Some y"
    and "execution_integrity_error rt a c = None" "preflight_capability_execution c y = Inr ()"
    and "\<And>n t. t \<in> set (tasks w) \<Longrightarrow> task_id t \<noteq> id_at rt n ''tsk''"
  shows "\<exists>w' r. resolve_approval_decision rt google ref Approve (actor_id ap) reason w = Inr (w', Inr r)
    \<and> execution_task_id r \<noteq> None \<and> at_status (decided_attempt r) = Executing \<and> tasks w' \<noteq> tasks w"
proof -
  have "ev_decision policy \<noteq> Deny" using assms(9) by simp
  with assms(8) obtain c' y' where g: "get_capability (service_env rt) (service_providers rt) (at_capability_id a) = Inr (Some c')"
    "validate_input c' payload = Inr y'" "ev_capability policy = Some c'" "ev_normalized_input policy = Some y'"
    unfolding revalidated_def Let_def by (rule evaluate_proposal_cases)
  with assms(10,11) have c: "c' = c" "y' = y" by simp_all
  let ?w = "snd (tick rt w)" and ?now = "now_at rt (clock w)"
  let ?seq = "next_turn_event_sequence (events ?w) (ap_turn_id ap) - 1"
  let ?a = "a\<lparr>at_status := ApprovedAction, policy_reason := Some ''approval_approved'', at_updated_at := ?now\<rparr>"
  have "full_action_input_payload rt ?w a google = Inr (Inr payload)"
    using assms(5) by (subst full_action_input_payload_cong [of ?w w]) simp_all
  then have r: "resolve_approval_decision rt google ref Approve (actor_id ap) reason w
      = record_approval rt ?now ?seq reason ap a payload ?w"
    using assms by (simp add: resolve_approval_decision_def Let_def split_beta approve_approval_def)
  have "execution_integrity_error rt ?a c = None"
    using assms(12) by (auto simp: execution_integrity_error_def split: if_split_asm)
  with g c assms(13) have x: "execute_approved rt ?seq ap1 ?a payload w1 = start_approved rt ?seq ap1 ?a w1" for ap1 w1
    by (simp add: execute_approved_def)
  have "\<exists>ap1 w1. record_approval rt ?now ?seq reason ap a payload ?w = start_approved rt ?seq ap1 ?a w1
      \<and> tasks w1 = tasks w"
    unfolding record_approval_def Let_def x by (intro exI conjI, rule refl) simp
  then obtain ap1 w1 where s: "record_approval rt ?now ?seq reason ap a payload ?w = start_approved rt ?seq ap1 ?a w1"
    "tasks w1 = tasks w" by blast
  have "\<exists>w' r. start_approved rt ?seq ap1 ?a w1 = Inr (w', Inr r) \<and> execution_task_id r \<noteq> None
      \<and> at_status (decided_attempt r) = Executing \<and> tasks w' \<noteq> tasks w1"
    by (rule start_succeeds) (simp add: s(2) assms(14))
  then show ?thesis unfolding r s .
qed

text \<open>
  C6. Conversely nothing else stops an approval: when the actor approves a pending request in time,
  the payload is intact, the policy still asks for the approval, the capability's version and contract
  are unchanged and its egress preflight passes, the action is executing afterwards and its task is
  named in the answer. The only assumption on the environment is that task ids are new.
\<close>

theorem sound_approval_starts_execution:
  assumes "find_approval w ref = Some ap" "find_attempt w (ap_attempt_id ap) = Some a"
    and "ap_status ap = Pending" "now_at rt (clock w) \<le> expires_at ap"
    and "full_action_input_payload rt w a google = Inr (Inr payload)"
    and "hash_of rt (canonical_action_payload (at_capability_id a) payload) = ap_payload_hash ap"
    and "ap_payload_hash ap = at_payload_hash a"
    and "revalidated rt a payload = Inr policy" "ev_decision policy = RequiresApproval"
    and "ev_capability policy = Some c" "ev_normalized_input policy = Some y"
    and "execution_integrity_error rt a c = None" "preflight_capability_execution c y = Inr ()"
    and "\<And>n t. t \<in> set (tasks w) \<Longrightarrow> task_id t \<noteq> id_at rt n ''tsk''"
  shows "\<exists>w' r. resolve_approval_decision rt google ref Approve (actor_id ap) reason w = Inr (w', Inr r)
    \<and> execution_task_id r \<noteq> None \<and> at_status (decided_attempt r) = Executing"
  using approval_starts [OF assms] by blast

section \<open>A sample request\<close>

definition sample_action :: action_attempt where
  "sample_action = \<lparr>at_id = ''aat1'', at_turn_id = ''trn1'', proposal_index = 1,
     at_capability_id = ''cap.memory.note.delete'', at_capability_version = ''1.0'', at_contract_hash = [],
     at_impact_level = WriteReversible, proposed_input = JObj [(''id'', JStr ''n1'')], at_payload_hash = [],
     at_policy_decision = RequiresApproval, policy_reason = Some ''taint_escalated_requires_approval'',
     at_status = AwaitingApproval, approval_required = True, execution_output = JNull,
     execution_error = None, at_created_at = 0, at_updated_at = 0\<rparr>"

definition sample_request :: approval_request where
  "sample_request = \<lparr>ap_id = ''apr1'', ap_attempt_id = ''aat1'', ap_turn_id = ''trn1'', actor_id = ''user'',
     ap_status = Pending, ap_payload_hash = [], expires_at = 10, decision_reason = None, decided_at = None,
     ap_created_at = 0, ap_updated_at = 0\<rparr>"

definition sample_world :: world where
  "sample_world = empty_world\<lparr>attempts := [sample_action], approvals := [sample_request]\<rparr>"

lemma sample_found:
  "find_approval sample_world ''apr1'' = Some sample_request"
  "find_attempt sample_world ''aat1'' = Some sample_action"
  by (simp_all add: find_approval_def find_attempt_def sample_world_def sample_request_def sample_action_def
      empty_world_def)

lemma sample_payload:
  "full_action_input_payload sample_services sample_world sample_action None = Inr (Inr [(''id'', JStr ''n1'')])"
  by (simp add: full_action_input_payload_def sample_action_def google_private_input_keys_def)

lemma sample_policy:
  "\<exists>r. revalidated sample_services sample_action [(''id'', JStr ''n1'')] =
     Inr \<lparr>ev_capability = Some (cap_memory_note_delete sample_env sample_providers),
       ev_normalized_input = Some [(''id'', JStr ''n1'')], ev_impact_level = WriteReversible,
       ev_decision = RequiresApproval, ev_reason = r\<rparr>"
proof -
  have v: "validate_memory_note_delete_input [(''id'', JStr ''n1'')] = Inr [(''id'', JStr ''n1'')]" by code_simp
  show ?thesis
    by (simp add: revalidated_def sample_action_def sample_services_def evaluate_proposal_def
        get_capability_def capability_registry_def evaluate_capability_def is_side_effecting_def
        effective_taint_def) (simp add: cap_memory_note_delete_def v is_side_effecting_def effective_taint_def)
qed

lemma sample_checks:
  "execution_integrity_error sample_services sample_action (cap_memory_note_delete sample_env sample_providers) = None"
  "preflight_capability_execution (cap_memory_note_delete sample_env sample_providers) [(''id'', JStr ''n1'')] = Inr ()"
proof -
  show "execution_integrity_error sample_services sample_action (cap_memory_note_delete sample_env sample_providers) = None"
    by (simp add: execution_integrity_error_def sample_action_def cap_memory_note_delete_def contract_hash_of_def
        capability_contract_hash_def sample_services_def)
  have "detect_pattern (JObj [(''id'', JStr ''n1'')]) UNSAFE_INPUT_PATTERNS = None" by code_simp
  then show "preflight_capability_execution (cap_memory_note_delete sample_env sample_providers) [(''id'', JStr ''n1'')] = Inr ()"
    by (simp add: preflight_capability_execution_def pre_execution_guardrail_error_def
        preflight_egress_requests_def cap_memory_note_delete_def)
qed

lemma sample_approved:
  "\<exists>w' r. resolve_approval_decision sample_services None ''apr1'' Approve (actor_id sample_request) None sample_world
      = Inr (w', Inr r)
    \<and> execution_task_id r \<noteq> None \<and> at_status (decided_attempt r) = Executing \<and> tasks w' \<noteq> tasks sample_world"
proof -
  from sample_policy obtain policy where
    "revalidated sample_services sample_action [(''id'', JStr ''n1'')] = Inr policy"
    "ev_decision policy = RequiresApproval"
    "ev_capability policy = Some (cap_memory_note_delete sample_env sample_providers)"
    "ev_normalized_input policy = Some [(''id'', JStr ''n1'')]" by auto
  with sample_found sample_payload sample_checks show ?thesis
    by (intro approval_starts)
      (auto simp: sample_request_def sample_action_def sample_world_def empty_world_def sample_services_def
        hash_of_def payload_hash_def)
qed

theorem sound_approval_starts_execution_witness:
  "\<exists>w' r. resolve_approval_decision sample_services None ''apr1'' Approve (actor_id sample_request) None sample_world
      = Inr (w', Inr r)
    \<and> execution_task_id r \<noteq> None \<and> at_status (decided_attempt r) = Executing"
proof -
  from sample_policy obtain policy where
    "revalidated sample_services sample_action [(''id'', JStr ''n1'')] = Inr policy"
    "ev_decision policy = RequiresApproval"
    "ev_capability policy = Some (cap_memory_note_delete sample_env sample_providers)"
    "ev_normalized_input policy = Some [(''id'', JStr ''n1'')]" by auto
  with sample_found sample_payload sample_checks show ?thesis
    by (intro sound_approval_starts_execution)
      (auto simp: sample_request_def sample_action_def sample_world_def empty_world_def sample_services_def
        hash_of_def payload_hash_def)
qed

theorem only_sound_approvals_queue_work_witness:
  "\<exists>w'. Approve = Approve \<and> (\<exists>ap a t payload policy.
    find_approval sample_world ''apr1'' = Some ap \<and> find_attempt sample_world (ap_attempt_id ap) = Some a
    \<and> actor_id sample_request = actor_id ap \<and> ap_status ap = Pending
    \<and> now_at sample_services (clock sample_world) \<le> expires_at ap
    \<and> full_action_input_payload sample_services sample_world a None = Inr (Inr payload)
    \<and> hash_of sample_services (canonical_action_payload (at_capability_id a) payload) = ap_payload_hash ap
    \<and> ap_payload_hash ap = at_payload_hash a
    \<and> revalidated sample_services a payload = Inr policy \<and> ev_decision policy = RequiresApproval
    \<and> tasks w' = tasks sample_world @ [t] \<and> task_type t = ''execute_action_attempt''
    \<and> task_payload t = JObj [(''action_attempt_id'', JStr (at_id a))]
    \<and> map_option ap_status (find_approval w' ''apr1'') = Some Approved
    \<and> map_option at_status (find_attempt w' (at_id a)) = Some Executing)"
proof -
  from sample_approved obtain w' r where "resolve_approval_decision sample_services None ''apr1'' Approve
      (actor_id sample_request) None sample_world = Inr (w', Inr r)" "tasks w' \<noteq> tasks sample_world" by blast
  from only_sound_approvals_queue_work [OF this] show ?thesis by blast
qed

end
