(* ===== verification/Proposal_Laws.thy ===== *)
theory Proposal_Laws
  imports Proposals Approval_Laws
begin

text \<open>
  What one call of a program leaves behind, whatever it asked for: one attempt, at most one pending
  approval for it, no queued execution, consecutive events of the turn, and one answer to the
  program.
\<close>

section \<open>Traces of a call\<close>

text \<open>The columns of an attempt that are frozen when it is recorded.\<close>

definition same_core :: "action_attempt \<Rightarrow> action_attempt \<Rightarrow> bool" where
  "same_core a a' \<longleftrightarrow>
     at_id a' = at_id a \<and> at_turn_id a' = at_turn_id a \<and> proposal_index a' = proposal_index a
     \<and> at_capability_id a' = at_capability_id a \<and> at_capability_version a' = at_capability_version a
     \<and> at_contract_hash a' = at_contract_hash a \<and> at_impact_level a' = at_impact_level a
     \<and> proposed_input a' = proposed_input a \<and> at_payload_hash a' = at_payload_hash a
     \<and> at_created_at a' = at_created_at a"

lemma same_core_refl [simp]: "same_core a a"
  by (simp add: same_core_def)

lemma same_core_trans: "same_core a b \<Longrightarrow> same_core b c \<Longrightarrow> same_core a c"
  by (simp add: same_core_def)

definition logged :: "string \<Rightarrow> call_state \<Rightarrow> call_state \<Rightarrow> bool" where
  "logged turn s0 s \<longleftrightarrow>
     (\<exists>es. events (cs_world s) = events (cs_world s0) @ es
        \<and> cs_sequence s = cs_sequence s0 + int (length es)
        \<and> list_all (\<lambda>e. ev_turn_id e = turn) es
        \<and> map ev_sequence es = map (\<lambda>i. cs_sequence s0 + 1 + int i) [0..<length es])"

text \<open>
  The attempt, the new approvals and tasks, and the answers (for a call with an id) since \<open>s0\<close>.
\<close>

definition leaves ::
  "services \<Rightarrow> string \<Rightarrow> string \<Rightarrow> call_state \<Rightarrow> action_attempt \<Rightarrow> approval_request list
     \<Rightarrow> background_task list \<Rightarrow> dict list \<Rightarrow> call_state \<Rightarrow> bool" where
  "leaves rt turn call_id s0 a aps ts ps s \<longleftrightarrow>
     attempts (cs_world s) = attempts (cs_world s0) @ [a]
     \<and> list_all (\<lambda>b. at_id b \<noteq> at_id a) (attempts (cs_world s0))
     \<and> approvals (cs_world s) = approvals (cs_world s0) @ aps
     \<and> list_all (\<lambda>ap. list_all (\<lambda>b. ap_id b \<noteq> ap_id ap) (approvals (cs_world s0))) aps
     \<and> tasks (cs_world s) = tasks (cs_world s0) @ ts
     \<and> (\<exists>pps. private_payloads (cs_world s) = private_payloads (cs_world s0) @ pps
          \<and> list_all (\<lambda>p. pp_attempt_id p = at_id a) pps)
     \<and> logged turn s0 s
     \<and> pending_approval_created (cs_ctx s) = (pending_approval_created (cs_ctx s0) \<or> aps \<noteq> [])
     \<and> function_call_outputs (cs_ctx s) = function_call_outputs (cs_ctx s0)
         @ (if call_id = [] then [] else map (response_function_call_output rt call_id) ps)"

named_theorems leaves_intro \<open>steps of a call that keep its trace\<close>

lemma logged_event:
  assumes "logged turn s0 s" "ce_turn_id ce = turn"
  shows "logged turn s0 (add_event rt ce y p s)"
proof -
  from assms(1) obtain es where es: "events (cs_world s) = events (cs_world s0) @ es"
    "cs_sequence s = cs_sequence s0 + int (length es)" "list_all (\<lambda>e. ev_turn_id e = turn) es"
    "map ev_sequence es = map (\<lambda>i. cs_sequence s0 + 1 + int i) [0..<length es]" unfolding logged_def by auto
  obtain e where "events (cs_world (add_event rt ce y p s)) = events (cs_world s) @ [e]"
    "ev_turn_id e = turn" "ev_sequence e = cs_sequence s + 1"
    using add_turn_event_events [of rt "ce_turn_id ce" "cs_sequence s + 1" y p "cs_world s"] assms(2)
    by (auto simp: add_event_def)
  with es show ?thesis
    unfolding logged_def by (intro exI [of _ "es @ [e]"]) (simp add: add_event_def)
qed

lemma add_event_simps [simp]:
  "attempts (cs_world (add_event rt ce y p s)) = attempts (cs_world s)"
  "approvals (cs_world (add_event rt ce y p s)) = approvals (cs_world s)"
  "tasks (cs_world (add_event rt ce y p s)) = tasks (cs_world s)"
  "private_payloads (cs_world (add_event rt ce y p s)) = private_payloads (cs_world s)"
  "cs_ctx (add_event rt ce y p s) = cs_ctx s"
  by (simp_all add: add_event_def)

lemma leaves_event [leaves_intro]:
  "leaves rt turn i s0 a aps ts ps s \<Longrightarrow> ce_turn_id ce = turn \<Longrightarrow> leaves rt turn i s0 a aps ts ps (add_event rt ce y p s)"
  by (simp add: leaves_def logged_event)

lemma leaves_ctx:
  assumes "leaves rt turn i s0 a aps ts ps s"
    and "\<And>c. function_call_outputs (f c) = function_call_outputs c"
    and "\<And>c. pending_approval_created (f c) = pending_approval_created c"
  shows "leaves rt turn i s0 a aps ts ps (ctx_map f s)"
  using assms by (simp add: leaves_def ctx_map_def logged_def)

lemma leaves_blocked [leaves_intro]:
  "leaves rt turn i s0 a aps ts ps s \<Longrightarrow> leaves rt turn i s0 a aps ts ps (blocked cid r s)"
  unfolding blocked_def by (rule leaves_ctx) simp_all

lemma leaves_retrieval_error [leaves_intro]:
  "leaves rt turn i s0 a aps ts ps s \<Longrightarrow> leaves rt turn i s0 a aps ts ps (retrieval_error cid r s)"
  unfolding retrieval_error_def by (auto intro: leaves_ctx)

lemma leaves_policy_decided [leaves_intro]:
  "leaves rt turn i s0 a aps ts ps s \<Longrightarrow> ce_turn_id ce = turn \<Longrightarrow> leaves rt turn i s0 a aps ts ps (policy_decided rt ce ci b d r s)"
  unfolding policy_decided_def by (rule leaves_event)

lemma leaves_respond:
  "leaves rt turn i s0 a aps ts ps s \<Longrightarrow> leaves rt turn i s0 a aps ts (ps @ [p]) (respond rt i p s)"
  by (simp add: leaves_def respond_def ctx_map_def logged_def)

lemma leaves_answer [leaves_intro]:
  "leaves rt turn i s0 a aps ts [] s \<Longrightarrow> leaves rt turn i s0 a aps ts [p] (respond rt i p s)"
  using leaves_respond [where ps = "[]"] by simp

lemma leaves_failed_output [leaves_intro]:
  "leaves rt turn i s0 a aps ts [] s \<Longrightarrow> ci_call_id ci = i \<Longrightarrow>
    leaves rt turn i s0 a aps ts [[(''status'', JStr ''failed''), (''capability_id'', JStr (ci_capability_id ci)),
      (''error'', JStr e)]] (failed_output rt ci e s)"
  unfolding failed_output_def by (auto intro: leaves_answer)

lemma leaves_update:
  assumes "leaves rt turn i s0 a aps ts ps s" "update_attempt rt f a s = (a', s')"
    and "\<And>b. same_core b (f b)"
  shows "leaves rt turn i s0 a' aps ts ps s'" "same_core a a'" "\<exists>now. a' = f (a\<lparr>at_updated_at := now\<rparr>)"
proof -
  let ?now = "now_at rt (clock (cs_world s))"
  from assms(2) have a': "a' = f (a\<lparr>at_updated_at := ?now\<rparr>)"
    and s': "s' = s\<lparr>cs_world := save_attempt a' (snd (tick rt (cs_world s)))\<rparr>"
    by (auto simp: update_attempt_def Let_def split_beta)
  then show "\<exists>now. a' = f (a\<lparr>at_updated_at := now\<rparr>)" by blast
  show "same_core a a'" using assms(3) [of "a\<lparr>at_updated_at := ?now\<rparr>"] by (simp add: a' same_core_def)
  then have "at_id a' = at_id a" by (simp add: same_core_def)
  with assms(1) show "leaves rt turn i s0 a' aps ts ps s'"
    by (auto simp: leaves_def s' attempt_table.rows_save logged_def list_all_iff intro!: map_idI)
qed

section \<open>The ways a call ends\<close>

text \<open>
  The request asks for exactly the attempt: same turn, same frozen hash, by the turn's actor, pending.
\<close>

definition asks_for :: "call_env \<Rightarrow> action_attempt \<Rightarrow> approval_request \<Rightarrow> bool" where
  "asks_for ce a ap \<longleftrightarrow> ap_attempt_id ap = at_id a \<and> ap_turn_id ap = ce_turn_id ce
     \<and> actor_id ap = ce_actor_id ce \<and> ap_status ap = Pending \<and> ap_payload_hash ap = at_payload_hash a
     \<and> decided_at ap = None"

definition queues_nothing :: "background_task list \<Rightarrow> bool" where
  "queues_nothing = list_all (\<lambda>t. task_type t = ''agent_wake'' \<or> task_type t = ''research_run'')"

inductive call_end :: "call_env \<Rightarrow> action_attempt \<Rightarrow> approval_request list \<Rightarrow> background_task list \<Rightarrow> bool"
  for ce :: call_env where
  refused: "at_status a = Refused \<Longrightarrow> \<not> approval_required a \<Longrightarrow> call_end ce a [] []"
| failed: "at_status a = FailedAction \<Longrightarrow> \<not> approval_required a \<Longrightarrow> queues_nothing ts \<Longrightarrow> call_end ce a [] ts"
| succeeded: "at_status a = SucceededAction \<Longrightarrow> \<not> approval_required a \<Longrightarrow> queues_nothing ts \<Longrightarrow> call_end ce a [] ts"
| waiting: "at_status a = AwaitingApproval \<Longrightarrow> approval_required a \<Longrightarrow> asks_for ce a ap \<Longrightarrow>
     call_end ce a [ap] []"

text \<open>The answers the program's side of the call knows to read.\<close>

definition answerable :: "dict \<Rightarrow> bool" where
  "answerable p \<longleftrightarrow> jget p ''status'' = JStr ''succeeded'' \<and> has_key p ''output''
     \<or> jget p ''status'' \<in> {JStr ''approval_required'', JStr ''blocked'', JStr ''denied'', JStr ''failed''}"

lemma answerable_simps [simp]:
  "answerable ((''status'', JStr s) # d) \<longleftrightarrow>
     s = ''succeeded'' \<and> has_key d ''output'' \<or> s = ''approval_required'' \<or> s = ''blocked'' \<or> s = ''denied'' \<or> s = ''failed''"
  by (auto simp: answerable_def jget_def)

text \<open>
  From a recorded attempt with no answer yet to the end of the call, with one answer; a request only
  where one may be made.
\<close>

definition ends ::
  "services \<Rightarrow> call_env \<Rightarrow> bool \<Rightarrow> string \<Rightarrow> call_state \<Rightarrow> action_attempt \<Rightarrow> call_state \<Rightarrow> bool" where
  "ends rt ce may i s0 a s' \<longleftrightarrow>
     (\<exists>a' aps ts p. leaves rt (ce_turn_id ce) i s0 a' aps ts [p] s' \<and> same_core a a' \<and> call_end ce a' aps ts
        \<and> answerable p \<and> (aps \<noteq> [] \<longrightarrow> may))"

lemma endsI:
  "leaves rt (ce_turn_id ce) i s0 a' aps ts [p] s' \<Longrightarrow> same_core a a' \<Longrightarrow> call_end ce a' aps ts \<Longrightarrow>
    (aps \<noteq> [] \<Longrightarrow> may) \<Longrightarrow> answerable p \<Longrightarrow> ends rt ce may i s0 a s'"
  unfolding ends_def by blast

lemma ends_retrieval_error [leaves_intro]:
  "ends rt ce may i s0 a s \<Longrightarrow> ends rt ce may i s0 a (retrieval_error cid r s)"
  unfolding ends_def by (blast intro: leaves_retrieval_error)

lemma ends_policy_decided [leaves_intro]:
  "ends rt ce may i s0 a s \<Longrightarrow> ends rt ce may i s0 a (policy_decided rt ce ci b d r s)"
  unfolding ends_def by (blast intro: leaves_policy_decided)

lemma ends_trans: "same_core a b \<Longrightarrow> ends rt ce may i s0 b s \<Longrightarrow> ends rt ce may i s0 a s"
  unfolding ends_def by (blast intro: same_core_trans)

lemma rejected:
  assumes "leaves rt (ce_turn_id ce) (ci_call_id ci) s0 a [] [] [] s" "\<not> approval_required a"
  shows "ends rt ce may (ci_call_id ci) s0 a (reject_attempt rt ci a reason extra s)"
proof -
  let ?f = "\<lambda>a. a\<lparr>at_status := Refused, at_policy_decision := Deny, policy_reason := Some reason\<rparr>"
  obtain a' s' where u: "update_attempt rt ?f a s = (a', s')" by fastforce
  note l = leaves_update [OF assms(1) u, unfolded same_core_def, simplified, folded same_core_def]
  have "leaves rt (ce_turn_id ce) (ci_call_id ci) s0 a' [] []
      [[(''status'', JStr ''blocked''), (''capability_id'', JStr (ci_capability_id ci)), (''reason'', JStr reason)] @ extra]
      (reject_attempt rt ci a reason extra s)"
    by (simp add: reject_attempt_def u Let_def) (intro leaves_answer leaves_blocked l(1))
  moreover have "same_core a a'" by (rule l(2))
  moreover have "call_end ce a' [] []"
    using l(3) assms(2) by (intro call_end.refused) auto
  ultimately show ?thesis by (rule endsI) simp_all
qed

lemma denied_call:
  assumes "leaves rt (ce_turn_id ce) (ci_call_id ci) s0 a [] [] [] s" "\<not> approval_required a"
  shows "ends rt ce may (ci_call_id ci) s0 a (deny_proposal rt ce ci a reason s)"
  unfolding deny_proposal_def by (intro leaves_intro rejected assms)

lemma invariant_violated:
  assumes "leaves rt (ce_turn_id ce) (ci_call_id ci) s0 a [] [] [] s" "\<not> approval_required a"
  shows "ends rt ce may (ci_call_id ci) s0 a (policy_invariant_violation rt ce ci a s)"
  unfolding policy_invariant_violation_def by (intro leaves_intro rejected assms)

lemma failed_preflight:
  assumes "leaves rt (ce_turn_id ce) (ci_call_id ci) s0 a [] [] [] s" "\<not> approval_required a"
  shows "ends rt ce may (ci_call_id ci) s0 a (preflight_refused rt ce ci a e s)"
proof -
  let ?f = "\<lambda>a. a\<lparr>at_status := FailedAction, at_policy_decision := Deny, policy_reason := Some e,
    execution_error := Some e\<rparr>"
  obtain a' s' where u: "update_attempt rt ?f a s = (a', s')" by fastforce
  note l = leaves_update [OF assms(1) u, unfolded same_core_def, simplified, folded same_core_def]
  show ?thesis
  proof (rule endsI)
    show "leaves rt (ce_turn_id ce) (ci_call_id ci) s0 a' [] []
      [[(''status'', JStr ''failed''), (''capability_id'', JStr (ci_capability_id ci)), (''error'', JStr e)]]
      (preflight_refused rt ce ci a e s)"
      by (simp add: preflight_refused_def u Let_def) (intro leaves_intro l(1) refl)
    show "same_core a a'" by (rule l(2))
    show "call_end ce a' [] []"
      using l(3) assms(2) by (intro call_end.failed) (auto simp: queues_nothing_def)
  qed simp_all
qed

lemma failed_inline:
  assumes "leaves rt (ce_turn_id ce) (ci_call_id ci) s0 a [] ts [] s" "\<not> approval_required a"
    and "queues_nothing ts"
    and change: "\<And>b. same_core b (change b) \<and> at_status (change b) = at_status b
      \<and> approval_required (change b) = approval_required b"
  shows "ends rt ce may (ci_call_id ci) s0 a (inline_failed rt ce ci a e change r extra s)"
proof -
  let ?f = "\<lambda>a. change (a\<lparr>execution_output := JNull, execution_error := Some e, at_status := FailedAction\<rparr>)"
  obtain a' s' where u: "update_attempt rt ?f a s = (a', s')" by fastforce
  have "same_core b (?f b)" for b using change [of "b\<lparr>execution_output := JNull, execution_error := Some e,
      at_status := FailedAction\<rparr>"] by (simp add: same_core_def)
  note l = leaves_update [OF assms(1) u this]
  show ?thesis
  proof (rule endsI)
    show "leaves rt (ce_turn_id ce) (ci_call_id ci) s0 a' [] ts
      [[(''status'', JStr ''failed''), (''capability_id'', JStr (ci_capability_id ci)), (''error'', JStr e)]]
      (inline_failed rt ce ci a e change r extra s)"
      by (simp add: inline_failed_def u Let_def) (intro leaves_intro l(1) refl)
    show "same_core a a'" by (rule l(2))
    from l(3) obtain now where "a' = change (a\<lparr>at_updated_at := now, execution_output := JNull,
      execution_error := Some e, at_status := FailedAction\<rparr>)" by auto
    with assms(2) change [of "a\<lparr>at_updated_at := now, execution_output := JNull,
      execution_error := Some e, at_status := FailedAction\<rparr>"]
    have "at_status a' = FailedAction" "\<not> approval_required a'" by simp_all
    then show "call_end ce a' [] ts" using assms(3) by (rule call_end.failed)
  qed simp_all
qed

lemma leaves_ctx_outputs:
  assumes "leaves rt turn i s0 a aps ts ps s"
    and "\<And>c. function_call_outputs (f c) = function_call_outputs c"
  shows "pending_approval_created (cs_ctx (ctx_map f s)) = pending_approval_created (cs_ctx s)
    \<Longrightarrow> leaves rt turn i s0 a aps ts ps (ctx_map f s)"
  using assms by (simp add: leaves_def ctx_map_def logged_def)

text \<open>A new pending request is announced.\<close>

lemma leaves_announced:
  assumes "leaves rt turn i s0 a [] ts [] s" "insert_approval ap w = Inr w'"
    and "approvals w = approvals (cs_world s)" "attempts w = attempts (cs_world s)" "tasks w = tasks (cs_world s)"
    and "private_payloads w = private_payloads (cs_world s)" "events w = events (cs_world s)"
    and "ce_turn_id ce = turn" "ci_call_id ci = i"
  shows "\<exists>p. leaves rt turn i s0 a [ap] ts [p] (announce_approval rt ce ci ap (s\<lparr>cs_world := w'\<rparr>)) \<and> answerable p"
proof -
  from assms(2) have w': "w' = w\<lparr>approvals := approvals w @ [ap]\<rparr>"
      "list_all (\<lambda>b. ap_id b \<noteq> ap_id ap) (approvals w)"
    by (auto simp: insert_approval_def list_all_iff list_ex_iff split: if_split_asm)
  define f :: "call_context \<Rightarrow> call_context" where "f = (\<lambda>c. c\<lparr>pending_approval_created := True,
    pending_approvals := pending_approvals c @ [JObj [(''approval_ref'', JStr (ap_id ap)),
      (''capability_id'', JStr (ci_capability_id ci)), (''expires_at'', JStr (to_rfc3339 (expires_at ap)))]]\<rparr>)"
  have l: "leaves rt turn i s0 a [ap] ts [] (ctx_map f (s\<lparr>cs_world := w'\<rparr>))"
    using assms w'(2) by (simp add: leaves_def ctx_map_def logged_def w'(1) f_def)
  show ?thesis
    unfolding announce_approval_def Let_def assms(9)
    by (intro exI conjI, rule leaves_event [OF leaves_answer [OF l [unfolded f_def]] assms(8)]) simp
qed

lemma approval_requested:
  assumes l: "leaves rt (ce_turn_id ce) (ci_call_id ci) s0 a [] [] [] s" "\<not> approval_required a"
    and r: "request_approval rt ce ci a c y reason s = Inr s'" and may
  shows "ends rt ce may (ci_call_id ci) s0 a s'"
proof (cases "preflight_capability_execution c y")
  case (Inl v)
  with r obtain e where "v = Rejected e" "s' = preflight_refused rt ce ci a e s"
    by (auto simp: request_approval_def split: verror.split_asm)
  with failed_preflight [OF l] show ?thesis by simp
next
  case (Inr u)
  let ?f = "\<lambda>a. a\<lparr>at_status := AwaitingApproval, at_policy_decision := RequiresApproval,
    policy_reason := Some reason, approval_required := True\<rparr>"
  obtain a' s1 where u: "update_attempt rt ?f a s = (a', s1)" by fastforce
  note l1 = leaves_update [OF l(1) u, unfolded same_core_def, simplified, folded same_core_def]
  let ?s2 = "policy_decided rt ce ci a' RequiresApproval reason s1"
  have l2: "leaves rt (ce_turn_id ce) (ci_call_id ci) s0 a' [] [] [] ?s2"
    by (intro leaves_intro l1(1) refl)
  from r Inr u have "\<exists>ap w w'. insert_approval ap w = Inr w' \<and> asks_for ce a' ap
      \<and> attempts w = attempts (cs_world ?s2) \<and> approvals w = approvals (cs_world ?s2)
      \<and> tasks w = tasks (cs_world ?s2) \<and> private_payloads w = private_payloads (cs_world ?s2)
      \<and> events w = events (cs_world ?s2)
      \<and> s' = retrieval_error (ci_capability_id ci) reason (announce_approval rt ce ci ap (?s2\<lparr>cs_world := w'\<rparr>))"
    by (clarsimp simp: request_approval_def Let_def split_beta)
      (intro exI conjI, assumption, simp_all add: asks_for_def)
  then obtain ap w w' where w: "insert_approval ap w = Inr w'" "attempts w = attempts (cs_world ?s2)"
      "approvals w = approvals (cs_world ?s2)" "tasks w = tasks (cs_world ?s2)"
      "private_payloads w = private_payloads (cs_world ?s2)" "events w = events (cs_world ?s2)"
    and ap: "asks_for ce a' ap"
    and s': "s' = retrieval_error (ci_capability_id ci) reason (announce_approval rt ce ci ap (?s2\<lparr>cs_world := w'\<rparr>))"
    by blast
  from leaves_announced [OF l2 w(1) w(3) w(2) w(4) w(5) w(6) refl refl] obtain p where
    lp: "leaves rt (ce_turn_id ce) (ci_call_id ci) s0 a' [ap] [] [p] (announce_approval rt ce ci ap (?s2\<lparr>cs_world := w'\<rparr>))"
    and p: "answerable p" by blast
  from lp have "leaves rt (ce_turn_id ce) (ci_call_id ci) s0 a' [ap] [] [p] s'"
    unfolding s' by (rule leaves_retrieval_error)
  moreover have "call_end ce a' [ap] []"
    using l1(3) by (intro call_end.waiting ap) auto
  ultimately show ?thesis using l1(2) \<open>may\<close> p by (intro endsI)
qed

section \<open>Calls that run at once\<close>

lemma leaves_world:
  assumes "leaves rt turn i s0 a aps ts ps s" "attempts w = attempts (cs_world s)"
    and "approvals w = approvals (cs_world s)" "tasks w = tasks (cs_world s) @ us"
    and "private_payloads w = private_payloads (cs_world s)" "events w = events (cs_world s)"
  shows "leaves rt turn i s0 a aps (ts @ us) ps (s\<lparr>cs_world := w\<rparr>)"
  using assms by (simp add: leaves_def logged_def)

lemma syscalls_queue:
  "execute_proactive_capability rt cid input w = Inr (out, w') \<Longrightarrow>
    \<exists>us. attempts w' = attempts w \<and> approvals w' = approvals w \<and> tasks w' = tasks w @ us
      \<and> private_payloads w' = private_payloads w \<and> events w' = events w \<and> queues_nothing us"
  "execute_research_capability rt cid input w = Inr (out, w') \<Longrightarrow>
    \<exists>us. attempts w' = attempts w \<and> approvals w' = approvals w \<and> tasks w' = tasks w @ us
      \<and> private_payloads w' = private_payloads w \<and> events w' = events w \<and> queues_nothing us"
proof -
  assume "execute_proactive_capability rt cid input w = Inr (out, w')"
  then obtain p after t where "enqueue_background_task rt ''agent_wake'' p (now_at rt (clock w)) None (Some after)
      None (snd (tick rt w)) = Inr (t, w')"
    by (auto simp: execute_proactive_capability_def dict_item_def Let_def split_beta
        split: if_split_asm option.split_asm)
  from enqueue_new_task [OF this] show "\<exists>us. attempts w' = attempts w \<and> approvals w' = approvals w
      \<and> tasks w' = tasks w @ us \<and> private_payloads w' = private_payloads w \<and> events w' = events w
      \<and> queues_nothing us"
    by (intro exI [of _ "[t]"]) (simp add: queues_nothing_def)
next
  assume "execute_research_capability rt cid input w = Inr (out, w')"
  then obtain p t where "enqueue_background_task rt ''research_run'' p (now_at rt (clock w)) None None
      None (snd (tick rt w)) = Inr (t, w')"
    by (auto simp: execute_research_capability_def dict_item_def Let_def split_beta
        split: if_split_asm option.split_asm)
  from enqueue_new_task [OF this] show "\<exists>us. attempts w' = attempts w \<and> approvals w' = approvals w
      \<and> tasks w' = tasks w @ us \<and> private_payloads w' = private_payloads w \<and> events w' = events w
      \<and> queues_nothing us"
    by (intro exI [of _ "[t]"]) (simp add: queues_nothing_def)
qed

lemma dispatched:
  assumes "dispatch_inline rt ce c cid input w = Inr (r, w')"
  shows "\<exists>us. attempts w' = attempts w \<and> approvals w' = approvals w \<and> tasks w' = tasks w @ us
      \<and> private_payloads w' = private_payloads w \<and> events w' = events w \<and> queues_nothing us"
proof (cases "w' = w")
  case True
  then show ?thesis by (intro exI [of _ "[]"]) (simp add: queues_nothing_def)
next
  case False
  with assms obtain out where "execute_proactive_capability rt cid input w = Inr (out, w')
      \<or> execute_research_capability rt cid input w = Inr (out, w')"
    by (auto simp: dispatch_inline_def Let_def split: if_split_asm sum.split_asm)
  with syscalls_queue show ?thesis by blast
qed

lemma leaves_cited:
  assumes "cite_sources ce cid attempt_id agent audit s = Inr s'" "leaves rt turn i s0 a aps ts ps s"
  shows "leaves rt turn i s0 a aps ts ps s'"
proof -
  have ext: "leaves rt turn i s0 a aps ts ps (ctx_map (\<lambda>c. c\<lparr>retrieval_sources := retrieval_sources c @ xs\<rparr>) q)"
    if "leaves rt turn i s0 a aps ts ps q" for xs q
    using that by (rule leaves_ctx) simp_all
  from assms show ?thesis
    by (auto simp: cite_sources_def Let_def split: if_split_asm option.split_asm
        intro!: ext leaves_retrieval_error)
qed

lemma succeeded_inline:
  assumes "leaves rt (ce_turn_id ce) (ci_call_id ci) s0 a [] ts [] s" "\<not> approval_required a"
    and "queues_nothing ts" "inline_succeeded rt ce ci a agent audit s = Inr s'"
  shows "ends rt ce may (ci_call_id ci) s0 a s'"
proof -
  let ?cid = "ci_capability_id ci"
  let ?f = "\<lambda>a. a\<lparr>execution_output := JObj audit, execution_error := None, at_status := SucceededAction\<rparr>"
  obtain a' s1 where u: "update_attempt rt ?f a s = (a', s1)" by fastforce
  note l1 = leaves_update [OF assms(1) u, unfolded same_core_def, simplified, folded same_core_def]
  let ?s2 = "ctx_map (\<lambda>c. c\<lparr>interpreter_reason_codes_by_attempt_id :=
    append_reason_codes (interpreter_reason_codes_by_attempt_id c) (at_id a')
      (tool_result_interpretation_reason_codes rt (JObj agent))\<rparr>) s1"
  let ?s3 = "ctx_map (\<lambda>c. if List.member DISCORD_CAPABILITY_IDS ?cid then c\<lparr>silent_response := True\<rparr>
    else c\<lparr>inline_results := inline_results c @ [JObj [(''capability_id'', JStr ?cid), (''output'', JObj agent)]]\<rparr>) ?s2"
  let ?p = "[(''status'', JStr ''succeeded''), (''capability_id'', JStr ?cid), (''output'', JObj agent)]"
  let ?s4 = "respond rt (ci_call_id ci) ?p ?s3"
  let ?s5 = "ctx_map (\<lambda>c. c\<lparr>result_runtime_provenance :=
    result_provenance ?cid a' agent (result_runtime_provenance c)\<rparr>) ?s4"
  have l3: "leaves rt (ce_turn_id ce) (ci_call_id ci) s0 a' [] ts [] ?s3"
    by (intro leaves_ctx l1(1)) simp_all
  have l5: "leaves rt (ce_turn_id ce) (ci_call_id ci) s0 a' [] ts [?p] ?s5"
    by (intro leaves_ctx leaves_answer l3) simp_all
  from assms(4) u obtain s6 ev where "cite_sources ce ?cid (at_id a') agent audit ?s5 = Inr s6"
    "s' = add_event rt ce ''evt.action.execution.succeeded'' ev s6"
    by (auto simp: inline_succeeded_def Let_def)
  with leaves_cited [OF _ l5] have "leaves rt (ce_turn_id ce) (ci_call_id ci) s0 a' [] ts [?p] s'"
    by (auto intro: leaves_event)
  moreover from l1(3) assms(2) have "at_status a' = SucceededAction" "\<not> approval_required a'" by auto
  then have "call_end ce a' [] ts" using assms(3) by (rule call_end.succeeded)
  moreover have "answerable ?p" by simp
  ultimately show ?thesis using l1(2) endsI by blast
qed

lemma unchanged_core:
  "same_core b b \<and> at_status b = at_status b \<and> approval_required b = approval_required b"
  by simp

lemma finished_inline:
  assumes "leaves rt (ce_turn_id ce) (ci_call_id ci) s0 a [] ts [] s" "\<not> approval_required a"
    and "queues_nothing ts" "finish_inline rt ce ci a r s = Inr s'"
  shows "ends rt ce may (ci_call_id ci) s0 a s'"
proof (cases "if pr_succeeded r then pr_output r else None")
  case None
  with assms(4) have "s' = inline_failed rt ce ci a (fst (provider_error r)) (\<lambda>a. a) (snd (provider_error r))
    [(''output'', JNull)] s"
    by (simp add: finish_inline_def split_beta)
  with failed_inline [OF assms(1-3) unchanged_core] show ?thesis by simp
next
  case (Some v)
  with assms(4) obtain outputs where o: "inline_outputs rt ce (ci_capability_id ci) v = Inr outputs"
    and f: "(case outputs of Inl e \<Rightarrow> Inr (inline_failed rt ce ci a e (\<lambda>a. a) e [] s)
      | Inr (agent, audit) \<Rightarrow> inline_succeeded rt ce ci a agent audit s) = Inr s'"
    by (auto simp: finish_inline_def)
  show ?thesis
  proof (cases outputs)
    case (Inl e)
    with f failed_inline [OF assms(1-3) unchanged_core] show ?thesis by auto
  next
    case (Inr oo)
    with f succeeded_inline [OF assms(1-3)] show ?thesis by (cases oo) simp
  qed
qed

lemma ran_inline:
  assumes "leaves rt (ce_turn_id ce) (ci_call_id ci) s0 a [] [] [] s" "\<not> approval_required a"
    and "run_inline rt ce ci a c y s = Inr s'"
  shows "ends rt ce may (ci_call_id ci) s0 a s'"
proof -
  let ?s = "add_event rt ce ''evt.action.execution.started''
    [(''action_attempt_id'', JStr (at_id a)), (''capability_id'', JStr (ci_capability_id ci))] s"
  from assms(3) obtain r w where d: "dispatch_inline rt ce c (ci_capability_id ci) y (cs_world ?s) = Inr (r, w)"
    and f: "finish_inline rt ce ci a r (?s\<lparr>cs_world := w\<rparr>) = Inr s'"
    by (auto simp: run_inline_def Let_def)
  have "leaves rt (ce_turn_id ce) (ci_call_id ci) s0 a [] [] [] ?s"
    using assms(1) by (intro leaves_event) simp_all
  with dispatched [OF d] obtain us where
    "leaves rt (ce_turn_id ce) (ci_call_id ci) s0 a [] ([] @ us) [] (?s\<lparr>cs_world := w\<rparr>)" "queues_nothing us"
    using leaves_world by blast
  then show ?thesis using finished_inline [OF _ assms(2) _ f] by simp
qed

text \<open>
  A capability the policy allows inline either reads or is one of the writes that run at once, so the
  branch that queues an execution without an approval is never taken.
\<close>

lemma inline_writes_run_at_once:
  "list_all (\<lambda>cid. List.member MEMORY_CAPABILITY_IDS cid \<or> List.member PROACTIVE_CAPABILITY_IDS cid)
     writes_allowed_inline"
  by code_simp

lemma allowed_inline:
  assumes "leaves rt (ce_turn_id ce) (ci_call_id ci) s0 a [] [] [] s" "\<not> approval_required a"
    and "impact_level c = Read \<or> ci_capability_id ci \<in> set writes_allowed_inline"
    and "allow_inline rt ce ci a c y reason s = Inr s'"
  shows "ends rt ce may (ci_call_id ci) s0 a s'"
proof -
  let ?f = "\<lambda>a. a\<lparr>at_status := Executing, at_policy_decision := AllowInline, policy_reason := None\<rparr>"
  obtain a' s1 where u: "update_attempt rt ?f a s = (a', s1)" by fastforce
  note l1 = leaves_update [OF assms(1) u, unfolded same_core_def, simplified, folded same_core_def]
  let ?s = "policy_decided rt ce ci a' AllowInline reason s1"
  have l: "leaves rt (ce_turn_id ce) (ci_call_id ci) s0 a' [] [] [] ?s" by (intro leaves_intro l1(1) refl)
  have na: "\<not> approval_required a'" using l1(3) assms(2) by auto
  have q: "queues_nothing []" by (simp add: queues_nothing_def)
  have fail: "ends rt ce may (ci_call_id ci) s0 a' (inline_failed rt ce ci a' e (\<lambda>a. a\<lparr>policy_reason := z\<rparr>) e [] ?s)"
    for e z by (rule failed_inline [OF l na q]) (simp add: same_core_def)
  have "ends rt ce may (ci_call_id ci) s0 a' s'"
  proof (cases "execution_integrity_error rt a' c")
    case (Some e)
    with assms(4) u fail show ?thesis by (auto simp: allow_inline_def Let_def)
  next
    case None
    show ?thesis
    proof (cases "preflight_capability_execution c y")
      case (Inl v)
      with assms(4) u None fail show ?thesis by (auto simp: allow_inline_def Let_def split: verror.split_asm)
    next
      case (Inr v)
      have "\<not> (impact_level c \<noteq> Read \<and> \<not> List.member MEMORY_CAPABILITY_IDS (ci_capability_id ci)
          \<and> \<not> List.member PROACTIVE_CAPABILITY_IDS (ci_capability_id ci))"
        using assms(3) inline_writes_run_at_once by (auto simp: list_all_iff)
      with assms(4) u None Inr have "run_inline rt ce ci a' c y ?s = Inr s'"
        by (auto simp: allow_inline_def Let_def split: if_split_asm)
      with ran_inline [OF l na] show ?thesis by blast
    qed
  qed
  with l1(2) show ?thesis by (rule ends_trans)
qed

section \<open>The attempt is recorded and decided\<close>

lemma recorded_proposal:
  assumes "record_proposal rt ce ci ev input s = Inr (a, private, s')"
  shows "leaves rt (ce_turn_id ce) (ci_call_id ci) s a [] [] [] s'"
    and "\<exists>now new_id frozen. frozen = (case ev_normalized_input ev of None \<Rightarrow> input | Some y \<Rightarrow> y)
      \<and> a = new_attempt rt ce ci ev frozen (fst (stored_action_input_payload rt (ci_capability_id ci) frozen)) now new_id
      \<and> private = snd (stored_action_input_payload rt (ci_capability_id ci) frozen)"
proof -
  let ?cid = "ci_capability_id ci"
  let ?frozen = "case ev_normalized_input ev of None \<Rightarrow> input | Some y \<Rightarrow> y"
  let ?sp = "stored_action_input_payload rt ?cid ?frozen"
  let ?w = "snd (fresh_id rt ''aat'' (snd (tick rt (cs_world s))))"
  let ?a = "new_attempt rt ce ci ev ?frozen (fst ?sp) (fst (tick rt (cs_world s)))
    (fst (fresh_id rt ''aat'' (snd (tick rt (cs_world s)))))"
  from assms obtain w1 w2 payload where w1: "insert_attempt ?a ?w = Inr w1"
    and w2: "(case (snd ?sp, ce_google ce) of (Some p, Some google) \<Rightarrow>
       store_action_private_payload rt ?a p google (fst (tick rt (cs_world s))) w1 | _ \<Rightarrow> Inr w1) = Inr w2"
    and s': "s' = add_event rt ce ''evt.action.proposed'' payload (ctx_map (track_attempt ci ?a) (s\<lparr>cs_world := w2\<rparr>))"
    and a: "a = ?a" "private = snd ?sp"
    unfolding record_proposal_def Let_def split_beta by (auto simp del: tick_simps fresh_id_simps)
  from w1 have w1': "list_all (\<lambda>b. at_id b \<noteq> at_id ?a) (attempts (cs_world s))" "w1 = ?w\<lparr>attempts := attempts ?w @ [?a]\<rparr>"
    by (auto simp: insert_attempt_def list_ex_iff list_all_iff split: if_split_asm)
  have w2': "\<exists>pps. attempts w2 = attempts w1 \<and> approvals w2 = approvals w1 \<and> tasks w2 = tasks w1
      \<and> events w2 = events w1 \<and> private_payloads w2 = private_payloads w1 @ pps
      \<and> list_all (\<lambda>p. pp_attempt_id p = at_id ?a) pps"
    using w2 by (auto simp: store_action_private_payload_def insert_private_payload_def Let_def split_beta
        split: option.split_asm if_split_asm)
  then have "leaves rt (ce_turn_id ce) (ci_call_id ci) s ?a [] [] [] (ctx_map (track_attempt ci ?a) (s\<lparr>cs_world := w2\<rparr>))"
    using w1' by (auto simp: leaves_def logged_def ctx_map_def track_attempt_def)
  then show "leaves rt (ce_turn_id ce) (ci_call_id ci) s a [] [] [] s'"
    unfolding a s' by (rule leaves_event) simp
  from a show "\<exists>now new_id frozen. frozen = ?frozen
      \<and> a = new_attempt rt ce ci ev frozen (fst (stored_action_input_payload rt ?cid frozen)) now new_id
      \<and> private = snd (stored_action_input_payload rt ?cid frozen)" by blast
qed

lemma decided_call:
  assumes "leaves rt (ce_turn_id ce) (ci_call_id ci) s0 a [] [] [] s" "\<not> approval_required a"
    and "evaluate_proposal env prov (ci_capability_id ci) d pending influenced status = Inr ev"
    and "decide_proposal rt ce ci ev a unsealed s = Inr s'"
  shows "ends rt ce (\<not> pending) (ci_call_id ci) s0 a s'"
proof (cases "unsealed \<or> ev_decision ev = Deny")
  case True
  with assms(4) rejected [OF assms(1,2)] denied_call [OF assms(1,2)] show ?thesis
    by (auto simp: decide_proposal_def Let_def split: if_split_asm)
next
  case False
  then have "ev_decision ev \<noteq> Deny" by simp
  from assms(3) this obtain c y where c: "get_capability env prov (ci_capability_id ci) = Inr (Some c)"
    and ev: "ev_capability ev = Some c" "ev_normalized_input ev = Some y"
    and d: "ev_decision ev = decide (impact_level c) (policy_decision c) (effective_taint influenced status) pending"
    by (rule evaluate_proposal_cases)
  show ?thesis
  proof (cases "ev_decision ev = RequiresApproval")
    case True
    with assms(4) False ev have "request_approval rt ce ci a c y (ev_reason ev) s = Inr s'"
      by (simp add: decide_proposal_def Let_def)
    moreover have "\<not> pending"
      using True d by (cases "impact_level c"; cases "policy_decision c"; cases "effective_taint influenced status")
        (auto split: if_split_asm)
    ultimately show ?thesis using approval_requested [OF assms(1,2)] by blast
  next
    case no: False
    with assms(4) False ev have "allow_inline rt ce ci a c y (ev_reason ev) s = Inr s'"
      by (simp add: decide_proposal_def Let_def)
    moreover have "impact_level c = Read \<or> ci_capability_id ci \<in> set writes_allowed_inline"
      using get_capability_contract [OF c] get_capability_id [OF c] d no False
      by (cases "impact_level c"; cases "policy_decision c"; cases "effective_taint influenced status")
        (auto simp: contract_ok_def split: if_split_asm)
    ultimately show ?thesis using allowed_inline [OF assms(1,2)] by blast
  qed
qed

lemma new_attempt_simps [simp]:
  "at_id (new_attempt rt ce ci ev frozen stored now new_id) = new_id"
  "at_turn_id (new_attempt rt ce ci ev frozen stored now new_id) = ce_turn_id ce"
  "at_capability_id (new_attempt rt ce ci ev frozen stored now new_id) = ci_capability_id ci"
  "proposal_index (new_attempt rt ce ci ev frozen stored now new_id) = ci_index ci"
  "proposed_input (new_attempt rt ce ci ev frozen stored now new_id) = JObj stored"
  "at_payload_hash (new_attempt rt ce ci ev frozen stored now new_id)
     = hash_of rt (canonical_action_payload (ci_capability_id ci) frozen)"
  "\<not> approval_required (new_attempt rt ce ci ev frozen stored now new_id)"
  by (simp_all add: new_attempt_def Let_def)

text \<open>Reading the input changes the weather row at most.\<close>

lemma call_input_world:
  assumes "call_input rt ce fcp w = (input, w')"
  shows "attempts w' = attempts w" "approvals w' = approvals w" "tasks w' = tasks w"
    "private_payloads w' = private_payloads w" "events w' = events w"
proof -
  have "attempts (snd r) = attempts w \<and> approvals (snd r) = approvals w \<and> tasks (snd r) = tasks w
      \<and> private_payloads (snd r) = private_payloads w \<and> events (snd r) = events w"
    if "r = resolve_weather_location rt (ce_weather_raced ce) explicit w" for r explicit
    using that by (auto simp: resolve_weather_location_def get_weather_default_location_state_def
        try_insert_location_def Let_def split_beta split: option.split)
  from this [OF refl] show "attempts w' = attempts w" "approvals w' = approvals w" "tasks w' = tasks w"
    "private_payloads w' = private_payloads w" "events w' = events w"
    using assms by (auto simp: call_input_def Let_def split_beta split: if_split_asm)
qed

lemma leaves_baseline:
  assumes "leaves rt turn i s1 a aps ts ps s'"
    and "attempts (cs_world s1) = attempts (cs_world s)" "approvals (cs_world s1) = approvals (cs_world s)"
    and "tasks (cs_world s1) = tasks (cs_world s)" "private_payloads (cs_world s1) = private_payloads (cs_world s)"
    and "events (cs_world s1) = events (cs_world s)" "cs_sequence s1 = cs_sequence s"
    and "pending_approval_created (cs_ctx s1) = pending_approval_created (cs_ctx s)"
    and "function_call_outputs (cs_ctx s1) = function_call_outputs (cs_ctx s)"
  shows "leaves rt turn i s a aps ts ps s'"
  using assms by (simp add: leaves_def logged_def)

text \<open>The attempt a call records: the input as stored, and the hash of the input in full.\<close>

definition attempt_of ::
  "services \<Rightarrow> call_env \<Rightarrow> int \<Rightarrow> string \<Rightarrow> dict \<Rightarrow> action_attempt \<Rightarrow> bool" where
  "attempt_of rt ce index cid frozen a \<longleftrightarrow>
     at_turn_id a = ce_turn_id ce \<and> proposal_index a = index \<and> at_capability_id a = cid
     \<and> proposed_input a = JObj (fst (stored_action_input_payload rt cid frozen))
     \<and> at_payload_hash a = hash_of rt (canonical_action_payload cid frozen)"

lemma processed_call:
  assumes "process_one_call rt ce index raw s = Inr s'"
    and "List.member (ce_allowed ce) (capability_id_of (dict_or_empty raw))"
  shows "\<exists>a frozen. attempt_of rt ce index (capability_id_of (dict_or_empty raw)) frozen a
    \<and> ends rt ce (\<not> pending_approval_created (cs_ctx s)) (call_id_of (dict_or_empty raw)) s a s'"
proof -
  let ?fcp = "dict_or_empty raw" let ?cid = "capability_id_of ?fcp"
  let ?s1 = "mark_retrieval ?cid s"
  obtain input w where i: "call_input rt ce ?fcp (cs_world ?s1) = (input, w)" by fastforce
  let ?s2 = "?s1\<lparr>cs_world := w\<rparr>"
  let ?declared = "model_declared_taint_status ?fcp"
  let ?status = "effective_provenance_status (ce_provenance ce) ?declared"
  let ?ci = "\<lparr>ci_index = index, ci_call_id = call_id_of ?fcp, ci_capability_id = ?cid,
    ci_taint = taint_event_payload ?status (ce_provenance ce) ?declared\<rparr>"
  from assms i obtain ev a pv s3 where
    ev: "evaluate_proposal (service_env rt) (service_providers rt) ?cid input
      (pending_approval_created (cs_ctx ?s2)) (influenced_by_untrusted ?status) (Some ?status) = Inr ev"
    and rec: "record_proposal rt ce ?ci ev input ?s2 = Inr (a, pv, s3)"
    and dec: "decide_proposal rt ce ?ci ev a (pv \<noteq> None \<and> ce_google ce = None) s3 = Inr s'"
    unfolding process_one_call_def Let_def by auto
  from recorded_proposal(2) [OF rec] obtain now new_id frozen where
    a: "a = new_attempt rt ce ?ci ev frozen (fst (stored_action_input_payload rt ?cid frozen)) now new_id" by auto
  have l: "leaves rt (ce_turn_id ce) (ci_call_id ?ci) s a [] [] [] s3"
    using call_input_world [OF i] by (intro leaves_baseline [OF recorded_proposal(1) [OF rec]])
      (simp_all add: mark_retrieval_def ctx_map_def)
  have p: "pending_approval_created (cs_ctx ?s2) = pending_approval_created (cs_ctx s)"
    by (simp add: mark_retrieval_def ctx_map_def)
  have "ends rt ce (\<not> pending_approval_created (cs_ctx s)) (ci_call_id ?ci) s a s'"
  proof (rule decided_call [OF l _ _ dec])
    show "\<not> approval_required a" by (simp add: a)
    show "evaluate_proposal (service_env rt) (service_providers rt) (ci_capability_id ?ci) input
      (pending_approval_created (cs_ctx s)) (influenced_by_untrusted ?status) (Some ?status) = Inr ev"
      using ev p by simp
  qed
  moreover have "attempt_of rt ce index ?cid frozen a" by (simp add: attempt_of_def a)
  ultimately show ?thesis by auto
qed

lemma out_of_scope_call:
  assumes "process_one_call rt ce index raw s = Inr s'"
    and "\<not> List.member (ce_allowed ce) (capability_id_of (dict_or_empty raw))"
  shows "attempts (cs_world s') = attempts (cs_world s) \<and> approvals (cs_world s') = approvals (cs_world s)
    \<and> tasks (cs_world s') = tasks (cs_world s) \<and> private_payloads (cs_world s') = private_payloads (cs_world s)
    \<and> logged (ce_turn_id ce) s s'
    \<and> pending_approval_created (cs_ctx s') = pending_approval_created (cs_ctx s)
    \<and> (\<exists>p. answerable p \<and> function_call_outputs (cs_ctx s') = function_call_outputs (cs_ctx s)
         @ (if call_id_of (dict_or_empty raw) = [] then []
            else [response_function_call_output rt (call_id_of (dict_or_empty raw)) p]))"
proof -
  have "logged (ce_turn_id ce) s s" by (simp add: logged_def)
  then have b: "logged (ce_turn_id ce) s (blocked cid r s)" for cid r
    by (simp add: logged_def blocked_def ctx_map_def)
  have "logged (ce_turn_id ce) s (respond rt i q (add_event rt ce y p (blocked cid r s)))" for y p cid r i q
    using logged_event [OF b refl, of rt y p cid r] by (simp add: logged_def respond_def ctx_map_def)
  moreover obtain q y p r where s': "s' = respond rt (call_id_of (dict_or_empty raw)) q
      (add_event rt ce y p (blocked (capability_id_of (dict_or_empty raw)) r s))" and q: "answerable q"
  proof
    show "s' = respond rt (call_id_of (dict_or_empty raw))
        [(''status'', JStr ''denied''), (''capability_id'', JStr (capability_id_of (dict_or_empty raw))),
         (''error'', JStr ''tool_not_in_turn_scope'')]
        (add_event rt ce ''evt.action.call_denied''
          [(''call_index'', JInt index),
           (''call_id'', if call_id_of (dict_or_empty raw) = [] then JNull else JStr (call_id_of (dict_or_empty raw))),
           (''tool_name'', JStr (tool_name_of (dict_or_empty raw))),
           (''capability_id'', JStr (capability_id_of (dict_or_empty raw))),
           (''reason'', JStr ''tool_not_in_turn_scope'')]
          (blocked (capability_id_of (dict_or_empty raw)) ''tool_not_in_turn_scope'' s))"
      using assms by (simp add: process_one_call_def deny_out_of_scope_def Let_def)
  qed simp
  ultimately have "logged (ce_turn_id ce) s s'" by blast
  moreover have "\<exists>p. answerable p \<and> function_call_outputs (cs_ctx s') = function_call_outputs (cs_ctx s)
      @ (if call_id_of (dict_or_empty raw) = [] then []
         else [response_function_call_output rt (call_id_of (dict_or_empty raw)) p])"
    by (rule exI [of _ q]) (simp add: q s' respond_def blocked_def ctx_map_def)
  moreover have "pending_approval_created (cs_ctx s') = pending_approval_created (cs_ctx s)"
    by (simp add: s' respond_def blocked_def ctx_map_def)
  ultimately show ?thesis by (simp add: s' respond_def blocked_def ctx_map_def)
qed

end
