(* ===== verification/Expiry_Laws.thy ===== *)
theory Expiry_Laws
  imports Approval_Laws "HOL-Library.Multiset"
begin

text \<open>
  The reconciliation of overdue approvals, \<open>reconcile_expired_approvals\<close> of
  \<open>src/ariel/action_runtime.py\<close>: it expires exactly the overdue ones, all of them and nothing else.
\<close>

definition expired_row :: "int \<Rightarrow> approval_request \<Rightarrow> approval_request" where
  "expired_row now ap = ap\<lparr>ap_status := Expired, decision_reason := Some ''approval_expired'',
     decided_at := Some now, ap_updated_at := now\<rparr>"

lemma expired_row_simps [simp]:
  "ap_id (expired_row now ap) = ap_id ap" "ap_status (expired_row now ap) = Expired"
  "ap_attempt_id (expired_row now ap) = ap_attempt_id ap" "ap_turn_id (expired_row now ap) = ap_turn_id ap"
  by (simp_all add: expired_row_def)

text \<open>The turn of each attempt; a request that can be expired is of the turn of its attempt.\<close>

definition attempt_turns :: "world \<Rightarrow> (string \<times> string) list" where
  "attempt_turns w = map (\<lambda>a. (at_id a, at_turn_id a)) (attempts w)"

definition turn_matches :: "world \<Rightarrow> approval_request \<Rightarrow> bool" where
  "turn_matches w ap \<longleftrightarrow> map_of (attempt_turns w) (ap_attempt_id ap) = Some (ap_turn_id ap)"

lemma find_attempt_turn: "map_option at_turn_id (find_attempt w i) = map_of (attempt_turns w) i"
proof -
  have "map_option at_turn_id (find (\<lambda>a. at_id a = i) as) = map_of (map (\<lambda>a. (at_id a, at_turn_id a)) as) i" for as
    by (induction as) auto
  then show ?thesis by (simp add: find_attempt_def attempt_turns_def)
qed

lemma one_event_added [simp]: "length (events (add_turn_event rt t q y p w)) = Suc (length (events w))"
  by (simp add: add_turn_event_def Let_def split_beta append_turn_event_def)

lemma mark_expires:
  assumes "ap_status ap = Pending" "turn_matches w ap"
  shows "\<exists>a w'. find_attempt w (ap_attempt_id ap) = Some a \<and> mark_approval_expired rt ap a now w = Inr w'
    \<and> approvals w' = map (\<lambda>q. if ap_id q = ap_id ap then expired_row now ap else q) (approvals w)
    \<and> tasks w' = tasks w \<and> map_of (attempt_turns w') = map_of (attempt_turns w)
    \<and> length (events w') = Suc (length (events w))"
proof -
  from assms(2) have "map_option at_turn_id (find_attempt w (ap_attempt_id ap)) = Some (ap_turn_id ap)"
    by (simp add: find_attempt_turn turn_matches_def)
  then obtain a where a: "find_attempt w (ap_attempt_id ap) = Some a" "at_turn_id a = ap_turn_id ap" by auto
  then have id: "at_id a = ap_attempt_id ap" using attempt_table.lookup_Some by blast
  let ?a = "a\<lparr>at_status := ExpiredAction, policy_reason := Some ''approval_expired'', at_updated_at := now\<rparr>"
  let ?w = "save_attempt ?a (save_approval (expired_row now ap) w)"
  let ?w' = "add_turn_event rt (ap_turn_id ap) (next_turn_event_sequence (events ?w) (ap_turn_id ap))
    ''evt.action.approval.expired'' [(''action_attempt_id'', JStr (at_id ?a)), (''approval_ref'', JStr (ap_id ap)),
      (''reason'', JStr ''approval_expired'')] ?w"
  have "mark_approval_expired rt ap a now w = Inr ?w'"
    using assms(1) a(2) id by (simp add: mark_approval_expired_def Let_def expired_row_def)
  moreover have "map_of (attempt_turns ?w') i = map_of (attempt_turns w) i" for i
    by (simp only: find_attempt_turn [symmetric] finds_simps attempt_table.lookup_save) (use a id in simp)
  then have "map_of (attempt_turns ?w') = map_of (attempt_turns w)" by (rule ext)
  moreover have "length (events ?w') = Suc (length (events w))"
    by simp
  ultimately show ?thesis using a(1) by (intro exI [of _ a] exI [of _ ?w']) (simp add: approval_table.rows_save)
qed

lemma turn_matches_cong: "map_of (attempt_turns w') = map_of (attempt_turns w) \<Longrightarrow> turn_matches w' ap = turn_matches w ap"
  by (simp add: turn_matches_def)

lemma reconcile_each_expires:
  assumes "list_all (\<lambda>ap. ap_status ap = Pending \<and> turn_matches w ap) aps"
  shows "\<exists>w'. reconcile_each rt now aps n w = Inr (n + int (length aps), w')
    \<and> approvals w' = fold (\<lambda>ap. map (\<lambda>q. if ap_id q = ap_id ap then expired_row now ap else q)) aps (approvals w)
    \<and> tasks w' = tasks w \<and> length (events w') = length (events w) + length aps"
  using assms
proof (induction aps arbitrary: w n)
  case (Cons ap aps)
  from mark_expires [of ap w rt now] Cons.prems obtain a v where v: "find_attempt w (ap_attempt_id ap) = Some a"
    "mark_approval_expired rt ap a now w = Inr v"
    "approvals v = map (\<lambda>q. if ap_id q = ap_id ap then expired_row now ap else q) (approvals w)"
    "tasks v = tasks w" "map_of (attempt_turns v) = map_of (attempt_turns w)"
    "length (events v) = Suc (length (events w))" by auto
  have "list_all (\<lambda>ap. ap_status ap = Pending \<and> turn_matches v ap) aps"
    using Cons.prems turn_matches_cong [OF v(5)] by simp
  from Cons.IH [OF this, of "n + 1"] v show ?case by auto
qed simp

lemma fold_update_rows:
  assumes "distinct (map key xs)" "distinct (map key aps)" "set aps \<subseteq> set xs" "\<And>x. key (f x) = key x"
  shows "fold (\<lambda>a. map (\<lambda>q. if key q = key a then f a else q)) aps xs
    = map (\<lambda>q. if q \<in> set aps then f q else q) xs"
  using assms(2,3)
proof (induction aps rule: rev_induct)
  case (snoc a aps)
  then have "fold (\<lambda>a. map (\<lambda>q. if key q = key a then f a else q)) (aps @ [a]) xs
      = map (\<lambda>q. if key q = key a then f a else q) (map (\<lambda>q. if q \<in> set aps then f q else q) xs)" by simp
  also have "\<dots> = map (\<lambda>q. if q \<in> set (aps @ [a]) then f q else q) xs"
  proof -
    have "key q = key a \<longleftrightarrow> q = a" if "q \<in> set xs" for q
      using that snoc.prems(2) assms(1) by (auto simp: distinct_map dest: inj_onD)
    moreover have "a \<notin> set aps" using snoc.prems(1) by auto
    ultimately show ?thesis by (auto simp: assms(4))
  qed
  finally show ?case .
qed simp

lemma overdue_set [simp]: "set (overdue_approvals now w) = set (filter (overdue now) (approvals w))"
  by (simp add: overdue_approvals_def)

lemma overdue_length [simp]: "length (overdue_approvals now w) = length (filter (overdue now) (approvals w))"
  by (simp add: overdue_approvals_def)

lemma overdue_keys:
  "distinct (map ap_id (approvals w)) \<Longrightarrow> distinct (map ap_id (overdue_approvals now w))"
proof -
  assume d: "distinct (map ap_id (approvals w))"
  have "mset (map ap_id (overdue_approvals now w)) = mset (map ap_id (filter (overdue now) (approvals w)))"
    by (simp add: overdue_approvals_def)
  moreover have "distinct (map ap_id (filter (overdue now) (approvals w)))"
    using d by (simp add: distinct_map inj_on_def)
  ultimately show ?thesis using mset_eq_imp_distinct_iff by blast
qed

text \<open>
  C15. Reconciliation always ends and is exact: it counts the pending requests whose expiry has passed,
  expires each of them with the time of the run, leaves every other request as it is, queues nothing,
  and appends one event for each, provided the keys are unique and each pending request belongs to
  the turn of its attempt. None is overdue afterwards.
\<close>

theorem reconciliation_is_exact:
  assumes "distinct (map ap_id (approvals w))"
    and "\<forall>ap \<in> set (approvals w). ap_status ap = Pending \<longrightarrow> turn_matches w ap"
  shows "\<exists>w'. reconcile_expired_approvals rt w =
      Inr (int (length (filter (overdue (now_at rt (clock w))) (approvals w))), w')
    \<and> approvals w' = map (\<lambda>ap. if overdue (now_at rt (clock w)) ap then expired_row (now_at rt (clock w)) ap else ap)
        (approvals w)
    \<and> tasks w' = tasks w
    \<and> length (events w') = length (events w) + length (filter (overdue (now_at rt (clock w))) (approvals w))
    \<and> filter (overdue (now_at rt (clock w))) (approvals w') = []"
proof -
  let ?now = "now_at rt (clock w)" and ?w = "snd (tick rt w)"
  let ?aps = "overdue_approvals ?now ?w"
  have t: "turn_matches ?w ap = turn_matches w ap" for ap
    by (rule turn_matches_cong) (simp add: attempt_turns_def)
  have "list_all (\<lambda>ap. ap_status ap = Pending \<and> turn_matches ?w ap) ?aps"
    using assms(2) by (auto simp: list_all_iff overdue_def t)
  from reconcile_each_expires [OF this, of rt ?now 0] obtain w' where
    w': "reconcile_each rt ?now ?aps 0 ?w = Inr (int (length (filter (overdue ?now) (approvals w))), w')"
    and ap: "approvals w' = fold (\<lambda>ap. map (\<lambda>q. if ap_id q = ap_id ap then expired_row ?now ap else q)) ?aps (approvals w)"
    and rest: "tasks w' = tasks w"
      "length (events w') = length (events w) + length (filter (overdue ?now) (approvals w))" by auto
  have "approvals w' = map (\<lambda>q. if q \<in> set ?aps then expired_row ?now q else q) (approvals w)"
    unfolding ap by (rule fold_update_rows) (use assms(1) overdue_keys [of ?w] in auto)
  also have "\<dots> = map (\<lambda>ap. if overdue ?now ap then expired_row ?now ap else ap) (approvals w)" by auto
  finally have ap': "approvals w' = \<dots>" .
  then have "filter (overdue ?now) (approvals w') = []"
    by (auto simp: filter_empty_conv overdue_def)
  with w' ap' rest show ?thesis
    by (simp add: reconcile_expired_approvals_def Let_def split_beta)
qed

theorem reconciliation_is_exact_witness:
  "\<exists>w'. reconcile_expired_approvals sample_services (sample_world\<lparr>clock := 11\<rparr>) =
      Inr (int (length (filter (overdue (now_at sample_services (clock (sample_world\<lparr>clock := 11\<rparr>))))
        (approvals (sample_world\<lparr>clock := 11\<rparr>)))), w')
    \<and> approvals w' = map (\<lambda>ap. if overdue (now_at sample_services (clock (sample_world\<lparr>clock := 11\<rparr>))) ap
          then expired_row (now_at sample_services (clock (sample_world\<lparr>clock := 11\<rparr>))) ap else ap)
        (approvals (sample_world\<lparr>clock := 11\<rparr>))
    \<and> tasks w' = tasks (sample_world\<lparr>clock := 11\<rparr>)
    \<and> length (events w') = length (events (sample_world\<lparr>clock := 11\<rparr>))
        + length (filter (overdue (now_at sample_services (clock (sample_world\<lparr>clock := 11\<rparr>))))
            (approvals (sample_world\<lparr>clock := 11\<rparr>)))
    \<and> filter (overdue (now_at sample_services (clock (sample_world\<lparr>clock := 11\<rparr>)))) (approvals w') = []"
  by (rule reconciliation_is_exact)
    (simp_all add: sample_world_def sample_request_def sample_action_def empty_world_def turn_matches_def
      attempt_turns_def)

end
