(* ===== verification/Lifecycle.thy ===== *)
theory Lifecycle
  imports Proposal_Laws Expiry_Laws
begin

text \<open>
  The store of actions over time. A step is one of the operations of \<open>src/ariel/action_runtime.py\<close>
  that write to it: a call of a program, a decision on an approval, the reconciliation of overdue
  ones, the failure of an execution, or a task of another kind queued. The invariant of the reachable
  stores ties attempts, approval requests and queued executions together.
\<close>

section \<open>The invariant\<close>

inductive matches :: "approval_status \<Rightarrow> attempt_status \<Rightarrow> bool" where
  undecided: "matches Pending AwaitingApproval"
| decided: "outcome s t \<Longrightarrow> matches s t"

inductive_simps matches_simps: "matches s t"

definition belongs :: "approval_request \<Rightarrow> action_attempt \<Rightarrow> bool" where
  "belongs ap a \<longleftrightarrow> ap_attempt_id ap = at_id a \<and> ap_turn_id ap = at_turn_id a
     \<and> ap_payload_hash ap = at_payload_hash a \<and> approval_required a \<and> matches (ap_status ap) (at_status a)"

definition execution_of :: "approval_request \<Rightarrow> background_task \<Rightarrow> bool" where
  "execution_of ap t \<longleftrightarrow> ap_status ap = Approved
     \<and> task_payload t = JObj [(''action_attempt_id'', JStr (ap_attempt_id ap))]"

definition sound_world :: "world \<Rightarrow> bool" where
  "sound_world w \<longleftrightarrow>
     distinct (map at_id (attempts w)) \<and> distinct (map ap_id (approvals w))
     \<and> distinct (map ap_attempt_id (approvals w))
     \<and> (\<forall>ap \<in> set (approvals w). \<exists>a \<in> set (attempts w). belongs ap a)
     \<and> (\<forall>a \<in> set (attempts w). if approval_required a then \<exists>ap \<in> set (approvals w). belongs ap a
          else at_status a \<in> {Refused, FailedAction, SucceededAction})
     \<and> (\<forall>t \<in> set (tasks w). task_type t = ''execute_action_attempt'' \<longrightarrow>
          (\<exists>ap \<in> set (approvals w). execution_of ap t))"

lemma sound_world_cong:
  "attempts w' = attempts w \<Longrightarrow> approvals w' = approvals w \<Longrightarrow> tasks w' = tasks w \<Longrightarrow> sound_world w' = sound_world w"
  by (simp add: sound_world_def)

lemma unique_key: "distinct (map k rs) \<Longrightarrow> r \<in> set rs \<Longrightarrow> q \<in> set rs \<Longrightarrow> k r = k q \<Longrightarrow> r = q"
  by (auto simp: distinct_map inj_on_def)

lemma key_eq: "distinct (map k rs) \<Longrightarrow> r \<in> set rs \<Longrightarrow> q \<in> set rs \<Longrightarrow> (k q = k r) = (q = r)"
  using unique_key by fastforce

lemma map_replace_key:
  assumes "distinct (map k rs)" "r \<in> set rs" "k r' = k r"
  shows "set (map (\<lambda>q. if k q = k r' then r' else q) rs) = insert r' (set rs - {r})"
proof -
  have "(if k q = k r' then r' else q) = (if q = r then r' else q)" if "q \<in> set rs" for q
    by (simp add: assms(3) key_eq [OF assms(1,2) that])
  then have "map (\<lambda>q. if k q = k r' then r' else q) rs = map (\<lambda>q. if q = r then r' else q) rs"
    by (rule map_cong [OF refl])
  then show ?thesis using assms(2) by auto
qed

lemma map_replace_other:
  assumes "distinct (map k rs)" "r \<in> set rs" "k r' = k r" "f r' = f r"
  shows "map f (map (\<lambda>q. if k q = k r' then r' else q) rs) = map f rs"
proof -
  have "f (if k q = k r' then r' else q) = f q" if "q \<in> set rs" for q
    by (simp add: assms(3,4) key_eq [OF assms(1,2) that])
  then show ?thesis by (simp add: comp_def)
qed

section \<open>Every operation keeps it\<close>

text \<open>An approval request is decided, or the attempt of a decided one changes.\<close>

lemma sound_replace:
  assumes inv: "sound_world w" and ap: "ap \<in> set (approvals w)" and a: "a \<in> set (attempts w)"
    and own: "ap_attempt_id ap = at_id a"
    and same: "same_request ap ap'" and a': "at_id a' = at_id a" "at_turn_id a' = at_turn_id a"
      "at_payload_hash a' = at_payload_hash a" "approval_required a' = approval_required a" and m: "matches (ap_status ap') (at_status a')"
    and keep: "ap_status ap = Approved \<Longrightarrow> ap_status ap' = Approved"
    and w': "approvals w' = approvals (save_approval ap' w)" "attempts w' = attempts (save_attempt a' w)"
    and ts: "\<And>t. t \<in> set (tasks w') \<Longrightarrow> task_type t = ''execute_action_attempt'' \<Longrightarrow>
      t \<in> set (tasks w) \<or> execution_of ap' t"
  shows "sound_world w'"
proof -
  note rs = same_request_simps [OF same]
  have d: "distinct (map at_id (attempts w))" "distinct (map ap_id (approvals w))"
    "distinct (map ap_attempt_id (approvals w))" using inv by (simp_all add: sound_world_def)
  have A: "set (attempts w') = insert a' (set (attempts w) - {a})"
    unfolding w' attempt_table.rows_save by (rule map_replace_key [OF d(1) a]) (simp add: a')
  have P: "set (approvals w') = insert ap' (set (approvals w) - {ap})"
    unfolding w' approval_table.rows_save by (rule map_replace_key [OF d(2) ap]) (simp add: rs)
  from inv ap obtain b where b: "b \<in> set (attempts w)" "belongs ap b" by (auto simp: sound_world_def)
  then have "at_id b = at_id a" using own by (simp add: belongs_def)
  then have "b = a" by (rule unique_key [OF d(1) b(1) a])
  with b m have new: "belongs ap' a'" by (simp add: belongs_def rs a')
  have keys: "map at_id (attempts w') = map at_id (attempts w)" "map ap_id (approvals w') = map ap_id (approvals w)"
    unfolding w' by simp_all
  have "map ap_attempt_id (approvals w') = map ap_attempt_id (approvals w)"
    unfolding w' approval_table.rows_save by (rule map_replace_other [OF d(2) ap]) (simp_all add: rs)
  moreover have "\<exists>x \<in> set (attempts w'). belongs q x" if "q \<in> set (approvals w')" for q
  proof (cases "q = ap'")
    case True
    with new A show ?thesis by auto
  next
    case False
    with that P have q: "q \<in> set (approvals w)" "q \<noteq> ap" by auto
    with inv obtain x where x: "x \<in> set (attempts w)" "belongs q x" by (auto simp: sound_world_def)
    have "x \<noteq> a"
      using unique_key [OF d(3) q(1) ap] q(2) x(2) own by (auto simp: belongs_def)
    with x A show ?thesis by auto
  qed
  moreover have "\<forall>x \<in> set (attempts w'). if approval_required x then \<exists>q \<in> set (approvals w'). belongs q x
      else at_status x \<in> {Refused, FailedAction, SucceededAction}"
  proof
    fix x
    assume x': "x \<in> set (attempts w')"
    show "if approval_required x then \<exists>q \<in> set (approvals w'). belongs q x
      else at_status x \<in> {Refused, FailedAction, SucceededAction}"
    proof (cases "x = a'")
    case True
    with new P show ?thesis by (auto simp: belongs_def)
  next
    case False
    with x' A have x: "x \<in> set (attempts w)" "x \<noteq> a" by auto
    have "q \<noteq> ap" if "belongs q x" for q
      using that unique_key [OF d(1) x(1) a] x(2) own by (auto simp: belongs_def)
    with inv x P show ?thesis by (fastforce simp: sound_world_def)
    qed
  qed
  moreover have "\<exists>q \<in> set (approvals w'). execution_of q t"
    if "t \<in> set (tasks w')" "task_type t = ''execute_action_attempt''" for t
  proof (cases "t \<in> set (tasks w)")
    case True
    with inv that obtain q where q: "q \<in> set (approvals w)" "execution_of q t" by (auto simp: sound_world_def)
    show ?thesis
    proof (cases "q = ap")
      case True
      with q keep have "execution_of ap' t" by (auto simp: execution_of_def rs)
      with P show ?thesis by auto
    qed (use q P in auto)
  qed (use ts [OF that] P in auto)
  ultimately show ?thesis using d keys by (simp add: sound_world_def)
qed

text \<open>A call adds one attempt, with its request when it waits for one.\<close>

lemma sound_add:
  assumes inv: "sound_world w" and A: "attempts w' = attempts w @ [a]" "list_all (\<lambda>b. at_id b \<noteq> at_id a) (attempts w)"
    and P: "approvals w' = approvals w @ aps" "list_all (\<lambda>ap. list_all (\<lambda>b. ap_id b \<noteq> ap_id ap) (approvals w)) aps"
    and c: "aps = [] \<and> \<not> approval_required a \<and> at_status a \<in> {Refused, FailedAction, SucceededAction}
      \<or> (\<exists>ap. aps = [ap] \<and> belongs ap a)"
    and T: "tasks w' = tasks w @ ts" "queues_nothing ts"
  shows "sound_world w'"
proof -
  have fresh: "list_all (\<lambda>q. ap_attempt_id q \<noteq> at_id a) (approvals w)"
    using inv A(2) by (fastforce simp: sound_world_def list_all_iff belongs_def)
  have "distinct (map at_id (attempts w'))" "distinct (map ap_id (approvals w'))"
    "distinct (map ap_attempt_id (approvals w'))"
    using inv A P c fresh by (auto simp: sound_world_def list_all_iff belongs_def)
  moreover have "\<forall>q \<in> set (approvals w'). \<exists>x \<in> set (attempts w'). belongs q x"
    using inv A(1) P(1) c by (auto simp: sound_world_def)
  moreover have "\<forall>x \<in> set (attempts w'). if approval_required x then \<exists>q \<in> set (approvals w'). belongs q x
      else at_status x \<in> {Refused, FailedAction, SucceededAction}"
    using inv A(1) P(1) c by (fastforce simp: sound_world_def belongs_def)
  moreover have "\<forall>t \<in> set (tasks w'). task_type t = ''execute_action_attempt'' \<longrightarrow>
      (\<exists>q \<in> set (approvals w'). execution_of q t)"
    using inv P(1) T by (auto simp: sound_world_def queues_nothing_def list_all_iff)
  ultimately show ?thesis by (simp add: sound_world_def)
qed

lemma sound_call:
  assumes inv: "sound_world (cs_world s)" and "process_one_call rt ce index raw s = Inr s'"
  shows "sound_world (cs_world s')"
proof (cases "List.member (ce_allowed ce) (capability_id_of (dict_or_empty raw))")
  case True
  from processed_call [OF assms(2) True] obtain a frozen where
    at: "attempt_of rt ce index (capability_id_of (dict_or_empty raw)) frozen a"
    and e: "ends rt ce (\<not> pending_approval_created (cs_ctx s)) (call_id_of (dict_or_empty raw)) s a s'" by blast
  from e obtain a' aps ts p where
    l: "leaves rt (ce_turn_id ce) (call_id_of (dict_or_empty raw)) s a' aps ts [p] s'"
    and core: "same_core a a'" and c: "call_end ce a' aps ts" unfolding ends_def by blast
  have "at_turn_id a' = ce_turn_id ce" using at core by (simp add: attempt_of_def same_core_def)
  then have "queues_nothing ts \<and> (aps = [] \<and> \<not> approval_required a' \<and> at_status a' \<in> {Refused, FailedAction, SucceededAction}
      \<or> (\<exists>ap. aps = [ap] \<and> belongs ap a'))"
    using c by (auto elim!: call_end.cases simp: queues_nothing_def belongs_def asks_for_def matches_simps)
  with l inv show ?thesis by (intro sound_add [of "cs_world s" "cs_world s'" a' aps ts]) (simp_all add: leaves_def)
next
  case False
  with out_of_scope_call [OF assms(2)] sound_world_cong inv show ?thesis by blast
qed

lemma sound_decision:
  assumes inv: "sound_world w" and "decision_effect w ap a ap' a' w'"
    and "find_approval w ref = Some ap" "find_attempt w (ap_attempt_id ap) = Some a" "ap_status ap = Pending"
  shows "sound_world w'"
proof (rule sound_replace [OF inv])
  show "ap \<in> set (approvals w)" "a \<in> set (attempts w)" "ap_attempt_id ap = at_id a"
    using approval_table.lookup_Some [OF assms(3)] attempt_table.lookup_Some [OF assms(4)] by auto
  show "same_request ap ap'" "approvals w' = approvals (save_approval ap' w)"
    "attempts w' = attempts (save_attempt a' w)" "matches (ap_status ap') (at_status a')"
    using assms(2) by (simp_all add: decision_effect_def matches_simps)
  show "at_id a' = at_id a" "at_turn_id a' = at_turn_id a" "at_payload_hash a' = at_payload_hash a"
    "approval_required a' = approval_required a"
    using assms(2) by (simp_all add: decision_effect_def same_action_simps)
  show "ap_status ap' = Approved" if "ap_status ap = Approved" using that assms(5) by simp
  fix t
  assume "t \<in> set (tasks w')"
  moreover have "ap_attempt_id ap' = at_id a"
    using same_request_simps(2) assms(2) attempt_table.lookup_Some [OF assms(4)] by (auto simp: decision_effect_def)
  ultimately show "t \<in> set (tasks w) \<or> execution_of ap' t"
    using assms(2) by (auto simp: decision_effect_def execution_of_def split: if_split_asm)
qed

lemma sound_resolve:
  assumes "sound_world w" "resolve_approval_decision rt google ref decision actor reason w = Inr (w', out)"
  shows "sound_world w'"
  using resolve_shapes [OF assms(2)]
proof
  assume "unchanged w w' \<and> (\<forall>r. out \<noteq> Inr r)"
  with assms(1) sound_world_cong show ?thesis unfolding unchanged_def by blast
next
  assume "\<exists>ap a ap' a'. decides rt google ref decision actor w ap a ap' a' w'
    \<and> (\<forall>r. out = Inr r \<and> execution_task_id r \<noteq> None \<longrightarrow> at_status a' = Executing)"
  with assms(1) show ?thesis unfolding decides_def by (blast intro: sound_decision)
qed

text \<open>Reconciliation decides one overdue request after the other.\<close>

lemma reconcile_each_step:
  assumes inv: "sound_world w" and r: "reconcile_each rt now (ap # aps) n w = Inr (m, w')"
    and d: "distinct (map ap_id (ap # aps))" and f: "\<forall>q \<in> set (ap # aps). find_approval w (ap_id q) = Some q"
  shows "\<exists>w1 a ap' a'. sound_world w1 \<and> reconcile_each rt now aps (n + 1) w1 = Inr (m, w')
    \<and> (\<forall>q \<in> set aps. find_approval w1 (ap_id q) = Some q)
    \<and> decision_effect w ap a ap' a' w1 \<and> ap_status ap = Pending \<and> find_approval w (ap_id ap) = Some ap"
proof -
  from r obtain a w1 where a: "find_attempt w (ap_attempt_id ap) = Some a"
    and m: "mark_approval_expired rt ap a now w = Inr w1" and rest: "reconcile_each rt now aps (n + 1) w1 = Inr (m, w')"
    by (auto split: option.split_asm)
  obtain ap' a' where e: "decision_effect w ap a ap' a' w1" "ap_status ap = Pending"
    using expiry_effect [OF m] by blast
  have found: "find_approval w (ap_id ap) = Some ap" using f by simp
  have w1: "sound_world w1" by (rule sound_decision [OF inv e(1) found a e(2)])
  have "find_approval w1 (ap_id q) = Some q" if "q \<in> set aps" for q
  proof -
    have "find_approval w1 (ap_id q) = find_approval (save_approval ap' w) (ap_id q)"
      using e(1) by (simp add: decision_effect_def find_approval_def)
    moreover have "ap_id q \<noteq> ap_id ap" using that d by (force simp: image_iff)
    moreover have "ap_id ap' = ap_id ap" using e(1) same_request_simps(1) by (auto simp: decision_effect_def)
    ultimately show ?thesis using f that by (simp add: approval_table.lookup_save)
  qed
  with w1 rest e found show ?thesis by blast
qed

lemma sound_reconcile_each:
  "sound_world w \<Longrightarrow> reconcile_each rt now aps n w = Inr (m, w') \<Longrightarrow> distinct (map ap_id aps) \<Longrightarrow>
    (\<forall>ap \<in> set aps. find_approval w (ap_id ap) = Some ap) \<Longrightarrow> sound_world w'"
proof (induction aps arbitrary: n w)
  case Nil
  then show ?case by simp
next
  case (Cons ap aps)
  from reconcile_each_step [OF Cons.prems] obtain w1 where "sound_world w1"
    "reconcile_each rt now aps (n + 1) w1 = Inr (m, w')" "\<forall>ap \<in> set aps. find_approval w1 (ap_id ap) = Some ap"
    by blast
  with Cons.IH Cons.prems(3) show ?case by simp
qed

lemma overdue_found:
  assumes "sound_world w"
  shows "distinct (map ap_id (overdue_approvals now w))"
    and "\<forall>ap \<in> set (overdue_approvals now w). find_approval w (ap_id ap) = Some ap"
proof -
  have d: "distinct (map ap_id (approvals w))" using assms by (simp add: sound_world_def)
  then show "distinct (map ap_id (overdue_approvals now w))" by (rule overdue_keys)
  show "\<forall>ap \<in> set (overdue_approvals now w). find_approval w (ap_id ap) = Some ap"
    using approval_table.lookup_distinct [OF d] by simp
qed

lemma sound_reconcile:
  assumes "sound_world w" "reconcile_expired_approvals rt w = Inr (n, w')"
  shows "sound_world w'"
proof -
  let ?w = "snd (tick rt w)"
  have w: "sound_world ?w" using assms(1) by (simp add: sound_world_cong [of ?w w])
  show ?thesis
    using sound_reconcile_each [OF w _ overdue_found [OF w]] assms(2)
    by (simp add: reconcile_expired_approvals_def Let_def split_beta)
qed

text \<open>An execution fails.\<close>

lemma sound_fail:
  assumes inv: "sound_world w" and "find_attempt w i = Some a" "at_status a = Executing"
  shows "sound_world (fail_action_execution rt a error result w)"
proof -
  have a: "a \<in> set (attempts w)" using attempt_table.lookup_Some [OF assms(2)] by simp
  with inv assms(3) have "approval_required a" by (fastforce simp: sound_world_def split: if_split_asm)
  with inv a obtain ap where ap: "ap \<in> set (approvals w)" "belongs ap a" by (fastforce simp: sound_world_def)
  with assms(3) have s: "ap_status ap = Approved" by (auto simp: belongs_def matches_simps)
  let ?a = "a\<lparr>at_status := FailedAction, execution_output := result, execution_error := Some error,
    at_updated_at := now_at rt (clock w)\<rparr>"
  let ?w = "fail_action_execution rt a error result w"
  have w': "attempts ?w = attempts (save_attempt ?a w)" "approvals ?w = approvals w" "tasks ?w = tasks w"
    by (simp_all add: fail_action_execution_def append_action_execution_event_def Let_def split_beta
        attempt_table.rows_save)
  show ?thesis
  proof (rule sound_replace [OF inv ap(1) a])
    show "ap_attempt_id ap = at_id a" using ap(2) by (simp add: belongs_def)
    show "same_request ap ap" by (simp add: same_request_def)
    show "matches (ap_status ap) (at_status ?a)" by (simp add: s matches_simps)
    show "approvals ?w = approvals (save_approval ap w)"
      using key_eq [OF _ ap(1), of ap_id] inv unfolding w' approval_table.rows_save
      by (auto simp: sound_world_def intro!: map_idI [symmetric])
  qed (simp_all add: w')
qed

section \<open>Reachable stores\<close>

text \<open>
  The operations that write to the store, each within its own transaction: one that raises is rolled
  back and is no step.
\<close>

inductive agent_step :: "services \<Rightarrow> world \<Rightarrow> world \<Rightarrow> bool" for rt :: services where
  call: "process_one_call rt ce index raw s = Inr s' \<Longrightarrow> agent_step rt (cs_world s) (cs_world s')"
| decide: "resolve_approval_decision rt google ref decision actor reason w = Inr (w', out) \<Longrightarrow> agent_step rt w w'"
| reconcile: "reconcile_expired_approvals rt w = Inr (n, w') \<Longrightarrow> agent_step rt w w'"
| fail: "find_attempt w i = Some a \<Longrightarrow> at_status a = Executing \<Longrightarrow>
    agent_step rt w (fail_action_execution rt a error result w)"
| enqueue: "enqueue_background_task rt ttype payload now idempotency after recurrence w = Inr (t, w') \<Longrightarrow>
    ttype \<noteq> ''execute_action_attempt'' \<Longrightarrow> agent_step rt w w'"
| location: "set_weather_default_location rt raced place w = Inr (st, w') \<Longrightarrow> agent_step rt w w'"

inductive reachable :: "services \<Rightarrow> world \<Rightarrow> bool" for rt :: services where
  start: "attempts w = [] \<Longrightarrow> approvals w = [] \<Longrightarrow> tasks w = [] \<Longrightarrow> reachable rt w"
| step: "reachable rt w \<Longrightarrow> agent_step rt w w' \<Longrightarrow> reachable rt w'"

lemma sound_enqueue:
  assumes "sound_world w" "enqueue_background_task rt ttype payload now idempotency after recurrence w = Inr (t, w')"
    and "ttype \<noteq> ''execute_action_attempt''"
  shows "sound_world w'"
proof -
  have w': "attempts w' = attempts w" "approvals w' = approvals w"
    and ts: "tasks w' = tasks w \<or> tasks w' = tasks w @ [t] \<and> task_type t = ttype"
    using assms(2) by (auto simp: enqueue_background_task_def Let_def split_beta
        split: option.split_asm if_split_asm)
  from ts show ?thesis
  proof
    assume "tasks w' = tasks w"
    with w' assms(1) sound_world_cong show ?thesis by blast
  next
    assume "tasks w' = tasks w @ [t] \<and> task_type t = ttype"
    with w' assms(1,3) show ?thesis unfolding sound_world_def by auto
  qed
qed

lemma location_frame:
  "set_weather_default_location rt raced place w = Inr (st, w') \<Longrightarrow>
    attempts w' = attempts w \<and> approvals w' = approvals w \<and> tasks w' = tasks w"
  by (auto simp: set_weather_default_location_def try_insert_location_def Let_def split_beta
      split: option.split_asm)

lemma sound_step: "agent_step rt w w' \<Longrightarrow> sound_world w \<Longrightarrow> sound_world w'"
proof (induction rule: agent_step.induct)
  case (location raced place w st w')
  with location_frame [OF location(1)] sound_world_cong show ?case by blast
qed (blast intro: sound_call sound_resolve sound_reconcile sound_fail sound_enqueue)+

lemma reachable_sound: "reachable rt w \<Longrightarrow> sound_world w"
proof (induction rule: reachable.induct)
  case (start w)
  then show ?case by (simp add: sound_world_def)
next
  case (step w w')
  then show ?case by (blast intro: sound_step)
qed

end
