(* ===== verification/Store_Laws.thy ===== *)
theory Store_Laws
  imports Lifecycle
begin

text \<open>
  The properties of the store of actions: what every call leaves, what no call does, and what holds of
  every store the agent can reach.
\<close>

section \<open>Decided requests stay\<close>

lemma decision_keeps:
  assumes "decision_effect w ap a ap' a' w'" "ap_status ap = Pending" "find_approval w ref = Some ap"
    and "distinct (map ap_id (approvals w))" "q \<in> set (approvals w)" "ap_status q \<noteq> Pending"
  shows "q \<in> set (approvals w')"
proof -
  have "ap \<in> set (approvals w)" using approval_table.lookup_Some [OF assms(3)] by simp
  then have "ap_id q \<noteq> ap_id ap" using key_eq [OF assms(4) _ assms(5)] assms(2,6) by auto
  moreover have "ap_id ap' = ap_id ap" using assms(1) same_request_simps(1) by (auto simp: decision_effect_def)
  ultimately show ?thesis
    using assms(1) approval_table.save_other [OF assms(5), of ap'] by (simp add: decision_effect_def)
qed

lemma reconcile_keeps:
  "sound_world w \<Longrightarrow> reconcile_each rt now aps n w = Inr (m, w') \<Longrightarrow> distinct (map ap_id aps) \<Longrightarrow>
    (\<forall>ap \<in> set aps. find_approval w (ap_id ap) = Some ap) \<Longrightarrow> q \<in> set (approvals w) \<Longrightarrow>
    ap_status q \<noteq> Pending \<Longrightarrow> q \<in> set (approvals w')"
proof (induction aps arbitrary: n w)
  case Nil
  then show ?case by simp
next
  case (Cons ap aps)
  from reconcile_each_step [OF Cons.prems(1-4)] obtain w1 a ap' a' where
    w1: "sound_world w1" "reconcile_each rt now aps (n + 1) w1 = Inr (m, w')"
      "\<forall>ap \<in> set aps. find_approval w1 (ap_id ap) = Some ap"
    and e: "decision_effect w ap a ap' a' w1" "ap_status ap = Pending" "find_approval w (ap_id ap) = Some ap" by blast
  have "q \<in> set (approvals w1)"
    by (rule decision_keeps [OF e _ Cons.prems(5,6)]) (use Cons.prems(1) in \<open>simp add: sound_world_def\<close>)
  then show ?case using Cons.IH [OF w1(1,2) _ w1(3)] Cons.prems(3,6) by simp
qed

lemma step_keeps:
  assumes "agent_step rt w w'" "sound_world w" "q \<in> set (approvals w)" "ap_status q \<noteq> Pending"
  shows "q \<in> set (approvals w')"
  using assms
proof (induction rule: agent_step.induct)
  case (call ce index raw s s')
  show ?case
  proof (cases "List.member (ce_allowed ce) (capability_id_of (dict_or_empty raw))")
    case True
    with processed_call [OF call(1)] call(3) show ?thesis by (auto simp: ends_def leaves_def)
  next
    case False
    with out_of_scope_call [OF call(1)] call(3) show ?thesis by simp
  qed
next
  case (decide google ref decision actor reason w w' out)
  from resolve_shapes [OF decide(1)] show ?case
  proof
    assume "unchanged w w' \<and> (\<forall>r. out \<noteq> Inr r)"
    with decide(3) show ?thesis by (simp add: unchanged_def)
  next
    assume "\<exists>ap a ap' a'. decides rt google ref decision actor w ap a ap' a' w'
      \<and> (\<forall>r. out = Inr r \<and> execution_task_id r \<noteq> None \<longrightarrow> at_status a' = Executing)"
    then obtain ap a ap' a' where "decision_effect w ap a ap' a' w'" "ap_status ap = Pending"
      "find_approval w ref = Some ap" by (auto simp: decides_def)
    from decision_keeps [OF this _ decide(3,4)] decide(2) show ?thesis by (simp add: sound_world_def)
  qed
next
  case (reconcile w n w')
  let ?w = "snd (tick rt w)"
  have w: "sound_world ?w" using reconcile(2) by (simp add: sound_world_cong [of ?w w])
  show ?case
    using reconcile_keeps [OF w _ overdue_found [OF w]] reconcile
    by (simp add: reconcile_expired_approvals_def Let_def split_beta)
next
  case (fail w i a error result)
  then show ?case by (simp add: fail_action_execution_def append_action_execution_event_def Let_def split_beta)
next
  case (enqueue ttype payload now idempotency after recurrence w t w')
  then show ?case
    by (auto simp: enqueue_background_task_def Let_def split_beta split: option.split_asm if_split_asm)
next
  case (location raced place w st w')
  with location_frame [OF location(1)] show ?case by simp
qed

section \<open>A sample run\<close>

definition sample_executors :: executors where
  "sample_executors = \<lparr>run_google = (\<lambda>cid d. Inr (inline_success d)), run_agency = (\<lambda>cid d. Inr (inline_success d)),
     run_attachment = (\<lambda>d. Inr (inline_success d)), run_memory = (\<lambda>cid d. Inr (Inr d)),
     run_provider_evidence = (\<lambda>cid d. Inr d), persist_provider_evidence = (\<lambda>cid d. Inr []),
     cited_sources = (\<lambda>d. []), persist_sources = (\<lambda>i xs. Inr xs)\<rparr>"
definition sample_call_env :: call_env where
  "sample_call_env = \<lparr>ce_turn_id = ''trn_1'', ce_ttl_seconds = 900, ce_actor_id = ''usr'', ce_provenance = None,
     ce_google = None, ce_agency = False, ce_attachment = False, ce_session_factory = True,
     ce_allowed = [''cap.memory.note.delete''], ce_weather_raced = None, ce_run = sample_executors\<rparr>"
definition sample_call :: json where
  "sample_call = JObj [(''call_id'', JStr ''run_call_1''), (''tool_name'', JStr ''memory.note.delete''),
     (''capability_id'', JStr ''cap.memory.note.delete''), (''input'', JObj [(''id'', JStr ''n1'')])]"
definition sample_state :: call_state where
  "sample_state = \<lparr>cs_world = empty_world, cs_ctx = empty_context, cs_sequence = 0\<rparr>"
definition sample_loads :: "string \<Rightarrow> exn + json" where
  "sample_loads s = Inr (JObj
     (if s = ''ask'' then [(''type'', JStr ''syscall''), (''name'', JStr ''memory.note.delete''),
        (''input'', JObj [(''id'', JStr ''n1'')])]
      else if s = ''say'' then [(''type'', JStr ''syscall''), (''name'', JStr ''agent.emit_message''),
        (''input'', JObj [(''text'', JStr ''asked'')])]
      else if s = ''end'' then [(''type'', JStr ''program-result''), (''ok'', JBool True)]
      else [(''status'', JStr ''approval_required'')]))"
definition later_services :: services where
  "later_services = sample_services\<lparr>now_at := (\<lambda>n. 63850000000000000),
     service_crypto := sample_crypto\<lparr>json_loads := sample_loads\<rparr>\<rparr>"

definition waiting_action :: action_attempt where
  "waiting_action = sample_action\<lparr>at_id := ''aat'', at_turn_id := ''trn_1'', at_created_at := 63850000000000000,
     at_updated_at := 63850000000000000\<rparr>"
definition waiting_request :: approval_request where
  "waiting_request = sample_request\<lparr>ap_id := ''apr111'', ap_attempt_id := ''aat'', ap_turn_id := ''trn_1'',
     actor_id := ''usr'', expires_at := 63850000900000000, ap_created_at := 63850000000000000,
     ap_updated_at := 63850000000000000\<rparr>"

lemma sample_evaluation:
  "evaluate_proposal sample_env sample_providers ''cap.memory.note.delete'' [(''id'', JStr ''n1'')] False True (Some Ambiguous)
   = Inr \<lparr>ev_capability = Some (cap_memory_note_delete sample_env sample_providers),
       ev_normalized_input = Some [(''id'', JStr ''n1'')], ev_impact_level = WriteReversible,
       ev_decision = RequiresApproval, ev_reason = ''taint_escalated_requires_approval''\<rparr>"
proof -
  have v: "validate_memory_note_delete_input [(''id'', JStr ''n1'')] = Inr [(''id'', JStr ''n1'')]" by code_simp
  show ?thesis
    by (simp add: evaluate_proposal_def
        get_capability_def capability_registry_def evaluate_capability_def is_side_effecting_def
        effective_taint_def) (simp add: cap_memory_note_delete_def v is_side_effecting_def effective_taint_def)
qed

lemma sample_reading:
  "capability_id_of (dict_or_empty sample_call) = ''cap.memory.note.delete''"
  "call_id_of (dict_or_empty sample_call) = ''run_call_1''"
  "model_declared_taint_status (dict_or_empty sample_call) = Missing"
  "effective_provenance_status None Missing = Ambiguous" "influenced_by_untrusted Ambiguous"
  "is_retrieval_call ''cap.memory.note.delete'' = False"
  "call_input later_services sample_call_env (dict_or_empty sample_call) empty_world = ([(''id'', JStr ''n1'')], empty_world)"
  "expiry_after 900 63850000000000000 = Inr 63850000900000000"
  "google_private_input_keys ''cap.memory.note.delete'' = []"
  "retrieval_error ''cap.memory.note.delete'' e s = s" "mark_retrieval ''cap.memory.note.delete'' s = s"
  by code_simp+

lemma later_simps [simp]:
  "service_env later_services = sample_env" "service_providers later_services = sample_providers"
  "now_at later_services n = 63850000000000000" "jsonable_encoder later_services = (\<lambda>v. v)"
  "id_at later_services n p = p @ replicate n (CHR ''1'')" "hash_of later_services v = []"
  "contract_hash_of later_services c = []"
  by (simp_all add: later_services_def sample_services_def hash_of_def payload_hash_def contract_hash_of_def capability_contract_hash_def)

lemma sample_state_simps [simp]:
  "cs_world sample_state = empty_world" "cs_ctx sample_state = empty_context"
  "pending_approval_created empty_context = False" "attempts empty_world = []" "approvals empty_world = []" "tasks empty_world = []" "serial empty_world = 0"
  by (simp_all add: sample_state_def empty_context_def empty_world_def)

lemma sample_called: "\<exists>s. process_one_call later_services sample_call_env 1 sample_call sample_state = Inr s
   \<and> attempts (cs_world s) = [waiting_action] \<and> approvals (cs_world s) = [waiting_request] \<and> tasks (cs_world s) = []"
proof -
  have env: "ce_provenance sample_call_env = None" "ce_google sample_call_env = None" "ce_allowed sample_call_env = [''cap.memory.note.delete'']"
   "ce_ttl_seconds sample_call_env = 900" "ce_actor_id sample_call_env = ''usr''" "ce_turn_id sample_call_env = ''trn_1''"
    by (simp_all add: sample_call_env_def)
  have g: "(''cap.memory.note.delete'' \<in> set GOOGLE_CAPABILITY_IDS) = False" by code_simp
  have ver: "version (cap_memory_note_delete sample_env sample_providers) = ''1.0''" by (simp add: cap_memory_note_delete_def)
  show ?thesis
    unfolding process_one_call_def Let_def sample_reading env
    by (simp add: sample_evaluation sample_reading env sample_checks record_proposal_def Let_def split_beta stored_action_input_payload_def
     insert_attempt_def new_attempt_def decide_proposal_def request_approval_def insert_approval_def update_attempt_def
     on_world_def ctx_map_def track_attempt_def policy_decided_def add_event_def announce_approval_def respond_def
     waiting_action_def waiting_request_def sample_action_def sample_request_def g ver attempt_table.rows_save
     add_turn_event_def tick_def fresh_id_def)
qed
lemma sample_decided:
  assumes "attempts w = [waiting_action]" "approvals w = [waiting_request]" "tasks w = []"
  shows "\<exists>w' r. resolve_approval_decision later_services None ''apr111'' Approve ''usr'' None w = Inr (w', Inr r)
    \<and> tasks w' \<noteq> tasks w"
proof -
  have v: "validate_memory_note_delete_input [(''id'', JStr ''n1'')] = Inr [(''id'', JStr ''n1'')]" by code_simp
  let ?policy = "\<lparr>ev_capability = Some (cap_memory_note_delete sample_env sample_providers),
       ev_normalized_input = Some [(''id'', JStr ''n1'')], ev_impact_level = WriteReversible,
       ev_decision = RequiresApproval, ev_reason = ''taint_escalated_requires_approval''\<rparr>"
  have p: "revalidated later_services waiting_action [(''id'', JStr ''n1'')] = Inr ?policy"
    by (simp add: revalidated_def waiting_action_def sample_action_def evaluate_proposal_def
        get_capability_def capability_registry_def evaluate_capability_def is_side_effecting_def
        effective_taint_def) (simp add: cap_memory_note_delete_def v is_side_effecting_def effective_taint_def)
  have f: "find_approval w ''apr111'' = Some waiting_request" "find_attempt w (ap_attempt_id waiting_request) = Some waiting_action"
    using assms by (simp_all add: find_approval_def find_attempt_def waiting_request_def waiting_action_def)
  have full: "full_action_input_payload later_services w waiting_action None = Inr (Inr [(''id'', JStr ''n1'')])"
    by (simp add: full_action_input_payload_def waiting_action_def sample_action_def google_private_input_keys_def)
  have i: "execution_integrity_error later_services waiting_action (cap_memory_note_delete sample_env sample_providers) = None"
    by (simp add: execution_integrity_error_def waiting_action_def sample_action_def cap_memory_note_delete_def)
  have "\<exists>w' r. resolve_approval_decision later_services None ''apr111'' Approve (actor_id waiting_request) None w = Inr (w', Inr r)
    \<and> execution_task_id r \<noteq> None \<and> at_status (decided_attempt r) = Executing \<and> tasks w' \<noteq> tasks w"
    by (rule approval_starts [OF f _ _ full _ _ p _ _ _ i sample_checks(2)])
      (simp_all add: waiting_request_def waiting_action_def sample_request_def sample_action_def assms(3))
  then show ?thesis by (auto simp: waiting_request_def)
qed

lemma sample_reachable:
  "\<exists>w t ap. reachable later_services w \<and> t \<in> set (tasks w) \<and> task_type t = ''execute_action_attempt''
     \<and> ap \<in> set (approvals w) \<and> ap_status ap = Approved"
proof -
  have "reachable later_services (cs_world sample_state)" by (rule reachable.start) simp_all
  moreover obtain s where s: "process_one_call later_services sample_call_env 1 sample_call sample_state = Inr s"
    "attempts (cs_world s) = [waiting_action]" "approvals (cs_world s) = [waiting_request]" "tasks (cs_world s) = []"
    using sample_called by blast
  ultimately have r: "reachable later_services (cs_world s)" by (blast intro: reachable.step agent_step.call)
  obtain w' out where w': "resolve_approval_decision later_services None ''apr111'' Approve ''usr'' None (cs_world s)
      = Inr (w', Inr out)" "tasks w' \<noteq> tasks (cs_world s)" using sample_decided [OF s(2-4)] by blast
  then have r': "reachable later_services w'" using r by (blast intro: reachable.step agent_step.decide)
  have "\<exists>t \<in> set (tasks w'). task_type t = ''execute_action_attempt''"
    using resolve_shapes [OF w'(1)] w'(2)
    by (auto simp: unchanged_def decides_def decision_effect_def split: if_split_asm)
  then obtain t where t: "t \<in> set (tasks w')" "task_type t = ''execute_action_attempt''" by blast
  with reachable_sound [OF r'] obtain ap where "ap \<in> set (approvals w')" "ap_status ap = Approved"
    by (auto simp: sound_world_def execution_of_def)
  with r' t show ?thesis by blast
qed

lemma queued_nothing: "call_end ce a aps ts \<Longrightarrow> queues_nothing ts"
  by (auto elim!: call_end.cases simp: queues_nothing_def)

lemma call_asks:
  assumes "process_one_call rt ce index raw s = Inr s'"
  shows "filter (\<lambda>t. task_type t = ''execute_action_attempt'') (tasks (cs_world s'))
       = filter (\<lambda>t. task_type t = ''execute_action_attempt'') (tasks (cs_world s))
    \<and> (approvals (cs_world s') = approvals (cs_world s)
         \<and> pending_approval_created (cs_ctx s') = pending_approval_created (cs_ctx s)
       \<or> (\<exists>ap a. approvals (cs_world s') = approvals (cs_world s) @ [ap]
            \<and> attempts (cs_world s') = attempts (cs_world s) @ [a] \<and> ap_attempt_id ap = at_id a
            \<and> ap_payload_hash ap = at_payload_hash a \<and> ap_status ap = Pending \<and> actor_id ap = ce_actor_id ce
            \<and> at_status a = AwaitingApproval
            \<and> \<not> pending_approval_created (cs_ctx s) \<and> pending_approval_created (cs_ctx s')))"
proof (cases "List.member (ce_allowed ce) (capability_id_of (dict_or_empty raw))")
  case True
  from processed_call [OF assms True] obtain a' aps ts p where
    l: "leaves rt (ce_turn_id ce) (call_id_of (dict_or_empty raw)) s a' aps ts [p] s'"
    and c: "call_end ce a' aps ts" and may: "aps \<noteq> [] \<longrightarrow> \<not> pending_approval_created (cs_ctx s)"
    unfolding ends_def by blast
  have q: "filter (\<lambda>t. task_type t = ''execute_action_attempt'') ts = []"
    using queued_nothing [OF c] by (induction ts) (auto simp: queues_nothing_def)
  have "aps = [] \<or> (\<exists>ap. aps = [ap] \<and> asks_for ce a' ap \<and> at_status a' = AwaitingApproval)"
    using c by (auto elim!: call_end.cases)
  with l q may show ?thesis by (auto simp: leaves_def asks_for_def)
next
  case False
  with out_of_scope_call [OF assms] show ?thesis by simp
qed

section \<open>The properties\<close>






text \<open>
  C2. A program cannot execute a write of another system by itself: no call queues an execution, and
  the only approval request a call makes is pending, for the attempt it has just recorded with the
  hash of that attempt's input, by the actor of the turn. A call makes one only when no approval is
  pending in its program, so that a program makes at most one.
\<close>

theorem calls_only_ask:
  assumes "process_one_call rt ce index raw s = Inr s'"
  shows "filter (\<lambda>t. task_type t = ''execute_action_attempt'') (tasks (cs_world s'))
       = filter (\<lambda>t. task_type t = ''execute_action_attempt'') (tasks (cs_world s))
    \<and> (approvals (cs_world s') = approvals (cs_world s)
         \<and> pending_approval_created (cs_ctx s') = pending_approval_created (cs_ctx s)
       \<or> (\<exists>ap a. approvals (cs_world s') = approvals (cs_world s) @ [ap]
            \<and> attempts (cs_world s') = attempts (cs_world s) @ [a] \<and> ap_attempt_id ap = at_id a
            \<and> ap_payload_hash ap = at_payload_hash a \<and> ap_status ap = Pending \<and> actor_id ap = ce_actor_id ce
            \<and> at_status a = AwaitingApproval
            \<and> \<not> pending_approval_created (cs_ctx s) \<and> pending_approval_created (cs_ctx s')))"
  by (rule call_asks [OF assms])


theorem calls_only_ask_witness:
  "\<exists>s' ap. process_one_call later_services sample_call_env 1 sample_call sample_state = Inr s'
     \<and> approvals (cs_world s') = [ap] \<and> ap_status ap = Pending \<and> ap_attempt_id ap = ''aat''
     \<and> pending_approval_created (cs_ctx s')"
proof -
  obtain s' where s': "process_one_call later_services sample_call_env 1 sample_call sample_state = Inr s'"
    "attempts (cs_world s') = [waiting_action]" "approvals (cs_world s') = [waiting_request]"
    using sample_called by blast
  from calls_only_ask [OF s'(1)] s' show ?thesis
    by (auto simp: waiting_action_def)
qed

end
