(* ===== verification/Run_Laws.thy ===== *)
theory Run_Laws
  imports Run_Program Store_Laws
begin

text \<open>
  What a program of a turn can and cannot do, whatever its guest says: every call is answered, one
  that has seen untrusted content runs no write, it asks for one approval at most and queues no
  execution, and its output is bounded and unambiguous.
\<close>

section \<open>One call, with its taint\<close>

lemma cs_world_simps [simp]:
  "cs_world (ctx_map f s) = cs_world s" "cs_world (blocked cid r s) = cs_world s"
  "cs_world (respond rt i p s) = cs_world s" "cs_world (retrieval_error cid r s) = cs_world s"
  by (simp_all add: ctx_map_def blocked_def respond_def retrieval_error_def)

lemma attempts_of_answer [simp]:
  "attempts (cs_world (policy_decided rt ce ci a d r s)) = attempts (cs_world s)"
  "attempts (cs_world (failed_output rt ci e s)) = attempts (cs_world s)"
  by (simp_all add: policy_decided_def failed_output_def)

text \<open>What an attempt that did not run inline looks like at the end of its call.\<close>

definition held_back :: "action_attempt \<Rightarrow> bool" where
  "held_back a \<longleftrightarrow> at_policy_decision a \<noteq> AllowInline \<and> at_status a \<noteq> SucceededAction"

lemma updated_attempt:
  assumes "leaves rt turn i s0 a [] [] [] s" "update_attempt rt f a s = (a', s')"
    and "\<And>b. same_core b (f b)" "\<And>b. held_back (f b)"
  shows "attempts (cs_world s') = attempts (cs_world s0) @ [a'] \<and> held_back a'"
  using leaves_update [OF assms(1-3)] assms(4) by (auto simp: leaves_def)

lemma held_back_call:
  assumes l: "leaves rt (ce_turn_id ce) (ci_call_id ci) s0 a [] [] [] s"
    and d: "decide_proposal rt ce ci ev a unsealed s = Inr s'" and n: "unsealed \<or> ev_decision ev \<noteq> AllowInline"
  shows "\<exists>a'. attempts (cs_world s') = attempts (cs_world s0) @ [a'] \<and> held_back a'"
proof -
  have rej: "\<exists>a'. attempts (cs_world (reject_attempt rt ci a r x s)) = attempts (cs_world s0) @ [a'] \<and> held_back a'"
    for r x
  proof -
    obtain a' s1 where "update_attempt rt (\<lambda>a. a\<lparr>at_status := Refused, at_policy_decision := Deny,
            policy_reason := Some r\<rparr>) a s = (a', s1)" by fastforce
    moreover from this have "attempts (cs_world s1) = attempts (cs_world s0) @ [a'] \<and> held_back a'"
      by (rule updated_attempt [OF l]) (simp_all add: same_core_def held_back_def)
    ultimately show ?thesis by (simp add: reject_attempt_def Let_def)
  qed
  then have den: "\<exists>a'. attempts (cs_world (deny_proposal rt ce ci a r s)) = attempts (cs_world s0) @ [a'] \<and> held_back a'" for r
    by (simp add: deny_proposal_def)
  from rej have inv: "\<exists>a'. attempts (cs_world (policy_invariant_violation rt ce ci a s)) = attempts (cs_world s0) @ [a'] \<and> held_back a'"
    by (simp add: policy_invariant_violation_def)
  have pre: "\<exists>a'. attempts (cs_world (preflight_refused rt ce ci a e s)) = attempts (cs_world s0) @ [a'] \<and> held_back a'" for e
  proof -
    obtain a' s1 where "update_attempt rt (\<lambda>a. a\<lparr>at_status := FailedAction, at_policy_decision := Deny,
            policy_reason := Some e, execution_error := Some e\<rparr>) a s = (a', s1)" by fastforce
    moreover from this have "attempts (cs_world s1) = attempts (cs_world s0) @ [a'] \<and> held_back a'"
      by (rule updated_attempt [OF l]) (simp_all add: same_core_def held_back_def)
    ultimately show ?thesis by (simp add: preflight_refused_def Let_def)
  qed
  have req: "\<exists>a'. attempts (cs_world s') = attempts (cs_world s0) @ [a'] \<and> held_back a'"
    if "request_approval rt ce ci a c y r s = Inr s'" for c y r
  proof (cases "preflight_capability_execution c y")
    case (Inl v)
    with that pre show ?thesis by (auto simp: request_approval_def split: verror.split_asm)
  next
    case (Inr v)
    obtain a' s1 where e: "update_attempt rt (\<lambda>a. a\<lparr>at_status := AwaitingApproval, at_policy_decision := RequiresApproval,
      policy_reason := Some r, approval_required := True\<rparr>) a s = (a', s1)" by fastforce
    with that Inr have "attempts (cs_world s') = attempts (cs_world s1)"
      by (auto simp: request_approval_def Let_def split_beta announce_approval_def insert_approval_def
          split: if_split_asm)
    moreover have "attempts (cs_world s1) = attempts (cs_world s0) @ [a'] \<and> held_back a'"
      by (rule updated_attempt [OF l e]) (simp_all add: same_core_def held_back_def)
    ultimately show ?thesis by auto
  qed
  have "ev_decision ev = RequiresApproval" if "ev_decision ev \<noteq> Deny" "\<not> unsealed"
    using n that by (cases "ev_decision ev") auto
  with d rej den inv req show ?thesis
    by (auto simp: decide_proposal_def Let_def split: if_split_asm option.split_asm)
qed

lemma evaluation_impact:
  assumes "evaluate_proposal env prov cid d pending influenced status = Inr ev" "ev_decision ev = AllowInline"
    and "effective_taint influenced status"
  shows "ev_impact_level ev = Read"
proof -
  have "ev_decision ev \<noteq> Deny" using assms(2) by simp
  with assms(1) obtain c y where c: "get_capability env prov cid = Inr (Some c)" "validate_input c d = Inr y"
    by (rule evaluate_proposal_cases)
  from evaluate_capability_decides [OF c(2), of pending influenced status] assms c(1)
  show ?thesis
    by (cases "impact_level c"; cases "policy_decision c") (auto simp: evaluate_proposal_def split: if_split_asm)
qed

text \<open>Content is trusted only with a provenance that says it is clean.\<close>

definition untrusted :: "runtime_provenance option \<Rightarrow> bool" where
  "untrusted p \<longleftrightarrow> (case p of None \<Rightarrow> True | Some q \<Rightarrow> rp_status q \<noteq> ''clean'')"

lemma untrusted_taints: "untrusted p \<Longrightarrow> effective_taint b (Some (effective_provenance_status p declared))"
  by (auto simp: untrusted_def effective_taint_def effective_provenance_status_def split: option.split_asm)

text \<open>An attempt that ran at once only if it reads.\<close>

definition reads_only :: "action_attempt \<Rightarrow> bool" where
  "reads_only a \<longleftrightarrow> held_back a \<or> at_impact_level a = Read"

lemma untrusted_call:
  assumes p: "process_one_call rt ce index raw s = Inr s'" and u: "untrusted (ce_provenance ce)"
  shows "\<exists>as. attempts (cs_world s') = attempts (cs_world s) @ as \<and> list_all reads_only as"
proof (cases "List.member (ce_allowed ce) (capability_id_of (dict_or_empty raw))")
  case False
  with out_of_scope_call [OF p] show ?thesis by (intro exI [of _ "[]"]) simp
next
  case True
  let ?fcp = "dict_or_empty raw" let ?cid = "capability_id_of ?fcp"
  let ?s1 = "mark_retrieval ?cid s"
  obtain input w where i: "call_input rt ce ?fcp (cs_world ?s1) = (input, w)" by fastforce
  let ?s2 = "?s1\<lparr>cs_world := w\<rparr>"
  let ?declared = "model_declared_taint_status ?fcp"
  let ?status = "effective_provenance_status (ce_provenance ce) ?declared"
  let ?ci = "\<lparr>ci_index = index, ci_call_id = call_id_of ?fcp, ci_capability_id = ?cid,
    ci_taint = taint_event_payload ?status (ce_provenance ce) ?declared\<rparr>"
  from p True i obtain ev a pv s3 where
    ev: "evaluate_proposal (service_env rt) (service_providers rt) ?cid input
      (pending_approval_created (cs_ctx ?s2)) (influenced_by_untrusted ?status) (Some ?status) = Inr ev"
    and rec: "record_proposal rt ce ?ci ev input ?s2 = Inr (a, pv, s3)"
    and dec: "decide_proposal rt ce ?ci ev a (pv \<noteq> None \<and> ce_google ce = None) s3 = Inr s'"
    unfolding process_one_call_def Let_def by auto
  have l: "leaves rt (ce_turn_id ce) (ci_call_id ?ci) s a [] [] [] s3"
    using call_input_world [OF i] by (intro leaves_baseline [OF recorded_proposal(1) [OF rec]])
      (simp_all add: mark_retrieval_def ctx_map_def)
  show ?thesis
  proof (cases "ev_decision ev = AllowInline")
    case False
    with held_back_call [OF l dec] show ?thesis by (auto simp: reads_only_def)
  next
    case inl: True
    have na: "\<not> approval_required a" and im: "at_impact_level a = ev_impact_level ev"
      using recorded_proposal(2) [OF rec] by (auto simp: new_attempt_def Let_def)
    have "at_impact_level a = Read"
      unfolding im by (rule evaluation_impact [OF ev inl untrusted_taints [OF u]])
    moreover have "ends rt ce (\<not> pending_approval_created (cs_ctx ?s2)) (ci_call_id ?ci) s a s'"
    proof (rule decided_call [OF l na _ dec])
      show "evaluate_proposal (service_env rt) (service_providers rt) (ci_capability_id ?ci) input
        (pending_approval_created (cs_ctx ?s2)) (influenced_by_untrusted ?status) (Some ?status) = Inr ev"
        using ev by simp
    qed
    then obtain a' where "attempts (cs_world s') = attempts (cs_world s) @ [a']" "same_core a a'"
      unfolding ends_def leaves_def by blast
    ultimately show ?thesis by (intro exI [of _ "[a']"]) (simp add: same_core_def reads_only_def)
  qed
qed

section \<open>What a result may taint\<close>

definition only_taints :: "call_state \<Rightarrow> bool" where
  "only_taints s \<longleftrightarrow>
     (case result_runtime_provenance (cs_ctx s) of None \<Rightarrow> True | Some p \<Rightarrow> rp_status p = ''tainted'')"

abbreviation result_of :: "call_state \<Rightarrow> runtime_provenance option" where
  "result_of s \<equiv> result_runtime_provenance (cs_ctx s)"

named_theorems result_frame \<open>steps that leave the provenance of the result alone\<close>

lemma result_steps [result_frame]:
  "result_of (add_event rt ce y p s) = result_of s" "result_of (blocked cid r s) = result_of s"
  "result_of (respond rt i d s) = result_of s" "result_of (retrieval_error cid r s) = result_of s"
  "result_of (policy_decided rt ce ci a x r s) = result_of s" "result_of (failed_output rt ci e s) = result_of s"
  "result_of (mark_retrieval cid s) = result_of s" "result_of (s\<lparr>cs_world := w\<rparr>) = result_of s"
  "result_of (snd (update_attempt rt f a s)) = result_of s"
  by (simp_all add: ctx_map_def blocked_def respond_def retrieval_error_def policy_decided_def failed_output_def
      mark_retrieval_def update_attempt_def split_beta Let_def)

lemma result_ends [result_frame]:
  "result_of (reject_attempt rt ci a r x s) = result_of s" "result_of (deny_proposal rt ce ci a r s) = result_of s"
  "result_of (policy_invariant_violation rt ce ci a s) = result_of s"
  "result_of (preflight_refused rt ce ci a e s) = result_of s"
  "result_of (inline_failed rt ce ci a e f r extra s) = result_of s"
  "result_of (announce_approval rt ce ci ap s) = result_of s"
  by (simp_all add: reject_attempt_def deny_proposal_def policy_invariant_violation_def preflight_refused_def
      inline_failed_def announce_approval_def Let_def split_beta result_frame)
    (simp add: ctx_map_def)

lemma result_request:
  "request_approval rt ce ci a c y r s = Inr s' \<Longrightarrow> result_of s' = result_of s"
  by (auto simp: request_approval_def Let_def split_beta result_frame split: sum.split_asm verror.split_asm)

lemma result_cited: "cite_sources ce cid i agent audit s = Inr s' \<Longrightarrow> result_of s' = result_of s"
  by (auto simp: cite_sources_def Let_def ctx_map_def result_frame split: if_split_asm option.split_asm)

lemma result_provenance_taints:
  assumes "case current of None \<Rightarrow> True | Some p \<Rightarrow> rp_status p = ''tainted''"
  shows "case result_provenance cid a output current of None \<Rightarrow> True | Some p \<Rightarrow> rp_status p = ''tainted''"
  using assms
  by (auto simp: result_provenance_def Let_def merge_optional_def merge_def memory_output_runtime_provenance_def
      declared_output_provenance_def split: option.split)

lemma result_succeeded:
  assumes "inline_succeeded rt ce ci a agent audit s = Inr s'" "only_taints s"
  shows "only_taints s'"
proof -
  obtain a' s1 where u: "update_attempt rt (\<lambda>a. a\<lparr>execution_output := JObj audit, execution_error := None,
      at_status := SucceededAction\<rparr>) a s = (a', s1)" by fastforce
  then have "result_of s1 = result_of s" using result_steps(9) [of rt _ a s] by (metis snd_conv)
  with assms u show ?thesis
    using result_provenance_taints [of "result_of s" "ci_capability_id ci" a' agent]
    by (auto simp: inline_succeeded_def Let_def result_frame only_taints_def dest!: result_cited)
      (simp_all add: ctx_map_def respond_def split: if_split_asm)
qed

lemma result_decided:
  assumes "decide_proposal rt ce ci ev a unsealed s = Inr s'" "only_taints s"
  shows "only_taints s'"
proof -
  have keep: "only_taints q'" if "result_of q' = result_of q" "only_taints q" for q q'
    using that by (simp add: only_taints_def)
  have fin: "only_taints s'" if f: "finish_inline rt ce ci a r s = Inr s'" and s: "only_taints s" for a r s
  proof (cases "if pr_succeeded r then pr_output r else None")
    case None
    with f show ?thesis by (auto simp: finish_inline_def split_beta intro!: keep [OF _ s] result_frame)
  next
    case (Some v)
    with f obtain outputs where "(case outputs of Inl e \<Rightarrow> Inr (inline_failed rt ce ci a e (\<lambda>a. a) e [] s)
        | Inr (agent, audit) \<Rightarrow> inline_succeeded rt ce ci a agent audit s) = Inr s'"
      by (auto simp: finish_inline_def)
    then show ?thesis
      using result_succeeded [OF _ s]
      by (cases outputs) (auto simp: split_beta intro!: keep [OF _ s] result_frame)
  qed
  have run: "only_taints s'" if "run_inline rt ce ci a c y s = Inr s'" "only_taints s" for a c y s
    using that fin by (auto simp: run_inline_def Let_def only_taints_def result_frame)
  have "only_taints s'" if al: "allow_inline rt ce ci a c y r s = Inr s'" for c y r
  proof -
    obtain a' s1 where u: "update_attempt rt (\<lambda>a. a\<lparr>at_status := Executing, at_policy_decision := AllowInline,
            policy_reason := None\<rparr>) a s = (a', s1)" by fastforce
    then have "result_of s1 = result_of s" using result_steps(9) [of rt _ a s] by (metis snd_conv)
    then have s1: "only_taints (policy_decided rt ce ci a' AllowInline r s1)"
      using assms(2) by (simp add: only_taints_def result_frame)
    then have f: "only_taints (inline_failed rt ce ci b e f x y (policy_decided rt ce ci a' AllowInline r s1))" for b e f x y
      by (simp add: only_taints_def result_frame)
    have "only_taints s'" if "queue_execution rt ce ci a' (policy_decided rt ce ci a' AllowInline r s1) = Inr s'"
      using that s1 by (auto simp: queue_execution_def Let_def only_taints_def result_frame)
        (simp add: ctx_map_def result_frame)
    with al u f run [OF _ s1] show ?thesis
      by (auto simp: allow_inline_def Let_def split: option.split_asm sum.split_asm verror.split_asm if_split_asm)
  qed
  moreover have "only_taints s'" if "result_of s' = result_of s" using that assms(2) by (simp add: only_taints_def)
  ultimately show ?thesis
    using assms(1) result_request
    by (auto simp: decide_proposal_def Let_def result_frame split: if_split_asm option.split_asm)
qed

lemma result_processed:
  assumes "process_one_call rt ce index raw s = Inr s'" "only_taints s"
  shows "only_taints s'"
proof (cases "List.member (ce_allowed ce) (capability_id_of (dict_or_empty raw))")
  case False
  with assms show ?thesis
    by (auto simp: process_one_call_def deny_out_of_scope_def Let_def only_taints_def result_frame)
next
  case True
  have "only_taints s2" if "record_proposal rt ce ci ev input s1 = Inr (a, pv, s2)" "result_of s1 = result_of s"
    for ci ev input s1 a pv s2
    using that assms(2) by (auto simp: record_proposal_def Let_def split_beta only_taints_def result_frame)
      (simp add: ctx_map_def track_attempt_def result_frame)
  then show ?thesis
    using assms(1) True result_decided
    by (auto simp: process_one_call_def Let_def split_beta result_frame)
qed

end
