(* ===== verification/Program_Laws.thy ===== *)
theory Program_Laws
  imports Run_Laws
begin

text \<open>
  What a whole program of a turn can and cannot do, whatever its guest says: every call is answered, a
  program that has seen untrusted content runs no write, it asks for one approval at most and queues
  no execution, its output is bounded and unambiguous, and its scratch store stays within its limits.
\<close>

section \<open>One syscall\<close>

lemmas answer_defs = ok_answer_def refused_def faulted_def

text \<open>The syscalls the host answers itself, and the capability calls.\<close>

inductive host_step :: "run_env \<Rightarrow> program_state \<Rightarrow> program_state \<Rightarrow> bool" for re :: run_env where
  message: "emit_message input st = (v, st') \<Longrightarrow> host_step re st st'"
| emitted: "emit_value re input st = (v, st') \<Longrightarrow> host_step re st st'"
| silent: "finish_silent input st = (v, st') \<Longrightarrow> host_step re st st'"
| finding: "emit_finding re input st = (v, st') \<Longrightarrow> host_step re st st'"
| finished: "emit_done re input st = (v, st') \<Longrightarrow> host_step re st st'"
| set: "scratch_set re input st = (v, st') \<Longrightarrow> host_step re st st'"
| get: "scratch_get input st = (v, st') \<Longrightarrow> host_step re st st'"
| unknown: "host_step re st (st\<lparr>callback_errors := es\<rparr>)"

definition fresh_result :: "program_state \<Rightarrow> call_state" where
  "fresh_result st = ctx_map (\<lambda>c. c\<lparr>result_runtime_provenance := None\<rparr>) (ps_call st)"

definition tainted_env :: "run_env \<Rightarrow> program_state \<Rightarrow> call_env" where
  "tainted_env re st = (re_call re)\<lparr>ce_provenance := current_provenance st\<rparr>"

lemma fresh_result_simps [simp]:
  "cs_world (fresh_result st) = cs_world (ps_call st)"
  "pending_approval_created (cs_ctx (fresh_result st)) = pending_approval_created (cs_ctx (ps_call st))"
  "function_call_outputs (cs_ctx (fresh_result st)) = function_call_outputs (cs_ctx (ps_call st))"
  "only_taints (fresh_result st)"
  by (simp_all add: fresh_result_def only_taints_def) (simp_all add: ctx_map_def)

lemma call_capability_unfold:
  "call_capability rt re name cid input st =
     proceed (process_one_call rt (tainted_env re st) (re_start re + (call_index st + 1))
       (capability_call name cid (re_start re + (call_index st + 1)) input) (fresh_result st)) (\<lambda>s'.
     let outs = drop (length (function_call_outputs (cs_ctx (ps_call st)))) (function_call_outputs (cs_ctx s'))
     in case outs of
       [out] \<Rightarrow> proceed (capability_syscall_value rt out) (\<lambda>v. Inr (v, after_call re (call_index st + 1) s' st))
     | _ \<Rightarrow> Inl (RuntimeError (name @ '': process_one_call_output_count:'' @ decimal (int (length outs)))))"
  unfolding call_capability_def Let_def fresh_result_simps(3) [symmetric]
  by (simp only: fresh_result_def tainted_env_def)

lemma called_capability:
  assumes "call_capability rt re name cid input st = Inr (v, st')"
  shows "\<exists>s'. process_one_call rt (tainted_env re st) (re_start re + (call_index st + 1))
       (capability_call name cid (re_start re + (call_index st + 1)) input) (fresh_result st) = Inr s'
     \<and> st' = after_call re (call_index st + 1) s' st"
proof -
  from assms obtain s' where s': "process_one_call rt (tainted_env re st) (re_start re + (call_index st + 1))
       (capability_call name cid (re_start re + (call_index st + 1)) input) (fresh_result st) = Inr s'"
    and r: "(let outs = drop (length (function_call_outputs (cs_ctx (ps_call st)))) (function_call_outputs (cs_ctx s'))
     in case outs of
       [out] \<Rightarrow> proceed (capability_syscall_value rt out) (\<lambda>v. Inr (v, after_call re (call_index st + 1) s' st))
     | _ \<Rightarrow> Inl (RuntimeError (name @ '': process_one_call_output_count:'' @ decimal (int (length outs)))))
     = Inr (v, st')"
    unfolding call_capability_unfold by (simp only: proceed_Inr) blast
  from r have "st' = after_call re (call_index st + 1) s' st" by (auto simp: Let_def split: list.split_asm)
  with s' show ?thesis by blast
qed

lemma syscall_steps:
  assumes "syscall_callback rt re name input st = Inr (v, st')"
  shows "host_step re st st' \<or> (\<exists>call s'. process_one_call rt (tainted_env re st) (re_start re + (call_index st + 1)) call
    (fresh_result st) = Inr s' \<and> st' = after_call re (call_index st + 1) s' st)"
proof (cases "List.member (AGENT_SYSCALL_NAMES @ SCRATCH_SYSCALL_NAMES @ [''agent.emit_finding'', ''agent.emit_done'']) name")
  case True
  with assms show ?thesis
    by (auto simp: syscall_callback_def AGENT_SYSCALL_NAMES_def SCRATCH_SYSCALL_NAMES_def intro: host_step.intros)
next
  case False
  then have other: "syscall_callback rt re name input st = (case capability_id_for_run_callable name of
        None \<Rightarrow> Inr (refused ''unknown_callable''
          (st\<lparr>callback_errors := callback_errors st @ [name @ '': unknown_callable'']\<rparr>))
      | Some cid \<Rightarrow> call_capability rt re name cid input st)"
    by (auto simp: syscall_callback_def AGENT_SYSCALL_NAMES_def SCRATCH_SYSCALL_NAMES_def)
  show ?thesis
  proof (cases "capability_id_for_run_callable name")
    case None
    with assms other show ?thesis by (auto simp: refused_def intro: host_step.unknown)
  next
    case (Some cid)
    with assms other have "call_capability rt re name cid input st = Inr (v, st')" by simp
    from called_capability [OF this] show ?thesis by blast
  qed
qed

lemma host_step_call: "host_step re st st' \<Longrightarrow> ps_call st' = ps_call st"
  by (induction rule: host_step.induct)
    (auto simp: emit_message_def emit_value_def finish_silent_def emit_finding_def emit_done_def scratch_set_def
      scratch_get_def answer_defs Let_def split: option.split_asm if_split_asm)

lemma host_step_taint:
  "host_step re st st' \<Longrightarrow>
    (current_provenance st' = current_provenance st \<or> (\<exists>p. current_provenance st' = Some p \<and> rp_status p = ''tainted''))
    \<and> (\<exists>es. taint_evidence st' = taint_evidence st @ es)"
  by (induction rule: host_step.induct)
    (auto simp: emit_message_def emit_value_def finish_silent_def emit_finding_def emit_done_def scratch_set_def
      scratch_get_def answer_defs Let_def split: option.split_asm if_split_asm)

lemma after_call_simps [simp]:
  "ps_call (after_call re i s st) = s" "ps_message (after_call re i s st) = ps_message st"
  "ps_values (after_call re i s st) = ps_values st" "ps_finding (after_call re i s st) = ps_finding st"
  "ps_done (after_call re i s st) = ps_done st" "ps_silent (after_call re i s st) = ps_silent st"
  "ps_scratch (after_call re i s st) = ps_scratch st"
  by (simp_all add: after_call_def Let_def split: option.split)

section \<open>Every syscall keeps its invariants\<close>

lemma untrusted_syscall:
  assumes "syscall_callback rt re name input st = Inr (v, st')" "untrusted (current_provenance st)"
  shows "untrusted (current_provenance st')"
    and "\<exists>as. attempts (cs_world (ps_call st')) = attempts (cs_world (ps_call st)) @ as \<and> list_all reads_only as"
proof -
  have "untrusted (current_provenance st') \<and>
    (\<exists>as. attempts (cs_world (ps_call st')) = attempts (cs_world (ps_call st)) @ as \<and> list_all reads_only as)"
    using syscall_steps [OF assms(1)]
  proof
    assume h: "host_step re st st'"
    from host_step_taint [OF h] assms(2) have "untrusted (current_provenance st')" by (auto simp: untrusted_def)
    with host_step_call [OF h] show ?thesis by (intro conjI exI [of _ "[]"]) simp_all
  next
    assume "\<exists>call s'. process_one_call rt (tainted_env re st) (re_start re + (call_index st + 1)) call
      (fresh_result st) = Inr s' \<and> st' = after_call re (call_index st + 1) s' st"
    then obtain call s' where p: "process_one_call rt (tainted_env re st) (re_start re + (call_index st + 1)) call
        (fresh_result st) = Inr s'" and st': "st' = after_call re (call_index st + 1) s' st" by blast
    have "only_taints s'" by (rule result_processed [OF p]) simp
    then have "untrusted (current_provenance st')"
      using assms(2) by (auto simp: st' after_call_def Let_def untrusted_def only_taints_def split: option.split_asm)
    moreover have "\<exists>as. attempts (cs_world s') = attempts (cs_world (ps_call st)) @ as \<and> list_all reads_only as"
      using untrusted_call [OF p] assms(2) by (simp add: tainted_env_def)
    ultimately show ?thesis by (simp add: st')
  qed
  then show "untrusted (current_provenance st')"
    and "\<exists>as. attempts (cs_world (ps_call st')) = attempts (cs_world (ps_call st)) @ as \<and> list_all reads_only as"
    by simp_all
qed

text \<open>One approval request at most, and no execution.\<close>

abbreviation world_of :: "program_state \<Rightarrow> world" where
  "world_of st \<equiv> cs_world (ps_call st)"

abbreviation executions :: "world \<Rightarrow> background_task list" where
  "executions w \<equiv> filter (\<lambda>t. task_type t = ''execute_action_attempt'') (tasks w)"

definition asks_once :: "run_env \<Rightarrow> world \<Rightarrow> program_state \<Rightarrow> bool" where
  "asks_once re w st \<longleftrightarrow> executions (world_of st) = executions w
     \<and> (approvals (world_of st) = approvals w \<or> (\<exists>ap. approvals (world_of st) = approvals w @ [ap]
          \<and> ap_status ap = Pending \<and> actor_id ap = ce_actor_id (re_call re)
          \<and> pending_approval_created (cs_ctx (ps_call st))))"

lemma asking_syscall:
  assumes "syscall_callback rt re name input st = Inr (v, st')" "asks_once re w st"
  shows "asks_once re w st'"
  using syscall_steps [OF assms(1)]
proof
  assume "host_step re st st'"
  with host_step_call assms(2) show ?thesis by (simp add: asks_once_def)
next
  assume "\<exists>call s'. process_one_call rt (tainted_env re st) (re_start re + (call_index st + 1)) call
      (fresh_result st) = Inr s' \<and> st' = after_call re (call_index st + 1) s' st"
  then obtain call s' where p: "process_one_call rt (tainted_env re st) (re_start re + (call_index st + 1)) call
      (fresh_result st) = Inr s'" and st': "st' = after_call re (call_index st + 1) s' st" by blast
  from call_asks [OF p] assms(2) show ?thesis
    by (auto simp: asks_once_def st' tainted_env_def)
qed

text \<open>A call of a program is a step of the agent.\<close>

lemma reaching_syscall:
  assumes "syscall_callback rt re name input st = Inr (v, st')" "reachable rt (world_of st)"
  shows "reachable rt (world_of st')"
  using syscall_steps [OF assms(1)]
proof
  assume "host_step re st st'"
  with host_step_call assms(2) show ?thesis by simp
next
  assume "\<exists>call s'. process_one_call rt (tainted_env re st) (re_start re + (call_index st + 1)) call
      (fresh_result st) = Inr s' \<and> st' = after_call re (call_index st + 1) s' st"
  then obtain call s' where p: "process_one_call rt (tainted_env re st) (re_start re + (call_index st + 1)) call
      (fresh_result st) = Inr s'" and st': "st' = after_call re (call_index st + 1) s' st" by blast
  have "reachable rt (cs_world (fresh_result st))" using assms(2) by simp
  from reachable.step [OF this agent_step.call [OF p]] show ?thesis by (simp add: st')
qed

text \<open>The output is bounded, and is a message or silence.\<close>

definition bounded_output :: "run_env \<Rightarrow> program_state \<Rightarrow> bool" where
  "bounded_output re st \<longleftrightarrow>
     length (ps_values st) \<le> MAX_EMITTED_VALUES
     \<and> list_all (\<lambda>v. json_size re v \<le> MAX_EMITTED_VALUE_BYTES) (ps_values st)
     \<and> (ps_message st = [] \<or> \<not> ps_silent st)
     \<and> (case ps_finding st of None \<Rightarrow> True
        | Some d \<Rightarrow> \<not> re_main re \<and> json_size re (JObj d) \<le> MAX_EMITTED_FINDING_BYTES)
     \<and> (re_main re \<longrightarrow> ps_done st = None)"

lemma output_syscall:
  assumes "syscall_callback rt re name input st = Inr (v, st')" "bounded_output re st"
  shows "bounded_output re st'"
proof -
  have "bounded_output re st'" if "host_step re st st'" for st'
    using that assms(2)
    by (induction rule: host_step.induct)
      (auto simp: emit_message_def emit_value_def finish_silent_def emit_finding_def emit_done_def scratch_set_def
        scratch_get_def answer_defs Let_def bounded_output_def split: option.split_asm if_split_asm)
  with syscall_steps [OF assms(1)] assms(2) show ?thesis by (auto simp: bounded_output_def)
qed

text \<open>The scratch store.\<close>

lemma update_total:
  "scratch_total re (AList.update k e al)
     + (case map_of al k of None \<Rightarrow> 0 | Some x \<Rightarrow> if se_value x = JNull then 0 else json_size re (se_value x))
   = scratch_total re al + (if se_value e = JNull then 0 else json_size re (se_value e))"
  by (induction al) (auto simp: scratch_total_def)

lemma update_length:
  "length (AList.update k e al) = (if map_of al k = None then Suc (length al) else length al)"
  by (induction al) auto

definition bounded_scratch :: "run_env \<Rightarrow> (string \<times> scratch_entry) list \<Rightarrow> bool" where
  "bounded_scratch re store \<longleftrightarrow> length store \<le> SCRATCH_MAX_ENTRIES
     \<and> scratch_total re store \<le> SCRATCH_MAX_TOTAL_BYTES + json_size re JNull"

lemma scratch_set_keeps:
  assumes "scratch_set re input st = (v, st')" "bounded_scratch re (ps_scratch st)"
  shows "bounded_scratch re (ps_scratch st')"
proof (cases "ps_scratch st' = ps_scratch st")
  case False
  with assms(1) obtain k where
    st': "ps_scratch st' = AList.update k \<lparr>se_value = jget input ''value'', se_provenance = current_provenance st\<rparr> (ps_scratch st)"
    and room: "map_of (ps_scratch st) k = None \<longrightarrow> length (ps_scratch st) < SCRATCH_MAX_ENTRIES"
    and sz: "int (scratch_total re (ps_scratch st)) + int (json_size re (jget input ''value''))
         - (case map_of (ps_scratch st) k of None \<Rightarrow> 0 | Some e \<Rightarrow> int (json_size re (se_value e))) \<le> int SCRATCH_MAX_TOTAL_BYTES"
    by (auto simp: scratch_set_def answer_defs Let_def not_le not_less split: option.split_asm if_split_asm)
  have "scratch_total re (ps_scratch st') \<le> SCRATCH_MAX_TOTAL_BYTES + json_size re JNull"
    using sz update_total [of re k "\<lparr>se_value = jget input ''value'', se_provenance = current_provenance st\<rparr>" "ps_scratch st"]
    by (cases "map_of (ps_scratch st) k") (auto simp: st' split: if_split_asm)
  with room assms(2) show ?thesis by (auto simp: bounded_scratch_def st' update_length)
qed (use assms(2) in simp)

lemma scratch_syscall:
  assumes "syscall_callback rt re name input st = Inr (v, st')" "bounded_scratch re (ps_scratch st)"
  shows "bounded_scratch re (ps_scratch st')"
proof -
  have "bounded_scratch re (ps_scratch st')" if "host_step re st st'" for st'
    using that
  proof cases
    case set
    then show ?thesis by (rule scratch_set_keeps [OF _ assms(2)])
  qed (use assms(2) in \<open>auto simp: emit_message_def emit_value_def finish_silent_def emit_finding_def emit_done_def
        scratch_get_def answer_defs split: option.split_asm if_split_asm\<close>)
  with syscall_steps [OF assms(1)] assms(2) show ?thesis by auto
qed

section \<open>A sample program\<close>

definition sample_run_env :: run_env where
  "sample_run_env = \<lparr>re_call = sample_call_env, re_start = 0, re_main = True, json_size = (\<lambda>v. 4)\<rparr>"

definition sample_guest :: guest where
  "sample_guest = Says ''ask'' 0 (\<lambda>_. Says ''say'' 0 (\<lambda>_. Says ''end'' 0 (\<lambda>_. Closed 0)))"

lemma later_loads: "json_loads (service_crypto later_services) = sample_loads" "json_dumps later_services v = []"
  by (simp_all add: later_services_def sample_services_def)

lemma sample_lines:
  "validate_guest_message later_services ''ask''
     = Inr (Inr (Syscall ''memory.note.delete'' [(''id'', JStr ''n1'')]))"
  "validate_guest_message later_services ''say''
     = Inr (Inr (Syscall ''agent.emit_message'' [(''text'', JStr ''asked'')]))"
  "validate_guest_message later_services ''end'' = Inr (Inr (Program_Result True None))"
proof -
  have u: "length (utf8_encode ''ask'') = 3" "length (utf8_encode ''say'') = 3" "length (utf8_encode ''end'') = 3"
    by code_simp+
  show "validate_guest_message later_services ''ask''
     = Inr (Inr (Syscall ''memory.note.delete'' [(''id'', JStr ''n1'')]))"
   "validate_guest_message later_services ''say''
     = Inr (Inr (Syscall ''agent.emit_message'' [(''text'', JStr ''asked'')]))"
   "validate_guest_message later_services ''end'' = Inr (Inr (Program_Result True None))"
    by (simp_all add: validate_guest_message_def later_loads sample_loads_def u SANDBOX_MAX_MESSAGE_BYTES_def
        check_guest_message_def jget_def)
qed

lemma strip_letter: "strip (CHR ''r'' # cs) \<noteq> []"
proof -
  have "\<not> is_space CHR ''r''" by code_simp
  then show ?thesis by (simp add: strip_def lstrip_def rstrip_def dropWhile_append dropWhile_eq_Nil_conv)
qed

lemma one_answer:
  assumes "process_one_call rt ce index raw s = Inr s'" "call_id_of (dict_or_empty raw) \<noteq> []"
  shows "\<exists>p. answerable p \<and> function_call_outputs (cs_ctx s') = function_call_outputs (cs_ctx s)
    @ [response_function_call_output rt (call_id_of (dict_or_empty raw)) p]"
proof (cases "List.member (ce_allowed ce) (capability_id_of (dict_or_empty raw))")
  case True
  with processed_call [OF assms(1)] assms(2) show ?thesis by (auto simp: ends_def leaves_def)
next
  case False
  with out_of_scope_call [OF assms(1)] assms(2) show ?thesis by auto
qed

lemma sample_program:
  "\<exists>r st. execute_run_program later_services sample_run_env sample_guest empty_world 0 [] = Inr (r, st)
     \<and> program_ok r \<and> emitted_message r = ''asked'' \<and> approvals (world_of st) = [waiting_request]
     \<and> attempts (world_of st) = [waiting_action]"
proof -
  let ?st = "initial_program sample_run_env empty_world 0 []"
  have st: "fresh_result ?st = sample_state" "tainted_env sample_run_env ?st = sample_call_env"
    "re_start sample_run_env + 1 = 1" "ps_call ?st = sample_state"
    by (simp_all add: initial_program_def fresh_result_def sample_state_def ctx_map_def empty_context_def
        tainted_env_def sample_run_env_def sample_call_env_def)
  have call: "capability_call ''memory.note.delete'' ''cap.memory.note.delete'' 1 [(''id'', JStr ''n1'')] = sample_call"
  proof -
    have "decimal 1 = ''1''" by code_simp
    then show ?thesis by (simp add: capability_call_def sample_call_def)
  qed
  obtain s where s: "process_one_call later_services sample_call_env 1 sample_call sample_state = Inr s"
    "attempts (cs_world s) = [waiting_action]" "approvals (cs_world s) = [waiting_request]"
    using sample_called by blast
  from one_answer [OF s(1)] obtain p where p: "function_call_outputs (cs_ctx s) =
      [response_function_call_output later_services ''run_call_1'' p]"
    by (auto simp: sample_reading empty_context_def sample_state_def)
  let ?st1 = "after_call sample_run_env 1 s ?st"
  have v: "capability_syscall_value later_services (response_function_call_output later_services ''run_call_1'' p)
      = Inr (True, JObj [(''status'', JStr ''approval_required''), (''approval_ref'', JNull)])"
  proof -
    have "map_of (dict_or_empty (response_function_call_output later_services ''run_call_1'' p)) ''output'' = Some (JStr [])"
      by (simp add: response_function_call_output_def dict_or_empty_def later_loads)
    moreover have "sample_loads [] = Inr (JObj [(''status'', JStr ''approval_required'')])" by (simp add: sample_loads_def)
    ultimately show ?thesis
      by (simp add: capability_syscall_value_def dict_item_def later_loads py_str_def jget_def)
  qed
  have one: "call_index ?st + 1 = 1" by (simp add: initial_program_def)
  have "capability_id_for_run_callable ''memory.note.delete'' = Some ''cap.memory.note.delete''" by code_simp
  then have "syscall_callback later_services sample_run_env ''memory.note.delete'' [(''id'', JStr ''n1'')] ?st
      = call_capability later_services sample_run_env ''memory.note.delete'' ''cap.memory.note.delete'' [(''id'', JStr ''n1'')] ?st"
    by (simp add: syscall_callback_def)
  also have "\<dots> = Inr ((True, JObj [(''status'', JStr ''approval_required''), (''approval_ref'', JNull)]), ?st1)"
    unfolding call_capability_unfold one st call s(1) by (simp add: p v sample_state_def empty_context_def)
  finally have a: "syscall_callback later_services sample_run_env ''memory.note.delete'' [(''id'', JStr ''n1'')] ?st
    = Inr ((True, JObj [(''status'', JStr ''approval_required''), (''approval_ref'', JNull)]), ?st1)" .
  have m: "ps_message ?st = []" "ps_silent ?st = False" by (simp_all add: initial_program_def)
  have "strip ''asked'' = ''asked''" by code_simp
  then have b: "syscall_callback later_services sample_run_env ''agent.emit_message'' [(''text'', JStr ''asked'')] ?st1
      = Inr ((True, JNull), ?st1\<lparr>ps_message := ''asked''\<rparr>)"
    by (simp add: syscall_callback_def emit_message_def keys_are_def keys_within_def jget_def ok_answer_def m keys_def)
  show ?thesis
    by (simp add: execute_run_program_def drive_program_def sample_guest_def sample_lines a b program_outcome_def
        run_outcome_def s)
qed

section \<open>Properties\<close>

text \<open>
  C3. A program that has seen untrusted content runs no write. From any point of a program at which the
  provenance is not known to be clean, whatever the guest does next, every attempt it adds either was
  held back (denied, failed before it ran, or waiting for an approval) or is a read; and the
  provenance never becomes clean again, so that no later result can launder it.
\<close>

theorem untrusted_programs_only_read:
  assumes "drive_program rt g (syscall_callback rt re) st = Inr (r, st')"
    and "case current_provenance st of None \<Rightarrow> True | Some p \<Rightarrow> rp_status p \<noteq> ''clean''"
  shows "(\<exists>as. attempts (cs_world (ps_call st')) = attempts (cs_world (ps_call st)) @ as
      \<and> list_all (\<lambda>a. at_impact_level a = Read
          \<or> at_policy_decision a \<noteq> AllowInline \<and> at_status a \<noteq> SucceededAction) as)
    \<and> (case current_provenance st' of None \<Rightarrow> True | Some p \<Rightarrow> rp_status p \<noteq> ''clean'')"
proof -
  let ?I = "\<lambda>q. untrusted (current_provenance q) \<and> (\<exists>as. attempts (cs_world (ps_call q)) =
    attempts (cs_world (ps_call st)) @ as \<and> list_all reads_only as)"
  have "?I st'"
  proof (rule drive_keeps [OF assms(1), of ?I])
    show "?I st" using assms(2) by (simp add: untrusted_def)
    fix name input q v q'
    assume s: "syscall_callback rt re name input q = Inr (v, q')" and I: "?I q"
    from I obtain as where "attempts (cs_world (ps_call q)) = attempts (cs_world (ps_call st)) @ as" "list_all reads_only as"
      by blast
    moreover from untrusted_syscall [OF s] I obtain bs where
      "attempts (cs_world (ps_call q')) = attempts (cs_world (ps_call q)) @ bs" "list_all reads_only bs" by blast
    ultimately have "\<exists>as. attempts (cs_world (ps_call q')) = attempts (cs_world (ps_call st)) @ as \<and> list_all reads_only as"
      by (intro exI [of _ "as @ bs"]) simp
    with untrusted_syscall(1) [OF s] I show "?I q'" by blast
  qed
  then show ?thesis
    unfolding untrusted_def reads_only_def held_back_def by (auto simp: list_all_iff)
qed

theorem untrusted_programs_only_read_witness:
  "\<exists>r st as. execute_run_program later_services sample_run_env sample_guest empty_world 0 [] = Inr (r, st)
     \<and> as \<noteq> [] \<and> attempts (cs_world (ps_call st)) = as
     \<and> list_all (\<lambda>a. at_impact_level a = Read
          \<or> at_policy_decision a \<noteq> AllowInline \<and> at_status a \<noteq> SucceededAction) as"
proof -
  obtain r st where p: "execute_run_program later_services sample_run_env sample_guest empty_world 0 [] = Inr (r, st)"
    "attempts (cs_world (ps_call st)) = [waiting_action]" using sample_program by blast
  then obtain q where "drive_program later_services sample_guest (syscall_callback later_services sample_run_env)
      (initial_program sample_run_env empty_world 0 []) = Inr (q, st)" by (auto simp: execute_run_program_def)
  from untrusted_programs_only_read [OF this] p show ?thesis
    by (auto simp: initial_program_def sample_run_env_def sample_call_env_def)
qed

text \<open>
  C4. A whole program asks for at most one approval and executes nothing that needs one, whatever its
  guest says: it queues no execution, the one request it may add is pending and addressed to the actor
  of the turn, and from a store the agent can reach it leaves one the agent can reach.
\<close>

theorem programs_ask_once:
  assumes "execute_run_program rt re g w n store = Inr (r, st)" "reachable rt w"
  shows "filter (\<lambda>t. task_type t = ''execute_action_attempt'') (tasks (cs_world (ps_call st)))
       = filter (\<lambda>t. task_type t = ''execute_action_attempt'') (tasks w)
    \<and> (approvals (cs_world (ps_call st)) = approvals w
       \<or> (\<exists>ap. approvals (cs_world (ps_call st)) = approvals w @ [ap] \<and> ap_status ap = Pending
            \<and> actor_id ap = ce_actor_id (re_call re)))
    \<and> reachable rt (cs_world (ps_call st))"
proof -
  from assms(1) obtain q where d: "drive_program rt g (syscall_callback rt re) (initial_program re w n store) = Inr (q, st)"
    by (auto simp: execute_run_program_def)
  have "asks_once re w (initial_program re w n store)" by (simp add: asks_once_def initial_program_def)
  then have "asks_once re w st" by (rule drive_keeps [OF d]) (rule asking_syscall)
  moreover have "reachable rt (world_of (initial_program re w n store))" using assms(2) by (simp add: initial_program_def)
  then have "reachable rt (world_of st)"
    using drive_keeps [OF d, of "\<lambda>q. reachable rt (world_of q)"] reaching_syscall by blast
  ultimately show ?thesis by (auto simp: asks_once_def)
qed

theorem programs_ask_once_witness:
  "\<exists>r st ap. execute_run_program later_services sample_run_env sample_guest empty_world 0 [] = Inr (r, st)
     \<and> approvals (cs_world (ps_call st)) = [ap] \<and> ap_status ap = Pending \<and> reachable later_services (cs_world (ps_call st))"
proof -
  have e: "reachable later_services empty_world" by (rule reachable.start) simp_all
  obtain r st where p: "execute_run_program later_services sample_run_env sample_guest empty_world 0 [] = Inr (r, st)"
    "approvals (cs_world (ps_call st)) = [waiting_request]" using sample_program by blast
  from programs_ask_once [OF p(1) e] p show ?thesis by auto
qed

text \<open>
  C9. A call the action runtime completes is answered to the program: the two host defects
  \<open>_capability_syscall_value\<close> and \<open>execute_run_program\<close> guard against, an answer other than exactly
  one and a status outside the known ones, cannot occur. The hypothesis is that reading an answer back
  from its JSON keeps its status and the presence of its output.
\<close>

theorem completed_calls_are_answered:
  assumes "\<And>p. answerable p \<Longrightarrow> \<exists>d. json_loads (service_crypto rt)
      (py_str (service_env rt) (JStr (json_dumps rt (jsonable_encoder rt (JObj p))))) = Inr (JObj d) \<and> answerable d"
    and "process_one_call rt ((re_call re)\<lparr>ce_provenance := current_provenance st\<rparr>) (re_start re + (call_index st + 1))
      (capability_call name cid (re_start re + (call_index st + 1)) input)
      (ctx_map (\<lambda>c. c\<lparr>result_runtime_provenance := None\<rparr>) (ps_call st)) = Inr s'"
  shows "\<exists>v. call_capability rt re name cid input st = Inr (v, after_call re (call_index st + 1) s' st)"
proof -
  let ?i = "re_start re + (call_index st + 1)"
  let ?raw = "capability_call name cid ?i input"
  have call: "call_id_of (dict_or_empty ?raw) \<noteq> []"
    by (simp add: capability_call_def dict_or_empty_def call_id_of_def jget_def strip_letter)
  have p1: "process_one_call rt (tainted_env re st) ?i ?raw (fresh_result st) = Inr s'"
    using assms(2) by (simp add: tainted_env_def fresh_result_def)
  from one_answer [OF p1] call obtain p where a: "answerable p"
    and o: "function_call_outputs (cs_ctx s') = function_call_outputs (cs_ctx (ps_call st))
      @ [response_function_call_output rt (call_id_of (dict_or_empty ?raw)) p]" by auto
  from assms(1) [OF a] obtain d where d: "json_loads (service_crypto rt)
      (py_str (service_env rt) (JStr (json_dumps rt (jsonable_encoder rt (JObj p))))) = Inr (JObj d)" "answerable d" by blast
  have "map_of (dict_or_empty (response_function_call_output rt (call_id_of (dict_or_empty ?raw)) p)) ''output''
      = Some (JStr (json_dumps rt (jsonable_encoder rt (JObj p))))"
    by (simp add: response_function_call_output_def dict_or_empty_def)
  then have "\<exists>v. capability_syscall_value rt (response_function_call_output rt (call_id_of (dict_or_empty ?raw)) p) = Inr v"
    using d by (auto simp: capability_syscall_value_def dict_item_def answerable_def Let_def keys_def
        dest: weak_map_of_SomeI split: option.split)
  with p1 show ?thesis by (auto simp: call_capability_unfold o)
qed

theorem completed_calls_are_answered_witness:
  "\<exists>s v. process_one_call later_services sample_call_env 1 sample_call sample_state = Inr s
     \<and> call_capability later_services sample_run_env ''memory.note.delete'' ''cap.memory.note.delete''
         [(''id'', JStr ''n1'')] (initial_program sample_run_env empty_world 0 [])
       = Inr (v, after_call sample_run_env 1 s (initial_program sample_run_env empty_world 0 []))"
proof -
  let ?st = "initial_program sample_run_env empty_world 0 []"
  obtain s where s: "process_one_call later_services sample_call_env 1 sample_call sample_state = Inr s"
    using sample_called by blast
  have "(re_call sample_run_env)\<lparr>ce_provenance := current_provenance ?st\<rparr> = sample_call_env"
    "re_start sample_run_env + (call_index ?st + 1) = 1" "call_index ?st + 1 = 1"
    "ctx_map (\<lambda>c. c\<lparr>result_runtime_provenance := None\<rparr>) (ps_call ?st) = sample_state"
    by (simp_all add: initial_program_def sample_state_def ctx_map_def empty_context_def
        sample_run_env_def sample_call_env_def)
  moreover have "capability_call ''memory.note.delete'' ''cap.memory.note.delete'' 1 [(''id'', JStr ''n1'')] = sample_call"
  proof -
    have "decimal 1 = ''1''" by code_simp
    then show ?thesis by (simp add: capability_call_def sample_call_def)
  qed
  ultimately have p: "process_one_call later_services
      ((re_call sample_run_env)\<lparr>ce_provenance := current_provenance ?st\<rparr>)
      (re_start sample_run_env + (call_index ?st + 1))
      (capability_call ''memory.note.delete'' ''cap.memory.note.delete''
        (re_start sample_run_env + (call_index ?st + 1)) [(''id'', JStr ''n1'')])
      (ctx_map (\<lambda>c. c\<lparr>result_runtime_provenance := None\<rparr>) (ps_call ?st)) = Inr s"
    using s by simp
  have "sample_loads [] = Inr (JObj [(''status'', JStr ''approval_required'')])" by (simp add: sample_loads_def)
  then have "\<exists>d. json_loads (service_crypto later_services) (py_str (service_env later_services)
      (JStr (json_dumps later_services (jsonable_encoder later_services (JObj q))))) = Inr (JObj d) \<and> answerable d" for q
    by (intro exI [of _ "[(''status'', JStr ''approval_required'')]"]) (simp add: later_loads py_str_def)
  from completed_calls_are_answered [OF this p] s show ?thesis by (auto simp: initial_program_def)
qed




definition full_entry :: scratch_entry where
  "full_entry = \<lparr>se_value = JStr ''full'', se_provenance = None\<rparr>"

definition almost_full :: "(string \<times> scratch_entry) list" where
  "almost_full = [(''a'', full_entry), (''b'', full_entry), (''c'', full_entry), (''d'', full_entry),
     (''e'', full_entry), (''f'', full_entry), (''g'', full_entry),
     (''h'', \<lparr>se_value = JStr [], se_provenance = None\<rparr>), (''n'', \<lparr>se_value = JNull, se_provenance = None\<rparr>)]"

definition sized_env :: run_env where
  "sized_env = sample_run_env\<lparr>json_size := (\<lambda>v. if v = JNull then 4 else if v = JStr ''full'' then 512 * 1024 else 2)\<rparr>"


section \<open>Where the code falls short\<close>

text \<open>
  A null in the store is left out of the current total and yet subtracted when it is replaced, so that
  the total can pass the limit.
\<close>

theorem scratch_limit_can_be_exceeded:
  "\<exists>st input v st'. scratch_total sized_env (ps_scratch st) \<le> SCRATCH_MAX_TOTAL_BYTES
     \<and> scratch_set sized_env input st = ((True, v), st')
     \<and> scratch_total sized_env (ps_scratch st') > SCRATCH_MAX_TOTAL_BYTES"
proof -
  let ?st = "initial_program sized_env empty_world 0 almost_full"
  let ?st' = "?st\<lparr>ps_scratch := AList.update ''n'' full_entry almost_full\<rparr>"
  have "current_provenance ?st = None" by (simp add: initial_program_def sized_env_def sample_run_env_def sample_call_env_def)
  then have "scratch_set sized_env [(''key'', JStr ''n''), (''value'', JStr ''full'')] ?st = ((True, JNull), ?st')"
    by (simp add: scratch_set_def keys_are_def keys_within_def keys_def jget_def ok_answer_def initial_program_def
        almost_full_def scratch_total_def sized_env_def full_entry_def SCRATCH_MAX_VALUE_BYTES_def
        SCRATCH_MAX_TOTAL_BYTES_def Let_def)
  moreover have "scratch_total sized_env (ps_scratch ?st) \<le> SCRATCH_MAX_TOTAL_BYTES"
    "scratch_total sized_env (ps_scratch ?st') > SCRATCH_MAX_TOTAL_BYTES"
    by (simp_all add: initial_program_def almost_full_def scratch_total_def sized_env_def full_entry_def
        SCRATCH_MAX_TOTAL_BYTES_def)
  ultimately show ?thesis by blast
qed

text \<open>
  A line of the guest whose decoding raises something other than \<open>ValueError\<close>, as the recursion limit
  does for a deeply nested one, is not a protocol violation: the exception leaves the host's loop.
\<close>

theorem undecodable_lines_escape:
  assumes "length (utf8_encode line) \<le> SANDBOX_MAX_MESSAGE_BYTES"
    and "json_loads (service_crypto rt) line = Inl (RuntimeError m)"
  shows "drive_program rt (Says line c k) callback s = Inl (RuntimeError m)"
  using assms by (simp add: drive_program_def validate_guest_message_def)

end
