(* ===== verification/Task_Queue.thy ===== *)
theory Task_Queue
  imports Wake_Context Approvals
begin

text \<open>
  The worker, \<open>src/ariel/worker.py\<close>: the seeding of the recurring tasks, the choice of the next one,
  its dispatch, and what becomes of its row when it succeeds or fails; the events of coding jobs; and
  \<open>enqueue_due_memory_dream\<close> of \<open>src/ariel/memory.py\<close>.

  What a task runs in another module is a field of \<open>handlers\<close>: a step on the state of the worker that
  keeps what it has committed even when it raises.
\<close>

section \<open>State\<close>

text \<open>Columns that the worker neither reads nor writes, such as the worktree of a job, are left out.\<close>

record agency_event =
  ae_id :: string
  ae_source :: string
  ae_event_type :: string
  ae_external_job_id :: "string option"
  ae_payload :: dict
  ae_status :: string
  ae_error :: "string option"
  ae_processed_at :: "int option"

record job =
  job_id :: string
  job_source :: string
  job_external_id :: string
  job_title :: "string option"
  job_status :: string
  job_summary :: "string option"
  latest_payload :: dict
  job_created_at :: int
  job_updated_at :: int

record job_event =
  je_id :: string
  je_job_id :: string
  je_agency_event_id :: string
  je_event_type :: string
  je_payload :: dict
  je_created_at :: int

text \<open>The row of a user message that a repeated request finds its answer in.\<close>

record turn_key =
  tk_task_id :: string
  tk_turn_id :: "string option"
  tk_status_code :: "int option"
  tk_response :: json
  tk_updated_at :: int

text \<open>\<open>dream_turns\<close> are the creation times of the turns of kind \<open>memory_dream\<close>.\<close>

record worker_state =
  ws_world :: world
  agency_events :: "agency_event list"
  jobs :: "job list"
  job_events :: "job_event list"
  turn_keys :: "turn_key list"
  dream_turns :: "int list"

type_synonym effect = "worker_state \<Rightarrow> worker_state \<times> exn option"

record wake_outcome =
  wo_turn_id :: string
  wo_status_code :: int
  wo_response :: json

record handlers =
  has_runtime :: bool
  has_sandbox :: bool
  run_wake :: "wake_context \<Rightarrow> string \<Rightarrow> worker_state \<Rightarrow> worker_state \<times> (exn + wake_outcome)"
  deliver :: "wake_outcome \<Rightarrow> dict option \<Rightarrow> exn option"
  research :: "string \<Rightarrow> string \<Rightarrow> string \<Rightarrow> worker_state \<Rightarrow> worker_state \<times> (exn + research_finding)"
  execute_attempt :: "string \<Rightarrow> effect"
  reconcile_write :: "dict \<Rightarrow> effect"
  provider_event :: "dict \<Rightarrow> effect"
  provider_sync :: "dict \<Rightarrow> effect"
  rememberer :: "string \<Rightarrow> string option \<Rightarrow> string \<Rightarrow> effect"
  renew_watches :: effect
  reconcile_syncs :: effect

record worker_settings =
  provider_reconcile_sync_interval_seconds :: int
  memory_dream_interval_seconds :: int

definition on_ws :: "(world \<Rightarrow> exn + world) \<Rightarrow> worker_state \<Rightarrow> exn + worker_state" where
  "on_ws f s = proceed (f (ws_world s)) (\<lambda>w. Inr (s\<lparr>ws_world := w\<rparr>))"

text \<open>One transaction: an exception rolls it back.\<close>

definition transaction :: "(worker_state \<Rightarrow> exn + worker_state) \<Rightarrow> effect" where
  "transaction f s = (case f s of Inl e \<Rightarrow> (s, Some e) | Inr s' \<Rightarrow> (s', None))"

definition raises :: "string \<Rightarrow> effect" where
  "raises m s = (s, Some (RuntimeError m))"

section \<open>Choosing a task\<close>

text \<open>\<open>ORDER BY run_after, created_at, id\<close>\<close>

definition earlier :: "background_task \<Rightarrow> background_task \<Rightarrow> bool" where
  "earlier t u \<longleftrightarrow> run_after t < run_after u
     \<or> run_after t = run_after u \<and> (task_created_at t < task_created_at u
        \<or> task_created_at t = task_created_at u \<and> task_id t \<le> task_id u)"

fun earliest :: "background_task list \<Rightarrow> background_task option" where
  "earliest [] = None"
| "earliest (t # ts) =
     (case earliest ts of None \<Rightarrow> Some t | Some u \<Rightarrow> Some (if earlier t u then t else u))"

definition select_next_task :: "world \<Rightarrow> int \<Rightarrow> background_task option" where
  "select_next_task w now = earliest (filter (\<lambda>t. run_after t \<le> now) (tasks w))"

definition find_task :: "world \<Rightarrow> string \<Rightarrow> background_task option" where
  "find_task w i = find (\<lambda>t. task_id t = i) (tasks w)"

definition save_task :: "background_task \<Rightarrow> world \<Rightarrow> world" where
  "save_task t w = w\<lparr>tasks := map (\<lambda>u. if task_id u = task_id t then t else u) (tasks w)\<rparr>"

definition delete_task :: "string \<Rightarrow> world \<Rightarrow> world" where
  "delete_task i w = w\<lparr>tasks := filter (\<lambda>t. task_id t \<noteq> i) (tasks w)\<rparr>"

section \<open>Recurring tasks\<close>

definition PROVIDER_WATCH_RENEW_INTERVAL_SECONDS :: int where
  "PROVIDER_WATCH_RENEW_INTERVAL_SECONDS = 6 * 3600"

definition APPROVAL_EXPIRY_INTERVAL_SECONDS :: int where
  "APPROVAL_EXPIRY_INTERVAL_SECONDS = 60"

definition has_task :: "string \<Rightarrow> world \<Rightarrow> bool" where
  "has_task ty w = list_ex (\<lambda>t. task_type t = ty) (tasks w)"

text \<open>
  One worker runs, so that no row it looks for is locked by another transaction
  (\<open>skip_locked\<close>).
\<close>

definition seed_task :: "services \<Rightarrow> string \<Rightarrow> string \<Rightarrow> int \<Rightarrow> int \<Rightarrow> world \<Rightarrow> exn + world" where
  "seed_task rt ty origin recurrence now w =
     (if has_task ty w then Inr w
      else proceed (enqueue_background_task rt ty [(''origin'', JStr origin)] now None None (Some recurrence) w)
        (\<lambda>(t, w). Inr w))"

definition seed_provider_maintenance_tasks :: "services \<Rightarrow> worker_settings \<Rightarrow> int \<Rightarrow> world \<Rightarrow> exn + world" where
  "seed_provider_maintenance_tasks rt settings now w =
     proceed (seed_task rt ''provider_watch_renew_due'' ''worker_provider_maintenance''
       PROVIDER_WATCH_RENEW_INTERVAL_SECONDS now w)
     (seed_task rt ''provider_reconcile_sync_due'' ''worker_provider_maintenance''
       (provider_reconcile_sync_interval_seconds settings) now)"

definition seed_approval_expiry_task :: "services \<Rightarrow> int \<Rightarrow> world \<Rightarrow> exn + world" where
  "seed_approval_expiry_task rt now =
     seed_task rt ''expire_approvals'' ''worker_approval_expiry'' APPROVAL_EXPIRY_INTERVAL_SECONDS now"

definition enqueue_due_memory_dream ::
  "services \<Rightarrow> worker_settings \<Rightarrow> int \<Rightarrow> worker_state \<Rightarrow> exn + worker_state" where
  "enqueue_due_memory_dream rt settings now s =
     (if has_task ''memory_dream'' (ws_world s) then Inr s
      else if list_ex (\<lambda>t. t > now - memory_dream_interval_seconds settings * 1000000) (dream_turns s) then Inr s
      else on_ws (\<lambda>w. proceed (enqueue_background_task rt ''memory_dream'' [] now None None None w) (\<lambda>(t, w). Inr w)) s)"

section \<open>What becomes of the row\<close>

definition MAX_TASK_ATTEMPTS :: int where
  "MAX_TASK_ATTEMPTS = 5"

definition rearm :: "int \<Rightarrow> int \<Rightarrow> background_task \<Rightarrow> exn + background_task" where
  "rearm seconds now t =
     proceed (expiry_after seconds now) (\<lambda>due. Inr (t\<lparr>run_after := due, task_attempts := 0, task_updated_at := now\<rparr>))"

text \<open>\<open>min(300, 2 ** (attempts - 1))\<close> for an attempt count of at least one.\<close>

definition retry_delay :: "int \<Rightarrow> int" where
  "retry_delay n = min 300 (2 ^ nat (n - 1))"

definition mark_task_failed :: "services \<Rightarrow> string \<Rightarrow> world \<Rightarrow> exn + world" where
  "mark_task_failed rt i w =
     (case find_task w i of
        None \<Rightarrow> Inr w
      | Some t \<Rightarrow>
          let (now, w) = tick rt w;
              t = t\<lparr>task_attempts := task_attempts t + 1, task_updated_at := now\<rparr>
          in if task_attempts t \<ge> MAX_TASK_ATTEMPTS then
               (case recurrence_seconds t of
                  Some seconds \<Rightarrow> proceed (rearm seconds now t) (\<lambda>t. Inr (save_task t w))
                | None \<Rightarrow> Inr (delete_task i w))
             else proceed (expiry_after (retry_delay (task_attempts t)) now)
               (\<lambda>due. Inr (save_task (t\<lparr>run_after := due\<rparr>) w)))"

definition complete_task :: "services \<Rightarrow> string \<Rightarrow> world \<Rightarrow> exn + world" where
  "complete_task rt i w =
     (case find_task w i of
        None \<Rightarrow> Inr w
      | Some t \<Rightarrow>
          (case recurrence_seconds t of
             Some seconds \<Rightarrow>
               let (now, w) = tick rt w
               in proceed (rearm seconds now t) (\<lambda>t. Inr (save_task t w))
           | None \<Rightarrow> Inr (delete_task i w)))"

section \<open>Events of coding jobs\<close>

definition job_status_for_event :: "string \<Rightarrow> exn + string" where
  "job_status_for_event event_type =
     (if event_type = ''job.queued'' then Inr ''queued''
      else if List.member [''job.started'', ''job.progress''] event_type then Inr ''running''
      else if event_type = ''job.waiting'' then Inr ''waiting_approval''
      else if event_type = ''job.completed'' then Inr ''succeeded''
      else if event_type = ''job.failed'' then Inr ''failed''
      else if event_type = ''job.cancelled'' then Inr ''cancelled''
      else if event_type = ''job.timed_out'' then Inr ''timed_out''
      else Inl (RuntimeError (''unsupported agency job event type: '' @ event_type)))"

definition SETTLING_EVENTS :: "string list" where
  "SETTLING_EVENTS = [''job.waiting'', ''job.completed'', ''job.failed'', ''job.cancelled'', ''job.timed_out'']"

definition find_agency_event :: "worker_state \<Rightarrow> string \<Rightarrow> agency_event option" where
  "find_agency_event s i = find (\<lambda>e. ae_id e = i) (agency_events s)"

definition save_agency_event :: "agency_event \<Rightarrow> worker_state \<Rightarrow> worker_state" where
  "save_agency_event e s = s\<lparr>agency_events := map (\<lambda>f. if ae_id f = ae_id e then e else f) (agency_events s)\<rparr>"

definition find_job :: "worker_state \<Rightarrow> string \<Rightarrow> string \<Rightarrow> job option" where
  "find_job s source external = find (\<lambda>j. job_source j = source \<and> job_external_id j = external) (jobs s)"

definition ws_tick :: "services \<Rightarrow> worker_state \<Rightarrow> int \<times> worker_state" where
  "ws_tick rt s = (fst (tick rt (ws_world s)), s\<lparr>ws_world := snd (tick rt (ws_world s))\<rparr>)"

definition ws_fresh :: "services \<Rightarrow> string \<Rightarrow> worker_state \<Rightarrow> string \<times> worker_state" where
  "ws_fresh rt prefix s = (fst (fresh_id rt prefix (ws_world s)), s\<lparr>ws_world := snd (fresh_id rt prefix (ws_world s))\<rparr>)"

text \<open>The job of the event, new or updated. \<open>title or job.title\<close> keeps the old text.\<close>

definition kept :: "string option \<Rightarrow> string option \<Rightarrow> string option" where
  "kept new old = (case new of None \<Rightarrow> old | Some t \<Rightarrow> Some t)"

definition upsert_job ::
  "services \<Rightarrow> agency_event \<Rightarrow> string \<Rightarrow> string \<Rightarrow> int \<Rightarrow> worker_state \<Rightarrow> exn + (job \<times> worker_state)" where
  "upsert_job rt e external status now s =
     (case find_job s (ae_source e) external of
        None \<Rightarrow>
          let (new_id, s) = ws_fresh rt ''job'' s;
              j = \<lparr>job_id = new_id, job_source = ae_source e, job_external_id = external,
                job_title = payload_text (ae_payload e) ''title'', job_status = status,
                job_summary = payload_text (ae_payload e) ''summary'', latest_payload = ae_payload e,
                job_created_at = now, job_updated_at = now\<rparr>
          in if list_ex (\<lambda>k. job_id k = new_id) (jobs s) then Inl IntegrityError
             else Inr (j, s\<lparr>jobs := jobs s @ [j]\<rparr>)
      | Some j \<Rightarrow>
          let k = j\<lparr>job_status := status, job_title := kept (payload_text (ae_payload e) ''title'') (job_title j),
                job_summary := kept (payload_text (ae_payload e) ''summary'') (job_summary j),
                latest_payload := ae_payload e, job_updated_at := now\<rparr>
          in Inr (k, s\<lparr>jobs := map (\<lambda>q. if job_id q = job_id k then k else q) (jobs s)\<rparr>))"

definition add_job_event :: "services \<Rightarrow> agency_event \<Rightarrow> job \<Rightarrow> int \<Rightarrow> worker_state \<Rightarrow> exn + worker_state" where
  "add_job_event rt e j now s =
     (let (new_id, s) = ws_fresh rt ''jev'' s;
          je = \<lparr>je_id = new_id, je_job_id = job_id j, je_agency_event_id = ae_id e,
            je_event_type = ae_event_type e, je_payload = ae_payload e, je_created_at = now\<rparr>
      in if list_ex (\<lambda>k. je_id k = new_id \<or> je_agency_event_id k = ae_id e) (job_events s) then Inl IntegrityError
         else Inr (s\<lparr>job_events := job_events s @ [je]\<rparr>))"

definition job_note :: "job \<Rightarrow> string \<Rightarrow> string" where
  "job_note j status =
     ''The coding job '' @ [CHR 0x27]
     @ (case job_title j of None \<Rightarrow> job_external_id j | Some t \<Rightarrow> if t = [] then job_external_id j else t)
     @ [CHR 0x27] @ '' is now '' @ status @ ''. Review it and decide whether to inform the user.''"

text \<open>A job that settles wakes the agent.\<close>

definition wake_for_job ::
  "services \<Rightarrow> agency_event \<Rightarrow> job \<Rightarrow> string \<Rightarrow> int \<Rightarrow> worker_state \<Rightarrow> exn + worker_state" where
  "wake_for_job rt e j status now s =
     (if List.member SETTLING_EVENTS (ae_event_type e)
      then on_ws (\<lambda>w. proceed (enqueue_background_task rt ''agent_wake'' [(''note'', JStr (job_note j status))]
             now None None None w) (\<lambda>(t, w). Inr w)) s
      else Inr s)"

definition apply_job_event ::
  "services \<Rightarrow> agency_event \<Rightarrow> string \<Rightarrow> int \<Rightarrow> worker_state \<Rightarrow> exn + worker_state" where
  "apply_job_event rt e external now s =
     proceed (job_status_for_event (ae_event_type e)) (\<lambda>status.
     proceed (upsert_job rt e external status now s) (\<lambda>(j, s).
     proceed (add_job_event rt e j now s) (\<lambda>s.
     proceed (wake_for_job rt e j status now s) (\<lambda>s.
     Inr (save_agency_event (e\<lparr>ae_status := ''processed'', ae_processed_at := Some now\<rparr>) s)))))"

definition process_agency_event_received ::
  "services \<Rightarrow> dict \<Rightarrow> worker_state \<Rightarrow> exn + worker_state" where
  "process_agency_event_received rt payload s =
     (case payload_text payload ''agency_event_id'' of
        None \<Rightarrow> Inl (RuntimeError ''agency_event_received task missing agency_event_id'')
      | Some i \<Rightarrow>
         (case find_agency_event s i of
            None \<Rightarrow> Inl (RuntimeError ''agency event not found'')
          | Some e \<Rightarrow>
              if ae_processed_at e \<noteq> None then Inr s
              else
                let (now, s) = ws_tick rt s
                in if ae_event_type e = ''heartbeat''
                   then Inr (save_agency_event (e\<lparr>ae_status := ''processed'', ae_processed_at := Some now\<rparr>) s)
                   else case ae_external_job_id e of
                     None \<Rightarrow> Inr (save_agency_event (e\<lparr>ae_status := ''failed'',
                       ae_error := Some ''job event missing external_job_id'', ae_processed_at := Some now\<rparr>) s)
                   | Some external \<Rightarrow> apply_job_event rt e external now s))"

section \<open>Dispatch\<close>

text \<open>A step that may have committed, then the rest unless it raised.\<close>

definition after :: "worker_state \<times> (exn + 'a) \<Rightarrow> ('a \<Rightarrow> effect) \<Rightarrow> worker_state \<times> exn option" where
  "after r k = (case r of (s, Inl e) \<Rightarrow> (s, Some e) | (s, Inr v) \<Rightarrow> k v s)"

definition run_agent_wake :: "services \<Rightarrow> handlers \<Rightarrow> string \<Rightarrow> dict \<Rightarrow> effect" where
  "run_agent_wake rt h i payload s =
     (if \<not> has_runtime h then raises ''agent_wake task requires a configured runtime'' s
      else case agent_wake_context rt payload of
        Inl e \<Rightarrow> (s, Some e)
      | Inr context \<Rightarrow> after (run_wake h context i s) (\<lambda>out s. (s, deliver h out None)) )"

definition record_outcome :: "services \<Rightarrow> string \<Rightarrow> wake_outcome \<Rightarrow> worker_state \<Rightarrow> worker_state" where
  "record_outcome rt i out s =
     (if list_ex (\<lambda>k. tk_task_id k = i) (turn_keys s)
      then let (now, s) = ws_tick rt s
           in s\<lparr>turn_keys := map (\<lambda>k. if tk_task_id k = i
                  then k\<lparr>tk_turn_id := Some (wo_turn_id out), tk_status_code := Some (wo_status_code out),
                    tk_response := wo_response out, tk_updated_at := now\<rparr> else k) (turn_keys s)\<rparr>
      else s)"

definition run_user_message :: "services \<Rightarrow> handlers \<Rightarrow> string \<Rightarrow> dict \<Rightarrow> effect" where
  "run_user_message rt h i payload s =
     (if \<not> has_runtime h then raises ''user_message task requires a configured runtime'' s
      else case payload_text payload ''message'' of
        None \<Rightarrow> raises ''user_message task payload invalid'' s
      | Some message \<Rightarrow>
          let discord = as_dict (jget payload ''discord_context'');
              context = \<lparr>trigger_kind = UserMessage, prompt_text = message, discord_context = discord,
                attachment_sources = as_list (jget payload ''attachment_sources''), ingress_provenance = None\<rparr>
          in after (run_wake h context i s) (\<lambda>out s. (record_outcome rt i out s, deliver h out discord)))"

definition finding_payload :: "research_finding \<Rightarrow> dict" where
  "finding_payload f =
     [(''research_finding'', JObj [(''question'', JStr (rf_question f)), (''mode'', JStr (rf_mode f)),
        (''status'', JStr (rf_status f)), (''summary'', JStr (rf_summary f)), (''claims'', JArr (rf_claims f)),
        (''gaps'', JArr (rf_gaps f)), (''sources'', JArr (rf_sources f))])]"

definition process_research_run :: "services \<Rightarrow> handlers \<Rightarrow> string \<Rightarrow> dict \<Rightarrow> effect" where
  "process_research_run rt h i payload s =
     (case (payload_text payload ''question'', payload_text payload ''mode'') of
        (Some question, Some mode) \<Rightarrow>
          if \<not> List.member [''web'', ''personal'', ''memories''] mode then raises ''research_run task payload invalid'' s
          else if \<not> has_sandbox h then raises ''worker requires runtime.sandbox; worker.main() must call build_runtime(sandbox=SandboxRuntime())'' s
          else after (research h question mode i s) (\<lambda>f. transaction (\<lambda>s.
            let (now, s) = ws_tick rt s
            in on_ws (\<lambda>w. proceed (enqueue_background_task rt ''agent_wake'' (finding_payload f) now
                 (Some (''research_completion:'' @ i)) None None w) (\<lambda>(t, w). Inr w)) s))
      | _ \<Rightarrow> raises ''research_run task payload invalid'' s)"

definition run_rememberer :: "handlers \<Rightarrow> string \<Rightarrow> string option \<Rightarrow> string \<Rightarrow> effect" where
  "run_rememberer h kind note i s =
     (if \<not> has_sandbox h then raises ''worker requires runtime.sandbox; worker.main() must call build_runtime(sandbox=SandboxRuntime())'' s
      else rememberer h kind note i s)"

definition run_task :: "services \<Rightarrow> handlers \<Rightarrow> string \<Rightarrow> string \<Rightarrow> dict \<Rightarrow> effect" where
  "run_task rt h i ty payload s =
     (if ty = ''agency_event_received'' then transaction (process_agency_event_received rt payload) s
      else if ty = ''agent_wake'' then run_agent_wake rt h i payload s
      else if ty = ''research_run'' then
        (if \<not> has_runtime h then raises ''research_run task requires a configured runtime'' s
         else process_research_run rt h i payload s)
      else if ty = ''user_message'' then run_user_message rt h i payload s
      else if ty = ''execute_action_attempt'' then
        (case payload_text payload ''action_attempt_id'' of
           None \<Rightarrow> raises ''execute_action_attempt task missing action_attempt_id'' s
         | Some a \<Rightarrow> execute_attempt h a s)
      else if ty = ''provider_write_reconcile_due'' then
        (case payload_text payload ''shape_error'' of
           Some e \<Rightarrow> raises e s
         | None \<Rightarrow> reconcile_write h payload s)
      else if ty = ''expire_approvals'' then
        transaction (on_ws (\<lambda>w. proceed (reconcile_expired_approvals rt w) (\<lambda>(n, w). Inr w))) s
      else if ty = ''provider_event_received'' then provider_event h payload s
      else if ty = ''provider_sync_due'' then provider_sync h payload s
      else if ty = ''memory_encode'' then
        (if \<not> has_runtime h then raises ''memory_encode task requires a configured runtime'' s
         else case payload_text payload ''note'' of
           None \<Rightarrow> raises ''memory_encode task missing note'' s
         | Some note \<Rightarrow> run_rememberer h ''encode'' (Some note) i s)
      else if ty = ''memory_dream'' then
        (if \<not> has_runtime h then raises ''memory_dream task requires a configured runtime'' s
         else run_rememberer h ''dream'' None i s)
      else if ty = ''provider_watch_renew_due'' then renew_watches h s
      else if ty = ''provider_reconcile_sync_due'' then reconcile_syncs h s
      else raises (''background task type is not dispatched: '' @ ty) s)"

text \<open>The payload a task runs with, or the fault of its row.\<close>

definition task_shape :: "background_task \<Rightarrow> string + dict" where
  "task_shape t =
     (if task_type t = ''provider_write_reconcile_due'' then
        (case provider_write_receipt_id t of
           None \<Rightarrow> Inl ''provider_write_reconcile_due task shape invalid''
         | Some receipt \<Rightarrow>
             let expected = ''provider_write_reconcile:'' @ receipt
             in if idempotency_key t \<noteq> Some expected
                then Inl ''provider_write_reconcile_due task idempotency mismatch''
                else if as_dict (task_payload t) = None then Inl (task_type t @ '' task payload invalid'')
                else Inr [(''provider_write_receipt_id'', JStr receipt), (''idempotency_key'', JStr expected)])
      else case as_dict (task_payload t) of
        None \<Rightarrow> Inl (task_type t @ '' task payload invalid'')
      | Some d \<Rightarrow> Inr d)"

definition seed_tasks :: "services \<Rightarrow> worker_settings \<Rightarrow> worker_state \<Rightarrow> exn + worker_state" where
  "seed_tasks rt settings s =
     (let (now, s) = ws_tick rt s
      in proceed (enqueue_due_memory_dream rt settings now s) (\<lambda>s.
         on_ws (\<lambda>w. proceed (seed_provider_maintenance_tasks rt settings now w) (seed_approval_expiry_task rt now)) s))"

text \<open>
  One round of the worker: \<open>False\<close> when no task was due. An exception outside the task's own run
  leaves the round with what was committed.
\<close>

definition process_one_task ::
  "services \<Rightarrow> handlers \<Rightarrow> worker_settings \<Rightarrow> worker_state \<Rightarrow> worker_state \<times> (exn + bool)" where
  "process_one_task rt h settings s =
     (case seed_tasks rt settings s of
        Inl e \<Rightarrow> (s, Inl e)
      | Inr s \<Rightarrow>
          let (now, s) = ws_tick rt s
          in case select_next_task (ws_world s) now of
               None \<Rightarrow> (s, Inr False)
             | Some t \<Rightarrow>
                 let (s, failure) = (case task_shape t of
                       Inl e \<Rightarrow> raises e s
                     | Inr payload \<Rightarrow> run_task rt h (task_id t) (task_type t) payload s);
                     settle = (if failure = None then complete_task else mark_task_failed)
                 in case on_ws (settle rt (task_id t)) s of
                      Inl e \<Rightarrow> (s, Inl e)
                    | Inr s \<Rightarrow> (s, Inr True))"

end
