(* ===== verification/Task_Rows.thy ===== *)
theory Task_Rows
  imports Task_Queue
begin

text \<open>
  The rows of the queue over a round of the worker: the order they are taken in, the failures of one, the
  rows of the recurring tasks, and what the steps of a round leave alone.
\<close>

section \<open>The tables\<close>

interpretation task_table: keyed_table task_id tasks find_task save_task
  by unfold_locales (simp_all add: find_task_def save_task_def)

interpretation agency_table: keyed_table ae_id agency_events find_agency_event save_agency_event
  by unfold_locales (simp_all add: find_agency_event_def save_agency_event_def)

lemma find_task_tick [simp]: "find_task (snd (tick rt w)) i = find_task w i"
  by (simp add: find_task_def)

lemma find_deleted [simp]: "find_task (delete_task i w) i = None"
  by (simp add: find_task_def delete_task_def find_None_iff)

section \<open>The earliest task\<close>

lemma earlier_refl [simp]: "earlier t t"
  by (simp add: earlier_def)

lemma earlier_trans: "earlier t u \<Longrightarrow> earlier u v \<Longrightarrow> earlier t v"
  by (auto simp: earlier_def)

lemma earlier_total: "\<not> earlier t u \<Longrightarrow> earlier u t"
  by (auto simp: earlier_def)

lemma earliest_None [simp]: "earliest ts = None \<longleftrightarrow> ts = []"
  by (cases ts) (auto split: option.split)

lemma earliest_Some: "earliest ts = Some t \<Longrightarrow> t \<in> set ts \<and> (\<forall>u \<in> set ts. earlier t u)"
proof (induction ts arbitrary: t)
  case (Cons x xs)
  show ?case
  proof (cases "earliest xs")
    case None
    with Cons.prems show ?thesis by simp
  next
    case (Some u)
    with Cons.IH [OF Some] Cons.prems show ?thesis
      by (auto split: if_split_asm intro: earlier_trans earlier_total)
  qed
qed simp

section \<open>Failing tasks\<close>

text \<open>The clock of the services stays where five more minutes can be added.\<close>

definition clock_in_range :: "services \<Rightarrow> bool" where
  "clock_in_range rt \<longleftrightarrow>
     (\<forall>n. 86400000000 \<le> now_at rt n \<and> now_at rt n + 300000000 < (max_ordinal + 1) * 86400000000)"

lemma expiry_in_range:
  assumes "clock_in_range rt" "0 \<le> seconds" "seconds \<le> 300"
  shows "expiry_after seconds (now_at rt n) = Inr (now_at rt n + seconds * 1000000)"
proof -
  let ?u = "now_at rt n + seconds * 1000000"
  have "86400000000 \<le> now_at rt n" "now_at rt n + 300000000 < (max_ordinal + 1) * 86400000000"
    using assms(1) by (auto simp: clock_in_range_def)
  then have "86400000000 \<le> ?u" "?u < (max_ordinal + 1) * 86400000000" using assms(2,3) by auto
  then have "1 \<le> ?u div 86400000000" "?u div 86400000000 \<le> max_ordinal"
    by (simp_all add: le_div_geq div_less_iff_less_mult flip: zless_iff_Suc_zadd)
  then show ?thesis by (simp add: expiry_after_def of_micros_def Let_def split_beta)
qed

lemma retry_delay_bounds: "0 < retry_delay n" "retry_delay n \<le> 300"
  by (simp_all add: retry_delay_def min_def)

text \<open>One failure of a one-shot task.\<close>

lemma one_failure:
  assumes f: "find_task w i = Some t" and r: "recurrence_seconds t = None" and c: "clock_in_range rt"
  shows "\<exists>w'. mark_task_failed rt i w = Inr w'
    \<and> (if task_attempts t + 1 \<ge> MAX_TASK_ATTEMPTS then find_task w' i = None
       else \<exists>now. find_task w' i = Some (t\<lparr>task_attempts := task_attempts t + 1, task_updated_at := now,
         run_after := now + retry_delay (task_attempts t + 1) * 1000000\<rparr>))"
proof (cases "task_attempts t + 1 \<ge> MAX_TASK_ATTEMPTS")
  case True
  with f r show ?thesis by (simp add: mark_task_failed_def Let_def split_beta)
next
  case False
  let ?now = "now_at rt (clock w)"
  let ?t = "t\<lparr>task_attempts := task_attempts t + 1, task_updated_at := ?now,
    run_after := ?now + retry_delay (task_attempts t + 1) * 1000000\<rparr>"
  have "task_id t = i" using task_table.lookup_Some [OF f] by simp
  then have "find_task (save_task ?t (snd (tick rt w))) i = Some ?t"
    using f by (simp add: task_table.lookup_save)
  with False f show ?thesis
    using expiry_in_range [OF c, of "retry_delay (task_attempts t + 1)"] retry_delay_bounds [of "task_attempts t + 1"]
    by (auto simp: mark_task_failed_def Let_def split_beta less_imp_le)
qed

text \<open>\<open>n\<close> failures in a row.\<close>

abbreviation fails :: "services \<Rightarrow> string \<Rightarrow> world \<Rightarrow> world \<Rightarrow> bool" where
  "fails rt i w w' \<equiv> mark_task_failed rt i w = Inr w'"

lemma failures_so_far:
  assumes "find_task w i = Some t" "recurrence_seconds t = None" "clock_in_range rt"
    and "0 \<le> task_attempts t" "task_attempts t + int n < MAX_TASK_ATTEMPTS"
  shows "\<exists>w' t'. (fails rt i ^^ n) w w' \<and> find_task w' i = Some t' \<and> recurrence_seconds t' = None
    \<and> task_attempts t' = task_attempts t + int n"
  using assms(5)
proof (induction n)
  case 0
  with assms show ?case by auto
next
  case (Suc n)
  then obtain w' t' where w': "(fails rt i ^^ n) w w'" "find_task w' i = Some t'" "recurrence_seconds t' = None"
    "task_attempts t' = task_attempts t + int n" by auto
  from one_failure [OF w'(2,3) assms(3)] Suc.prems w'(4) obtain v now where
    v: "mark_task_failed rt i w' = Inr v" "find_task v i = Some (t'\<lparr>task_attempts := task_attempts t' + 1,
      task_updated_at := now, run_after := now + retry_delay (task_attempts t' + 1) * 1000000\<rparr>)"
    by auto
  from w'(1) v(1) have "(fails rt i ^^ Suc n) w v" by auto
  with v(2) w'(3,4) show ?case by auto
qed

section \<open>Recurring tasks\<close>

definition MAINTENANCE :: "string list" where
  "MAINTENANCE = [''provider_watch_renew_due'', ''provider_reconcile_sync_due'', ''expire_approvals'']"

definition rows_of :: "string \<Rightarrow> world \<Rightarrow> background_task list" where
  "rows_of ty w = filter (\<lambda>t. task_type t = ty) (tasks w)"

definition single_row :: "string \<Rightarrow> world \<Rightarrow> bool" where
  "single_row ty w \<longleftrightarrow> (\<exists>t. rows_of ty w = [t] \<and> recurrence_seconds t \<noteq> None)"

definition spare_row :: "string \<Rightarrow> world \<Rightarrow> bool" where
  "spare_row ty w \<longleftrightarrow> rows_of ty w = [] \<or> single_row ty w"

definition task_ids_distinct :: "world \<Rightarrow> bool" where
  "task_ids_distinct w \<longleftrightarrow> distinct (map task_id (tasks w))"

text \<open>What a step of another module must keep: ids stay distinct, and it leaves the recurring rows alone.\<close>

definition undisturbed :: "world \<Rightarrow> world \<Rightarrow> bool" where
  "undisturbed w w' \<longleftrightarrow> (task_ids_distinct w \<longrightarrow> task_ids_distinct w')
     \<and> list_all (\<lambda>ty. rows_of ty w' = rows_of ty w) MAINTENANCE"

lemma undisturbed_refl [simp]: "undisturbed w w"
  by (simp add: undisturbed_def list_all_iff)

lemma undisturbed_trans: "undisturbed w w' \<Longrightarrow> undisturbed w' w'' \<Longrightarrow> undisturbed w w''"
  by (simp add: undisturbed_def list_all_iff)

lemma undisturbed_tasks: "tasks w' = tasks w \<Longrightarrow> undisturbed w w'"
  by (simp add: undisturbed_def list_all_iff rows_of_def task_ids_distinct_def)

lemma enqueued:
  assumes "enqueue_background_task rt ty p now k after_time r w = Inr (t, w')"
  shows "tasks w' = tasks w \<or> tasks w' = tasks w @ [t] \<and> task_type t = ty \<and> recurrence_seconds t = r
    \<and> list_all (\<lambda>u. task_id u \<noteq> task_id t) (tasks w)"
  using assms
  by (auto simp: enqueue_background_task_def Let_def split_beta list_ex_iff list_all_iff
      split: option.split_asm if_split_asm)

lemma enqueued_undisturbed:
  assumes "enqueue_background_task rt ty p now k after_time r w = Inr (t, w')" "ty \<notin> set MAINTENANCE"
  shows "undisturbed w w'"
  using enqueued [OF assms(1)]
proof
  assume "tasks w' = tasks w"
  then show ?thesis by (rule undisturbed_tasks)
next
  assume "tasks w' = tasks w @ [t] \<and> task_type t = ty \<and> recurrence_seconds t = r
    \<and> list_all (\<lambda>u. task_id u \<noteq> task_id t) (tasks w)"
  with assms(2) show ?thesis
    by (auto simp: undisturbed_def list_all_iff rows_of_def task_ids_distinct_def)
qed

lemma seeded:
  assumes "seed_task rt ty origin r now w = Inr w'" "spare_row ty w" "task_ids_distinct w"
  shows "single_row ty w' \<and> task_ids_distinct w' \<and> (\<forall>ty'. ty' \<noteq> ty \<longrightarrow> rows_of ty' w' = rows_of ty' w)"
proof (cases "has_task ty w")
  case True
  then have "rows_of ty w \<noteq> []" by (auto simp: has_task_def rows_of_def list_ex_iff filter_empty_conv)
  with assms True show ?thesis by (auto simp: seed_task_def spare_row_def)
next
  case False
  then have none: "rows_of ty w = []" by (auto simp: has_task_def rows_of_def list_ex_iff filter_empty_conv)
  from False assms(1) obtain t where e: "enqueue_background_task rt ty [(''origin'', JStr origin)] now None None (Some r) w = Inr (t, w')"
    by (auto simp: seed_task_def)
  then have "tasks w' = tasks w @ [t] \<and> task_type t = ty \<and> recurrence_seconds t = Some r
      \<and> list_all (\<lambda>u. task_id u \<noteq> task_id t) (tasks w)"
    by (auto simp: enqueue_background_task_def Let_def split_beta list_ex_iff list_all_iff
        split: option.split_asm if_split_asm)
  with none assms(3) show ?thesis
    by (auto simp: single_row_def rows_of_def task_ids_distinct_def list_all_iff)
qed

lemma single_is_spare: "single_row ty w \<Longrightarrow> spare_row ty w"
  by (simp add: spare_row_def)

lemma rows_cong: "rows_of ty w' = rows_of ty w \<Longrightarrow> single_row ty w' = single_row ty w \<and> spare_row ty w' = spare_row ty w"
  by (simp add: single_row_def spare_row_def)

definition maintained :: "world \<Rightarrow> bool" where
  "maintained w \<longleftrightarrow> task_ids_distinct w \<and> list_all (\<lambda>ty. single_row ty w) MAINTENANCE"

lemma maintained_undisturbed: "maintained w \<Longrightarrow> undisturbed w w' \<Longrightarrow> maintained w'"
  unfolding maintained_def undisturbed_def list_all_iff using rows_cong by blast

lemma seeds_maintain:
  assumes "seed_tasks rt settings s = Inr s'" "task_ids_distinct (ws_world s)"
    and "list_all (\<lambda>ty. spare_row ty (ws_world s)) MAINTENANCE"
  shows "maintained (ws_world s')"
proof -
  let ?now = "fst (tick rt (ws_world s))" let ?w = "snd (tick rt (ws_world s))"
  from assms(1) obtain s1 where s1: "enqueue_due_memory_dream rt settings ?now (snd (ws_tick rt s)) = Inr s1"
    and s': "on_ws (\<lambda>w. proceed (seed_provider_maintenance_tasks rt settings ?now w) (seed_approval_expiry_task rt ?now)) s1 = Inr s'"
    by (auto simp: seed_tasks_def ws_tick_def)
  have "undisturbed ?w (ws_world s1)"
    using s1 enqueued_undisturbed
    by (auto simp: enqueue_due_memory_dream_def ws_tick_def on_ws_def MAINTENANCE_def split: if_split_asm)
  then have "undisturbed (ws_world s) (ws_world s1)"
    by (rule undisturbed_trans [rotated]) (rule undisturbed_tasks, simp)
  with assms(2,3) have w1: "task_ids_distinct (ws_world s1)" "\<forall>ty \<in> set MAINTENANCE. spare_row ty (ws_world s1)"
    unfolding undisturbed_def list_all_iff using rows_cong by blast+
  from s' obtain w2 w3 where
    w2: "seed_task rt ''provider_watch_renew_due'' ''worker_provider_maintenance''
       PROVIDER_WATCH_RENEW_INTERVAL_SECONDS ?now (ws_world s1) = Inr w2"
    and w3: "seed_task rt ''provider_reconcile_sync_due'' ''worker_provider_maintenance''
       (provider_reconcile_sync_interval_seconds settings) ?now w2 = Inr w3"
    and w4: "seed_task rt ''expire_approvals'' ''worker_approval_expiry'' APPROVAL_EXPIRY_INTERVAL_SECONDS ?now w3
       = Inr (ws_world s')"
    by (auto simp: on_ws_def seed_provider_maintenance_tasks_def seed_approval_expiry_task_def)
  have 1: "spare_row ''provider_watch_renew_due'' (ws_world s1)" "spare_row ''provider_reconcile_sync_due'' (ws_world s1)"
    "spare_row ''expire_approvals'' (ws_world s1)" using w1(2) by (simp_all add: MAINTENANCE_def)
  note a = seeded [OF w2 1(1) w1(1)]
  then have 2: "spare_row ''provider_reconcile_sync_due'' w2" "spare_row ''expire_approvals'' w2" "task_ids_distinct w2"
    using 1 rows_cong [of _ w2 "ws_world s1"] by simp_all
  note b = seeded [OF w3 2(1,3)]
  then have 3: "single_row ''provider_watch_renew_due'' w3" "spare_row ''expire_approvals'' w3" "task_ids_distinct w3"
    using a 2 rows_cong [of _ w3 w2] by simp_all
  note c = seeded [OF w4 3(2,3)]
  then have "single_row ''provider_watch_renew_due'' (ws_world s')" "single_row ''provider_reconcile_sync_due'' (ws_world s')"
    using b 3 rows_cong [of _ "ws_world s'" w3] by simp_all
  with c show ?thesis by (simp add: maintained_def MAINTENANCE_def)
qed

section \<open>A round\<close>

definition calm :: "effect \<Rightarrow> bool" where
  "calm f \<longleftrightarrow> (\<forall>s. undisturbed (ws_world s) (ws_world (fst (f s))))"

definition modest_handlers :: "handlers \<Rightarrow> bool" where
  "modest_handlers h \<longleftrightarrow>
     (\<forall>c i s. undisturbed (ws_world s) (ws_world (fst (run_wake h c i s))))
     \<and> (\<forall>q m i s. undisturbed (ws_world s) (ws_world (fst (research h q m i s))))
     \<and> (\<forall>a. calm (execute_attempt h a)) \<and> (\<forall>p. calm (reconcile_write h p)) \<and> (\<forall>p. calm (provider_event h p))
     \<and> (\<forall>p. calm (provider_sync h p)) \<and> (\<forall>k note i. calm (rememberer h k note i))
     \<and> calm (renew_watches h) \<and> calm (reconcile_syncs h)"

lemma calm_raises [simp]: "undisturbed (ws_world s) (ws_world (fst (raises m s)))"
  by (simp add: raises_def)

lemma calm_transaction:
  assumes "\<And>s'. f s = Inr s' \<Longrightarrow> undisturbed (ws_world s) (ws_world s')"
  shows "undisturbed (ws_world s) (ws_world (fst (transaction f s)))"
  using assms by (auto simp: transaction_def split: sum.split)

lemma calm_after:
  assumes "undisturbed (ws_world s) (ws_world (fst r))" "\<And>v q. undisturbed (ws_world q) (ws_world (fst (k v q)))"
  shows "undisturbed (ws_world s) (ws_world (fst (after r k)))"
  using assms undisturbed_trans by (auto simp: after_def split: prod.split sum.split)

lemma record_outcome_tasks: "tasks (ws_world (record_outcome rt i out s)) = tasks (ws_world s)"
  by (simp add: record_outcome_def ws_tick_def Let_def)

lemma reconcile_tasks:
  "reconcile_each rt now aps n w = Inr (m, w') \<Longrightarrow> tasks w' = tasks w"
  by (induction aps arbitrary: n w)
    (auto simp: mark_approval_expired_def Let_def save_approval_def save_attempt_def split: option.split_asm if_split_asm)

lemma expiry_undisturbed:
  assumes "on_ws (\<lambda>w. proceed (reconcile_expired_approvals rt w) (\<lambda>(n, w). Inr w)) s = Inr s'"
  shows "undisturbed (ws_world s) (ws_world s')"
  using assms reconcile_tasks
  by (intro undisturbed_tasks) (fastforce simp: on_ws_def reconcile_expired_approvals_def Let_def split_beta)

lemma job_steps_tasks:
  "upsert_job rt e x status now s = Inr (j, s') \<Longrightarrow> tasks (ws_world s') = tasks (ws_world s)"
  "add_job_event rt e j now s = Inr s' \<Longrightarrow> tasks (ws_world s') = tasks (ws_world s)"
  by (auto simp: upsert_job_def add_job_event_def ws_fresh_def Let_def split: option.split_asm if_split_asm)

lemma wake_undisturbed:
  assumes "on_ws (\<lambda>w. proceed (enqueue_background_task rt ''agent_wake'' p now k a r w) (\<lambda>(t, w). Inr w)) s = Inr s'"
  shows "undisturbed (ws_world s) (ws_world s')"
proof -
  from assms obtain t where "enqueue_background_task rt ''agent_wake'' p now k a r (ws_world s) = Inr (t, ws_world s')"
    by (auto simp: on_ws_def)
  then show ?thesis by (rule enqueued_undisturbed) (simp add: MAINTENANCE_def)
qed

lemma agency_undisturbed:
  assumes "process_agency_event_received rt payload s = Inr s'"
  shows "undisturbed (ws_world s) (ws_world s')"
proof -
  have tick: "undisturbed (ws_world s) (ws_world (snd (ws_tick rt s)))"
    by (rule undisturbed_tasks) (simp add: ws_tick_def)
  have save: "ws_world (save_agency_event e q) = ws_world q" for e q by (simp add: save_agency_event_def)
  have "undisturbed (ws_world q) (ws_world s')" if j: "apply_job_event rt e x now q = Inr s'" for e x now q
  proof -
    from j obtain status k s1 s2 s3 where u: "upsert_job rt e x status now q = Inr (k, s1)"
      and a: "add_job_event rt e k now s1 = Inr s2" and w: "wake_for_job rt e k status now s2 = Inr s3"
      and s': "ws_world s' = ws_world s3"
      by (auto simp: apply_job_event_def save)
    have "undisturbed (ws_world q) (ws_world s2)"
      using job_steps_tasks(1) [OF u] job_steps_tasks(2) [OF a] by (intro undisturbed_tasks) simp
    moreover have "undisturbed (ws_world s2) (ws_world s3)"
      using w wake_undisturbed by (auto simp: wake_for_job_def split: if_split_asm)
    ultimately show ?thesis unfolding s' by (rule undisturbed_trans)
  qed
  with assms tick show ?thesis
    by (auto simp: process_agency_event_received_def Let_def split_beta save split: option.split_asm if_split_asm
        intro: undisturbed_trans)
qed

lemma research_undisturbed:
  assumes "modest_handlers h"
  shows "undisturbed (ws_world s) (ws_world (fst (process_research_run rt h i payload s)))"
proof -
  have "undisturbed (ws_world q) (ws_world (fst (transaction (\<lambda>s.
            let (now, s) = ws_tick rt s
            in on_ws (\<lambda>w. proceed (enqueue_background_task rt ''agent_wake'' (finding_payload f) now
                 (Some (''research_completion:'' @ i)) None None w) (\<lambda>(t, w). Inr w)) s) q)))" for f q
  proof (rule calm_transaction)
    fix s'
    assume "(let (now, s) = ws_tick rt q
        in on_ws (\<lambda>w. proceed (enqueue_background_task rt ''agent_wake'' (finding_payload f) now
             (Some (''research_completion:'' @ i)) None None w) (\<lambda>(t, w). Inr w)) s) = Inr s'"
    then have "undisturbed (ws_world (snd (ws_tick rt q))) (ws_world s')"
      by (auto simp: split_beta dest: wake_undisturbed)
    moreover have "undisturbed (ws_world q) (ws_world (snd (ws_tick rt q)))"
      by (rule undisturbed_tasks) (simp add: ws_tick_def)
    ultimately show "undisturbed (ws_world q) (ws_world s')" by (rule undisturbed_trans [rotated])
  qed
  with assms show ?thesis
    by (auto simp: process_research_run_def modest_handlers_def split: option.split intro!: calm_after)
qed

lemma run_task_undisturbed:
  assumes h: "modest_handlers h"
  shows "undisturbed (ws_world s) (ws_world (fst (run_task rt h i ty payload s)))"
proof -
  have "undisturbed (ws_world s) (ws_world (fst (run_agent_wake rt h i payload s)))"
    using h by (auto simp: run_agent_wake_def modest_handlers_def split: sum.split intro!: calm_after)
  moreover have "undisturbed (ws_world s) (ws_world (fst (run_user_message rt h i payload s)))"
    using h undisturbed_tasks [OF record_outcome_tasks]
    by (auto simp: run_user_message_def modest_handlers_def Let_def split: option.split intro!: calm_after)
  moreover have "undisturbed (ws_world s) (ws_world (fst (run_rememberer h k nt i s)))" for k nt
    using h by (auto simp: run_rememberer_def modest_handlers_def calm_def)
  moreover have "undisturbed (ws_world s) (ws_world (fst (transaction (process_agency_event_received rt payload) s)))"
    by (rule calm_transaction) (rule agency_undisturbed)
  moreover have "undisturbed (ws_world s) (ws_world (fst (transaction (on_ws (\<lambda>w. proceed (reconcile_expired_approvals rt w)
      (\<lambda>(n, w). Inr w))) s)))"
    by (rule calm_transaction) (rule expiry_undisturbed)
  moreover note research_undisturbed [OF h]
  ultimately show ?thesis
    using h unfolding run_task_def
    by (auto simp: modest_handlers_def calm_def split: option.split)
qed

section \<open>The row is settled\<close>

lemma saved_maintained:
  assumes m: "maintained w" and t: "find_task w i = Some t"
    and u: "task_id u = task_id t" "task_type u = task_type t" "recurrence_seconds u = recurrence_seconds t"
  shows "maintained (save_task u w)"
proof -
  let ?f = "\<lambda>q. if task_id q = task_id u then u else q"
  have tw: "t \<in> set (tasks w)" using task_table.lookup_Some [OF t] by simp
  have d: "distinct (map task_id (tasks w))" using m by (simp add: maintained_def task_ids_distinct_def)
  have eq: "task_id q = task_id u \<longleftrightarrow> q = t" if "q \<in> set (tasks w)" for q
    using d tw that u(1) by (auto simp: distinct_map inj_on_def)
  have rows: "rows_of ty (save_task u w) = map ?f (rows_of ty w)" for ty
  proof -
    have "filter (\<lambda>q. task_type q = ty) (map ?f qs) = map ?f (filter (\<lambda>q. task_type q = ty) qs)"
      if "set qs \<subseteq> set (tasks w)" for qs
      using that eq u(2) by (induction qs) auto
    then show ?thesis by (simp add: rows_of_def task_table.rows_save)
  qed
  have "single_row ty (save_task u w)" if "single_row ty w" for ty
  proof -
    from that obtain q where q: "rows_of ty w = [q]" "recurrence_seconds q \<noteq> None" by (auto simp: single_row_def)
    have "q \<in> set (rows_of ty w)" by (simp add: q(1))
    then have "q \<in> set (tasks w)" by (simp add: rows_of_def)
    with q eq u(3) show ?thesis by (auto simp: single_row_def rows)
  qed
  moreover have "task_ids_distinct (save_task u w)"
    using d by (simp add: task_ids_distinct_def)
  ultimately show ?thesis using m by (auto simp: maintained_def list_all_iff)
qed

lemma deleted_maintained:
  assumes m: "maintained w" and t: "find_task w i = Some t" and r: "recurrence_seconds t = None"
  shows "maintained (delete_task i w)"
proof -
  have tw: "t \<in> set (tasks w)" "task_id t = i" using task_table.lookup_Some [OF t] by simp_all
  have d: "distinct (map task_id (tasks w))" using m by (simp add: maintained_def task_ids_distinct_def)
  have "single_row ty (delete_task i w)" if "single_row ty w" for ty
  proof -
    from that obtain q where q: "rows_of ty w = [q]" "recurrence_seconds q \<noteq> None" by (auto simp: single_row_def)
    have "q \<in> set (rows_of ty w)" by (simp add: q(1))
    then have "q \<in> set (tasks w)" by (simp add: rows_of_def)
    then have "task_id q \<noteq> i" using d tw q(2) r by (auto simp: distinct_map inj_on_def)
    moreover have "rows_of ty (delete_task i w) = filter (\<lambda>t. task_id t \<noteq> i) (rows_of ty w)"
      by (simp add: rows_of_def delete_task_def conj_commute cong: filter_cong)
    ultimately show ?thesis using q by (simp add: single_row_def)
  qed
  moreover have "task_ids_distinct (delete_task i w)"
    using d by (simp add: task_ids_distinct_def delete_task_def distinct_map_filter)
  ultimately show ?thesis using m by (auto simp: maintained_def list_all_iff)
qed

lemma ticked_maintained: "maintained w \<Longrightarrow> maintained (snd (tick rt w))"
  by (rule maintained_undisturbed) (auto intro: undisturbed_tasks)

lemma rearmed: "rearm seconds now t = Inr u \<Longrightarrow>
    task_id u = task_id t \<and> task_type u = task_type t \<and> recurrence_seconds u = recurrence_seconds t"
  by (auto simp: rearm_def)

lemma settled_maintained:
  assumes m: "maintained w" and r: "mark_task_failed rt i w = Inr w' \<or> complete_task rt i w = Inr w'"
  shows "maintained w'"
proof (cases "find_task w i")
  case None
  with assms show ?thesis by (auto simp: mark_task_failed_def complete_task_def)
next
  case (Some t)
  let ?w = "snd (tick rt w)"
  have w: "maintained ?w" "find_task ?w i = Some t" using ticked_maintained [OF m] Some by simp_all
  consider (del) "recurrence_seconds t = None" "w' = delete_task i ?w \<or> w' = delete_task i w"
    | (save) u where "w' = save_task u ?w" "task_id u = task_id t" "task_type u = task_type t"
        "recurrence_seconds u = recurrence_seconds t"
    using r Some
    by (auto simp: mark_task_failed_def complete_task_def Let_def split_beta dest!: rearmed
        split: if_split_asm option.split_asm)
  then show ?thesis
  proof cases
    case del
    with deleted_maintained [OF w] deleted_maintained [OF m Some] show ?thesis by auto
  next
    case save
    with saved_maintained [OF w] show ?thesis by simp
  qed
qed

lemma round_maintains:
  assumes h: "modest_handlers h" and r: "process_one_task rt h settings s = (s', Inr b)"
    and d: "task_ids_distinct (ws_world s)" and sp: "list_all (\<lambda>ty. spare_row ty (ws_world s)) MAINTENANCE"
  shows "maintained (ws_world s')"
proof -
  from r obtain s1 where s1: "seed_tasks rt settings s = Inr s1" by (auto simp: process_one_task_def split: sum.split_asm)
  let ?s = "snd (ws_tick rt s1)"
  have m: "maintained (ws_world ?s)"
    using ticked_maintained [OF seeds_maintain [OF s1 d sp]] by (simp add: ws_tick_def)
  show ?thesis
  proof (cases "select_next_task (ws_world ?s) (fst (ws_tick rt s1))")
    case None
    with r s1 m show ?thesis by (auto simp: process_one_task_def Let_def split_beta)
  next
    case (Some t)
    define q where "q = (case task_shape t of Inl e \<Rightarrow> raises e ?s
      | Inr payload \<Rightarrow> run_task rt h (task_id t) (task_type t) payload ?s)"
    have "undisturbed (ws_world ?s) (ws_world (fst q))"
      using run_task_undisturbed [OF h] by (auto simp: q_def split: sum.split)
    with m have mq: "maintained (ws_world (fst q))" by (rule maintained_undisturbed)
    from r s1 Some have "(case on_ws ((if snd q = None then complete_task else mark_task_failed) rt (task_id t)) (fst q) of
        Inl e \<Rightarrow> (fst q, Inl e) | Inr s \<Rightarrow> (s, Inr True)) = (s', Inr b)"
      unfolding q_def by (simp add: process_one_task_def Let_def split_beta)
    then have "(if snd q = None then complete_task else mark_task_failed) rt (task_id t) (ws_world (fst q)) = Inr (ws_world s')"
      by (auto simp: on_ws_def split: sum.split_asm)
    with settled_maintained [OF mq] show ?thesis by (auto split: if_split_asm)
  qed
qed

end
