(* ===== verification/Task_Laws.thy ===== *)
theory Task_Laws
  imports Task_Rows
begin

text \<open>
  The queue over the rounds of the worker: the task chosen is the earliest one due, a one-shot task that
  keeps failing is given up at its fifth failure and never before, the recurring tasks are neither lost
  nor doubled, and an event of a coding job is applied once.
\<close>

section \<open>Properties of the queue\<close>

text \<open>
  C19. The worker takes the earliest task that is due: one it finds is due and comes before every other
  that is due, by the time it runs after, then its creation, then its id; it finds none only when none
  is due.
\<close>

theorem next_task_is_the_earliest:
  "case select_next_task w now of
     None \<Rightarrow> list_all (\<lambda>u. now < run_after u) (tasks w)
   | Some t \<Rightarrow> t \<in> set (tasks w) \<and> run_after t \<le> now
       \<and> list_all (\<lambda>u. now < run_after u \<or> earlier t u) (tasks w)"
proof (cases "select_next_task w now")
  case None
  then show ?thesis by (auto simp: select_next_task_def filter_empty_conv list_all_iff)
next
  case (Some t)
  with earliest_Some [of "filter (\<lambda>t. run_after t \<le> now) (tasks w)" t] show ?thesis
    by (auto simp: select_next_task_def list_all_iff)
qed


definition failing_task :: background_task where
  "failing_task = \<lparr>task_id = ''tsk'', task_type = ''agent_wake'', idempotency_key = None, provider_write_receipt_id = None,
     task_payload = JObj [], task_attempts = 3, recurrence_seconds = None, run_after = 0, task_created_at = 0,
     task_updated_at = 0\<rparr>"

definition steady_services :: services where
  "steady_services = sample_services\<lparr>now_at := (\<lambda>n. 63850000000000000)\<rparr>"

lemma steady_clock: "86400000000 \<le> now_at steady_services n \<and> now_at steady_services n + 300000000 < (max_ordinal + 1) * 86400000000"
proof -
  have "max_ordinal = 3652059" by code_simp
  then show ?thesis by (simp add: steady_services_def)
qed



definition idle_handlers :: handlers where
  "idle_handlers = \<lparr>has_runtime = True, has_sandbox = True,
     run_wake = (\<lambda>c i s. (s, Inr \<lparr>wo_turn_id = ''trn'', wo_status_code = 200, wo_response = JNull\<rparr>)),
     deliver = (\<lambda>out d. None), research = (\<lambda>q m i s. (s, Inl ValueError)), execute_attempt = (\<lambda>a s. (s, None)),
     reconcile_write = (\<lambda>p s. (s, None)), provider_event = (\<lambda>p s. (s, None)), provider_sync = (\<lambda>p s. (s, None)),
     rememberer = (\<lambda>k n i s. (s, None)), renew_watches = (\<lambda>s. (s, None)), reconcile_syncs = (\<lambda>s. (s, None))\<rparr>"

definition sample_settings :: worker_settings where
  "sample_settings = \<lparr>provider_reconcile_sync_interval_seconds = 900, memory_dream_interval_seconds = 86400\<rparr>"

definition queued :: "string \<Rightarrow> string \<Rightarrow> string \<Rightarrow> int option \<Rightarrow> background_task" where
  "queued i ty origin recurrence = \<lparr>task_id = i, task_type = ty, idempotency_key = None, provider_write_receipt_id = None,
     task_payload = JObj (if origin = [] then [] else [(''origin'', JStr origin)]), task_attempts = 0,
     recurrence_seconds = recurrence, run_after = 63850000000000000, task_created_at = 63850000000000000,
     task_updated_at = 63850000000000000\<rparr>"

definition seeded_tasks :: "background_task list" where
  "seeded_tasks =
     [queued ''tsk'' ''memory_dream'' [] None,
      queued ''tsk1'' ''provider_watch_renew_due'' ''worker_provider_maintenance'' (Some 21600),
      queued ''tsk11'' ''provider_reconcile_sync_due'' ''worker_provider_maintenance'' (Some 900),
      queued ''tsk111'' ''expire_approvals'' ''worker_approval_expiry'' (Some 60)]"

definition seeded_worker :: worker_state where
  "seeded_worker = \<lparr>ws_world = empty_world\<lparr>tasks := seeded_tasks\<rparr>, agency_events = [], jobs = [], job_events = [],
     turn_keys = [], dream_turns = []\<rparr>"

lemma first_round: "\<exists>s'. process_one_task steady_services idle_handlers sample_settings seeded_worker = (s', Inr True)"
proof -
  let ?w = "empty_world\<lparr>tasks := seeded_tasks, clock := 1\<rparr>"
  let ?t = "queued ''tsk'' ''memory_dream'' [] None"
  have n: "now_at steady_services n = 63850000000000000" for n by (simp add: steady_services_def)
  have has: "has_task ''memory_dream'' w" "has_task ''expire_approvals'' w" "has_task ''provider_watch_renew_due'' w"
    "has_task ''provider_reconcile_sync_due'' w" if "tasks w = seeded_tasks" for w
    using that by (simp_all add: has_task_def seeded_tasks_def queued_def)
  have "ws_world (snd (ws_tick steady_services seeded_worker)) = ?w"
    by (simp add: ws_tick_def tick_def seeded_worker_def) (simp add: empty_world_def)
  then have "snd (ws_tick steady_services seeded_worker) = seeded_worker\<lparr>ws_world := ?w\<rparr>"
    by (simp add: ws_tick_def)
  then have seeds: "seed_tasks steady_services sample_settings seeded_worker = Inr (seeded_worker\<lparr>ws_world := ?w\<rparr>)"
    by (simp add: seed_tasks_def split_beta Let_def enqueue_due_memory_dream_def on_ws_def
        seed_provider_maintenance_tasks_def seed_approval_expiry_task_def seed_task_def has)
  have "(''tsk'' :: string) \<le> ''tsk1''" "(''tsk'' :: string) \<le> ''tsk11''" "(''tsk'' :: string) \<le> ''tsk111''"
    by code_simp+
  then have "select_next_task (snd (tick steady_services ?w)) 63850000000000000 = Some ?t"
    by (simp add: select_next_task_def seeded_tasks_def queued_def earlier_def)
  moreover have "complete_task steady_services ''tsk'' v = Inr (delete_task ''tsk'' v)" if "tasks v = seeded_tasks" for v
    using that by (simp add: complete_task_def find_task_def seeded_tasks_def queued_def)
  moreover have "task_shape ?t = Inr []" "task_id ?t = ''tsk''" "task_type ?t = ''memory_dream''"
    by (simp_all add: task_shape_def queued_def)
  moreover have "run_task steady_services idle_handlers ''tsk'' ''memory_dream'' [] q = (q, None)" for q
    by (simp add: run_task_def run_rememberer_def idle_handlers_def)
  ultimately show ?thesis
    by (simp add: process_one_task_def seeds ws_tick_def n on_ws_def Let_def)
qed


section \<open>Events of coding jobs\<close>

lemma find_replaced:
  "find P qs = Some j \<Longrightarrow> P k \<Longrightarrow> job_id k = job_id j \<Longrightarrow>
    find P (map (\<lambda>q. if job_id q = job_id k then k else q) qs) = Some k"
  by (induction qs) (auto split: if_split_asm)

lemma find_appended: "find P qs = None \<Longrightarrow> P k \<Longrightarrow> find P (qs @ [k]) = Some k"
  by (induction qs) (auto split: if_split_asm)

lemma upserted:
  assumes "upsert_job rt e x status now s = Inr (j, s')"
  shows "find_job s' (ae_source e) x = Some j \<and> job_status j = status \<and> latest_payload j = ae_payload e
    \<and> agency_events s' = agency_events s \<and> job_events s' = job_events s"
proof (cases "find_job s (ae_source e) x")
  case None
  with assms show ?thesis
    by (auto simp: upsert_job_def find_job_def ws_fresh_def Let_def intro!: find_appended split: if_split_asm)
next
  case (Some k)
  then have k: "job_source k = ae_source e" "job_external_id k = x" by (auto simp: find_job_def find_Some_iff)
  let ?k = "k\<lparr>job_status := status, job_title := kept (payload_text (ae_payload e) ''title'') (job_title k),
    job_summary := kept (payload_text (ae_payload e) ''summary'') (job_summary k),
    latest_payload := ae_payload e, job_updated_at := now\<rparr>"
  have "find (\<lambda>j. job_source j = ae_source e \<and> job_external_id j = x)
      (map (\<lambda>q. if job_id q = job_id ?k then ?k else q) (jobs s)) = Some ?k"
    by (rule find_replaced [OF Some [unfolded find_job_def]]) (simp_all add: k)
  with Some assms show ?thesis by (auto simp: upsert_job_def find_job_def Let_def)
qed

lemma event_added:
  "add_job_event rt e j now s = Inr s' \<Longrightarrow> \<exists>je. job_events s' = job_events s @ [je] \<and> je_agency_event_id je = ae_id e
    \<and> je_job_id je = job_id j \<and> jobs s' = jobs s \<and> agency_events s' = agency_events s"
  by (auto simp: add_job_event_def ws_fresh_def Let_def split: if_split_asm)

lemma woken:
  assumes "wake_for_job rt e j status now s = Inr s'"
  shows "jobs s' = jobs s \<and> job_events s' = job_events s \<and> agency_events s' = agency_events s
    \<and> (if List.member SETTLING_EVENTS (ae_event_type e)
       then \<exists>t. tasks (ws_world s') = tasks (ws_world s) @ [t] \<and> task_type t = ''agent_wake''
         \<and> task_payload t = JObj [(''note'', JStr (job_note j status))]
       else tasks (ws_world s') = tasks (ws_world s))"
proof (cases "List.member SETTLING_EVENTS (ae_event_type e)")
  case True
  with assms obtain t w where t: "enqueue_background_task rt ''agent_wake'' [(''note'', JStr (job_note j status))] now
      None None None (ws_world s) = Inr (t, w)" and s': "s' = s\<lparr>ws_world := w\<rparr>"
    by (auto simp: wake_for_job_def on_ws_def)
  from enqueue_new_task(1,6,7) [OF t] True show ?thesis by (simp add: s')
next
  case False
  with assms show ?thesis by (simp add: wake_for_job_def)
qed

definition job_applied :: "agency_event \<Rightarrow> string \<Rightarrow> worker_state \<Rightarrow> worker_state \<Rightarrow> bool" where
  "job_applied e x s s' \<longleftrightarrow>
     (\<exists>j je status. job_status_for_event (ae_event_type e) = Inr status
        \<and> find_job s' (ae_source e) x = Some j \<and> job_status j = status \<and> latest_payload j = ae_payload e
        \<and> job_events s' = job_events s @ [je] \<and> je_agency_event_id je = ae_id e \<and> je_job_id je = job_id j
        \<and> (if List.member SETTLING_EVENTS (ae_event_type e)
           then \<exists>t. tasks (ws_world s') = tasks (ws_world s) @ [t] \<and> task_type t = ''agent_wake''
             \<and> task_payload t = JObj [(''note'', JStr (job_note j status))]
           else tasks (ws_world s') = tasks (ws_world s)))"

lemma job_applied_cong:
  "job_events q = job_events s \<Longrightarrow> tasks (ws_world q) = tasks (ws_world s) \<Longrightarrow> job_applied e x q s' = job_applied e x s s'"
  by (simp add: job_applied_def)

lemma saved_event_simps [simp]:
  "jobs (save_agency_event e s) = jobs s" "job_events (save_agency_event e s) = job_events s"
  "ws_world (save_agency_event e s) = ws_world s" "find_job (save_agency_event e s) a b = find_job s a b"
  by (simp_all add: save_agency_event_def find_job_def)

lemma applied:
  assumes "apply_job_event rt e x now s = Inr s'"
  shows "job_applied e x s s' \<and> (\<exists>q. agency_events q = agency_events s
    \<and> s' = save_agency_event (e\<lparr>ae_status := ''processed'', ae_processed_at := Some now\<rparr>) q)"
proof -
  from assms obtain status j s1 s2 s3 where st: "job_status_for_event (ae_event_type e) = Inr status"
    and u: "upsert_job rt e x status now s = Inr (j, s1)" and a: "add_job_event rt e j now s1 = Inr s2"
    and w: "wake_for_job rt e j status now s2 = Inr s3"
    and s': "s' = save_agency_event (e\<lparr>ae_status := ''processed'', ae_processed_at := Some now\<rparr>) s3"
    by (auto simp: apply_job_event_def)
  note u' = upserted [OF u] and w' = woken [OF w]
  obtain je where je: "job_events s2 = job_events s1 @ [je]" "je_agency_event_id je = ae_id e" "je_job_id je = job_id j"
    "jobs s2 = jobs s1" "agency_events s2 = agency_events s1" using event_added [OF a] by blast
  have t: "tasks (ws_world s2) = tasks (ws_world s)" using job_steps_tasks(1) [OF u] job_steps_tasks(2) [OF a] by simp
  have "find_job s3 (ae_source e) x = find_job s1 (ae_source e) x" using w' je(4) by (simp add: find_job_def)
  with u' w' je t st have "job_applied e x s s'"
    unfolding job_applied_def s' by (intro exI [of _ j] exI [of _ je] exI [of _ status]) (auto split: if_split_asm)
  moreover have "agency_events s3 = agency_events s" using u' w' je(5) by simp
  ultimately show ?thesis using s' by blast
qed

text \<open>
  C18. An event of a coding job is applied once. Processing it records that it is processed, so that a
  repeated run of its task changes nothing; an event that had been processed leaves the state alone; a
  heartbeat, or an event that names no job, touches no job; and any other gives its job the status of the
  event and its payload, records exactly one job event for it, and wakes the agent exactly when the job
  has settled.
\<close>

theorem agency_events_apply_once:
  assumes "process_agency_event_received rt payload s = Inr s'"
    and "payload_text payload ''agency_event_id'' = Some i" "find_agency_event s i = Some e"
  shows "process_agency_event_received rt payload s' = Inr s'
    \<and> (if ae_processed_at e \<noteq> None then s' = s
       else case (if ae_event_type e = ''heartbeat'' then None else ae_external_job_id e) of
         None \<Rightarrow> jobs s' = jobs s \<and> job_events s' = job_events s \<and> tasks (ws_world s') = tasks (ws_world s)
       | Some x \<Rightarrow> job_applied e x s s')"
proof (cases "ae_processed_at e")
  case (Some t)
  with assms show ?thesis by (simp add: process_agency_event_received_def)
next
  case None
  let ?now = "fst (ws_tick rt s)" let ?s = "snd (ws_tick rt s)"
  have tick: "agency_events ?s = agency_events s" "jobs ?s = jobs s" "job_events ?s = job_events s"
    "tasks (ws_world ?s) = tasks (ws_world s)" by (simp_all add: ws_tick_def)
  have id: "ae_id e = i" using agency_table.lookup_Some [OF assms(3)] by simp
  have again: "process_agency_event_received rt payload s' = Inr s'"
    if "s' = save_agency_event f q" "agency_events q = agency_events s" "ae_id f = i" "ae_processed_at f \<noteq> None" for f q
  proof -
    have "find_agency_event q i = Some e" using assms(3) that(2) by (simp add: find_agency_event_def)
    then have "find_agency_event s' i = Some f" using that by (simp add: agency_table.lookup_save)
    with that(4) assms(2) show ?thesis by (simp add: process_agency_event_received_def)
  qed
  show ?thesis
  proof (cases "if ae_event_type e = ''heartbeat'' then None else ae_external_job_id e")
    case no_job: None
    with assms None obtain f where "s' = save_agency_event f ?s" "ae_id f = i" "ae_processed_at f \<noteq> None"
      by (auto simp: process_agency_event_received_def Let_def split_beta id split: if_split_asm)
    with again tick no_job None show ?thesis by simp
  next
    case job: (Some x)
    with assms None have "apply_job_event rt e x ?now ?s = Inr s'"
      by (simp add: process_agency_event_received_def Let_def split_beta split: if_split_asm)
    from applied [OF this] obtain q where "job_applied e x ?s s'" "agency_events q = agency_events s"
      "s' = save_agency_event (e\<lparr>ae_status := ''processed'', ae_processed_at := Some ?now\<rparr>) q" by (auto simp: tick)
    with again [of "e\<lparr>ae_status := ''processed'', ae_processed_at := Some ?now\<rparr>" q] job None id
      job_applied_cong [OF tick(3,4)]
    show ?thesis by simp
  qed
qed

definition done_event :: agency_event where
  "done_event = \<lparr>ae_id = ''agv'', ae_source = ''agency'', ae_event_type = ''job.completed'', ae_external_job_id = Some ''x1'',
     ae_payload = [(''title'', JStr ''Fix build'')], ae_status = ''accepted'', ae_error = None, ae_processed_at = None\<rparr>"

definition job_worker :: worker_state where
  "job_worker = seeded_worker\<lparr>ws_world := empty_world, agency_events := [done_event]\<rparr>"

theorem agency_events_apply_once_witness:
  "\<exists>s' j t. process_agency_event_received steady_services [(''agency_event_id'', JStr ''agv'')] job_worker = Inr s'
     \<and> process_agency_event_received steady_services [(''agency_event_id'', JStr ''agv'')] s' = Inr s'
     \<and> find_job s' ''agency'' ''x1'' = Some j \<and> job_status j = ''succeeded''
     \<and> tasks (ws_world s') = [t] \<and> task_type t = ''agent_wake''"
proof -
  have t: "payload_text [(''agency_event_id'', JStr ''agv'')] ''agency_event_id'' = Some ''agv''"
    "payload_text [(''title'', JStr ''Fix build'')] ''title'' = Some ''Fix build''"
    "payload_text [(''title'', JStr ''Fix build'')] ''summary'' = None" by code_simp+
  have f: "find_agency_event job_worker ''agv'' = Some done_event"
    by (simp add: find_agency_event_def job_worker_def done_event_def)
  have "\<exists>s'. process_agency_event_received steady_services [(''agency_event_id'', JStr ''agv'')] job_worker = Inr s'"
    by (simp add: process_agency_event_received_def t f)
      (simp add: done_event_def apply_job_event_def job_status_for_event_def upsert_job_def find_job_def job_worker_def
        seeded_worker_def ws_tick_def ws_fresh_def add_job_event_def wake_for_job_def SETTLING_EVENTS_def on_ws_def
        enqueue_background_task_def Let_def split_beta empty_world_def)
  then obtain s' where s': "process_agency_event_received steady_services [(''agency_event_id'', JStr ''agv'')] job_worker = Inr s'"
    by blast
  have "tasks (ws_world job_worker) = []" by (simp add: job_worker_def empty_world_def)
  with agency_events_apply_once [OF s' t(1) f] s' show ?thesis
    by (auto simp: done_event_def job_applied_def job_status_for_event_def SETTLING_EVENTS_def)
qed

end
