(* ===== verification/Discord_Delivery.thy ===== *)
theory Discord_Delivery
  imports Task_Queue Discord_Actions Callables
begin

text \<open>
  The message a finished turn sends to Discord, \<open>_deliver_to_discord\<close> of \<open>src/ariel/worker.py\<close>: the
  channel, the text with the pending approvals, and the buttons. The HTTP request itself, whose errors
  are logged and dropped, is not modelled. The hourglass and the dash of an approval line, which are no
  characters of the type \<open>char\<close>, are written as one ASCII character each.
\<close>

section \<open>Where to\<close>

record delivery_settings =
  discord_bot_token :: "string option"
  discord_channel_id :: "int option"

text \<open>\<open>isinstance(v, (int, str)) and v\<close>; a Python \<open>bool\<close> is an \<open>int\<close>.\<close>

definition channel_of :: "json \<Rightarrow> json option" where
  "channel_of v =
     (case v of
        JInt i \<Rightarrow> if i = 0 then None else Some v
      | JStr s \<Rightarrow> if s = [] then None else Some v
      | JBool b \<Rightarrow> if b then Some v else None
      | _ \<Rightarrow> None)"

definition is_int :: "json \<Rightarrow> bool" where
  "is_int v = (case v of JInt i \<Rightarrow> True | JBool b \<Rightarrow> True | _ \<Rightarrow> False)"

definition target_channel :: "delivery_settings \<Rightarrow> dict option \<Rightarrow> json option" where
  "target_channel settings context =
     (case (case context of None \<Rightarrow> None | Some d \<Rightarrow> channel_of (jget d ''channel_id'')) of
        Some c \<Rightarrow> Some c
      | None \<Rightarrow> map_option JInt (discord_channel_id settings))"

definition reply_target :: "dict option \<Rightarrow> json option" where
  "reply_target context =
     (case context of None \<Rightarrow> None
      | Some d \<Rightarrow> if is_int (jget d ''message_id'') then Some (jget d ''message_id'') else None)"

definition discord_delivery_nonce :: "services \<Rightarrow> string \<Rightarrow> string \<Rightarrow> string" where
  "discord_delivery_nonce rt turn_id channel =
     take 24 (sha256_hex rt (''turn:'' @ turn_id @ '':discord:'' @ channel))"

section \<open>What the turn said\<close>

text \<open>The assistant's message, unless the turn failed, was silent or said nothing.\<close>

definition spoken_message :: "wake_outcome \<Rightarrow> string option" where
  "spoken_message out =
     (if wo_status_code out \<noteq> 200 then None
      else case as_dict (jget (dict_or_empty (wo_response out)) ''assistant'') of
        None \<Rightarrow> None
      | Some assistant \<Rightarrow>
          if jget assistant ''silent'' = JBool True then None
          else case as_str (jget assistant ''message'') of
            None \<Rightarrow> None
          | Some m \<Rightarrow> if strip m = [] then None else Some m)"

record pending_button =
  pb_ref :: string
  pb_label :: string
  pb_expires :: "string option"

definition pending_entry :: "json \<Rightarrow> pending_button option" where
  "pending_entry v =
     (case as_dict v of None \<Rightarrow> None
      | Some entry \<Rightarrow>
         (case as_dict (jget entry ''approval'') of None \<Rightarrow> None
          | Some approval \<Rightarrow>
              if jget approval ''status'' \<noteq> JStr ''pending'' then None
              else case as_str (jget approval ''reference'') of None \<Rightarrow> None
              | Some ref \<Rightarrow>
                  if ref = [] then None
                  else Some \<lparr>pb_ref = ref,
                    pb_label = (case as_dict (jget entry ''proposal'') of None \<Rightarrow> ''Action''
                      | Some p \<Rightarrow> (case as_str (jget p ''capability_id'') of None \<Rightarrow> ''Action''
                          | Some cid \<Rightarrow> capability_action_label cid)),
                    pb_expires = as_str (jget approval ''expires_at'')\<rparr>))"

definition pending_buttons :: "wake_outcome \<Rightarrow> pending_button list" where
  "pending_buttons out =
     (case as_dict (jget (dict_or_empty (wo_response out)) ''turn'') of
        None \<Rightarrow> []
      | Some turn \<Rightarrow> List.map_filter pending_entry (list_items (jget turn ''surface_action_lifecycle'')))"

text \<open>
  \<open>int(datetime.fromisoformat(s).timestamp())\<close>: whole seconds from the epoch, towards zero. The local
  time of a text without an offset is a parameter.
\<close>

definition EPOCH_MICROS :: int where
  "EPOCH_MICROS = 719163 * 86400000000"

definition epoch_seconds :: "(datetime \<Rightarrow> exn + int) \<Rightarrow> datetime \<Rightarrow> exn + int" where
  "epoch_seconds local_time t =
     (case dt_offset t of
        None \<Rightarrow> local_time t
      | Some off \<Rightarrow>
          let m = naive_micros t - off - EPOCH_MICROS
          in Inr (if m < 0 then - (- m div 1000000) else m div 1000000))"

definition approval_line :: "(datetime \<Rightarrow> exn + int) \<Rightarrow> pending_button \<Rightarrow> exn + string" where
  "approval_line local_time b =
     (let line = ''! '' @ pb_label b @ '' - needs approval''
      in case pb_expires b of
           None \<Rightarrow> Inr line
         | Some expires \<Rightarrow>
            (case fromisoformat (replace ''Z'' ''+00:00'' expires) of
               None \<Rightarrow> Inr line
             | Some t \<Rightarrow>
                (case epoch_seconds local_time t of
                   Inl ValueError \<Rightarrow> Inr line
                 | Inl e \<Rightarrow> Inl e
                 | Inr seconds \<Rightarrow> Inr (line @ '' (expires <t:'' @ decimal seconds @ '':R>)''))))"

fun each_result :: "('a \<Rightarrow> exn + 'b) \<Rightarrow> 'a list \<Rightarrow> exn + 'b list" where
  "each_result f [] = Inr []"
| "each_result f (x # xs) = proceed (f x) (\<lambda>y. proceed (each_result f xs) (\<lambda>ys. Inr (y # ys)))"

definition message_content :: "string \<Rightarrow> string list \<Rightarrow> string" where
  "message_content message lines =
     (let content = (if lines = [] then strip message else join_lines ([strip message, []] @ lines))
      in if length content > 1900 then rstrip (take 1888 content) @ [CHR 0x0A] @ ''[truncated]'' else content)"

section \<open>The request\<close>

definition button :: "int \<Rightarrow> string \<Rightarrow> string \<Rightarrow> json" where
  "button style label custom_id =
     JObj [(''type'', JInt 2), (''style'', JInt style), (''label'', JStr label), (''custom_id'', JStr custom_id)]"

definition button_row :: "pending_button \<Rightarrow> exn + json" where
  "button_row b =
     proceed (approval_custom_id Approve (pb_ref b)) (\<lambda>approve.
     proceed (approval_custom_id DenyRequest (pb_ref b)) (\<lambda>deny.
     Inr (JObj [(''type'', JInt 1),
       (''components'', JArr [button 3 ''Approve'' approve, button 4 ''Deny'' deny])])))"

text \<open>The channel and the body of the request, or \<open>None\<close> when nothing is sent.\<close>

definition deliver_to_discord ::
  "services \<Rightarrow> (datetime \<Rightarrow> exn + int) \<Rightarrow> delivery_settings \<Rightarrow> wake_outcome \<Rightarrow> dict option
     \<Rightarrow> exn + (json \<times> dict) option" where
  "deliver_to_discord rt local_time settings out context =
     (case (if discord_bot_token settings = None then None else spoken_message out) of
        None \<Rightarrow> Inr None
      | Some message \<Rightarrow>
         (case target_channel settings context of
            None \<Rightarrow> Inr None
          | Some channel \<Rightarrow>
              let pending = pending_buttons out; channel_text = py_str (service_env rt) channel
              in proceed (each_result (approval_line local_time) pending) (\<lambda>lines.
                 proceed (each_result button_row pending) (\<lambda>rows.
                 Inr (Some (channel,
                   [(''content'', JStr (message_content message lines)),
                    (''nonce'', JStr (discord_delivery_nonce rt (wo_turn_id out) channel_text)),
                    (''enforce_nonce'', JBool True)]
                   @ (case reply_target context of None \<Rightarrow> []
                      | Some m \<Rightarrow> [(''message_reference'', JObj [(''message_id'', JStr (py_str (service_env rt) m)),
                          (''channel_id'', JStr channel_text), (''fail_if_not_exists'', JBool False)])])
                   @ (if pending = [] then [] else [(''components'', JArr rows)])))))))"

section \<open>Laws\<close>

lemma each_result_all2: "each_result f xs = Inr ys \<Longrightarrow> list_all2 (\<lambda>x y. f x = Inr y) xs ys"
  by (induction xs arbitrary: ys) auto

lemma content_length: "length (message_content m ls) \<le> 1900"
proof -
  have "length (rstrip (take 1888 c)) \<le> 1888" for c :: string
    using length_dropWhile_le [of is_space "rev (take 1888 c)"] by (simp add: rstrip_def)
  from this [of "join_lines ([strip m, []] @ ls)"] this [of "strip m"] show ?thesis
    by (auto simp: message_content_def Let_def)
qed

text \<open>A row of buttons that decide on one reference.\<close>

definition offers :: "json \<Rightarrow> string \<Rightarrow> bool" where
  "offers row ref \<longleftrightarrow>
     (\<exists>a d. row = JObj [(''type'', JInt 1), (''components'', JArr [button 3 ''Approve'' a, button 4 ''Deny'' d])]
        \<and> parse_approval_custom_id a = Some (Approve, ref) \<and> parse_approval_custom_id d = Some (DenyRequest, ref))"

lemma row_offers: "button_row b = Inr row \<Longrightarrow> offers row (strip (pb_ref b))"
  using parse_printed [of Approve "strip (pb_ref b)"] parse_printed [of DenyRequest "strip (pb_ref b)"]
  by (auto simp: button_row_def approval_custom_id_def Let_def offers_def split: if_split_asm)

text \<open>
  C21. A delivered message asks for every pending approval of its turn and for nothing else: its rows of
  buttons are one per pending approval, in their order, and the two buttons of a row carry ids that the
  bot parses back to approving and to denying that very reference; and its text stays within the limit of
  Discord. A turn that failed, was silent or said nothing sends nothing.
\<close>

theorem delivered_buttons_decide_pending:
  assumes "deliver_to_discord rt local_time settings out context = Inr (Some (channel, body))"
  shows "wo_status_code out = 200 \<and> spoken_message out \<noteq> None
    \<and> (\<exists>content. jget body ''content'' = JStr content \<and> length content \<le> 1900)
    \<and> (if pending_buttons out = [] then jget body ''components'' = JNull
       else \<exists>rows. jget body ''components'' = JArr rows
         \<and> list_all2 (\<lambda>b row. offers row (strip (pb_ref b))) (pending_buttons out) rows)"
proof -
  from assms obtain m where m: "spoken_message out = Some m"
    by (auto simp: deliver_to_discord_def split: option.split_asm if_split_asm)
  with assms obtain lines rows where
    rows: "each_result button_row (pending_buttons out) = Inr rows"
    and body: "body = [(''content'', JStr (message_content m lines)),
        (''nonce'', JStr (discord_delivery_nonce rt (wo_turn_id out) (py_str (service_env rt) channel))),
        (''enforce_nonce'', JBool True)]
      @ (case reply_target context of None \<Rightarrow> []
         | Some m \<Rightarrow> [(''message_reference'', JObj [(''message_id'', JStr (py_str (service_env rt) m)),
             (''channel_id'', JStr (py_str (service_env rt) channel)), (''fail_if_not_exists'', JBool False)])])
      @ (if pending_buttons out = [] then [] else [(''components'', JArr rows)])"
    by (auto simp: deliver_to_discord_def Let_def split: option.split_asm if_split_asm)
  have "list_all2 (\<lambda>b row. offers row (strip (pb_ref b))) (pending_buttons out) rows"
    using each_result_all2 [OF rows] row_offers by (rule list_all2_mono)
  moreover have "wo_status_code out = 200" using m by (simp add: spoken_message_def split: if_split_asm)
  ultimately show ?thesis
    using m content_length [of m lines] by (auto simp: body jget_def split: option.split)
qed

definition sample_outcome :: wake_outcome where
  "sample_outcome = \<lparr>wo_turn_id = ''trn_1'', wo_status_code = 200, wo_response = JObj
     [(''assistant'', JObj [(''message'', JStr ''Shall I?'')]),
      (''turn'', JObj [(''surface_action_lifecycle'', JArr [JObj
         [(''approval'', JObj [(''status'', JStr ''pending''), (''reference'', JStr ''apr_1'')])]])])]\<rparr>"

theorem delivered_buttons_decide_pending_witness:
  "\<exists>body rows row. deliver_to_discord sample_services (\<lambda>t. Inl ValueError)
       \<lparr>discord_bot_token = Some ''t'', discord_channel_id = Some 7\<rparr> sample_outcome None = Inr (Some (JInt 7, body))
     \<and> jget body ''components'' = JArr rows \<and> rows = [row] \<and> offers row ''apr_1''"
proof -
  let ?settings = "\<lparr>discord_bot_token = Some ''t'', discord_channel_id = Some 7\<rparr>"
  have st: "strip ''apr_1'' = ''apr_1''" "strip ''Shall I?'' \<noteq> []" by code_simp+
  have p: "pending_buttons sample_outcome = [\<lparr>pb_ref = ''apr_1'', pb_label = ''Action'', pb_expires = None\<rparr>]"
    by (simp add: pending_buttons_def sample_outcome_def dict_or_empty_def jget_def list_items_def
        List.map_filter_def pending_entry_def)
  have m: "spoken_message sample_outcome = Some ''Shall I?''"
    using st(2) by (simp add: spoken_message_def sample_outcome_def dict_or_empty_def jget_def)
  have "\<exists>body. deliver_to_discord sample_services (\<lambda>t. Inl ValueError) ?settings sample_outcome None
      = Inr (Some (JInt 7, body))"
    by (simp add: deliver_to_discord_def m p target_channel_def Let_def button_row_def approval_custom_id_def st
        approval_line_def)
  then obtain body where b: "deliver_to_discord sample_services (\<lambda>t. Inl ValueError) ?settings sample_outcome None
      = Inr (Some (JInt 7, body))" by blast
  from delivered_buttons_decide_pending [OF b] b show ?thesis
    by (auto simp: p st list_all2_Cons1)
qed

end
