(* ===== verification/Google_Connector.thy ===== *)
theory Google_Connector
  imports Google_Scopes Wake_Context Approvals
begin

text \<open>
  The Google connector, \<open>src/ariel/google_connector.py\<close>: the row of the connected account with its
  sealed tokens, its errors and its readiness; the refresh of the access token in both of its forms; the
  access a capability gets; the OAuth flow from its start to its callback; and the disconnection.

  The OAuth client and the provider watches are fields of \<open>google_client\<close>. A \<open>GoogleConnectorError\<close> is a
  value: the routes of \<open>src/ariel/app.py\<close> catch it inside the transaction, which then commits.
\<close>

section \<open>State\<close>

datatype connector_status = NotConnected | Connected | ErrorStatus | Revoked

definition connector_status_name :: "connector_status \<Rightarrow> string" where
  "connector_status_name s =
     (case s of NotConnected \<Rightarrow> ''not_connected'' | Connected \<Rightarrow> ''connected'' | ErrorStatus \<Rightarrow> ''error''
      | Revoked \<Rightarrow> ''revoked'')"

definition GOOGLE_CONNECTOR_ID :: string where
  "GOOGLE_CONNECTOR_ID = ''con_google''"

record connector =
  cn_status :: connector_status
  account_subject :: "string option"
  account_email :: "string option"
  cn_granted_scopes :: "string list"
  access_token_enc :: "string option"
  refresh_token_enc :: "string option"
  access_token_expires_at :: "int option"
  token_obtained_at :: "int option"
  cn_key_version :: string
  last_error_code :: "string option"
  last_error_at :: "int option"
  cn_created_at :: int
  cn_updated_at :: int

record oauth_state =
  os_id :: string
  state_handle :: string
  os_flow :: string
  requested_scopes :: "string list"
  pkce_verifier_enc :: string
  os_pkce_challenge :: string
  os_redirect_uri :: string
  os_expires_at :: int
  consumed_at :: "int option"
  os_created_at :: int
  os_updated_at :: int

record connector_event =
  ce_id :: string
  ce_connector_id :: string
  ce_event_type :: string
  ce_payload :: json
  ce_created_at :: int

record provider_event_row =
  pe_id :: string
  pe_provider :: string
  pe_status :: string
  pe_error :: "string option"

record sync_cursor =
  sc_provider :: string
  sc_resource_type :: string

record google_state =
  gs_world :: world
  gs_connector :: "connector option"
  oauth_states :: "oauth_state list"
  connector_events :: "connector_event list"
  provider_events :: "provider_event_row list"
  sync_cursors :: "sync_cursor list"

record google_settings = google_runtime +
  redirect_uri :: string
  oauth_state_ttl_seconds :: int
  random_token :: "nat \<Rightarrow> nat \<Rightarrow> string"

text \<open>A failing call of the client gives its code.\<close>

record google_client =
  build_authorization_url :: "string \<Rightarrow> string \<Rightarrow> string list \<Rightarrow> string \<Rightarrow> bool \<Rightarrow> string + string"
  exchange_code_for_tokens :: "string \<Rightarrow> string \<Rightarrow> string \<Rightarrow> string \<Rightarrow> string + dict"
  refresh_access_token :: "string \<Rightarrow> string + dict"
  revoke_token :: "string \<Rightarrow> string option"
  register_watches :: "string \<Rightarrow> string list \<Rightarrow> string \<Rightarrow> string option"
  stop_watches :: "string option \<Rightarrow> string option \<Rightarrow> json list"

definition gs_tick :: "services \<Rightarrow> 'a google_state_scheme \<Rightarrow> int \<times> 'a google_state_scheme" where
  "gs_tick rt s = (fst (tick rt (gs_world s)), s\<lparr>gs_world := snd (tick rt (gs_world s))\<rparr>)"

definition gs_fresh :: "services \<Rightarrow> string \<Rightarrow> 'a google_state_scheme \<Rightarrow> string \<times> 'a google_state_scheme" where
  "gs_fresh rt prefix s = (fst (fresh_id rt prefix (gs_world s)), s\<lparr>gs_world := snd (fresh_id rt prefix (gs_world s))\<rparr>)"

text \<open>A serial number for a random token or a nonce.\<close>

definition gs_serial :: "'a google_state_scheme \<Rightarrow> nat \<times> 'a google_state_scheme" where
  "gs_serial s =
     (serial (gs_world s), s\<lparr>gs_world := (gs_world s)\<lparr>serial := Suc (serial (gs_world s))\<rparr>\<rparr>)"

definition seal ::
  "services \<Rightarrow> 'b google_runtime_scheme \<Rightarrow> string \<Rightarrow> 'a google_state_scheme \<Rightarrow> exn + (string \<times> 'a google_state_scheme)" where
  "seal rt g plaintext s =
     (let (n, s) = gs_serial s
      in proceed (encrypt_secret (service_crypto rt) (encryption_secret g) (encryption_key_version g)
           (encryption_keys g) (nonce_at rt n) plaintext) (\<lambda>sealed. Inr (sealed, s)))"

definition unseal :: "services \<Rightarrow> 'b google_runtime_scheme \<Rightarrow> string \<Rightarrow> string \<Rightarrow> exn + string" where
  "unseal rt g key_version sealed =
     decrypt_secret (service_crypto rt) (encryption_secret g) key_version (encryption_keys g) sealed"

text \<open>
  \<open>try: decrypt_secret(...) except SecretDecryptionFailure as exc\<close>: the configuration errors of the
  key ring are not of that class and propagate.
\<close>

definition try_unseal ::
  "services \<Rightarrow> 'b google_runtime_scheme \<Rightarrow> string \<Rightarrow> string \<Rightarrow> exn + (string + string)" where
  "try_unseal rt g key_version sealed =
     proceed (from_config (service_crypto rt) key_version (encryption_keys g) (encryption_secret g)) (\<lambda>c.
     case decrypt (service_crypto rt) c sealed of
       Inl (RuntimeError code) \<Rightarrow> Inr (Inl code)
     | Inl e \<Rightarrow> Inl e
     | Inr plaintext \<Rightarrow> Inr (Inr plaintext))"

section \<open>Errors and readiness\<close>

definition READINESS_BLOCKING_FAILURE_CODES :: "string list" where
  "READINESS_BLOCKING_FAILURE_CODES =
     [''account_identity_missing'', ''consent_required'', ''scope_missing'', ''access_revoked'']"

definition READINESS_TRANSIENT_FAILURE_CODES :: "string list" where
  "READINESS_TRANSIENT_FAILURE_CODES =
     [''token_expired'', ''provider_timeout'', ''provider_network_failure'', ''provider_rate_limited'',
      ''provider_upstream_failure'', ''provider_invalid_payload'']"

datatype failure_kind = NoFailure | BlockingFailure | TransientFailure | OtherFailure

definition readiness_failure_kind :: "string option \<Rightarrow> failure_kind" where
  "readiness_failure_kind error =
     (case error of
        None \<Rightarrow> NoFailure
      | Some e \<Rightarrow>
          let normalized = lower (strip e)
          in if normalized = [] then NoFailure
             else if List.member READINESS_BLOCKING_FAILURE_CODES normalized then BlockingFailure
             else if List.member READINESS_TRANSIENT_FAILURE_CODES normalized then TransientFailure
             else OtherFailure)"

definition is_blocking_readiness_failure :: "string option \<Rightarrow> bool" where
  "is_blocking_readiness_failure error \<longleftrightarrow> readiness_failure_kind error = BlockingFailure"

definition connector_unavailable_failure_class :: "connector \<Rightarrow> string" where
  "connector_unavailable_failure_class c =
     (case last_error_code c of
        None \<Rightarrow> ''not_connected''
      | Some e \<Rightarrow>
          if List.member [''account_identity_missing'', ''consent_required'', ''scope_missing'',
               ''token_expired'', ''access_revoked''] e
          then e else ''not_connected'')"

text \<open>Every caller passes \<open>preserve_existing_blocking=True\<close>.\<close>

definition set_connector_error ::
  "services \<Rightarrow> string \<Rightarrow> connector \<Rightarrow> 'a google_state_scheme \<Rightarrow> connector \<times> 'a google_state_scheme" where
  "set_connector_error rt error c s =
     (let normalized = strip error
      in if normalized = [] then (c, s)
         else if is_blocking_readiness_failure (last_error_code c)
             \<and> \<not> is_blocking_readiness_failure (Some normalized)
         then let (now, s) = gs_tick rt s in (c\<lparr>cn_updated_at := now\<rparr>, s)
         else let (seen_at, s) = gs_tick rt s; (now, s) = gs_tick rt s
              in (c\<lparr>last_error_code := Some normalized, last_error_at := Some seen_at, cn_updated_at := now\<rparr>, s))"

definition clear_connector_error ::
  "services \<Rightarrow> connector \<Rightarrow> 'a google_state_scheme \<Rightarrow> connector \<times> 'a google_state_scheme" where
  "clear_connector_error rt c s =
     (let (now, s) = gs_tick rt s
      in if is_blocking_readiness_failure (last_error_code c) then (c\<lparr>cn_updated_at := now\<rparr>, s)
         else (c\<lparr>last_error_code := None, last_error_at := None, cn_updated_at := now\<rparr>, s))"

text \<open>The scopes of the row, which the column keeps as a JSON list.\<close>

definition scopes_of :: "connector \<Rightarrow> string list" where
  "scopes_of c = normalize_scope_list (JArr (map JStr (cn_granted_scopes c)))"

definition covers :: "string list \<Rightarrow> string list \<Rightarrow> bool" where
  "covers granted required = list_all (List.member granted) required"

definition readiness :: "connector option \<Rightarrow> string" where
  "readiness connector =
     (case connector of
        None \<Rightarrow> ''not_connected''
      | Some c \<Rightarrow>
          if cn_status c = NotConnected then ''not_connected''
          else if cn_status c \<noteq> Connected then ''reconnect_required''
          else if is_blocking_readiness_failure (last_error_code c) then ''reconnect_required''
          else if \<not> covers (scopes_of c) GOOGLE_MINIMUM_READ_SCOPES then ''reconnect_required''
          else if access_token_enc c = None then ''reconnect_required''
          else ''connected'')"

definition time_json :: "int option \<Rightarrow> json" where
  "time_json t = (case t of None \<Rightarrow> JNull | Some t \<Rightarrow> JStr (to_rfc3339 t))"

definition connector_payload :: "connector option \<Rightarrow> dict" where
  "connector_payload connector =
     (case connector of
        None \<Rightarrow>
          [(''id'', JStr GOOGLE_CONNECTOR_ID), (''provider'', JStr ''google''), (''status'', JStr ''not_connected''),
           (''readiness'', JStr ''not_connected''), (''account_subject'', JNull), (''account_email'', JNull),
           (''granted_scopes'', JArr []), (''access_token_expires_at'', JNull), (''token_obtained_at'', JNull),
           (''last_error_code'', JNull), (''last_error_at'', JNull)]
      | Some c \<Rightarrow>
          [(''id'', JStr GOOGLE_CONNECTOR_ID), (''provider'', JStr ''google''),
           (''status'', JStr (connector_status_name (cn_status c))), (''readiness'', JStr (readiness (Some c))),
           (''account_subject'', text_json (account_subject c)), (''account_email'', text_json (account_email c)),
           (''granted_scopes'', JArr (map JStr (scopes_of c))),
           (''access_token_expires_at'', time_json (access_token_expires_at c)),
           (''token_obtained_at'', time_json (token_obtained_at c)),
           (''last_error_code'', text_json (last_error_code c)), (''last_error_at'', time_json (last_error_at c))])"

definition append_connector_event ::
  "services \<Rightarrow> string \<Rightarrow> dict \<Rightarrow> 'a google_state_scheme \<Rightarrow> 'a google_state_scheme" where
  "append_connector_event rt event_type payload s =
     (let (new_id, s) = gs_fresh rt ''gce'' s; (now, s) = gs_tick rt s
      in s\<lparr>connector_events := connector_events s @
          [\<lparr>ce_id = new_id, ce_connector_id = GOOGLE_CONNECTOR_ID, ce_event_type = event_type,
            ce_payload = redact_json_value (JObj payload), ce_created_at = now\<rparr>]\<rparr>)"

definition connector_event_payload :: "connector \<Rightarrow> string list \<Rightarrow> dict" where
  "connector_event_payload c scopes =
     [(''connector_id'', JStr GOOGLE_CONNECTOR_ID), (''provider'', JStr ''google''),
      (''account_subject'', text_json (account_subject c)), (''account_email'', text_json (account_email c)),
      (''granted_scopes'', JArr (map JStr scopes))]"

definition save_connector :: "connector \<Rightarrow> 'a google_state_scheme \<Rightarrow> 'a google_state_scheme" where
  "save_connector c s = s\<lparr>gs_connector := Some c\<rparr>"

definition ensure_connector ::
  "services \<Rightarrow> 'b google_runtime_scheme \<Rightarrow> 'a google_state_scheme \<Rightarrow> connector \<times> 'a google_state_scheme" where
  "ensure_connector rt g s =
     (case gs_connector s of
        Some c \<Rightarrow> (c, s)
      | None \<Rightarrow>
          let (now, s) = gs_tick rt s;
              c = \<lparr>cn_status = NotConnected, account_subject = None, account_email = None, cn_granted_scopes = [],
                access_token_enc = None, refresh_token_enc = None, access_token_expires_at = None,
                token_obtained_at = None, cn_key_version = encryption_key_version g, last_error_code = None,
                last_error_at = None, cn_created_at = now, cn_updated_at = now\<rparr>
          in (c, save_connector c s))"

definition status_payload ::
  "services \<Rightarrow> 'b google_runtime_scheme \<Rightarrow> 'a google_state_scheme \<Rightarrow> dict \<times> 'a google_state_scheme" where
  "status_payload rt g s = (let (c, s) = ensure_connector rt g s in (connector_payload (Some c), s))"

section \<open>Failures of a capability\<close>

definition AUTH_FAILURE_RECOVERY :: "(string \<times> string) list" where
  "AUTH_FAILURE_RECOVERY =
     [(''not_connected'', ''Connect Google to continue.''),
      (''account_identity_missing'', ''Reconnect Google to refresh account identity.''),
      (''consent_required'', ''Reconnect Google and grant the requested scope.''),
      (''scope_missing'', ''Reconnect Google and re-consent to required scopes.''),
      (''token_expired'', ''Retry once; if it still fails, reconnect Google.''),
      (''access_revoked'', ''Reconnect Google from scratch.'')]"

definition typed_failure :: "string \<Rightarrow> provider_result" where
  "typed_failure failure_class =
     \<lparr>pr_succeeded = False, pr_output = None,
      pr_auth_failure = Some (failure_class,
        case map_of AUTH_FAILURE_RECOVERY failure_class of None \<Rightarrow> [] | Some r \<Rightarrow> r),
      pr_error = Some failure_class\<rparr>"

definition refresh_failure_result :: "string \<Rightarrow> provider_result" where
  "refresh_failure_result error =
     (if error = ''access_revoked'' then typed_failure ''access_revoked'' else inline_failure error)"

definition record_refresh_failure ::
  "services \<Rightarrow> string \<Rightarrow> connector \<Rightarrow> 'a google_state_scheme \<Rightarrow> 'a google_state_scheme" where
  "record_refresh_failure rt error c s =
     (let c = (if error = ''access_revoked'' then c\<lparr>cn_status := Revoked\<rparr> else c);
          (c, s) = set_connector_error rt error c s
      in append_connector_event rt ''evt.connector.google.refresh.failed''
           (connector_event_payload c (scopes_of c) @ [(''failure_reason'', JStr error)])
           (save_connector c s))"

definition record_capability_failure ::
  "services \<Rightarrow> provider_result \<Rightarrow> 'a google_state_scheme \<Rightarrow> 'a google_state_scheme" where
  "record_capability_failure rt result s =
     (case (pr_auth_failure result, gs_connector s) of
        (Some (failure_class, _), Some c) \<Rightarrow>
          let c = (if failure_class = ''access_revoked'' then c\<lparr>cn_status := Revoked\<rparr> else c);
              (c, s) = set_connector_error rt failure_class c s
          in save_connector c s
      | _ \<Rightarrow> s)"

section \<open>Refreshing the access token\<close>

text \<open>\<open>isinstance(v, int)\<close>, which a Python \<open>bool\<close> is.\<close>

definition int_or :: "int \<Rightarrow> json \<Rightarrow> int" where
  "int_or fallback v = (case v of JInt i \<Rightarrow> i | JBool b \<Rightarrow> (if b then 1 else 0) | _ \<Rightarrow> fallback)"

definition stripped_text :: "json \<Rightarrow> string option" where
  "stripped_text v = (case as_str v of None \<Rightarrow> None | Some t \<Rightarrow> if strip t = [] then None else Some (strip t))"

definition refreshed_lifetime :: "dict \<Rightarrow> int" where
  "refreshed_lifetime payload =
     (let seconds = int_or 3600 (jget payload ''expires_in_seconds'') in if seconds \<le> 0 then 60 else seconds)"

text \<open>Both tokens are sealed anew under the active key version.\<close>

definition seal_tokens ::
  "services \<Rightarrow> 'b google_runtime_scheme \<Rightarrow> string \<Rightarrow> string \<Rightarrow> connector \<Rightarrow> 'a google_state_scheme
     \<Rightarrow> exn + (connector \<times> 'a google_state_scheme)" where
  "seal_tokens rt g access refresh c s =
     proceed (seal rt g access s) (\<lambda>(access_enc, s).
     proceed (seal rt g refresh s) (\<lambda>(refresh_enc, s).
     Inr (c\<lparr>access_token_enc := Some access_enc, refresh_token_enc := Some refresh_enc,
       cn_key_version := encryption_key_version g\<rparr>, s)))"

definition announce_refresh ::
  "services \<Rightarrow> connector \<Rightarrow> 'a google_state_scheme \<Rightarrow> 'a google_state_scheme" where
  "announce_refresh rt c s =
     (let (c, s) = clear_connector_error rt c s
      in append_connector_event rt ''evt.connector.google.refresh.succeeded''
           (connector_event_payload c (scopes_of c)
            @ [(''access_token_expires_at'', time_json (access_token_expires_at c))])
           (save_connector c s))"

text \<open>
  The refresh inside a transaction, \<open>_refresh_access_token_if_needed\<close>: the token to use, or a failure,
  and the connector as the caller's row then is.
\<close>

definition refresh_failed ::
  "services \<Rightarrow> string \<Rightarrow> connector \<Rightarrow> 'a google_state_scheme
     \<Rightarrow> exn + (provider_result + string) \<times> 'a google_state_scheme" where
  "refresh_failed rt error c s = Inr (Inl (refresh_failure_result error), record_refresh_failure rt error c s)"

definition refresh_missing ::
  "services \<Rightarrow> connector \<Rightarrow> 'a google_state_scheme \<Rightarrow> (provider_result + string) \<times> 'a google_state_scheme" where
  "refresh_missing rt c s =
     (let (c, s) = set_connector_error rt ''refresh_missing'' c s
      in (Inl (typed_failure ''token_expired''),
          append_connector_event rt ''evt.connector.google.refresh.failed''
            (connector_event_payload c (scopes_of c) @ [(''failure_reason'', JStr ''token_expired'')])
            (save_connector c s)))"

definition use_refresh_token ::
  "services \<Rightarrow> 'b google_runtime_scheme \<Rightarrow> google_client \<Rightarrow> string \<Rightarrow> connector \<Rightarrow> 'a google_state_scheme
     \<Rightarrow> exn + (provider_result + string) \<times> 'a google_state_scheme" where
  "use_refresh_token rt g client refresh_enc c s =
     proceed (unseal rt g (cn_key_version c) refresh_enc) (\<lambda>refresh.
     case refresh_access_token client refresh of
       Inl error \<Rightarrow> refresh_failed rt error c s
     | Inr payload \<Rightarrow>
        (case stripped_text (jget payload ''access_token'') of
           None \<Rightarrow> refresh_failed rt ''provider_invalid_payload'' c s
         | Some access \<Rightarrow>
             proceed (seal_tokens rt g access (or_else (stripped_text (jget payload ''refresh_token'')) refresh) c s)
               (\<lambda>(c, s).
             let (now, s) = gs_tick rt s
             in proceed (expiry_after (refreshed_lifetime payload) now) (\<lambda>due.
                Inr (Inr access, announce_refresh rt
                  (c\<lparr>access_token_expires_at := Some due, token_obtained_at := Some now\<rparr>) s)))))"

definition refresh_access_token_if_needed ::
  "services \<Rightarrow> 'b google_runtime_scheme \<Rightarrow> google_client \<Rightarrow> connector \<Rightarrow> 'a google_state_scheme
     \<Rightarrow> exn + (provider_result + string) \<times> 'a google_state_scheme" where
  "refresh_access_token_if_needed rt g client c s =
     (case access_token_enc c of
        None \<Rightarrow>
          let (c, s) = set_connector_error rt ''token_missing'' c s
          in Inr (Inl (typed_failure ''token_expired''), save_connector c s)
      | Some sealed \<Rightarrow>
          proceed (unseal rt g (cn_key_version c) sealed) (\<lambda>access.
          let (now, s) = gs_tick rt s
          in case access_token_expires_at c of
               None \<Rightarrow> Inr (Inr access, s)
             | Some due \<Rightarrow>
                 if due > now then Inr (Inr access, s)
                 else case refresh_token_enc c of
                   None \<Rightarrow> Inr (refresh_missing rt c s)
                 | Some refresh_enc \<Rightarrow> use_refresh_token rt g client refresh_enc c s))"

text \<open>
  The refresh on its own, before a capability's transaction, \<open>refresh_access_token_for_capability\<close>: the
  token is read in one transaction, spent outside of any, and the answer stored in another. A failure of
  the client is the only result that is not \<open>None\<close>.
\<close>

definition expired_refresh_token ::
  "services \<Rightarrow> 'b google_runtime_scheme \<Rightarrow> string list \<Rightarrow> 'a google_state_scheme
     \<Rightarrow> exn + string option \<times> 'a google_state_scheme" where
  "expired_refresh_token rt g required s =
     (let stop = (\<lambda>error c s. let (c, s) = set_connector_error rt error c s in Inr (None, save_connector c s))
      in case gs_connector s of
           None \<Rightarrow> Inr (None, s)
         | Some c \<Rightarrow>
             if cn_status c \<noteq> Connected then Inr (None, s)
             else if \<not> covers (scopes_of c) required then stop ''consent_required'' c s
             else if access_token_enc c = None then stop ''token_missing'' c s
             else (case access_token_expires_at c of
                None \<Rightarrow> Inr (None, s)
              | Some due \<Rightarrow>
                  let (now, s) = gs_tick rt s
                  in if due > now then Inr (None, s)
                     else case refresh_token_enc c of
                       None \<Rightarrow> stop ''refresh_missing'' c s
                     | Some sealed \<Rightarrow>
                         proceed (unseal rt g (cn_key_version c) sealed) (\<lambda>refresh. Inr (Some refresh, s))))"

definition note_refresh_failure :: "services \<Rightarrow> string \<Rightarrow> 'a google_state_scheme \<Rightarrow> 'a google_state_scheme" where
  "note_refresh_failure rt error s =
     (case gs_connector s of None \<Rightarrow> s | Some c \<Rightarrow> record_refresh_failure rt error c s)"

definition store_refreshed ::
  "services \<Rightarrow> 'b google_runtime_scheme \<Rightarrow> string \<Rightarrow> string \<Rightarrow> int \<Rightarrow> 'a google_state_scheme
     \<Rightarrow> exn + 'a google_state_scheme" where
  "store_refreshed rt g access refresh lifetime s =
     (let store = (\<lambda>c s.
        proceed (seal_tokens rt g access refresh c s) (\<lambda>(c, s).
        let (from_now, s) = gs_tick rt s
        in proceed (expiry_after lifetime from_now) (\<lambda>due.
           let (now, s) = gs_tick rt s
           in Inr (announce_refresh rt (c\<lparr>access_token_expires_at := Some due, token_obtained_at := Some now\<rparr>) s))))
      in case gs_connector s of
           None \<Rightarrow> Inr s
         | Some c \<Rightarrow>
             if cn_status c \<noteq> Connected then Inr s
             else case access_token_expires_at c of
               None \<Rightarrow> store c s
             | Some due \<Rightarrow>
                 let (now, s) = gs_tick rt s in if due > now then Inr s else store c s)"

definition refresh_access_token_for_capability ::
  "services \<Rightarrow> 'b google_runtime_scheme \<Rightarrow> google_client \<Rightarrow> string \<Rightarrow> 'a google_state_scheme
     \<Rightarrow> 'a google_state_scheme \<times> (exn + provider_result option)" where
  "refresh_access_token_for_capability rt g client cid s =
     (case map_of GOOGLE_CAPABILITY_SCOPES cid of
        None \<Rightarrow> (s, Inr None)
      | Some required \<Rightarrow>
         (case expired_refresh_token rt g required s of
            Inl e \<Rightarrow> (s, Inl e)
          | Inr (None, s) \<Rightarrow> (s, Inr None)
          | Inr (Some refresh, s) \<Rightarrow>
             (case refresh_access_token client refresh of
                Inl error \<Rightarrow>
                  (note_refresh_failure rt error s,
                   Inr (if gs_connector s = None then None else Some (refresh_failure_result error)))
              | Inr payload \<Rightarrow>
                 (case stripped_text (jget payload ''access_token'') of
                    None \<Rightarrow>
                      (note_refresh_failure rt ''provider_invalid_payload'' s,
                       Inr (Some (refresh_failure_result ''provider_invalid_payload'')))
                  | Some access \<Rightarrow>
                     (case store_refreshed rt g access
                         (or_else (stripped_text (jget payload ''refresh_token'')) refresh)
                         (refreshed_lifetime payload) s of
                        Inl e \<Rightarrow> (s, Inl e)
                      | Inr s \<Rightarrow> (s, Inr None))))))"

section \<open>Access for a capability\<close>

record access =
  ac_token :: "string option"
  ac_scopes :: "string list"
  ac_account :: "string option"
  ac_failure :: "provider_result option"

definition no_access :: "string list \<Rightarrow> string option \<Rightarrow> provider_result \<Rightarrow> access" where
  "no_access scopes account failure =
     \<lparr>ac_token = None, ac_scopes = scopes, ac_account = account, ac_failure = Some failure\<rparr>"

definition google_connected_account_subject :: "connector \<Rightarrow> exn + string" where
  "google_connected_account_subject c =
     (if cn_status c \<noteq> Connected then Inl (RuntimeError ''google_connector_not_connected'')
      else case google_account_subject (account_subject c) of
        None \<Rightarrow> Inl (RuntimeError ''google_connected_account_identity_invalid'')
      | Some subject \<Rightarrow>
          if google_account_email (account_email c) = None
          then Inl (RuntimeError ''google_connected_account_identity_invalid'')
          else Inr subject)"

text \<open>The checks both forms share; the rest gets the connector, its account and its scopes.\<close>

definition with_connected ::
  "services \<Rightarrow> string
     \<Rightarrow> (connector \<Rightarrow> string \<Rightarrow> string list \<Rightarrow> 'a google_state_scheme \<Rightarrow> exn + access \<times> 'a google_state_scheme)
     \<Rightarrow> 'a google_state_scheme \<Rightarrow> exn + access \<times> 'a google_state_scheme" where
  "with_connected rt cid k s =
     (case map_of GOOGLE_CAPABILITY_SCOPES cid of
        None \<Rightarrow> Inr (no_access [] None (inline_failure ''unknown_capability''), s)
      | Some required \<Rightarrow>
         (case gs_connector s of
            None \<Rightarrow> Inr (no_access [] None (typed_failure ''not_connected''), s)
          | Some c \<Rightarrow>
              if cn_status c = NotConnected then Inr (no_access [] None (typed_failure ''not_connected''), s)
              else if cn_status c = Revoked then Inr (no_access [] None (typed_failure ''access_revoked''), s)
              else if cn_status c \<noteq> Connected
              then Inr (no_access [] None (typed_failure (connector_unavailable_failure_class c)), s)
              else proceed (google_connected_account_subject c) (\<lambda>account.
                if \<not> covers (scopes_of c) required then
                  let (c, s) = set_connector_error rt ''consent_required'' c s
                  in Inr (no_access (scopes_of c) (Some account) (typed_failure ''consent_required''),
                       save_connector c s)
                else k c account (scopes_of c) s)))"

definition prepare_capability_access_without_refresh ::
  "services \<Rightarrow> 'b google_runtime_scheme \<Rightarrow> string \<Rightarrow> 'a google_state_scheme
     \<Rightarrow> exn + access \<times> 'a google_state_scheme" where
  "prepare_capability_access_without_refresh rt g cid =
     with_connected rt cid (\<lambda>c account scopes s.
       let stop = (\<lambda>error s. let (c, s) = set_connector_error rt error c s
             in Inr (no_access scopes (Some account) (typed_failure ''token_expired''), save_connector c s));
           open_token = (\<lambda>sealed s. proceed (unseal rt g (cn_key_version c) sealed) (\<lambda>token.
             Inr (\<lparr>ac_token = Some token, ac_scopes = scopes, ac_account = Some account, ac_failure = None\<rparr>, s)))
       in case access_token_enc c of
            None \<Rightarrow> stop ''token_missing'' s
          | Some sealed \<Rightarrow>
             (case access_token_expires_at c of
                None \<Rightarrow> open_token sealed s
              | Some due \<Rightarrow>
                  let (now, s) = gs_tick rt s
                  in if due \<le> now then stop ''token_expired'' s else open_token sealed s))"

definition prepare_capability_access ::
  "services \<Rightarrow> 'b google_runtime_scheme \<Rightarrow> google_client \<Rightarrow> string \<Rightarrow> 'a google_state_scheme
     \<Rightarrow> exn + access \<times> 'a google_state_scheme" where
  "prepare_capability_access rt g client cid =
     with_connected rt cid (\<lambda>c account scopes s.
       proceed (refresh_access_token_if_needed rt g client c s) (\<lambda>(result, s).
       Inr (case result of
              Inl failure \<Rightarrow> (no_access scopes (Some account) failure, s)
            | Inr token \<Rightarrow>
                (\<lparr>ac_token = Some token, ac_scopes = scopes, ac_account = Some account, ac_failure = None\<rparr>, s))))"

text \<open>For a background synchronization: a failure is a provider failure with a code.\<close>

definition access_token_for_background_sync ::
  "services \<Rightarrow> 'b google_runtime_scheme \<Rightarrow> google_client \<Rightarrow> 'a google_state_scheme
     \<Rightarrow> exn + (string + string) \<times> 'a google_state_scheme" where
  "access_token_for_background_sync rt g client s =
     (case gs_connector s of
        None \<Rightarrow> Inr (Inl ''not_connected'', s)
      | Some c \<Rightarrow>
          if cn_status c = NotConnected then Inr (Inl ''not_connected'', s)
          else if cn_status c = Revoked then Inr (Inl ''access_revoked'', s)
          else if cn_status c \<noteq> Connected then Inr (Inl (connector_unavailable_failure_class c), s)
          else proceed (refresh_access_token_if_needed rt g client c s) (\<lambda>(result, s).
            Inr (case result of
                   Inl failure \<Rightarrow> (Inl (or_else (pr_error failure) ''token_refresh_failed''), s)
                 | Inr token \<Rightarrow> (Inr token, s))))"

definition access_token_for_background_sync_without_refresh ::
  "services \<Rightarrow> 'b google_runtime_scheme \<Rightarrow> 'a google_state_scheme
     \<Rightarrow> exn + (string + string) \<times> 'a google_state_scheme" where
  "access_token_for_background_sync_without_refresh rt g s =
     (let stop = (\<lambda>error c s. let (c, s) = set_connector_error rt error c s
            in Inr (Inl ''token_expired'', save_connector c s));
          open_token = (\<lambda>c sealed s. proceed (unseal rt g (cn_key_version c) sealed) (\<lambda>token. Inr (Inr token, s)))
      in case gs_connector s of
           None \<Rightarrow> Inr (Inl ''not_connected'', s)
         | Some c \<Rightarrow>
             if cn_status c = NotConnected then Inr (Inl ''not_connected'', s)
             else if cn_status c = Revoked then Inr (Inl ''access_revoked'', s)
             else if cn_status c \<noteq> Connected then Inr (Inl (connector_unavailable_failure_class c), s)
             else case access_token_enc c of
               None \<Rightarrow> stop ''token_missing'' c s
             | Some sealed \<Rightarrow>
                (case access_token_expires_at c of
                   None \<Rightarrow> open_token c sealed s
                 | Some due \<Rightarrow>
                     let (now, s) = gs_tick rt s
                     in if due \<le> now then stop ''token_expired'' c s else open_token c sealed s))"

text \<open>The provider's own calls are the field of a runtime; the whole capability is access and call.\<close>

definition execute_google_capability ::
  "services \<Rightarrow> 'b google_runtime_scheme \<Rightarrow> google_client
     \<Rightarrow> (string \<Rightarrow> dict \<Rightarrow> string \<Rightarrow> string list \<Rightarrow> string \<Rightarrow> exn + provider_result)
     \<Rightarrow> string \<Rightarrow> dict \<Rightarrow> 'a google_state_scheme \<Rightarrow> exn + provider_result \<times> 'a google_state_scheme" where
  "execute_google_capability rt g client provider cid input s =
     proceed (prepare_capability_access rt g client cid s) (\<lambda>(a, s).
     case ac_failure a of
       Some failure \<Rightarrow> Inr (failure, s)
     | None \<Rightarrow>
        (case (ac_token a, ac_account a) of
           (Some token, Some account) \<Rightarrow>
             proceed (provider cid input token (ac_scopes a) account) (\<lambda>result. Inr (result, s))
         | _ \<Rightarrow> Inr (typed_failure ''token_expired'', s)))"

section \<open>Starting the OAuth flow\<close>

definition flow_name :: "bool \<Rightarrow> string" where
  "flow_name reconnect = (if reconnect then ''reconnect'' else ''connect'')"

definition flow_event :: "string \<Rightarrow> string \<Rightarrow> string" where
  "flow_event flow outcome =
     ''evt.connector.google.'' @ (if flow = ''reconnect'' then ''reconnect'' else ''connect'') @ outcome"

definition pkce_verifier :: "google_settings \<Rightarrow> nat \<Rightarrow> string" where
  "pkce_verifier g n = take 96 (random_token g n 64)"

definition pkce_challenge :: "services \<Rightarrow> string \<Rightarrow> string" where
  "pkce_challenge rt verifier = urlsafe_b64encode (sha256_bytes (service_crypto rt) (utf8_encode verifier))"

definition connector_error :: "int \<Rightarrow> string \<Rightarrow> string \<Rightarrow> string \<Rightarrow> bool \<Rightarrow> action_error" where
  "connector_error status code message reason retry =
     \<lparr>status_code = status, error_code = code, error_message = message,
      error_details = [(''reason'', JStr reason)], retryable = retry\<rparr>"

definition insert_oauth_state :: "oauth_state \<Rightarrow> 'a google_state_scheme \<Rightarrow> exn + 'a google_state_scheme" where
  "insert_oauth_state row s =
     (if list_ex (\<lambda>p. os_id p = os_id row \<or> state_handle p = state_handle row) (oauth_states s) then Inl IntegrityError
      else Inr (s\<lparr>oauth_states := oauth_states s @ [row]\<rparr>))"

definition save_oauth_state :: "oauth_state \<Rightarrow> 'a google_state_scheme \<Rightarrow> 'a google_state_scheme" where
  "save_oauth_state row s =
     s\<lparr>oauth_states := map (\<lambda>p. if state_handle p = state_handle row then row else p) (oauth_states s)\<rparr>"

definition find_oauth_state :: "'a google_state_scheme \<Rightarrow> string \<Rightarrow> oauth_state option" where
  "find_oauth_state s handle = find (\<lambda>p. state_handle p = handle) (oauth_states s)"

definition intent_fields :: "string list \<Rightarrow> dict" where
  "intent_fields intents =
     (if intents = [] then []
      else [(''capability_intent'', JStr (join_with '','' intents)), (''capability_intents'', JArr (map JStr intents))])"

definition oauth_request ::
  "bool \<Rightarrow> connector \<Rightarrow> string option \<Rightarrow> exn + (action_error + string list \<times> string list)" where
  "oauth_request reconnect c intent =
     (if \<not> reconnect then Inr (Inr (sort (remdups GOOGLE_DEFAULT_REQUESTED_SCOPES), []))
      else case resolve_reconnect_scopes (JArr (map JStr (scopes_of c))) intent of
        Inl (RuntimeError m) \<Rightarrow>
          Inr (Inl (connector_error 400 ''E_CONNECTOR_RECONNECT_INVALID_INTENT''
            ''google reconnect capability intent is invalid''
            (safe_failure_reason m ''invalid_capability_intent'') False))
      | Inl e \<Rightarrow> Inl e
      | Inr r \<Rightarrow> Inr (Inr r))"

definition open_oauth_state ::
  "services \<Rightarrow> google_settings \<Rightarrow> bool \<Rightarrow> string list \<Rightarrow> 'a google_state_scheme
     \<Rightarrow> exn + oauth_state \<times> 'a google_state_scheme" where
  "open_oauth_state rt g reconnect scopes s =
     (let (n, s) = gs_serial s; (m, s) = gs_serial s; verifier = pkce_verifier g m; (now, s) = gs_tick rt s
      in proceed (expiry_after (max 30 (oauth_state_ttl_seconds g)) now) (\<lambda>due.
         let (new_id, s) = gs_fresh rt ''gos'' s
         in proceed (seal rt g verifier s) (\<lambda>(verifier_enc, s).
            let p = \<lparr>os_id = new_id, state_handle = ''st_'' @ random_token g n 24, os_flow = flow_name reconnect,
                  requested_scopes = scopes, pkce_verifier_enc = verifier_enc,
                  os_pkce_challenge = pkce_challenge rt verifier, os_redirect_uri = redirect_uri g,
                  os_expires_at = due, consumed_at = None, os_created_at = now, os_updated_at = now\<rparr>
            in proceed (insert_oauth_state p s) (\<lambda>s. Inr (p, s)))))"

definition start_failed ::
  "services \<Rightarrow> string \<Rightarrow> connector \<Rightarrow> oauth_state \<Rightarrow> string list \<Rightarrow> 'a google_state_scheme
     \<Rightarrow> 'a google_state_scheme \<times> (action_error + dict)" where
  "start_failed rt reason c p intents s =
     (let (c, s) = set_connector_error rt ''oauth_start_failed'' c s;
          s = append_connector_event rt (flow_event (os_flow p) ''.failed'')
            (connector_event_payload c (requested_scopes p)
             @ [(''requested_scopes'', JArr (map JStr (requested_scopes p))), (''failure_reason'', JStr reason)]
             @ intent_fields intents) (save_connector c s)
      in (s, Inl (connector_error 503 ''E_CONNECTOR_START_FAILED'' ''google connector start failed'' reason False)))"

definition start_oauth ::
  "services \<Rightarrow> google_settings \<Rightarrow> google_client \<Rightarrow> bool \<Rightarrow> string option \<Rightarrow> 'a google_state_scheme
     \<Rightarrow> exn + 'a google_state_scheme \<times> (action_error + dict)" where
  "start_oauth rt g client reconnect intent s =
     (let (c, s) = ensure_connector rt g s
      in case oauth_request reconnect c intent of
           Inl e \<Rightarrow> Inl e
         | Inr (Inl e) \<Rightarrow> Inr (s, Inl e)
         | Inr (Inr (scopes, intents)) \<Rightarrow>
             proceed (open_oauth_state rt g reconnect scopes s) (\<lambda>(p, s).
             let s = append_connector_event rt (flow_event (os_flow p) ''.started'')
                   (connector_event_payload c scopes
                    @ [(''requested_scopes'', JArr (map JStr scopes)),
                       (''state_expires_at'', JStr (to_rfc3339 (os_expires_at p)))] @ intent_fields intents) s
             in Inr (case build_authorization_url client (state_handle p) (os_pkce_challenge p) scopes
                     (redirect_uri g) reconnect of
                  Inl reason \<Rightarrow> start_failed rt reason c p intents s
                | Inr url \<Rightarrow>
                    (s, Inr [(''connector'', JObj (connector_payload (Some c))),
                      (''oauth'', JObj [(''authorization_url'', JStr url), (''state'', JStr (state_handle p)),
                         (''expires_at'', JStr (to_rfc3339 (os_expires_at p))),
                         (''requested_scopes'', JArr (map JStr scopes)),
                         (''capability_intent'', text_json (if intents = [] then None else Some (join_with '','' intents))),
                         (''capability_intents'', JArr (map JStr intents))])]))))"

section \<open>The OAuth callback\<close>

definition callback_invalid_error :: "string \<Rightarrow> action_error" where
  "callback_invalid_error reason =
     connector_error 400 ''E_CONNECTOR_CALLBACK_INVALID'' ''google connector callback was rejected'' reason False"

definition append_callback_failed_event ::
  "services \<Rightarrow> string \<Rightarrow> string \<Rightarrow> connector \<Rightarrow> 'a google_state_scheme \<Rightarrow> 'a google_state_scheme" where
  "append_callback_failed_event rt flow reason c s =
     append_connector_event rt (flow_event flow ''.failed'')
       (connector_event_payload c (scopes_of c) @ [(''failure_reason'', JStr reason)]) s"

definition callback_invalid_event_only ::
  "services \<Rightarrow> string \<Rightarrow> string \<Rightarrow> connector \<Rightarrow> 'a google_state_scheme
     \<Rightarrow> 'a google_state_scheme \<times> (action_error + dict)" where
  "callback_invalid_event_only rt flow reason c s =
     (append_callback_failed_event rt flow reason c s, Inl (callback_invalid_error reason))"

definition callback_invalid_recorded ::
  "services \<Rightarrow> string \<Rightarrow> string \<Rightarrow> connector \<Rightarrow> 'a google_state_scheme
     \<Rightarrow> 'a google_state_scheme \<times> (action_error + dict)" where
  "callback_invalid_recorded rt flow reason c s =
     (let (c, s) = set_connector_error rt reason c s
      in callback_invalid_event_only rt flow reason c (save_connector c s))"

definition callback_failed ::
  "services \<Rightarrow> string \<Rightarrow> string \<Rightarrow> string \<Rightarrow> dict \<Rightarrow> connector \<Rightarrow> 'a google_state_scheme
     \<Rightarrow> 'a google_state_scheme \<times> (action_error + dict)" where
  "callback_failed rt flow error reason extra c s =
     (let (c, s) = set_connector_error rt error (c\<lparr>cn_status := ErrorStatus\<rparr>) s;
          s = append_connector_event rt (flow_event flow ''.failed'')
            (connector_event_payload c (scopes_of c) @ extra @ [(''failure_reason'', JStr reason)]) (save_connector c s)
      in (s, Inl (connector_error 502 ''E_CONNECTOR_CALLBACK_FAILED'' ''google connector callback failed'' reason True)))"

text \<open>What makes a callback unusable before its state is spent, in the order of the checks.\<close>

definition callback_fault :: "oauth_state \<Rightarrow> int \<Rightarrow> string option \<Rightarrow> string option \<Rightarrow> string option" where
  "callback_fault p now code error =
     (if os_expires_at p < now then Some ''state_expired''
      else if error \<noteq> None \<and> strip (the error) \<noteq> []
      then Some (safe_failure_reason (the error) ''oauth_provider_error'')
      else if code = None \<or> strip (the code) = [] then Some ''missing_code''
      else None)"

text \<open>The refresh token to keep: the new one, or the old one when Google sent none.\<close>

definition kept_refresh_token ::
  "services \<Rightarrow> 'b google_runtime_scheme \<Rightarrow> connector \<Rightarrow> dict \<Rightarrow> exn + string option" where
  "kept_refresh_token rt g c payload =
     (case stripped_text (jget payload ''refresh_token'') of
        Some t \<Rightarrow> Inr (Some t)
      | None \<Rightarrow>
         (case refresh_token_enc c of
            None \<Rightarrow> Inr None
          | Some sealed \<Rightarrow> proceed (unseal rt g (cn_key_version c) sealed) (\<lambda>t. Inr (Some t))))"

definition adopted ::
  "services \<Rightarrow> google_settings \<Rightarrow> google_client \<Rightarrow> oauth_state \<Rightarrow> string list \<Rightarrow> string \<Rightarrow> string \<Rightarrow> connector
     \<Rightarrow> 'a google_state_scheme \<Rightarrow> 'a google_state_scheme \<times> (action_error + dict)" where
  "adopted rt g client p scopes access subject c s =
     (let (now, s) = gs_tick rt s;
          c = c\<lparr>last_error_code := None, last_error_at := None, cn_updated_at := now\<rparr>;
          granted = [(''requested_scopes'', JArr (map JStr (normalize_scope_list (JArr (map JStr (requested_scopes p)))))),
            (''granted_scopes'', JArr (map JStr scopes))]
      in case register_watches client access scopes subject of
           Some code \<Rightarrow> callback_failed rt (os_flow p) code code granted c (save_connector c s)
         | None \<Rightarrow>
             (append_connector_event rt (flow_event (os_flow p) ''.succeeded'')
                (connector_event_payload c scopes @ granted) (save_connector c s),
              Inr (connector_payload (Some c))))"

text \<open>The account and the tokens of the exchange become those of the connector.\<close>

definition adopt_tokens ::
  "services \<Rightarrow> google_settings \<Rightarrow> google_client \<Rightarrow> oauth_state \<Rightarrow> int \<Rightarrow> dict \<Rightarrow> connector
     \<Rightarrow> 'a google_state_scheme \<Rightarrow> exn + 'a google_state_scheme \<times> (action_error + dict)" where
  "adopt_tokens rt g client p now payload c s =
     (let scopes = normalize_scope_list (jget payload ''granted_scopes'');
          lifetime = max 0 (int_or 3600 (jget payload ''expires_in_seconds''))
      in case (google_account_subject (as_str (jget payload ''account_subject'')),
               google_account_email (as_str (jget payload ''account_email'')),
               stripped_text (jget payload ''access_token'')) of
           (Some subject, Some email, Some access) \<Rightarrow>
             proceed (kept_refresh_token rt g c payload) (\<lambda>refresh.
             case refresh of
               None \<Rightarrow> Inr (callback_invalid_recorded rt (os_flow p) ''missing_refresh_token'' c s)
             | Some refresh \<Rightarrow>
                 proceed (seal_tokens rt g access refresh
                   (c\<lparr>cn_status := Connected, account_subject := Some subject, account_email := Some email,
                     cn_granted_scopes := scopes\<rparr>) s) (\<lambda>(c, s).
                 proceed (expiry_after lifetime now) (\<lambda>due.
                 Inr (adopted rt g client p scopes access subject
                   (c\<lparr>access_token_expires_at := Some due, token_obtained_at := Some now\<rparr>) s))))
         | _ \<Rightarrow> Inr (callback_invalid_recorded rt (os_flow p) ''oauth_payload_invalid'' c s))"

text \<open>The state is spent before the verifier is opened and the code is sent.\<close>

definition exchange_code ::
  "services \<Rightarrow> google_settings \<Rightarrow> google_client \<Rightarrow> oauth_state \<Rightarrow> int \<Rightarrow> string \<Rightarrow> connector
     \<Rightarrow> 'a google_state_scheme \<Rightarrow> exn + 'a google_state_scheme \<times> (action_error + dict)" where
  "exchange_code rt g client p now code c s =
     (let s = save_oauth_state (p\<lparr>consumed_at := Some now, os_updated_at := now\<rparr>) s
      in proceed (try_unseal rt g (encryption_key_version g) (pkce_verifier_enc p)) (\<lambda>opened.
         case opened of
           Inl reason \<Rightarrow> Inr (callback_invalid_recorded rt (os_flow p) reason c s)
         | Inr verifier \<Rightarrow>
            (case exchange_code_for_tokens client code verifier (os_redirect_uri p) (state_handle p) of
               Inl reason \<Rightarrow> Inr (callback_failed rt (os_flow p) ''oauth_exchange_failed'' reason [] c s)
             | Inr payload \<Rightarrow> adopt_tokens rt g client p now payload c s)))"

definition complete_oauth_callback ::
  "services \<Rightarrow> google_settings \<Rightarrow> google_client \<Rightarrow> string option \<Rightarrow> string option \<Rightarrow> string option
     \<Rightarrow> 'a google_state_scheme \<Rightarrow> exn + 'a google_state_scheme \<times> (action_error + dict)" where
  "complete_oauth_callback rt g client handle code error s =
     (let (c, s) = ensure_connector rt g s
      in if handle = None \<or> strip (the handle) = []
         then Inr (callback_invalid_event_only rt ''connect'' ''missing_state'' c s)
         else case find_oauth_state s (strip (the handle)) of
           None \<Rightarrow> Inr (callback_invalid_event_only rt ''connect'' ''invalid_state'' c s)
         | Some p \<Rightarrow>
             if consumed_at p \<noteq> None then
               Inr ((if cn_status c = Connected then callback_invalid_event_only else callback_invalid_recorded)
                 rt (os_flow p) ''state_replayed'' c s)
             else let (now, s) = gs_tick rt s
                  in case callback_fault p now code error of
                       Some reason \<Rightarrow> Inr (callback_invalid_recorded rt (os_flow p) reason c s)
                     | None \<Rightarrow> exchange_code rt g client p now (strip (the code)) c s)"

section \<open>Disconnecting\<close>

text \<open>
  What synchronization left: accepted provider events fail, cursors go, and so do the one-shot tasks of
  the provider.
\<close>

definition provider_task :: "string list \<Rightarrow> background_task \<Rightarrow> bool" where
  "provider_task event_ids t =
     (recurrence_seconds t = None \<and>
       (let payload = dict_or_empty (task_payload t)
        in task_type t = ''provider_event_received''
             \<and> (case as_str (jget payload ''provider_event_id'') of None \<Rightarrow> False | Some i \<Rightarrow> List.member event_ids i)
           \<or> task_type t = ''provider_sync_due'' \<and> jget payload ''provider'' = JStr ''google''))"

definition clear_disconnected_provider_state :: "'a google_state_scheme \<Rightarrow> dict \<times> 'a google_state_scheme" where
  "clear_disconnected_provider_state s =
     (let of_google = filter (\<lambda>e. pe_provider e = ''google'') (provider_events s);
          event_ids = map pe_id of_google;
          accepted = filter (\<lambda>e. pe_status e = ''accepted'') of_google;
          cursors = filter (\<lambda>c. sc_provider c = ''google'') (sync_cursors s);
          gone = filter (provider_task event_ids) (tasks (gs_world s))
      in ([(''sync_cursors_deleted'', JInt (int (length cursors))),
           (''provider_events_failed'', JInt (int (length accepted))),
           (''background_tasks_deleted'', JInt (int (length gone)))],
          s\<lparr>provider_events := map (\<lambda>e. if pe_provider e = ''google'' \<and> pe_status e = ''accepted''
                then e\<lparr>pe_status := ''failed'', pe_error := Some ''google_connector_disconnected''\<rparr> else e)
              (provider_events s),
            sync_cursors := filter (\<lambda>c. sc_provider c \<noteq> ''google'') (sync_cursors s),
            gs_world := (gs_world s)\<lparr>tasks := filter (\<lambda>t. \<not> provider_task event_ids t) (tasks (gs_world s))\<rparr>\<rparr>))"

text \<open>The outcome of giving one token back.\<close>

definition revoke_slot ::
  "services \<Rightarrow> 'b google_runtime_scheme \<Rightarrow> google_client \<Rightarrow> connector \<Rightarrow> string \<times> string option \<Rightarrow> exn + json list" where
  "revoke_slot rt g client c entry =
     (case entry of
        (slot, None) \<Rightarrow> Inr []
      | (slot, Some sealed) \<Rightarrow>
          let outcome = (\<lambda>status stage reason. JObj ([(''slot'', JStr slot), (''status'', JStr status),
                (''stage'', JStr stage)] @ (case reason of None \<Rightarrow> [] | Some r \<Rightarrow> [(''reason'', JStr r)])))
          in proceed (try_unseal rt g (cn_key_version c) sealed) (\<lambda>opened.
             Inr [case opened of
                    Inl reason \<Rightarrow> outcome ''failed'' ''decrypt'' (Some reason)
                  | Inr token \<Rightarrow>
                     (case revoke_token client token of
                        Some reason \<Rightarrow> outcome ''failed'' ''revoke'' (Some reason)
                      | None \<Rightarrow> outcome ''succeeded'' ''revoke'' None)]))"

definition token_for_watches ::
  "services \<Rightarrow> 'b google_runtime_scheme \<Rightarrow> connector \<Rightarrow> exn + string option \<times> string option" where
  "token_for_watches rt g c =
     (case access_token_enc c of
        None \<Rightarrow> Inr (None, None)
      | Some sealed \<Rightarrow>
          proceed (try_unseal rt g (cn_key_version c) sealed) (\<lambda>opened.
          Inr (case opened of Inl reason \<Rightarrow> (None, Some reason) | Inr token \<Rightarrow> (Some token, None))))"

definition disconnected :: "int \<Rightarrow> connector \<Rightarrow> connector" where
  "disconnected now c =
     c\<lparr>cn_status := NotConnected, account_subject := None, account_email := None, cn_granted_scopes := [],
       access_token_enc := None, refresh_token_enc := None, access_token_expires_at := None,
       token_obtained_at := None, last_error_code := None, last_error_at := None, cn_updated_at := now\<rparr>"

definition disconnect ::
  "services \<Rightarrow> 'b google_runtime_scheme \<Rightarrow> google_client \<Rightarrow> 'a google_state_scheme
     \<Rightarrow> exn + dict \<times> 'a google_state_scheme" where
  "disconnect rt g client s =
     (let (c, s) = ensure_connector rt g s; (now, s) = gs_tick rt s
      in proceed (token_for_watches rt g c) (\<lambda>(token, token_error).
         let stopped = stop_watches client token token_error;
             (counts, s) = clear_disconnected_provider_state s;
             counts = counts @ [(''provider_watch_channels'', JInt (int (length stopped)))]
         in proceed (revoke_slot rt g client c (''refresh_token'', refresh_token_enc c)) (\<lambda>refresh.
            proceed (revoke_slot rt g client c (''access_token'', access_token_enc c)) (\<lambda>access.
            let c = disconnected now c;
                (new_id, s) = gs_fresh rt ''gce'' (save_connector c s);
                s = s\<lparr>connector_events := connector_events s @
                  [\<lparr>ce_id = new_id, ce_connector_id = GOOGLE_CONNECTOR_ID,
                    ce_event_type = ''evt.connector.google.disconnected'',
                    ce_payload = redact_json_value (JObj (connector_event_payload c []
                      @ [(''token_revoke_results'', JArr (refresh @ access)), (''watch_stop_results'', JArr stopped),
                         (''cleanup_counts'', JObj counts)])), ce_created_at = now\<rparr>]\<rparr>
            in Inr (connector_payload (Some c), s)))))"

end
