(* ===== verification/Write_Receipts.thy ===== *)
theory Write_Receipts
  imports Google_Connector
begin

text \<open>
  The receipts of provider writes, \<open>src/ariel/action_runtime.py\<close>: the idempotency key of a write, the
  authority it names, the provider objects it touched, the receipt that is recorded before the call and
  settled after it, and the task that looks into a result nobody knows.

  The receipts, the evidence a write may name and the turns extend the state of the connector.
\<close>

section \<open>State\<close>

datatype receipt_status = ExecutingWrite | SucceededWrite | FailedWrite | AmbiguousWrite | UndoneWrite

definition receipt_status_name :: "receipt_status \<Rightarrow> string" where
  "receipt_status_name st =
     (case st of ExecutingWrite \<Rightarrow> ''executing'' | SucceededWrite \<Rightarrow> ''succeeded'' | FailedWrite \<Rightarrow> ''failed''
      | AmbiguousWrite \<Rightarrow> ''ambiguous'' | UndoneWrite \<Rightarrow> ''undone'')"

record write_receipt =
  rc_id :: string
  rc_provider :: string
  rc_account :: string
  rc_attempt_id :: string
  rc_capability_id :: string
  rc_key :: string
  rc_status :: receipt_status
  provider_object_ids :: dict
  request_digest :: string
  response_payload :: dict
  ambiguity_reason :: "string option"
  provider_timestamp :: "int option"
  provider_etag :: "string option"
  provider_history_id :: "string option"
  response_digest :: string
  before_state :: "dict option"
  after_state :: "dict option"
  undo_token_hash :: "string option"
  undo_expires_at :: "int option"
  rc_created_at :: int
  rc_updated_at :: int

record evidence_row =
  se_id :: string
  se_provider :: string
  se_account :: string
  se_lifecycle_state :: string
  se_source_kind :: string
  se_external_id :: string
  se_calendar_id :: "string option"

record write_store = google_state +
  receipts :: "write_receipt list"
  evidence_rows :: "evidence_row list"
  turn_ids :: "string list"

definition EMAIL_MUTATION_CAPABILITY_IDS :: "string list" where
  "EMAIL_MUTATION_CAPABILITY_IDS = [''cap.email.archive'', ''cap.email.trash'', ''cap.email.labels.modify'', ''cap.email.undo'']"

definition GOOGLE_RECEIPT_CAPABILITY_IDS :: "string list" where
  "GOOGLE_RECEIPT_CAPABILITY_IDS = map fst GOOGLE_WRITE_CAPABILITY_SCOPES"

definition AGENCY_RECEIPT_CAPABILITY_IDS :: "string list" where
  "AGENCY_RECEIPT_CAPABILITY_IDS = [''cap.agency.request_pr'']"

text \<open>The checks of the table, and its unique indexes.\<close>

definition receipt_ok :: "write_receipt \<Rightarrow> bool" where
  "receipt_ok r \<longleftrightarrow>
     List.member [''google'', ''agency''] (rc_provider r)
     \<and> List.member (GOOGLE_RECEIPT_CAPABILITY_IDS @ AGENCY_RECEIPT_CAPABILITY_IDS) (rc_capability_id r)
     \<and> ((rc_status r = AmbiguousWrite) = (ambiguity_reason r \<noteq> None))
     \<and> (List.member EMAIL_MUTATION_CAPABILITY_IDS (rc_capability_id r)
        \<or> before_state r = None \<and> after_state r = None \<and> undo_token_hash r = None \<and> undo_expires_at r = None)
     \<and> ((undo_token_hash r = None) = (undo_expires_at r = None))
     \<and> (List.member EMAIL_MUTATION_CAPABILITY_IDS (rc_capability_id r) \<and> rc_capability_id r \<noteq> ''cap.email.undo''
          \<and> rc_status r = SucceededWrite
        \<longrightarrow> undo_token_hash r \<noteq> None)"

definition same_undo :: "write_receipt \<Rightarrow> write_receipt \<Rightarrow> bool" where
  "same_undo r q \<longleftrightarrow> undo_token_hash r \<noteq> None \<and> undo_token_hash q = undo_token_hash r"

definition receipt_clash :: "write_receipt \<Rightarrow> write_receipt \<Rightarrow> bool" where
  "receipt_clash r q \<longleftrightarrow>
     rc_id q = rc_id r
     \<or> rc_provider q = rc_provider r \<and> rc_account q = rc_account r \<and> rc_key q = rc_key r
     \<or> rc_attempt_id q = rc_attempt_id r \<and> rc_key q = rc_key r
     \<or> same_undo r q"

definition insert_receipt :: "write_receipt \<Rightarrow> write_store \<Rightarrow> exn + write_store" where
  "insert_receipt r s =
     (if \<not> receipt_ok r \<or> list_ex (receipt_clash r) (receipts s) then Inl IntegrityError
      else Inr (s\<lparr>receipts := receipts s @ [r]\<rparr>))"

definition find_receipt :: "write_store \<Rightarrow> string \<Rightarrow> write_receipt option" where
  "find_receipt s i = find (\<lambda>r. rc_id r = i) (receipts s)"

definition save_receipt :: "write_receipt \<Rightarrow> write_store \<Rightarrow> write_store" where
  "save_receipt r s = s\<lparr>receipts := map (\<lambda>q. if rc_id q = rc_id r then r else q) (receipts s)\<rparr>"

definition update_receipt :: "write_receipt \<Rightarrow> write_store \<Rightarrow> exn + write_store" where
  "update_receipt r s =
     (if \<not> receipt_ok r \<or> list_ex (\<lambda>q. rc_id q \<noteq> rc_id r \<and> same_undo r q) (receipts s) then Inl IntegrityError
      else Inr (save_receipt r s))"

definition receipt_by_key :: "write_store \<Rightarrow> string \<Rightarrow> string \<Rightarrow> string \<Rightarrow> write_receipt option" where
  "receipt_by_key s provider account k =
     find (\<lambda>r. rc_provider r = provider \<and> rc_account r = account \<and> rc_key r = k) (receipts s)"

definition on_gw :: "(world \<Rightarrow> world) \<Rightarrow> 'a google_state_scheme \<Rightarrow> 'a google_state_scheme" where
  "on_gw f s = s\<lparr>gs_world := f (gs_world s)\<rparr>"

section \<open>Keys\<close>

definition EMAIL_TRANSIENT_PROVIDER_ERRORS :: "string list" where
  "EMAIL_TRANSIENT_PROVIDER_ERRORS =
     [''google_upstream_429'', ''google_upstream_500'', ''google_upstream_502'', ''google_upstream_503'',
      ''google_upstream_504'', ''provider_timeout'', ''provider_network_failure'', ''provider_rate_limited'',
      ''provider_upstream_failure'', ''provider_unreachable'', ''token_expired'']"

definition email_provider_error_is_retryable :: "string \<Rightarrow> bool" where
  "email_provider_error_is_retryable error \<longleftrightarrow>
     List.member EMAIL_TRANSIENT_PROVIDER_ERRORS error \<or> starts_with ''google_upstream_5'' error"

definition current_google_provider_account_id :: "'a google_state_scheme \<Rightarrow> exn + string option" where
  "current_google_provider_account_id s =
     (case gs_connector s of
        None \<Rightarrow> Inr None
      | Some c \<Rightarrow>
          if cn_status c \<noteq> Connected then Inr None
          else proceed (google_connected_account_subject c) (\<lambda>subject. Inr (Some subject)))"

definition provider_write_account_id :: "string \<Rightarrow> string option \<Rightarrow> 'a google_state_scheme \<Rightarrow> exn + string" where
  "provider_write_account_id provider account s =
     (if account \<noteq> None \<and> strip (the account) \<noteq> [] then Inr (strip (the account))
      else if provider \<noteq> ''google'' then Inr provider
      else proceed (current_google_provider_account_id s) (\<lambda>current.
        case current of
          None \<Rightarrow> Inl (RuntimeError ''google_account_identity_missing'')
        | Some subject \<Rightarrow> Inr subject))"

text \<open>The unit separator keeps the parts of the hashed text apart.\<close>

definition provider_write_idempotency_key ::
  "services \<Rightarrow> action_attempt \<Rightarrow> string \<Rightarrow> string \<Rightarrow> dict option \<Rightarrow> string" where
  "provider_write_idempotency_key rt a provider account input =
     (case stripped_text (jget (or_else input []) ''idempotency_key'') of
        Some client_key \<Rightarrow>
          ''provider-write:'' @ sha256_hex rt (at_capability_id a @ [CHR 0x1F] @ provider @ [CHR 0x1F]
            @ account @ [CHR 0x1F] @ client_key)
      | None \<Rightarrow> ''provider-write:'' @ provider @ '':'' @ at_id a @ '':'' @ at_payload_hash a)"

definition provider_write_receipt_for_attempt ::
  "services \<Rightarrow> string \<Rightarrow> action_attempt \<Rightarrow> string option \<Rightarrow> dict option \<Rightarrow> write_store
     \<Rightarrow> exn + write_receipt option" where
  "provider_write_receipt_for_attempt rt provider a account input s =
     proceed (provider_write_account_id provider account s) (\<lambda>account.
     Inr (receipt_by_key s provider account (provider_write_idempotency_key rt a provider account input)))"

definition provider_account_id_from_execution_output :: "action_attempt \<Rightarrow> string option" where
  "provider_account_id_from_execution_output a =
     (case as_dict (execution_output a) of
        None \<Rightarrow> None
      | Some output \<Rightarrow> stripped_text (jget output ''provider_account_id''))"

definition provider_write_failure_receipt_status :: "string \<Rightarrow> dict option \<Rightarrow> receipt_status" where
  "provider_write_failure_receipt_status error output =
     (if output \<noteq> None then FailedWrite
      else if error = ''provider_result_unknown'' \<or> email_provider_error_is_retryable error then AmbiguousWrite
      else FailedWrite)"

section \<open>What the provider answered\<close>

fun first_some :: "('a \<Rightarrow> 'b option) \<Rightarrow> 'a list \<Rightarrow> 'b option" where
  "first_some f [] = None"
| "first_some f (x # xs) = (case f x of None \<Rightarrow> first_some f xs | Some y \<Rightarrow> Some y)"

text \<open>The fields of the answer itself, then those of its \<open>provider_result\<close>.\<close>

definition answers :: "dict \<Rightarrow> dict list" where
  "answers payload =
     payload # (case as_dict (jget payload ''provider_result'') of None \<Rightarrow> [] | Some d \<Rightarrow> [d])"

definition provider_write_response_string :: "dict \<Rightarrow> string list \<Rightarrow> string option" where
  "provider_write_response_string payload ks =
     first_some (\<lambda>d. first_some (\<lambda>k. stripped_text (jget d k)) ks) (answers payload)"

definition parse_rfc3339_timestamp :: "json \<Rightarrow> exn + int option" where
  "parse_rfc3339_timestamp v =
     (case stripped_text v of
        None \<Rightarrow> Inr None
      | Some t \<Rightarrow>
         (case fromisoformat (replace ''Z'' ''+00:00'' t) of
            None \<Rightarrow> Inr None
          | Some d \<Rightarrow>
              proceed (astimezone_utc d (or_else (dt_offset d) 0)) (\<lambda>utc.
              Inr (Some (naive_micros d - or_else (dt_offset d) 0)))))"

fun first_timestamp :: "(dict \<times> string) list \<Rightarrow> exn + int option" where
  "first_timestamp [] = Inr None"
| "first_timestamp ((d, k) # rest) =
     proceed (parse_rfc3339_timestamp (jget d k)) (\<lambda>t. if t = None then first_timestamp rest else Inr t)"

definition provider_write_response_timestamp :: "dict \<Rightarrow> exn + int option" where
  "provider_write_response_timestamp payload =
     first_timestamp (List.product (answers payload) [''provider_timestamp'', ''updated'', ''created'', ''sent_at''])"

definition OBJECT_ID_KEYS :: "string list" where
  "OBJECT_ID_KEYS =
     [''message_id'', ''message_ids'', ''mutated_message_ids'', ''attempted_message_ids'', ''thread_id'', ''thread_ids'',
      ''draft_id'', ''event_id'', ''calendar_id'', ''etag'', ''updated'', ''ical_uid'', ''file_id'', ''permission_id'',
      ''grantee_email'', ''role'', ''provider_message_ref'', ''provider_draft_ref'', ''provider_event_ref'', ''job_id'',
      ''repo_id'', ''invocation_id'', ''worktree_id'', ''pr_number'', ''pr_url'', ''request_id'']"

fun collect_ids :: "dict \<Rightarrow> string list \<Rightarrow> dict \<Rightarrow> dict" where
  "collect_ids source [] ids = ids"
| "collect_ids source (k # ks) ids =
     collect_ids source ks
       (if jget source k \<noteq> JNull \<and> \<not> has_key ids k then ids @ [(k, jget source k)] else ids)"

definition provider_write_object_ids :: "dict option \<Rightarrow> dict \<Rightarrow> dict" where
  "provider_write_object_ids input response =
     fold (\<lambda>source. collect_ids source OBJECT_ID_KEYS)
       [or_else input [], response, dict_or_empty (jget response ''provider_result''),
        dict_or_empty (jget response ''pr'')] []"

definition is_text :: "json \<Rightarrow> bool" where
  "is_text v \<longleftrightarrow> as_str v \<noteq> None"

definition whole_number :: "json \<Rightarrow> bool" where
  "whole_number v = (case v of JInt i \<Rightarrow> True | JBool b \<Rightarrow> True | _ \<Rightarrow> False)"

definition provider_write_success_identity_error :: "string \<Rightarrow> dict \<Rightarrow> string option" where
  "provider_write_success_identity_error cid ids =
     (let missing = (\<lambda>ok. if ok then None else Some ''provider_write_identity_missing'');
          has = (\<lambda>k. is_text (jget ids k))
      in if cid = ''cap.email.draft'' then missing (has ''draft_id'' \<or> has ''provider_draft_ref'')
         else if cid = ''cap.email.send'' then missing (has ''message_id'' \<or> has ''provider_message_ref'')
         else if List.member EMAIL_MUTATION_CAPABILITY_IDS cid then missing (nonempty_list (jget ids ''message_ids''))
         else if List.member [''cap.calendar.create_event'', ''cap.calendar.update_event'', ''cap.calendar.respond_to_event''] cid
         then missing (has ''event_id'' \<and> has ''calendar_id'')
         else if cid = ''cap.drive.share''
         then missing (list_all has [''file_id'', ''permission_id'', ''grantee_email'', ''role''])
         else if cid = ''cap.agency.request_pr''
         then missing (has ''pr_url'' \<or> whole_number (jget ids ''pr_number'') \<or> has ''request_id'')
         else None)"

section \<open>The authority of a write\<close>

text \<open>An attempt has at most one approval request.\<close>

definition latest_approval_ref :: "world \<Rightarrow> action_attempt \<Rightarrow> string option" where
  "latest_approval_ref w a = map_option ap_id (find (\<lambda>ap. ap_attempt_id ap = at_id a) (approvals w))"

definition provider_source_evidence_target_error ::
  "action_attempt \<Rightarrow> dict \<Rightarrow> evidence_row \<Rightarrow> string option" where
  "provider_source_evidence_target_error a input e =
     (let mismatch = Some ''provider_source_evidence_target_mismatch''; cid = at_capability_id a;
          event_fault = (List.member [''cap.calendar.update_event'', ''cap.calendar.respond_to_event''] cid
            \<and> (se_source_kind e \<noteq> ''calendar_event''
               \<or> is_text (jget input ''event_id'') \<and> jget input ''event_id'' \<noteq> JStr (se_external_id e)
               \<or> is_text (jget input ''calendar_id'') \<and> se_calendar_id e \<noteq> None
                 \<and> jget input ''calendar_id'' \<noteq> JStr (the (se_calendar_id e))))
      in if List.member EMAIL_MUTATION_CAPABILITY_IDS cid then
           (case as_list (jget input ''message_ids'') of
              None \<Rightarrow> None
            | Some ids \<Rightarrow>
                if \<not> List.member [''gmail_message'', ''gmail_thread''] (se_source_kind e) then mismatch
                else if se_source_kind e = ''gmail_message'' \<and> \<not> List.member ids (JStr (se_external_id e)) then mismatch
                else None)
         else if event_fault then mismatch else None)"

definition named_authority :: "dict \<Rightarrow> (string \<times> string) list" where
  "named_authority input =
     List.map_filter (\<lambda>k. map_option (\<lambda>v. (k, v)) (stripped_text (jget input k)))
       [''source_evidence_id'', ''user_instruction_ref'']"

definition available_evidence :: "write_store \<Rightarrow> string \<Rightarrow> string \<Rightarrow> evidence_row option" where
  "available_evidence s account i =
     find (\<lambda>e. se_id e = i \<and> se_provider e = ''google'' \<and> se_account e = account
       \<and> se_lifecycle_state e = ''available'') (evidence_rows s)"

text \<open>The fault of the named evidence or instruction, or the turn the instruction is of.\<close>

definition evidence_fault :: "write_store \<Rightarrow> action_attempt \<Rightarrow> dict \<Rightarrow> string \<Rightarrow> string option \<Rightarrow> string option" where
  "evidence_fault s a input account evidence_id =
     (case evidence_id of
        None \<Rightarrow> None
      | Some i \<Rightarrow>
         (case available_evidence s account i of
            None \<Rightarrow> Some ''provider_source_evidence_not_found''
          | Some e \<Rightarrow> provider_source_evidence_target_error a input e))"

definition instruction_turn :: "write_store \<Rightarrow> string option \<Rightarrow> string + string option" where
  "instruction_turn s ref =
     (case ref of
        None \<Rightarrow> Inr None
      | Some r \<Rightarrow>
          if \<not> starts_with ''turn:'' r then Inl ''provider_user_instruction_ref_invalid''
          else let turn = strip (drop 5 r)
               in if turn = [] then Inl ''provider_user_instruction_ref_invalid''
                  else if \<not> List.member (turn_ids s) turn then Inl ''provider_user_instruction_not_found''
                  else Inr (Some turn))"

definition approval_ref_field :: "world \<Rightarrow> action_attempt \<Rightarrow> dict" where
  "approval_ref_field w a =
     (case latest_approval_ref w a of None \<Rightarrow> [] | Some i \<Rightarrow> [(''approval_ref'', JStr i)])"

text \<open>The authority of a write, \<open>Inr None\<close> when it names none and needs none, or its fault.\<close>

definition provider_write_authority_payload ::
  "write_store \<Rightarrow> action_attempt \<Rightarrow> dict option \<Rightarrow> string \<Rightarrow> string + dict option" where
  "provider_write_authority_payload s a input account =
     (let input = or_else input []; authority = named_authority input
      in if List.member GOOGLE_RECEIPT_CAPABILITY_IDS (at_capability_id a) \<and> length authority \<noteq> 1
         then Inl ''provider_write_authority_invalid''
         else case evidence_fault s a input account (map_of authority ''source_evidence_id'') of
           Some e \<Rightarrow> Inl e
         | None \<Rightarrow>
            (case instruction_turn s (map_of authority ''user_instruction_ref'') of
               Inl e \<Rightarrow> Inl e
             | Inr turn \<Rightarrow>
                 Inr (if authority = [] then None
                   else Some ([(''source_type'', JStr (fst (hd authority)))] @ map (\<lambda>(k, v). (k, JStr v)) authority
                     @ [(''turn_id'', JStr (or_else turn (at_turn_id a))), (''action_turn_id'', JStr (at_turn_id a))]
                     @ approval_ref_field (gs_world s) a))))"

section \<open>Recording a receipt\<close>

record receipt_content =
  content_ids :: dict
  content_response :: dict
  content_digest :: string
  content_timestamp :: "int option"
  content_etag :: "string option"
  content_history_id :: "string option"

definition redact_undo_token :: "dict \<Rightarrow> dict" where
  "redact_undo_token d = (if has_key d ''undo_token'' then AList.update ''undo_token'' (JStr ''[redacted]'') d else d)"

text \<open>What the receipt shows of the answer: the public form of it, and the authority.\<close>

definition shown_response ::
  "services \<Rightarrow> string \<Rightarrow> action_attempt \<Rightarrow> dict option \<Rightarrow> string \<Rightarrow> dict \<Rightarrow> write_store
     \<Rightarrow> exn + dict \<times> dict option" where
  "shown_response rt provider a input account raw s =
     (if provider = ''google'' then
        proceed (provider_capability_output_for_public_transport rt (at_capability_id a) raw) (\<lambda>shown.
        let shown = redact_undo_token shown
        in Inr (case provider_write_authority_payload s a input account of
             Inl e \<Rightarrow> (AList.update ''authority_error'' (JStr e) shown, None)
           | Inr None \<Rightarrow> (shown, None)
           | Inr (Some authority) \<Rightarrow> (AList.update ''authority'' (JObj authority) shown, Some authority)))
      else
        let shown = redact_undo_token raw; ref = approval_ref_field (gs_world s) a
        in Inr (if ref = [] then shown
           else AList.update ''authority'' (JObj (ref @ [(''action_turn_id'', JStr (at_turn_id a))])) shown, None))"

definition receipt_content_of ::
  "services \<Rightarrow> string \<Rightarrow> action_attempt \<Rightarrow> dict option \<Rightarrow> string \<Rightarrow> dict \<Rightarrow> write_store \<Rightarrow> exn + receipt_content" where
  "receipt_content_of rt provider a input account raw s =
     proceed (shown_response rt provider a input account raw s) (\<lambda>(shown, authority).
     proceed (provider_write_response_timestamp raw) (\<lambda>stamp.
     let ids = provider_write_object_ids input shown;
         named = (\<lambda>k ids. case as_str (jget (or_else authority []) k) of None \<Rightarrow> ids | Some v \<Rightarrow> AList.update k (JStr v) ids)
     in Inr \<lparr>content_ids = named ''user_instruction_ref'' (named ''source_evidence_id'' ids), content_response = shown,
          content_digest = json_digest rt (JObj raw), content_timestamp = stamp,
          content_etag = provider_write_response_string raw [''etag'', ''provider_etag''],
          content_history_id = provider_write_response_string raw [''history_id'', ''provider_history_id'']\<rparr>))"

definition fill_receipt :: "receipt_content \<Rightarrow> receipt_status \<Rightarrow> string option \<Rightarrow> int \<Rightarrow> write_receipt \<Rightarrow> write_receipt" where
  "fill_receipt content st reason now r =
     r\<lparr>rc_status := st, provider_object_ids := content_ids content, response_payload := content_response content,
       ambiguity_reason := (if st = AmbiguousWrite then reason else None),
       provider_timestamp := content_timestamp content, provider_etag := content_etag content,
       provider_history_id := content_history_id content, response_digest := content_digest content,
       rc_updated_at := now\<rparr>"

definition new_receipt ::
  "string \<Rightarrow> string \<Rightarrow> string \<Rightarrow> action_attempt \<Rightarrow> string \<Rightarrow> int \<Rightarrow> write_receipt" where
  "new_receipt i provider account a k now =
     \<lparr>rc_id = i, rc_provider = provider, rc_account = account, rc_attempt_id = at_id a,
      rc_capability_id = at_capability_id a, rc_key = k, rc_status = ExecutingWrite, provider_object_ids = [],
      request_digest = at_payload_hash a, response_payload = [], ambiguity_reason = None, provider_timestamp = None,
      provider_etag = None, provider_history_id = None, response_digest = [], before_state = None, after_state = None,
      undo_token_hash = None, undo_expires_at = None, rc_created_at = now, rc_updated_at = now\<rparr>"

text \<open>
  A settled receipt is returned as it is; one of another request is refused. The time is that of the
  caller's clock.
\<close>

definition record_receipt_at ::
  "services \<Rightarrow> string \<Rightarrow> action_attempt \<Rightarrow> receipt_status \<Rightarrow> dict option \<Rightarrow> string option \<Rightarrow> dict option
     \<Rightarrow> string option \<Rightarrow> string option \<Rightarrow> int \<Rightarrow> write_store \<Rightarrow> exn + write_receipt \<times> write_store" where
  "record_receipt_at rt provider a st input account output error reason now s =
     proceed (provider_write_account_id provider account s) (\<lambda>account.
     let k = provider_write_idempotency_key rt a provider account input;
         raw = (case error of None \<Rightarrow> or_else output [] | Some e \<Rightarrow> AList.update ''error'' (JStr e) (or_else output []))
     in proceed (receipt_content_of rt provider a input account raw s) (\<lambda>content.
        case receipt_by_key s provider account k of
          None \<Rightarrow>
            let (new_id, s) = gs_fresh rt ''pwr'' s;
                r = fill_receipt content st reason now (new_receipt new_id provider account a k now)
            in proceed (insert_receipt r s) (\<lambda>s. Inr (r, s))
        | Some r \<Rightarrow>
            if rc_capability_id r \<noteq> at_capability_id a \<or> request_digest r \<noteq> at_payload_hash a
            then Inl (RuntimeError ''idempotency_key_input_mismatch'')
            else if rc_status r = SucceededWrite then Inr (r, s)
            else let r = fill_receipt content st reason now r
                 in proceed (update_receipt r s) (\<lambda>s. Inr (r, s))))"

definition record_provider_write_receipt ::
  "services \<Rightarrow> string \<Rightarrow> action_attempt \<Rightarrow> receipt_status \<Rightarrow> dict option \<Rightarrow> string option \<Rightarrow> dict option
     \<Rightarrow> string option \<Rightarrow> string option \<Rightarrow> write_store \<Rightarrow> exn + write_receipt \<times> write_store" where
  "record_provider_write_receipt rt provider a st input account output error reason s =
     (let (now, s) = gs_tick rt s in record_receipt_at rt provider a st input account output error reason now s)"

section \<open>Results nobody knows\<close>

definition unavailable_event :: "action_attempt \<Rightarrow> write_receipt \<Rightarrow> string \<Rightarrow> dict" where
  "unavailable_event a r reason =
     [(''action_attempt_id'', JStr (at_id a)), (''provider_write_receipt_id'', JStr (rc_id r)),
      (''status'', JStr (receipt_status_name (rc_status r))), (''reason'', JStr reason)]"

text \<open>The event carries the time it is given, not one of its own.\<close>

definition add_event_at :: "services \<Rightarrow> action_attempt \<Rightarrow> string \<Rightarrow> dict \<Rightarrow> int \<Rightarrow> world \<Rightarrow> world" where
  "add_event_at rt a event_type payload now w =
     (let (new_id, w) = fresh_id rt ''evn'' w
      in w\<lparr>events := append_turn_event (jsonable_encoder rt) (events w) (at_turn_id a)
             (next_turn_event_sequence (events w) (at_turn_id a)) event_type (JObj payload) new_id now\<rparr>)"

definition append_provider_write_reconcile_unavailable_event ::
  "services \<Rightarrow> action_attempt \<Rightarrow> write_receipt \<Rightarrow> string \<Rightarrow> write_store \<Rightarrow> exn + write_store" where
  "append_provider_write_reconcile_unavailable_event rt a r reason s =
     (let (now, s) = gs_tick rt s
      in proceed (enqueue_background_task rt ''provider_write_reconcile_due''
           [(''provider_write_receipt_id'', JStr (rc_id r)), (''action_attempt_id'', JStr (at_id a)),
            (''receipt_response_digest'', JStr (response_digest r))] now
           (Some (''provider_write_reconcile:'' @ rc_id r)) None None (gs_world s)) (\<lambda>(t, w).
         Inr (s\<lparr>gs_world := add_event_at rt a ''evt.provider_write.reconcile_unavailable''
           (unavailable_event a r reason
            @ [(''reconcile_task_enqueued'', JBool True), (''reconcile_task_id'', JStr (task_id t))]) now w\<rparr>)))"

definition mark_provider_write_reconcile_indeterminate ::
  "services \<Rightarrow> action_attempt \<Rightarrow> write_receipt \<Rightarrow> string \<Rightarrow> write_store \<Rightarrow> exn + write_store" where
  "mark_provider_write_reconcile_indeterminate rt a r reason s =
     (let (now, s) = gs_tick rt s;
          response = AList.update ''reconciliation'' (JObj [(''status'', JStr ''indeterminate''), (''reason'', JStr reason),
            (''checked_at'', JStr (to_rfc3339 now))]) (response_payload r);
          r = r\<lparr>response_payload := response, response_digest := json_digest rt (JObj response), rc_updated_at := now\<rparr>
      in proceed (update_receipt r s) (\<lambda>s.
         Inr (on_gw (add_event_at rt a ''evt.provider_write.reconcile_unavailable''
           (unavailable_event a r reason @ [(''reconcile_task_enqueued'', JBool False)]) now) s)))"

end
