(* ===== verification/Execution.thy ===== *)
theory Execution
  imports Write_Receipts
begin

text \<open>
  The execution of an approved action, \<open>process_action_execution_task\<close> of
  \<open>src/ariel/action_runtime.py\<close>: a first transaction that decides what to call and records that the
  call starts, the call itself outside of any transaction, and a last transaction that settles it. A task
  that finds its call started already was cut off between the two, and does not know the result.

  The provider, the memory and the coding agency are fields of \<open>exec_env\<close>. The advisory locks of
  PostgreSQL, which order concurrent workers, are not modelled; one worker runs.
\<close>

section \<open>Runtimes and results\<close>

record prepared_pr =
  pp_job_id :: string
  pp_repo_id :: string
  pp_invocation_id :: string
  pp_worktree_id :: string
  pp_client_request_id :: string

record pr_request = prepared_pr +
  pp_land_request_id :: string
  pp_sync_request_id :: string

record exec_env =
  ex_google :: "google_settings option"
  ex_client :: google_client
  provider_call :: "string \<Rightarrow> dict \<Rightarrow> string \<Rightarrow> string list \<Rightarrow> string \<Rightarrow> exn + provider_result"
  message_label_state :: "string \<Rightarrow> json \<Rightarrow> exn + dict"
  memory_call :: "string \<Rightarrow> dict \<Rightarrow> exn + (string + dict)"
  ex_agency :: bool
  prepare_request_pr :: "dict \<Rightarrow> string \<Rightarrow> exn + (string + prepared_pr)"
  start_run :: "dict \<Rightarrow> string \<Rightarrow> exn + (string + dict)"
  request_pr :: "pr_request \<Rightarrow> exn + (string + dict)"
  record_run_started :: "dict \<Rightarrow> dict \<Rightarrow> action_attempt \<Rightarrow> exn + dict"
  record_request_pr :: "pr_request \<Rightarrow> dict \<Rightarrow> exn + dict"
  new_undo_token :: "nat \<Rightarrow> string"

text \<open>
  The call a started action makes: of a mail mutation with its receipt and the receipt it undoes, of
  another Google capability with its account, of the agency with the receipt of a pull request, or inside
  the program.
\<close>

datatype dispatch =
    EmailCall string string dict string "string list" string "string option"
  | GoogleCall string dict string "string list" string
  | AgencyCall string dict "(pr_request \<times> string) option"
  | LocalCall capability dict

text \<open>A stage returns from the task with \<open>Inl\<close> or goes on with \<open>Inr\<close>.\<close>

type_synonym 'd staged = "exn + write_store \<times> (bool + 'd)"

definition and_then :: "'d staged \<Rightarrow> ('d \<Rightarrow> write_store \<Rightarrow> 'e staged) \<Rightarrow> 'e staged" where
  "and_then r k = proceed r (\<lambda>(s, v). case v of Inl b \<Rightarrow> Inr (s, Inl b) | Inr d \<Rightarrow> k d s)"

definition go_on :: "'d \<Rightarrow> write_store \<Rightarrow> 'd staged" where
  "go_on d s = Inr (s, Inr d)"

definition fail_with :: "services \<Rightarrow> action_attempt \<Rightarrow> string \<Rightarrow> write_store \<Rightarrow> 'd staged" where
  "fail_with rt a error s = Inr (on_gw (fail_action_execution rt a error JNull) s, Inl True)"

definition action_execution_succeeded_payload :: "action_attempt \<Rightarrow> dict \<Rightarrow> dict \<Rightarrow> dict" where
  "action_execution_succeeded_payload a output extra =
     [(''action_attempt_id'', JStr (at_id a)), (''capability_id'', JStr (at_capability_id a)),
      (''status'', JStr ''succeeded''), (''execution_output'', JObj output)] @ extra"

text \<open>The row keeps the output, the event shows it.\<close>

definition succeed_action ::
  "services \<Rightarrow> action_attempt \<Rightarrow> dict \<Rightarrow> dict \<Rightarrow> dict \<Rightarrow> world \<Rightarrow> world" where
  "succeed_action rt a output shown extra w =
     (let (now, w) = tick rt w;
          a = a\<lparr>at_status := SucceededAction, execution_output := JObj output, execution_error := None,
            at_updated_at := now\<rparr>
      in append_action_execution_event rt a ''evt.action.execution.succeeded''
           (action_execution_succeeded_payload a shown extra) (save_attempt a w))"

definition succeed_with :: "services \<Rightarrow> action_attempt \<Rightarrow> dict \<Rightarrow> write_store \<Rightarrow> 'd staged" where
  "succeed_with rt a output s = Inr (on_gw (succeed_action rt a output output []) s, Inl True)"

text \<open>The answer of a settled receipt stands for a call that is not made again.\<close>

definition replay_receipt ::
  "services \<Rightarrow> action_attempt \<Rightarrow> write_receipt \<Rightarrow> dict \<Rightarrow> write_store \<Rightarrow> 'd staged" where
  "replay_receipt rt a r shown s =
     Inr (on_gw (succeed_action rt a (response_payload r) shown
       [(''replayed_provider_write_receipt_id'', JStr (rc_id r))]) s, Inl True)"

definition receipt_error :: "write_receipt \<Rightarrow> string option" where
  "receipt_error r = as_str (jget (response_payload r) ''error'')"

definition save_gw_attempt :: "action_attempt \<Rightarrow> write_store \<Rightarrow> write_store" where
  "save_gw_attempt a = on_gw (save_attempt a)"

definition google_keys :: "exec_env \<Rightarrow> google_runtime option" where
  "google_keys ex = map_option google_runtime.truncate (ex_google ex)"

section \<open>A call that was started before\<close>

definition dispatch_started :: "action_attempt \<Rightarrow> bool" where
  "dispatch_started a \<longleftrightarrow>
     (case as_dict (execution_output a) of
        None \<Rightarrow> False | Some d \<Rightarrow> jget d ''dispatch_state'' = JStr ''provider_call_started'')"

text \<open>The input of the call, as far as it can still be read.\<close>

definition dispatch_input :: "services \<Rightarrow> exec_env \<Rightarrow> action_attempt \<Rightarrow> write_store \<Rightarrow> exn + dict option" where
  "dispatch_input rt ex a s =
     proceed (get_capability (service_env rt) (service_providers rt) (at_capability_id a)) (\<lambda>capability.
     case capability of
       None \<Rightarrow> Inr None
     | Some c \<Rightarrow>
         proceed (full_action_input_payload rt (gs_world s) a (google_keys ex)) (\<lambda>full.
         case full of
           Inl e \<Rightarrow> Inr None
         | Inr input \<Rightarrow>
            (case validate_input c input of
               Inl (Raised e) \<Rightarrow> Inl e
             | Inl (Rejected e) \<Rightarrow> Inr None
             | Inr normalized \<Rightarrow> Inr (Some normalized))))"

text \<open>The result stays unknown: one task looks into it, the action fails.\<close>

definition give_up_unknown :: "services \<Rightarrow> action_attempt \<Rightarrow> write_receipt \<Rightarrow> string \<Rightarrow> write_store \<Rightarrow> 'd staged" where
  "give_up_unknown rt a r error s =
     proceed (append_provider_write_reconcile_unavailable_event rt a r error s) (fail_with rt a error)"

definition record_unknown ::
  "services \<Rightarrow> string \<Rightarrow> action_attempt \<Rightarrow> string option \<Rightarrow> dict option \<Rightarrow> dict option \<Rightarrow> write_store
     \<Rightarrow> exn + write_receipt \<times> write_store" where
  "record_unknown rt provider a account input output s =
     record_provider_write_receipt rt provider a AmbiguousWrite input account output
       (Some ''provider_result_unknown'') (Some ''provider_result_unknown'') s"

definition retry_failed_email :: "action_attempt \<Rightarrow> write_receipt option \<Rightarrow> bool" where
  "retry_failed_email a r \<longleftrightarrow>
     (case r of
        None \<Rightarrow> False
      | Some r \<Rightarrow> List.member EMAIL_MUTATION_CAPABILITY_IDS (at_capability_id a) \<and> rc_status r = FailedWrite
          \<and> (case receipt_error r of None \<Rightarrow> False | Some e \<Rightarrow> email_provider_error_is_retryable e))"

definition resume_google ::
  "services \<Rightarrow> action_attempt \<Rightarrow> string option \<Rightarrow> dict option \<Rightarrow> write_store \<Rightarrow> unit staged" where
  "resume_google rt a account input s =
     proceed (provider_write_receipt_for_attempt rt ''google'' a account input s) (\<lambda>known.
     case known of
       None \<Rightarrow>
         proceed (record_unknown rt ''google'' a account input None s) (\<lambda>(r, s).
         give_up_unknown rt a r ''provider_result_unknown'' s)
     | Some r \<Rightarrow>
         if request_digest r \<noteq> at_payload_hash a then fail_with rt a ''idempotency_key_input_mismatch'' s
         else if rc_status r = SucceededWrite \<or> rc_status r = UndoneWrite then replay_receipt rt a r (redact_undo_token (response_payload r)) s
         else if retry_failed_email a known then go_on () s
         else if rc_status r = FailedWrite \<and> receipt_error r \<noteq> None then fail_with rt a (the (receipt_error r)) s
         else if rc_status r = AmbiguousWrite then give_up_unknown rt a r ''provider_result_unknown'' s
         else proceed (record_unknown rt ''google'' a account input None s) (\<lambda>(r, s).
              give_up_unknown rt a r ''provider_result_unknown'' s))"

text \<open>The receipt the attempt names, or else the one of its key.\<close>

definition agency_receipt ::
  "services \<Rightarrow> action_attempt \<Rightarrow> string option \<Rightarrow> dict option \<Rightarrow> write_store \<Rightarrow> exn + write_receipt option" where
  "agency_receipt rt a account input s =
     (let named = (case as_dict (execution_output a) of
            None \<Rightarrow> None
          | Some d \<Rightarrow> (case as_str (jget d ''provider_write_receipt_id'') of
              None \<Rightarrow> None | Some i \<Rightarrow> if i = [] then None else find_receipt s i))
      in if named = None then provider_write_receipt_for_attempt rt ''agency'' a account input s else Inr named)"

text \<open>An unsettled receipt becomes ambiguous where it is, with the other fields of its answer kept.\<close>

definition make_ambiguous :: "services \<Rightarrow> write_receipt \<Rightarrow> write_store \<Rightarrow> exn + write_receipt \<times> write_store" where
  "make_ambiguous rt r s =
     (if rc_status r = AmbiguousWrite then Inr (r, s)
      else let (now, s) = gs_tick rt s;
               response = AList.update ''error'' (JStr ''provider_result_unknown'') (response_payload r);
               r = r\<lparr>rc_status := AmbiguousWrite, ambiguity_reason := Some ''provider_result_unknown'',
                 response_payload := response, response_digest := json_digest rt (JObj response),
                 rc_updated_at := now\<rparr>
           in proceed (update_receipt r s) (\<lambda>s. Inr (r, s)))"

definition resume_agency ::
  "services \<Rightarrow> action_attempt \<Rightarrow> string option \<Rightarrow> dict option \<Rightarrow> write_store \<Rightarrow> unit staged" where
  "resume_agency rt a account input s =
     proceed (agency_receipt rt a account input s) (\<lambda>known.
     case known of
       None \<Rightarrow>
         proceed (record_unknown rt ''agency'' a account input
           (Some [(''dispatch_state'', JStr ''provider_call_started'')]) s) (\<lambda>(r, s).
         give_up_unknown rt a r ''provider_result_unknown'' s)
     | Some r \<Rightarrow>
         if request_digest r \<noteq> at_payload_hash a then fail_with rt a ''idempotency_key_input_mismatch'' s
         else if rc_status r = SucceededWrite then replay_receipt rt a r (response_payload r) s
         else if rc_status r = FailedWrite
         then fail_with rt a (or_else (receipt_error r) ''provider_result_unknown'') s
         else proceed (make_ambiguous rt r s) (\<lambda>(r, s). give_up_unknown rt a r ''provider_result_unknown'' s))"

definition resume :: "services \<Rightarrow> exec_env \<Rightarrow> action_attempt \<Rightarrow> write_store \<Rightarrow> unit staged" where
  "resume rt ex a s =
     proceed (dispatch_input rt ex a s) (\<lambda>input.
     let account = provider_account_id_from_execution_output a; cid = at_capability_id a
     in if List.member GOOGLE_RECEIPT_CAPABILITY_IDS cid then resume_google rt a account input s
        else if List.member AGENCY_RECEIPT_CAPABILITY_IDS cid then resume_agency rt a account input s
        else if \<not> List.member EMAIL_MUTATION_CAPABILITY_IDS cid then fail_with rt a ''provider_result_unknown'' s
        else go_on () s)"

section \<open>Starting a call\<close>

definition failure_code :: "string \<Rightarrow> provider_result \<Rightarrow> string" where
  "failure_code fallback r =
     (case pr_auth_failure r of
        Some (failure_class, _) \<Rightarrow> failure_class
      | None \<Rightarrow> (case pr_error r of None \<Rightarrow> fallback | Some e \<Rightarrow> if e = [] then fallback else e))"

text \<open>An access without a failure names its token and its account.\<close>

definition with_access ::
  "services \<Rightarrow> exec_env \<Rightarrow> action_attempt \<Rightarrow> write_store
     \<Rightarrow> (string \<Rightarrow> string list \<Rightarrow> string \<Rightarrow> write_store \<Rightarrow> dispatch staged) \<Rightarrow> dispatch staged" where
  "with_access rt ex a s k =
     (case ex_google ex of
        None \<Rightarrow> fail_with rt a ''google_runtime_not_bound'' s
      | Some g \<Rightarrow>
          proceed (prepare_capability_access_without_refresh rt g (at_capability_id a) s) (\<lambda>(acc, s).
          case ac_failure acc of
            Some failure \<Rightarrow> fail_with rt a (failure_code ''google_access_failed'' failure) s
          | None \<Rightarrow>
             (case ac_token acc of
                None \<Rightarrow> fail_with rt a ''token_expired'' s
              | Some token \<Rightarrow>
                 (case ac_account acc of
                    None \<Rightarrow> fail_with rt a ''google_account_identity_missing'' s
                  | Some account \<Rightarrow> k token (ac_scopes acc) account s))))"

definition started_output :: "string \<Rightarrow> json" where
  "started_output account =
     JObj [(''dispatch_state'', JStr ''provider_call_started''), (''provider_account_id'', JStr account)]"

definition mark_started :: "services \<Rightarrow> action_attempt \<Rightarrow> json \<Rightarrow> write_store \<Rightarrow> write_store" where
  "mark_started rt a output s =
     (let (now, s) = gs_tick rt s
      in save_gw_attempt (a\<lparr>execution_output := output, at_updated_at := now\<rparr>) s)"

definition record_started ::
  "services \<Rightarrow> string \<Rightarrow> action_attempt \<Rightarrow> dict \<Rightarrow> string \<Rightarrow> dict \<Rightarrow> write_store \<Rightarrow> exn + write_receipt \<times> write_store" where
  "record_started rt provider a input account extra s =
     record_provider_write_receipt rt provider a ExecutingWrite (Some input) (Some account)
       (Some ([(''dispatch_state'', JStr ''provider_call_started'')] @ extra)) None None s"

definition messages_of :: "dict option \<Rightarrow> json list option" where
  "messages_of st = (case st of None \<Rightarrow> None | Some d \<Rightarrow> as_list (jget d ''messages''))"

fun distinct_texts :: "string \<Rightarrow> json list \<Rightarrow> string list \<Rightarrow> string list" where
  "distinct_texts k [] found = found"
| "distinct_texts k (entry # entries) found =
     distinct_texts k entries
       (case as_dict entry of
          None \<Rightarrow> found
        | Some d \<Rightarrow> (case as_str (jget d k) of
            None \<Rightarrow> found
          | Some i \<Rightarrow> if i = [] \<or> List.member found i then found else found @ [i]))"

definition email_message_ids :: "json list \<Rightarrow> string list" where
  "email_message_ids messages = distinct_texts ''message_id'' messages []"

definition email_thread_ids :: "json list \<Rightarrow> string list \<Rightarrow> string list" where
  "email_thread_ids messages found = distinct_texts ''thread_id'' messages found"

text \<open>The mutation an undo token takes back, while it can be.\<close>

definition undoable ::
  "services \<Rightarrow> string \<Rightarrow> string \<Rightarrow> write_store \<Rightarrow> (write_receipt \<times> json list) option \<times> write_store" where
  "undoable rt token account s =
     (case find (\<lambda>r. undo_token_hash r = Some (email_hash rt token)) (receipts s) of
        None \<Rightarrow> (None, s)
      | Some prior \<Rightarrow>
          if rc_status prior \<noteq> SucceededWrite then (None, s)
          else case undo_expires_at prior of
            None \<Rightarrow> (None, s)
          | Some due \<Rightarrow>
              let (now, s) = gs_tick rt s
              in (case messages_of (before_state prior) of
                    None \<Rightarrow> None
                  | Some messages \<Rightarrow>
                      if due \<le> now \<or> rc_provider prior \<noteq> ''google'' \<or> rc_account prior \<noteq> account \<or> messages = []
                      then None else Some (prior, messages), s))"

text \<open>The input of the mutation, and the receipt an undo takes back.\<close>

definition mutation_input ::
  "services \<Rightarrow> action_attempt \<Rightarrow> dict \<Rightarrow> string \<Rightarrow> write_receipt option \<Rightarrow> write_store
     \<Rightarrow> exn + write_store \<times> (dict \<times> string option) option" where
  "mutation_input rt a input account known s =
     (if at_capability_id a = ''cap.email.undo'' then
        dict_item input ''undo_token'' (\<lambda>token.
        case undoable rt (py_str (service_env rt) token) account s of
          (None, s) \<Rightarrow> Inr (s, None)
        | (Some (prior, messages), s) \<Rightarrow>
            dict_item input ''idempotency_key'' (\<lambda>k.
            Inr (s, Some ([(''message_ids'', JArr (map JStr (email_message_ids messages))),
              (''before_state'', JArr messages), (''idempotency_key'', k)], Some (rc_id prior)))))
      else Inr (s, Some (case known of
             None \<Rightarrow> (input, None)
           | Some r \<Rightarrow> (case messages_of (before_state r) of
               None \<Rightarrow> (input, None)
             | Some messages \<Rightarrow> (AList.update ''before_state'' (JArr messages) input, None)))))"

definition begin_mutation ::
  "services \<Rightarrow> action_attempt \<Rightarrow> dict \<Rightarrow> string \<Rightarrow> string list \<Rightarrow> string \<Rightarrow> write_receipt option \<Rightarrow> write_store
     \<Rightarrow> dispatch staged" where
  "begin_mutation rt a input token scopes account known s =
     proceed (mutation_input rt a input account known s) (\<lambda>(s, found).
     case found of
       None \<Rightarrow> fail_with rt a ''undo_unavailable'' s
     | Some (provider_input, prior) \<Rightarrow>
         proceed (record_started rt ''google'' a input account [] s) (\<lambda>(r, s).
         go_on (EmailCall (rc_id r) (at_capability_id a) provider_input token scopes account prior)
           (mark_started rt a (started_output account) s)))"

definition start_email :: "services \<Rightarrow> exec_env \<Rightarrow> action_attempt \<Rightarrow> dict \<Rightarrow> write_store \<Rightarrow> dispatch staged" where
  "start_email rt ex a input s =
     with_access rt ex a s (\<lambda>token scopes account s.
     case provider_write_authority_payload s a (Some input) account of
       Inl e \<Rightarrow> fail_with rt a e s
     | Inr _ \<Rightarrow>
         proceed (provider_write_receipt_for_attempt rt ''google'' a (Some account) (Some input) s) (\<lambda>known.
         case known of
           None \<Rightarrow> begin_mutation rt a input token scopes account known s
         | Some r \<Rightarrow>
             if request_digest r \<noteq> at_payload_hash a then fail_with rt a ''idempotency_key_input_mismatch'' s
             else if rc_status r = SucceededWrite \<or> rc_status r = UndoneWrite
             then replay_receipt rt a r (response_payload r) s
             else if rc_status r = ExecutingWrite then fail_with rt a ''provider_write_in_progress'' s
             else if \<not> retry_failed_email a known
             then fail_with rt a (or_else (receipt_error r) ''provider_write_failed'') s
             else begin_mutation rt a input token scopes account known s))"

text \<open>A write that has a receipt is not sent, whatever came of it.\<close>

definition start_google :: "services \<Rightarrow> exec_env \<Rightarrow> action_attempt \<Rightarrow> dict \<Rightarrow> write_store \<Rightarrow> dispatch staged" where
  "start_google rt ex a input s =
     with_access rt ex a s (\<lambda>token scopes account s.
     let cid = at_capability_id a; call = GoogleCall cid input token scopes account
     in if \<not> List.member GOOGLE_RECEIPT_CAPABILITY_IDS cid
        then go_on call (mark_started rt a (started_output account) s)
        else proceed (provider_write_receipt_for_attempt rt ''google'' a (Some account) (Some input) s) (\<lambda>known.
          case known of
            Some r \<Rightarrow>
              if request_digest r \<noteq> at_payload_hash a then fail_with rt a ''idempotency_key_input_mismatch'' s
              else if rc_status r = SucceededWrite
              then replay_receipt rt a r (redact_undo_token (response_payload r)) s
              else if rc_status r = ExecutingWrite then fail_with rt a ''provider_write_in_progress'' s
              else fail_with rt a
                (let error = jget (response_payload r) ''error''
                 in if truthy error then py_str (service_env rt) error else ''provider_write_failed'') s
          | None \<Rightarrow>
             (case provider_write_authority_payload s a (Some input) account of
                Inl e \<Rightarrow> fail_with rt a e s
              | Inr _ \<Rightarrow>
                  proceed (record_started rt ''google'' a input account [] s) (\<lambda>(r, s).
                  go_on call (mark_started rt a (started_output account) s)))))"

definition request_ids :: "string \<Rightarrow> dict" where
  "request_ids receipt_id =
     [(''client_request_id'', JStr receipt_id), (''land_client_request_id'', JStr (receipt_id @ '':land'')),
      (''pr_sync_client_request_id'', JStr (receipt_id @ '':pr-sync''))]"

text \<open>The receipt of a pull request gives the ids under which the daemon recognizes a repeated request.\<close>

definition name_requests ::
  "services \<Rightarrow> dict \<Rightarrow> prepared_pr \<Rightarrow> write_receipt \<Rightarrow> write_store \<Rightarrow> exn + write_store" where
  "name_requests rt input prepared r s =
     (let response = [(''dispatch_state'', JStr ''provider_call_started''), (''job_id'', JStr (pp_job_id prepared)),
            (''repo_id'', JStr (pp_repo_id prepared)), (''invocation_id'', JStr (pp_invocation_id prepared)),
            (''worktree_id'', JStr (pp_worktree_id prepared))] @ request_ids (rc_id r);
          (now, s) = gs_tick rt s
      in update_receipt (r\<lparr>response_payload := response,
           provider_object_ids := provider_write_object_ids (Some input) response,
           response_digest := json_digest rt (JObj response), rc_updated_at := now\<rparr>) s)"

definition request_under :: "prepared_pr \<Rightarrow> string \<Rightarrow> pr_request" where
  "request_under prepared receipt_id =
     \<lparr>pp_job_id = pp_job_id prepared, pp_repo_id = pp_repo_id prepared, pp_invocation_id = pp_invocation_id prepared,
      pp_worktree_id = pp_worktree_id prepared, pp_client_request_id = receipt_id,
      pp_land_request_id = receipt_id @ '':land'', pp_sync_request_id = receipt_id @ '':pr-sync''\<rparr>"

definition start_agency :: "services \<Rightarrow> exec_env \<Rightarrow> action_attempt \<Rightarrow> dict \<Rightarrow> write_store \<Rightarrow> dispatch staged" where
  "start_agency rt ex a input s =
     (let cid = at_capability_id a;
          call = (\<lambda>named output s. go_on (AgencyCall cid input named)
            (mark_started rt a (JObj ([(''dispatch_state'', JStr ''provider_call_started'')] @ output)) s))
      in if \<not> ex_agency ex then fail_with rt a ''agency_runtime_not_bound'' s
         else if cid = ''cap.agency.request_pr'' then
           proceed (prepare_request_pr ex input (at_id a)) (\<lambda>prepared.
           case prepared of
             Inl error \<Rightarrow> fail_with rt a (if error = [] then ''agency_prepare_failed'' else error) s
           | Inr prepared \<Rightarrow>
               let account = pp_repo_id prepared
               in proceed (provider_write_receipt_for_attempt rt ''agency'' a (Some account) (Some input) s) (\<lambda>known.
                  let mismatch = (case known of None \<Rightarrow> False | Some r \<Rightarrow> request_digest r \<noteq> at_payload_hash a);
                      settled = (case known of None \<Rightarrow> False | Some r \<Rightarrow> rc_status r = SucceededWrite)
                  in if mismatch then fail_with rt a ''idempotency_key_input_mismatch'' s
                     else if settled then replay_receipt rt a (the known) (response_payload (the known)) s
                     else proceed (record_started rt ''agency'' a input account
                         [(''client_request_id'', JStr (pp_client_request_id prepared))] s) (\<lambda>(r, s).
                       proceed (name_requests rt input prepared r s) (\<lambda>s.
                       call (Some (request_under prepared (rc_id r), rc_id r))
                         [(''provider_write_receipt_id'', JStr (rc_id r))] s))))
         else if cid \<noteq> ''cap.agency.run'' then fail_with rt a ''unknown_agency_capability'' s
         else call None [] s)"

definition start_action ::
  "services \<Rightarrow> exec_env \<Rightarrow> action_attempt \<Rightarrow> capability \<Rightarrow> dict \<Rightarrow> write_store \<Rightarrow> dispatch staged" where
  "start_action rt ex a c input s =
     (let cid = at_capability_id a;
          in_world = (\<lambda>r. proceed r (\<lambda>(output, w). succeed_with rt a output (s\<lparr>gs_world := w\<rparr>)))
      in if List.member MEMORY_CAPABILITY_IDS cid then
           proceed (memory_call ex cid input) (\<lambda>result.
           case result of Inl reason \<Rightarrow> fail_with rt a reason s | Inr output \<Rightarrow> succeed_with rt a output s)
         else if List.member PROACTIVE_CAPABILITY_IDS cid
         then in_world (execute_proactive_capability rt cid input (gs_world s))
         else if List.member RESEARCH_CAPABILITY_IDS cid
         then in_world (execute_research_capability rt cid input (gs_world s))
         else if List.member EMAIL_MUTATION_CAPABILITY_IDS cid then start_email rt ex a input s
         else if List.member GOOGLE_CAPABILITY_IDS cid then start_google rt ex a input s
         else if List.member AGENCY_CAPABILITY_IDS cid then start_agency rt ex a input s
         else if impact_level c = ExternalSend then fail_with rt a ''egress_adapter_not_bound'' s
         else go_on (LocalCall c input) s)"

text \<open>The checks of the action as it was approved, before anything is called.\<close>

definition checked_action :: "services \<Rightarrow> exec_env \<Rightarrow> action_attempt \<Rightarrow> write_store \<Rightarrow> dispatch staged" where
  "checked_action rt ex a s =
     proceed (get_capability (service_env rt) (service_providers rt) (at_capability_id a)) (\<lambda>capability.
     case capability of
       None \<Rightarrow> fail_with rt a ''unknown_capability'' s
     | Some c \<Rightarrow>
        (case execution_integrity_error rt a c of
           Some e \<Rightarrow> fail_with rt a e s
         | None \<Rightarrow>
             proceed (full_action_input_payload rt (gs_world s) a (google_keys ex)) (\<lambda>full.
             case full of
               Inl e \<Rightarrow> fail_with rt a e s
             | Inr full_input \<Rightarrow>
                (case validate_input c full_input of
                   Inl (Raised e) \<Rightarrow> Inl e
                 | Inl (Rejected e) \<Rightarrow> fail_with rt a ''schema_invalid'' s
                 | Inr input \<Rightarrow>
                    (case preflight_capability_execution c input of
                       Inl (Raised e) \<Rightarrow> Inl e
                     | Inl (Rejected e) \<Rightarrow> fail_with rt a e s
                     | Inr _ \<Rightarrow> start_action rt ex a c input s)))))"

definition ended :: "attempt_status \<Rightarrow> bool" where
  "ended st \<longleftrightarrow> List.member [SucceededAction, FailedAction, Refused, DeniedAction, ExpiredAction] st"

definition begin_execution ::
  "services \<Rightarrow> exec_env \<Rightarrow> string \<Rightarrow> provider_result option \<Rightarrow> write_store \<Rightarrow> dispatch staged" where
  "begin_execution rt ex attempt_id refresh s =
     (case find_attempt (gs_world s) attempt_id of
        None \<Rightarrow> Inl (RuntimeError ''action attempt not found'')
      | Some a \<Rightarrow>
          if ended (at_status a) then Inr (s, Inl False)
          else if at_status a \<noteq> Executing then fail_with rt a ''action_not_executable'' s
          else and_then (if dispatch_started a then resume rt ex a s else go_on () s) (\<lambda>_ s.
            case refresh of
              Some failure \<Rightarrow> fail_with rt a (failure_code ''google_refresh_failed'' failure) s
            | None \<Rightarrow> checked_action rt ex a s))"

section \<open>The call\<close>

datatype call_answer = Answered provider_result | AgencyAnswered dict

text \<open>The labels of exactly the messages to change, before they change.\<close>

definition captured_messages :: "json list \<Rightarrow> dict \<Rightarrow> exn + json list" where
  "captured_messages message_ids output =
     (let missing = Inl (RuntimeError ''email_before_state_missing'')
      in case as_list (jget output ''state'') of
           None \<Rightarrow> missing
         | Some messages \<Rightarrow>
            (case those (map (\<lambda>m. case as_dict m of
                 None \<Rightarrow> None
               | Some d \<Rightarrow> (case as_str (jget d ''message_id'') of
                   None \<Rightarrow> None | Some i \<Rightarrow> if i = [] then None else Some i)) messages) of
               None \<Rightarrow> missing
             | Some ids \<Rightarrow>
                (case those (map as_str message_ids) of
                   None \<Rightarrow> Inl TypeError
                 | Some wanted \<Rightarrow> if sort ids \<noteq> sort wanted then missing else Inr messages)))"

definition store_before_state :: "services \<Rightarrow> string \<Rightarrow> json list \<Rightarrow> write_store \<Rightarrow> exn + write_store" where
  "store_before_state rt receipt_id messages s =
     (case find_receipt s receipt_id of
        None \<Rightarrow> Inr s
      | Some r \<Rightarrow>
          let (now, s) = gs_tick rt s
          in update_receipt (r\<lparr>before_state := Some [(''messages'', JArr messages)], rc_updated_at := now\<rparr>) s)"

definition capture_before_state ::
  "services \<Rightarrow> exec_env \<Rightarrow> string \<Rightarrow> string \<Rightarrow> dict \<Rightarrow> string \<Rightarrow> write_store \<Rightarrow> exn + dict \<times> write_store" where
  "capture_before_state rt ex receipt_id cid input token s =
     (if cid = ''cap.email.undo'' \<or> has_key input ''before_state'' then Inr (input, s)
      else dict_item input ''message_ids'' (\<lambda>ids.
        proceed (message_label_state ex token ids) (\<lambda>output.
        proceed (captured_messages (case as_list ids of None \<Rightarrow> [] | Some xs \<Rightarrow> xs) output) (\<lambda>messages.
        proceed (store_before_state rt receipt_id messages s) (\<lambda>s.
        Inr (AList.update ''before_state'' (JArr messages) input, s))))))"

definition agency_answer :: "exn + (string + dict) \<Rightarrow> exn + call_answer" where
  "agency_answer r =
     proceed r (\<lambda>result. Inr (case result of
        Inl error \<Rightarrow> Answered \<lparr>pr_succeeded = False, pr_output = None, pr_auth_failure = None, pr_error = Some error\<rparr>
      | Inr answer \<Rightarrow> AgencyAnswered answer))"

text \<open>
  The call runs outside of a transaction. An error leaves the state it was started in, but for the labels
  that were captured; the dispatch comes back with them.
\<close>

definition perform ::
  "services \<Rightarrow> exec_env \<Rightarrow> string \<Rightarrow> dispatch \<Rightarrow> write_store \<Rightarrow> write_store \<times> (exn + dispatch \<times> call_answer)" where
  "perform rt ex attempt_id d s =
     (case d of
        EmailCall receipt_id cid input token scopes account prior \<Rightarrow>
         (case capture_before_state rt ex receipt_id cid input token s of
            Inl e \<Rightarrow> (s, Inl e)
          | Inr (input, s) \<Rightarrow>
              (s, proceed (provider_call ex cid input token scopes account) (\<lambda>result.
                 Inr (EmailCall receipt_id cid input token scopes account prior, Answered result))))
      | GoogleCall cid input token scopes account \<Rightarrow>
          (s, proceed (provider_call ex cid input token scopes account) (\<lambda>result. Inr (d, Answered result)))
      | AgencyCall cid input named \<Rightarrow>
          (s, proceed (agency_answer (case named of
                None \<Rightarrow> start_run ex input attempt_id
              | Some (prepared, _) \<Rightarrow> request_pr ex prepared)) (\<lambda>answer. Inr (d, answer)))
      | LocalCall c input \<Rightarrow>
          (s, proceed (execute_capability (jsonable_encoder rt) c input) (\<lambda>result.
             Inr (d, Answered (of_execution result)))))"

section \<open>Settling a mail mutation\<close>

text \<open>
  What the answer means for the receipt: the result to go on with, the answer of a failure, the status of
  the receipt when it is known, and the error under which the task is tried again.
\<close>

record settlement =
  se_result :: provider_result
  failure_payload :: "dict option"
  failure_status :: "receipt_status option"
  retry_error :: "string option"

definition plain_settlement :: "provider_result \<Rightarrow> settlement" where
  "plain_settlement result =
     \<lparr>se_result = result, failure_payload = None, failure_status = None, retry_error = None\<rparr>"

text \<open>The states of the answer; an answer without the earlier one gets what was captured, and says so.\<close>

definition mutation_states :: "dict \<Rightarrow> dict \<Rightarrow> exn + json list \<times> json list \<times> dict" where
  "mutation_states input output =
     (let after_missing = Inl (RuntimeError ''email_after_state_missing'');
          missing = JStr ''email_before_state_missing'';
          noted = AList.update ''provider_result'' (case as_dict (jget output ''provider_result'') of
              Some d \<Rightarrow> JObj (AList.update ''before_state_error'' missing d)
            | None \<Rightarrow> JObj [(''before_state_error'', missing)]) output
      in case as_list (jget output ''before_state'') of
           Some before \<Rightarrow>
             (case as_list (jget output ''after_state'') of None \<Rightarrow> after_missing | Some after \<Rightarrow> Inr (before, after, output))
         | None \<Rightarrow>
             (case as_list (jget input ''before_state'') of
                None \<Rightarrow> Inl (RuntimeError ''email_before_state_missing'')
              | Some before \<Rightarrow>
                 (case as_list (jget output ''after_state'') of
                    None \<Rightarrow> after_missing | Some after \<Rightarrow> Inr (before, after, noted))))"

definition nonempty_text :: "json \<Rightarrow> string option" where
  "nonempty_text v = (case as_str v of None \<Rightarrow> None | Some t \<Rightarrow> if t = [] then None else Some t)"

definition result_fields :: "dict \<Rightarrow> dict" where
  "result_fields output = (case as_dict (jget output ''provider_result'') of Some d \<Rightarrow> d | None \<Rightarrow> output)"

definition mutation_error :: "dict \<Rightarrow> exn + string option" where
  "mutation_error output =
     (case nonempty_text (jget (result_fields output) ''error'') of
        Some e \<Rightarrow> Inr (Some e)
      | None \<Rightarrow>
         (case nonempty_text (jget (result_fields output) ''after_state_error'') of
            Some e \<Rightarrow> Inr (Some e)
          | None \<Rightarrow>
              let status = jget output ''status''
              in if as_list status \<noteq> None \<or> as_dict status \<noteq> None then Inl TypeError
                 else if status = JStr ''failed'' then Inr (Some ''failed'')
                 else if status = JStr ''partially_failed'' then Inr (Some ''partially_failed'')
                 else Inr None))"

definition email_receipt_result_payload :: "write_receipt \<Rightarrow> dict \<Rightarrow> string option \<Rightarrow> dict" where
  "email_receipt_result_payload r provider_result undo_token =
     (let before = or_else (messages_of (before_state r)) []; after = or_else (messages_of (after_state r)) []
      in [(''status'', JStr ''succeeded''), (''email_action_id'', JStr (rc_id r)),
          (''capability_id'', JStr (rc_capability_id r)), (''provider'', JStr (rc_provider r)),
          (''provider_account_id'', JStr (rc_account r)),
          (''message_ids'', JArr (map JStr (email_message_ids before))),
          (''thread_ids'', JArr (map JStr (email_thread_ids after (email_thread_ids before [])))),
          (''before_state'', JObj (or_else (before_state r) [])), (''after_state'', JObj (or_else (after_state r) [])),
          (''provider_result'', JObj provider_result), (''undo_available'', JBool (undo_token_hash r \<noteq> None)),
          (''undo_expires_at'', time_json (undo_expires_at r))]
         @ (case undo_token of None \<Rightarrow> [] | Some t \<Rightarrow> [(''undo_token'', JStr t)]))"

definition UNDO_SECONDS :: int where
  "UNDO_SECONDS = 30 * 86400"

text \<open>A mutation gets its undo token; an undo marks the receipt it took back.\<close>

definition settle_undo ::
  "services \<Rightarrow> exec_env \<Rightarrow> string \<Rightarrow> string option \<Rightarrow> write_receipt \<Rightarrow> write_store
     \<Rightarrow> exn + (write_receipt \<times> string option) \<times> write_store" where
  "settle_undo rt ex cid prior r s =
     (if cid \<noteq> ''cap.email.undo'' then
        let (n, s) = gs_serial s; token = new_undo_token ex n; (now, s) = gs_tick rt s
        in proceed (expiry_after UNDO_SECONDS now) (\<lambda>due.
           let r = r\<lparr>undo_token_hash := Some (email_hash rt token), undo_expires_at := Some due\<rparr>
           in proceed (update_receipt r s) (\<lambda>s. Inr ((r, Some token), s)))
      else case (case prior of None \<Rightarrow> None | Some i \<Rightarrow> find_receipt s i) of
        None \<Rightarrow> Inr ((r, None), s)
      | Some q \<Rightarrow>
          if rc_status q \<noteq> SucceededWrite then Inr ((r, None), s)
          else let (now, s) = gs_tick rt s
               in proceed (update_receipt (q\<lparr>rc_status := UndoneWrite, rc_updated_at := now\<rparr>) s) (\<lambda>s.
                  Inr ((r, None), s)))"

definition settle_email ::
  "services \<Rightarrow> exec_env \<Rightarrow> string \<Rightarrow> string \<Rightarrow> dict \<Rightarrow> string option \<Rightarrow> provider_result \<Rightarrow> write_store
     \<Rightarrow> exn + settlement \<times> write_store" where
  "settle_email rt ex receipt_id cid input prior result s =
     (case find_receipt s receipt_id of
        None \<Rightarrow> Inl (RuntimeError ''provider_write_receipt_not_found'')
      | Some r \<Rightarrow>
         (case (pr_succeeded result, pr_output result) of
            (True, Some output) \<Rightarrow>
              proceed (mutation_states input output) (\<lambda>(before, after, output).
              let (now, s) = gs_tick rt s;
                  r = r\<lparr>before_state := Some [(''messages'', JArr before)],
                    after_state := Some [(''messages'', JArr after)], rc_updated_at := now\<rparr>
              in proceed (update_receipt r s) (\<lambda>s.
                 proceed (mutation_error output) (\<lambda>error.
                 case error of
                   Some e \<Rightarrow>
                     Inr (\<lparr>se_result = inline_failure e, failure_payload = Some output,
                       failure_status = Some FailedWrite,
                       retry_error = (if email_provider_error_is_retryable e then Some e else None)\<rparr>, s)
                 | None \<Rightarrow>
                     proceed (settle_undo rt ex cid prior r s) (\<lambda>((r, token), s).
                     Inr (plain_settlement (inline_success
                       (email_receipt_result_payload r (result_fields output) token)), s)))))
          | _ \<Rightarrow>
              let e = failure_code ''execution_output_missing'' result;
                  st = provider_write_failure_receipt_status e None
              in Inr (\<lparr>se_result = result, failure_payload = None, failure_status = Some st,
                   retry_error =
                     (if st \<noteq> AmbiguousWrite \<and> email_provider_error_is_retryable e then Some e else None)\<rparr>, s)))"

section \<open>Settling\<close>

text \<open>The input and the account of the call, as the receipts know them.\<close>

definition call_identity :: "dispatch \<Rightarrow> string \<times> dict option \<times> string option" where
  "call_identity d =
     (case d of
        EmailCall i cid input token scopes account prior \<Rightarrow> (''google'', Some input, Some account)
      | GoogleCall cid input token scopes account \<Rightarrow> (''google'', Some input, Some account)
      | AgencyCall cid input (Some (prepared, i)) \<Rightarrow> (''agency'', Some input, Some (pp_repo_id prepared))
      | _ \<Rightarrow> (''google'', None, None))"

definition record_ambiguous ::
  "services \<Rightarrow> string \<Rightarrow> action_attempt \<Rightarrow> dict option \<Rightarrow> string option \<Rightarrow> dict option \<Rightarrow> string \<Rightarrow> write_store
     \<Rightarrow> exn + write_store" where
  "record_ambiguous rt provider a input account output error s =
     proceed (record_provider_write_receipt rt provider a AmbiguousWrite input account output (Some error) (Some error) s)
       (\<lambda>(r, s). append_provider_write_reconcile_unavailable_event rt a r error s)"

definition record_failure ::
  "services \<Rightarrow> string \<Rightarrow> action_attempt \<Rightarrow> receipt_status \<Rightarrow> dict option \<Rightarrow> string option \<Rightarrow> dict option \<Rightarrow> string
     \<Rightarrow> write_store \<Rightarrow> exn + write_store" where
  "record_failure rt provider a status input account output error s =
     (if status = AmbiguousWrite then record_ambiguous rt provider a input account output error s
      else proceed (record_provider_write_receipt rt provider a status input account output (Some error) None s)
        (\<lambda>(r, s). Inr s))"

text \<open>The result of a pull request or a run, as the job and the receipt keep it.\<close>

definition settle_agency ::
  "services \<Rightarrow> exec_env \<Rightarrow> action_attempt \<Rightarrow> dict \<Rightarrow> (pr_request \<times> string) option \<Rightarrow> dict \<Rightarrow> write_store
     \<Rightarrow> exn + provider_result \<times> write_store" where
  "settle_agency rt ex a input named answer s =
     (case named of
        None \<Rightarrow> proceed (record_run_started ex answer input a) (\<lambda>output. Inr (inline_success output, s))
      | Some (prepared, receipt_id) \<Rightarrow>
          proceed (record_request_pr ex prepared answer) (\<lambda>output.
          let output = fold (\<lambda>(k, v). AList.update k v) (request_ids receipt_id) output
          in proceed (record_provider_write_receipt rt ''agency'' a SucceededWrite (Some input)
               (Some (pp_repo_id prepared)) (Some output) None None s) (\<lambda>(r, s).
             Inr (inline_success output,
               if rc_id r = receipt_id then s
               else on_gw (append_action_execution_event rt a ''evt.provider_write.receipt_reconciled''
                 [(''action_attempt_id'', JStr (at_id a)),
                  (''expected_provider_write_receipt_id'', JStr receipt_id),
                  (''provider_write_receipt_id'', JStr (rc_id r))]) s))))"

text \<open>A retryable answer of a mail mutation: the receipt fails, the action stays and the task is tried again.\<close>

definition settle_retry ::
  "services \<Rightarrow> action_attempt \<Rightarrow> dispatch \<Rightarrow> settlement \<Rightarrow> string \<Rightarrow> write_store
     \<Rightarrow> exn + write_store \<times> (exn + bool)" where
  "settle_retry rt a d st error s =
     (let (provider, input, account) = call_identity d;
          status = or_else (failure_status st) (provider_write_failure_receipt_status error (failure_payload st));
          retry = (\<lambda>s.
            let (now, s) = gs_tick rt s; a = a\<lparr>execution_error := Some error, at_updated_at := now\<rparr>
            in Inr (on_gw (append_action_execution_event rt a ''evt.action.execution.retrying''
                 [(''action_attempt_id'', JStr (at_id a)), (''error'', JStr error)]) (save_gw_attempt a s),
                 Inl (RuntimeError error)))
      in if \<not> List.member GOOGLE_RECEIPT_CAPABILITY_IDS (at_capability_id a) then retry s
         else if status = AmbiguousWrite then
           proceed (record_ambiguous rt ''google'' a input account (failure_payload st) error s) (\<lambda>s.
           Inr (on_gw (fail_action_execution rt a error JNull) s, Inr True))
         else proceed (record_provider_write_receipt rt ''google'' a status input account (failure_payload st)
             (Some error) None s) (\<lambda>(r, s). retry s))"

definition settle_success ::
  "services \<Rightarrow> action_attempt \<Rightarrow> dispatch \<Rightarrow> dict \<Rightarrow> write_store \<Rightarrow> exn + write_store" where
  "settle_success rt a d output s =
     (let cid = at_capability_id a; recorded = List.member GOOGLE_RECEIPT_CAPABILITY_IDS cid;
          (provider, input, account) =
            (case d of AgencyCall _ _ _ \<Rightarrow> (''google'', None, None) | _ \<Rightarrow> call_identity d)
      in case (if recorded
           then provider_write_success_identity_error cid (provider_write_object_ids input output) else None) of
           Some e \<Rightarrow>
             proceed (record_ambiguous rt ''google'' a input account (Some output) e s) (\<lambda>s.
             Inr (on_gw (fail_action_execution rt a e JNull) s))
         | None \<Rightarrow>
             proceed (if recorded then provider_capability_output_for_public_transport rt cid output else Inr output)
               (\<lambda>shown.
             let (now, s) = gs_tick rt s;
                 a = a\<lparr>at_status := SucceededAction, execution_output := JObj shown, execution_error := None,
                   at_updated_at := now\<rparr>;
                 s = save_gw_attempt a s
             in proceed (if recorded
                  then proceed (record_provider_write_receipt rt ''google'' a SucceededWrite input account
                    (Some output) None None s) (\<lambda>(r, s). Inr s)
                  else Inr s) (\<lambda>s.
                Inr (on_gw (append_action_execution_event rt a ''evt.action.execution.succeeded''
                  (action_execution_succeeded_payload a (redact_undo_token shown) [])) s))))"

definition settle_failure ::
  "services \<Rightarrow> exec_env \<Rightarrow> action_attempt \<Rightarrow> dispatch \<Rightarrow> settlement \<Rightarrow> write_store \<Rightarrow> exn + write_store" where
  "settle_failure rt ex a d st s =
     (let result = se_result st; cid = at_capability_id a; (provider, input, account) = call_identity d;
          error = failure_code ''execution_output_missing'' result;
          s = (if pr_auth_failure result \<noteq> None \<and> ex_google ex \<noteq> None
               then record_capability_failure rt result s else s);
          agency = List.member AGENCY_RECEIPT_CAPABILITY_IDS cid;
          payload = (if failure_payload st \<noteq> None then failure_payload st else pr_output result);
          payload = (case d of
              AgencyCall _ _ (Some (_, i)) \<Rightarrow>
                if agency \<and> payload = None
                then map_option (\<lambda>r. AList.update ''error'' (JStr error) (response_payload r)) (find_receipt s i)
                else payload
            | _ \<Rightarrow> payload);
          status = or_else (failure_status st)
            (if agency then AmbiguousWrite else provider_write_failure_receipt_status error payload)
      in proceed (if \<not> List.member (GOOGLE_RECEIPT_CAPABILITY_IDS @ AGENCY_RECEIPT_CAPABILITY_IDS) cid then Inr s
           else record_failure rt provider a status input account payload error s) (\<lambda>s.
         Inr (on_gw (fail_action_execution rt a error JNull) s)))"

text \<open>What the answer says, for each kind of call.\<close>

definition read_answer ::
  "services \<Rightarrow> exec_env \<Rightarrow> action_attempt \<Rightarrow> dispatch \<Rightarrow> call_answer \<Rightarrow> write_store \<Rightarrow> exn + settlement \<times> write_store" where
  "read_answer rt ex a d answer s =
     (case (answer, d) of
        (AgencyAnswered result, AgencyCall cid input named) \<Rightarrow>
          proceed (settle_agency rt ex a input named result s) (\<lambda>(r, s). Inr (plain_settlement r, s))
      | (Answered result, EmailCall i cid input token scopes account prior) \<Rightarrow>
          settle_email rt ex i cid input prior result s
      | (Answered result, _) \<Rightarrow> Inr (plain_settlement result, s)
      | (AgencyAnswered result, _) \<Rightarrow> Inr (plain_settlement (inline_failure ''execution_result_missing''), s))"

definition conclude ::
  "services \<Rightarrow> exec_env \<Rightarrow> action_attempt \<Rightarrow> dispatch \<Rightarrow> settlement \<Rightarrow> write_store
     \<Rightarrow> exn + write_store \<times> (exn + bool)" where
  "conclude rt ex a d st s =
     (case retry_error st of
        Some error \<Rightarrow> settle_retry rt a d st error s
      | None \<Rightarrow>
         (case (pr_succeeded (se_result st), pr_output (se_result st)) of
            (True, Some output) \<Rightarrow> proceed (settle_success rt a d output s) (\<lambda>s. Inr (s, Inr True))
          | _ \<Rightarrow> proceed (settle_failure rt ex a d st s) (\<lambda>s. Inr (s, Inr True))))"

definition settle ::
  "services \<Rightarrow> exec_env \<Rightarrow> string \<Rightarrow> dispatch \<Rightarrow> call_answer \<Rightarrow> write_store \<Rightarrow> exn + write_store \<times> (exn + bool)" where
  "settle rt ex attempt_id d answer s =
     (case find_attempt (gs_world s) attempt_id of
        None \<Rightarrow> Inl (RuntimeError ''action attempt not found'')
      | Some a \<Rightarrow>
          if ended (at_status a) then Inr (s, Inr False)
          else proceed (read_answer rt ex a d answer s) (\<lambda>(st, s). conclude rt ex a d st s))"

section \<open>The task\<close>

text \<open>The refresh of the access token comes first, in transactions of its own.\<close>

definition refresh_before ::
  "services \<Rightarrow> exec_env \<Rightarrow> string \<Rightarrow> write_store \<Rightarrow> write_store \<times> (exn + provider_result option)" where
  "refresh_before rt ex attempt_id s =
     (case (ex_google ex, find_attempt (gs_world s) attempt_id) of
        (Some g, Some a) \<Rightarrow>
          if at_status a = Executing \<and> List.member GOOGLE_CAPABILITY_IDS (at_capability_id a)
          then refresh_access_token_for_capability rt g (ex_client ex) (at_capability_id a) s
          else (s, Inr None)
      | _ \<Rightarrow> (s, Inr None))"

text \<open>The state the task leaves, the call it started, and its result.\<close>

definition process_action_execution_task ::
  "services \<Rightarrow> exec_env \<Rightarrow> string \<Rightarrow> write_store \<Rightarrow> write_store \<times> dispatch option \<times> (exn + bool)" where
  "process_action_execution_task rt ex attempt_id s =
     (case refresh_before rt ex attempt_id s of
        (s, Inl e) \<Rightarrow> (s, None, Inl e)
      | (s, Inr refresh) \<Rightarrow>
         (case begin_execution rt ex attempt_id refresh s of
            Inl e \<Rightarrow> (s, None, Inl e)
          | Inr (s, Inl done) \<Rightarrow> (s, None, Inr done)
          | Inr (s, Inr d) \<Rightarrow>
             (case perform rt ex attempt_id d s of
                (s, Inl e) \<Rightarrow> (s, Some d, Inl e)
              | (s, Inr (d, answer)) \<Rightarrow>
                 (case settle rt ex attempt_id d answer s of
                    Inl e \<Rightarrow> (s, Some d, Inl e)
                  | Inr (s, r) \<Rightarrow> (s, Some d, r)))))"

end
