(* ===== verification/Reconcile.thy ===== *)
theory Reconcile
  imports Execution
begin

text \<open>
  The task that looks into a write whose result nobody knows, \<open>process_provider_write_reconcile_due\<close> of
  \<open>src/ariel/action_runtime.py\<close>: it reads a calendar event back and compares it with the change, or asks
  the coding agency again under the same request ids; everything else stays ambiguous. Nothing is written
  to Google here.
\<close>

section \<open>Comparing a calendar event\<close>

definition google_calendar_reconcile_error_is_retryable :: "string \<Rightarrow> bool" where
  "google_calendar_reconcile_error_is_retryable reason \<longleftrightarrow>
     List.member [''google_upstream_timeout'', ''google_upstream_network_failure'', ''google_upstream_429'',
       ''google_request_unreachable'', ''provider_timeout'', ''provider_network_failure'',
       ''provider_rate_limited'', ''provider_upstream_failure''] reason
     \<or> starts_with ''google_upstream_5'' reason"

definition calendar_event_text_value :: "dict \<Rightarrow> string \<Rightarrow> string" where
  "calendar_event_text_value event k = (case as_str (jget event k) of None \<Rightarrow> [] | Some t \<Rightarrow> strip t)"

definition calendar_event_datetime_value :: "json \<Rightarrow> string" where
  "calendar_event_datetime_value v =
     (case as_dict v of
        None \<Rightarrow> []
      | Some d \<Rightarrow> or_else (first_some (\<lambda>k. stripped_text (jget d k)) [''dateTime'', ''date'']) [])"

definition attendee_entries :: "dict \<Rightarrow> dict list" where
  "attendee_entries event =
     (case as_list (jget event ''attendees'') of None \<Rightarrow> [] | Some xs \<Rightarrow> List.map_filter as_dict xs)"

definition calendar_event_attendee_emails :: "dict \<Rightarrow> string list" where
  "calendar_event_attendee_emails event =
     sort (remdups (List.map_filter (\<lambda>d. map_option lower (stripped_text (jget d ''email''))) (attendee_entries event)))"

text \<open>The attendees of a validated input are a list.\<close>

definition expected_attendees :: "dict \<Rightarrow> string list" where
  "expected_attendees input =
     sort (remdups (map lower (List.map_filter as_str (or_else (as_list (jget input ''attendees'')) []))))"

definition response_matches :: "dict \<Rightarrow> dict \<Rightarrow> bool" where
  "response_matches input event =
     (case (as_str (jget input ''attendee_email''), as_str (jget input ''response_status'')) of
        (Some target, Some expected) \<Rightarrow>
         (case find (\<lambda>d. case as_str (jget d ''email'') of
               None \<Rightarrow> False | Some email \<Rightarrow> lower (strip email) = lower target) (attendee_entries event) of
            None \<Rightarrow> False
          | Some d \<Rightarrow> jget d ''responseStatus'' = JStr expected)
      | _ \<Rightarrow> False)"

definition google_calendar_reconcile_matches :: "string \<Rightarrow> dict \<Rightarrow> dict \<Rightarrow> bool" where
  "google_calendar_reconcile_matches cid input event =
     (let same = (\<lambda>k shown. \<not> has_key input k \<or> JStr shown = jget input k)
      in if cid = ''cap.calendar.respond_to_event'' then response_matches input event
         else cid = ''cap.calendar.update_event''
           \<and> same ''title'' (calendar_event_text_value event ''summary'')
           \<and> same ''description'' (calendar_event_text_value event ''description'')
           \<and> same ''location'' (calendar_event_text_value event ''location'')
           \<and> same ''start_time'' (calendar_event_datetime_value (jget event ''start''))
           \<and> same ''end_time'' (calendar_event_datetime_value (jget event ''end''))
           \<and> (\<not> has_key input ''attendees'' \<or> calendar_event_attendee_emails event = expected_attendees input))"

definition google_calendar_reconcile_output ::
  "services \<Rightarrow> string \<Rightarrow> dict \<Rightarrow> dict \<Rightarrow> int \<Rightarrow> exn + dict" where
  "google_calendar_reconcile_output rt cid input event checked_at =
     (let respond = (cid = ''cap.calendar.respond_to_event'');
          field = (\<lambda>k. text_json (stripped_text (jget event k)));
          calendar = jget input ''calendar_id'';
          calendar_id = (if truthy calendar then py_str (service_env rt) calendar else ''primary'')
      in proceed (case stripped_text (jget event ''id'') of
             Some i \<Rightarrow> Inr i | None \<Rightarrow> dict_item input ''event_id'' (\<lambda>v. Inr (py_str (service_env rt) v))) (\<lambda>event_id.
         let output = [(''schema_version'', JStr (if respond then ''google.calendar.response_result.v1''
                   else ''google.calendar.update_result.v1'')),
               (''status'', JStr (if respond then ''responded'' else ''updated'')), (''event_id'', JStr event_id),
               (''calendar_id'', JStr calendar_id),
               (''provider_event_ref'', JStr (or_else (stripped_text (jget event ''htmlLink'')) (''calendar://'' @ event_id))),
               (''etag'', field ''etag''), (''updated'', field ''updated''), (''ical_uid'', field ''iCalUID''),
               (''provider_status'', field ''status''), (''executed_at'', JStr (to_rfc3339 checked_at))]
         in if respond
            then dict_item input ''response_status'' (\<lambda>v. Inr (output @ [(''response_status'', v)]))
            else Inr output))"

section \<open>What to look at\<close>

datatype probe =
    CalendarProbe string dict string string string string
  | AgencyProbe pr_request

record reconcile_env =
  rx_google :: "google_settings option"
  rx_client :: google_client
  rx_agency :: bool
  calendar_get_event :: "string \<Rightarrow> string \<Rightarrow> string \<Rightarrow> exn + (string + dict)"
  rx_request_pr :: "pr_request \<Rightarrow> exn + (string + dict)"
  rx_record_request_pr :: "pr_request \<Rightarrow> dict \<Rightarrow> exn + dict"

text \<open>The request of the first attempt, as the receipt or the proposal still names it.\<close>

definition agency_probe :: "write_receipt \<Rightarrow> action_attempt \<Rightarrow> pr_request option" where
  "agency_probe r a =
     (let sources = [provider_object_ids r, response_payload r, dict_or_empty (proposed_input a)];
          text_value = (\<lambda>k. first_some (\<lambda>d. nonempty_text (jget d k)) sources);
          client = or_else (text_value ''client_request_id'') (rc_id r)
      in case (text_value ''job_id'', text_value ''repo_id'', text_value ''invocation_id'', text_value ''worktree_id'') of
           (Some job, Some repo, Some invocation, Some worktree) \<Rightarrow>
             Some \<lparr>pp_job_id = job, pp_repo_id = repo, pp_invocation_id = invocation, pp_worktree_id = worktree,
               pp_client_request_id = client,
               pp_land_request_id = or_else (text_value ''land_client_request_id'') (client @ '':land''),
               pp_sync_request_id = or_else (text_value ''pr_sync_client_request_id'') (client @ '':pr-sync'')\<rparr>
         | _ \<Rightarrow> None)"

text \<open>The probe of a calendar write, or the reason why there is none.\<close>

definition calendar_access ::
  "services \<Rightarrow> google_settings \<Rightarrow> google_client \<Rightarrow> write_receipt \<Rightarrow> dict \<Rightarrow> write_store
     \<Rightarrow> exn + (string + probe) \<times> write_store" where
  "calendar_access rt g client r input s =
     (let calendar = jget input ''calendar_id'';
          calendar_id = (if truthy calendar then nonempty_text calendar else Some ''primary'')
      in case (nonempty_text (jget input ''event_id''), calendar_id) of
           (Some event, Some calendar) \<Rightarrow>
             proceed (prepare_capability_access rt g client (rc_capability_id r) s) (\<lambda>(acc, s).
             Inr (case ac_failure acc of
                    Some failure \<Rightarrow> Inl (failure_code ''calendar_reconcile_access_failed'' failure)
                  | None \<Rightarrow>
                     (case (ac_token acc, ac_account acc) of
                        (Some token, Some account) \<Rightarrow>
                          if account \<noteq> rc_account r then Inl ''calendar_reconcile_account_mismatch''
                          else Inr (CalendarProbe (rc_capability_id r) input token account calendar event)
                      | _ \<Rightarrow> Inl ''calendar_reconcile_access_failed''), s))
         | _ \<Rightarrow> Inr (Inl ''calendar_reconcile_identity_missing'', s))"

definition calendar_probe ::
  "services \<Rightarrow> reconcile_env \<Rightarrow> write_receipt \<Rightarrow> action_attempt \<Rightarrow> write_store \<Rightarrow> exn + (string + probe) \<times> write_store" where
  "calendar_probe rt rx r a s =
     (case rx_google rx of
        None \<Rightarrow> Inr (Inl ''google_runtime_not_bound'', s)
      | Some g \<Rightarrow>
          proceed (full_action_input_payload rt (gs_world s) a (Some (google_runtime.truncate g))) (\<lambda>full.
          proceed (get_capability (service_env rt) (service_providers rt) (rc_capability_id r)) (\<lambda>capability.
          case (full, capability) of
            (Inl e, _) \<Rightarrow> Inr (Inl e, s)
          | (_, None) \<Rightarrow> Inr (Inl ''unknown_capability'', s)
          | (Inr full_input, Some c) \<Rightarrow>
             (case validate_input c full_input of
                Inl (Raised e) \<Rightarrow> Inl e
              | Inl (Rejected e) \<Rightarrow> Inr (Inl (if e = [] then ''schema_invalid'' else e), s)
              | Inr input \<Rightarrow> calendar_access rt g (rx_client rx) r input s))))"

definition choose_probe ::
  "services \<Rightarrow> reconcile_env \<Rightarrow> write_receipt \<Rightarrow> action_attempt \<Rightarrow> write_store \<Rightarrow> exn + (string + probe) \<times> write_store" where
  "choose_probe rt rx r a s =
     (if rx_agency rx \<and> rc_provider r = ''agency'' \<and> rc_capability_id r = ''cap.agency.request_pr'' then
        Inr (case agency_probe r a of
               None \<Rightarrow> Inl ''agency_reconcile_identity_missing'' | Some p \<Rightarrow> Inr (AgencyProbe p), s)
      else if rc_provider r = ''google''
        \<and> List.member [''cap.calendar.update_event'', ''cap.calendar.respond_to_event''] (rc_capability_id r)
      then calendar_probe rt rx r a s
      else Inr (Inl ''provider_reconcile_requires_provider_specific_probe'', s))"

section \<open>The task\<close>

text \<open>The receipt, still ambiguous, and its attempt; \<open>Inr None\<close> when it was settled meanwhile.\<close>

definition ambiguous_receipt :: "write_store \<Rightarrow> string \<Rightarrow> exn + (write_receipt \<times> action_attempt) option" where
  "ambiguous_receipt s receipt_id =
     (case find_receipt s receipt_id of
        None \<Rightarrow> Inl (RuntimeError ''provider_write_receipt_not_found'')
      | Some r \<Rightarrow>
         (case find_attempt (gs_world s) (rc_attempt_id r) of
            None \<Rightarrow> Inl (RuntimeError ''provider_write_action_attempt_not_found'')
          | Some a \<Rightarrow> Inr (if rc_status r = AmbiguousWrite then Some (r, a) else None)))"

definition mark_indeterminate_by_id :: "services \<Rightarrow> string \<Rightarrow> string \<Rightarrow> write_store \<Rightarrow> exn + write_store" where
  "mark_indeterminate_by_id rt receipt_id reason s =
     proceed (ambiguous_receipt s receipt_id) (\<lambda>found.
     case found of
       None \<Rightarrow> Inr s
     | Some (r, a) \<Rightarrow> mark_provider_write_reconcile_indeterminate rt a r reason s)"

text \<open>The write is known to have happened after all.\<close>

definition reconciled ::
  "services \<Rightarrow> action_attempt \<Rightarrow> write_receipt \<Rightarrow> int \<Rightarrow> int \<Rightarrow> write_store \<Rightarrow> write_store" where
  "reconciled rt a r updated at_event s =
     (let a = a\<lparr>at_status := SucceededAction, execution_output := JObj (response_payload r), execution_error := None,
          at_updated_at := updated\<rparr>
      in on_gw (add_event_at rt a ''evt.action.execution.succeeded''
           (action_execution_succeeded_payload a (response_payload r)
             [(''provider_write_receipt_id'', JStr (rc_id r)), (''reconciled'', JBool True)]) at_event)
           (save_gw_attempt a s))"

definition settle_calendar ::
  "services \<Rightarrow> string \<Rightarrow> string \<Rightarrow> dict \<Rightarrow> string \<Rightarrow> dict \<Rightarrow> write_store \<Rightarrow> exn + write_store \<times> bool" where
  "settle_calendar rt receipt_id cid input account event s =
     (let (checked_at, s) = gs_tick rt s
      in proceed (google_calendar_reconcile_output rt cid input event checked_at) (\<lambda>output.
         proceed (ambiguous_receipt s receipt_id) (\<lambda>found.
         case found of
           None \<Rightarrow> Inr (s, False)
         | Some (_, a) \<Rightarrow>
             proceed (record_receipt_at rt ''google'' a SucceededWrite (Some input) (Some account) (Some output)
               None None checked_at s) (\<lambda>(r, s).
             Inr (reconciled rt a r checked_at checked_at s, True)))))"

definition settle_agency_probe ::
  "services \<Rightarrow> reconcile_env \<Rightarrow> string \<Rightarrow> pr_request \<Rightarrow> dict \<Rightarrow> write_store \<Rightarrow> exn + write_store \<times> bool" where
  "settle_agency_probe rt rx receipt_id p answer s =
     proceed (ambiguous_receipt s receipt_id) (\<lambda>found.
     case found of
       None \<Rightarrow> Inr (s, False)
     | Some (_, a) \<Rightarrow>
         proceed (rx_record_request_pr rx p answer) (\<lambda>output.
         let output = fold (\<lambda>(k, v). AList.update k v)
               [(''client_request_id'', JStr (pp_client_request_id p)),
                (''land_client_request_id'', JStr (pp_land_request_id p)),
                (''pr_sync_client_request_id'', JStr (pp_sync_request_id p))] output
         in proceed (record_provider_write_receipt rt ''agency'' a SucceededWrite
              (Some (dict_or_empty (proposed_input a))) (Some (pp_repo_id p)) (Some output) None None s) (\<lambda>(r, s).
            let (updated, s) = gs_tick rt s; (at_event, s) = gs_tick rt s
            in Inr (reconciled rt a r updated at_event s, True))))"

text \<open>
  The state that was committed and the result. A failing probe that may pass later leaves the receipt
  ambiguous and the exception with the task queue.
\<close>

definition run_probe ::
  "services \<Rightarrow> reconcile_env \<Rightarrow> string \<Rightarrow> probe \<Rightarrow> write_store \<Rightarrow> write_store \<times> (exn + bool)" where
  "run_probe rt rx receipt_id p s =
     (let mark = (\<lambda>reason result. case mark_indeterminate_by_id rt receipt_id reason s of
            Inl e \<Rightarrow> (s, Inl e) | Inr s \<Rightarrow> (s, result));
          settled = (\<lambda>r. case r of Inl e \<Rightarrow> (s, Inl e) | Inr (s, b) \<Rightarrow> (s, Inr b))
      in case p of
           CalendarProbe cid input token account calendar event \<Rightarrow>
            (case calendar_get_event rx token calendar event of
               Inl e \<Rightarrow> (s, Inl e)
             | Inr (Inl code) \<Rightarrow>
                 mark (if code = ''resource_not_found'' then ''calendar_reconcile_resource_not_found''
                   else safe_failure_reason code ''calendar_reconcile_probe_failed'')
                   (if google_calendar_reconcile_error_is_retryable code then Inl (RuntimeError code) else Inr True)
             | Inr (Inr found) \<Rightarrow>
                 if \<not> google_calendar_reconcile_matches cid input found
                 then mark ''calendar_reconcile_state_mismatch'' (Inr True)
                 else settled (settle_calendar rt receipt_id cid input account found s))
         | AgencyProbe asked \<Rightarrow>
            (case rx_request_pr rx asked of
               Inl e \<Rightarrow> (s, Inl e)
             | Inr (Inl error) \<Rightarrow>
                (case ambiguous_receipt s receipt_id of
                   Inr None \<Rightarrow> (s, Inr False)
                 | _ \<Rightarrow> mark (safe_failure_reason error ''agency_reconcile_probe_failed'') (Inl (RuntimeError error)))
             | Inr (Inr answer) \<Rightarrow> settled (settle_agency_probe rt rx receipt_id asked answer s)))"

definition process_provider_write_reconcile_due ::
  "services \<Rightarrow> reconcile_env \<Rightarrow> dict \<Rightarrow> write_store \<Rightarrow> write_store \<times> (exn + bool)" where
  "process_provider_write_reconcile_due rt rx payload s =
     (case nonempty_text (jget payload ''provider_write_receipt_id'') of
        None \<Rightarrow> (s, Inl (RuntimeError ''provider_write_reconcile_due missing provider_write_receipt_id''))
      | Some receipt_id \<Rightarrow>
         (case ambiguous_receipt s receipt_id of
            Inl e \<Rightarrow> (s, Inl e)
          | Inr None \<Rightarrow> (s, Inr False)
          | Inr (Some (r, a)) \<Rightarrow>
             (case choose_probe rt rx r a s of
                Inl e \<Rightarrow> (s, Inl e)
              | Inr (Inr p, s) \<Rightarrow> run_probe rt rx receipt_id p s
              | Inr (Inl reason, s1) \<Rightarrow>
                 (case mark_provider_write_reconcile_indeterminate rt a r reason s1 of
                    Inl e \<Rightarrow> (s, Inl e)
                  | Inr s \<Rightarrow> (s, Inr True)))))"

end
