(* ===== verification/Connector_Rows.thy ===== *)
theory Connector_Rows
  imports Google_Connector
begin

text \<open>
  What each operation of the Google connector leaves of its row and of the OAuth states: the tokens stay
  readable under the key version of the row, and a spent state stays spent.
\<close>

section \<open>Readable tokens\<close>

definition token_opens :: "services \<Rightarrow> 'b google_runtime_scheme \<Rightarrow> connector \<Rightarrow> string option \<Rightarrow> bool" where
  "token_opens rt g c enc \<longleftrightarrow> (case enc of None \<Rightarrow> True | Some sealed \<Rightarrow> \<exists>t. unseal rt g (cn_key_version c) sealed = Inr t)"

text \<open>A usable key ring, whose active version has no colon, nonces of twelve bytes, and an AES-GCM that inverts itself.\<close>

definition sound_keys :: "services \<Rightarrow> 'b google_runtime_scheme \<Rightarrow> bool" where
  "sound_keys rt g \<longleftrightarrow>
     (\<exists>c. from_config (service_crypto rt) (encryption_key_version g) (encryption_keys g) (encryption_secret g) = Inr c
        \<and> CHR '':'' \<notin> set (active_key_version c))
     \<and> (\<forall>n. length (nonce_at rt n) = 12)
     \<and> (\<forall>k n p a. aes_decrypt (service_crypto rt) k n (aes_encrypt (service_crypto rt) k n p a) a = Some p)"

text \<open>With such keys, both tokens of the row can be opened.\<close>

definition row_readable :: "services \<Rightarrow> 'b google_runtime_scheme \<Rightarrow> connector \<Rightarrow> bool" where
  "row_readable rt g c \<longleftrightarrow>
     (sound_keys rt g \<longrightarrow> token_opens rt g c (access_token_enc c) \<and> token_opens rt g c (refresh_token_enc c))"

definition tokens_readable :: "services \<Rightarrow> 'b google_runtime_scheme \<Rightarrow> 'a google_state_scheme \<Rightarrow> bool" where
  "tokens_readable rt g s \<longleftrightarrow> (case gs_connector s of None \<Rightarrow> True | Some c \<Rightarrow> row_readable rt g c)"

definition row_tokens :: "connector \<Rightarrow> string option \<times> string option \<times> string" where
  "row_tokens c = (access_token_enc c, refresh_token_enc c, cn_key_version c)"

lemma row_readable_cong: "row_tokens c' = row_tokens c \<Longrightarrow> row_readable rt g c' = row_readable rt g c"
  by (auto simp: row_tokens_def row_readable_def token_opens_def split: option.split)

lemma row_tokens_simps [simp]:
  "row_tokens (c\<lparr>cn_status := st\<rparr>) = row_tokens c" "row_tokens (c\<lparr>cn_updated_at := t\<rparr>) = row_tokens c"
  "row_tokens (c\<lparr>last_error_code := e\<rparr>) = row_tokens c" "row_tokens (c\<lparr>last_error_at := u\<rparr>) = row_tokens c"
  "row_tokens (c\<lparr>access_token_expires_at := u\<rparr>) = row_tokens c" "row_tokens (c\<lparr>token_obtained_at := u\<rparr>) = row_tokens c"
  by (simp_all add: row_tokens_def)

section \<open>Steps that touch neither\<close>

text \<open>The clock and the event log may change; the row, the states, what extends the state and the actions do not.\<close>

definition quiet :: "'a google_state_scheme \<Rightarrow> 'a google_state_scheme \<Rightarrow> bool" where
  "quiet s s' \<longleftrightarrow> gs_connector s' = gs_connector s \<and> oauth_states s' = oauth_states s
     \<and> google_state.more s' = google_state.more s \<and> attempts (gs_world s') = attempts (gs_world s)"

lemma quiet_refl [simp]: "quiet s s"
  by (simp add: quiet_def)

lemma quiet_trans: "quiet s s' \<Longrightarrow> quiet s' s'' \<Longrightarrow> quiet s s''"
  by (simp add: quiet_def)

lemma quiet_tick: "gs_tick rt s = (t, s') \<Longrightarrow> quiet s s'"
  by (auto simp: gs_tick_def tick_def quiet_def)

lemma quiet_fresh: "gs_fresh rt p s = (i, s') \<Longrightarrow> quiet s s'"
  by (auto simp: gs_fresh_def fresh_id_def quiet_def)

lemma quiet_serial: "gs_serial s = (i, s') \<Longrightarrow> quiet s s'"
  by (auto simp: gs_serial_def quiet_def)

lemma quiet_event [simp]: "quiet s (append_connector_event rt ty payload s)"
  by (simp add: append_connector_event_def quiet_def gs_fresh_def fresh_id_def gs_tick_def tick_def Let_def)

lemma quiet_seal: "seal rt g p s = Inr (x, s') \<Longrightarrow> quiet s s'"
  by (auto simp: seal_def Let_def split_beta gs_serial_def quiet_def)

lemma event_rows [simp]:
  "gs_connector (append_connector_event rt ty payload s) = gs_connector s"
  "oauth_states (append_connector_event rt ty payload s) = oauth_states s"
  "google_state.more (append_connector_event rt ty payload s) = google_state.more s"
  "attempts (gs_world (append_connector_event rt ty payload s)) = attempts (gs_world s)"
  using quiet_event [of s rt ty payload] by (simp_all add: quiet_def)

lemma set_error:
  "set_connector_error rt e c s = (c', s') \<Longrightarrow> row_tokens c' = row_tokens c \<and> cn_status c' = cn_status c \<and> quiet s s'"
  by (auto simp: set_connector_error_def Let_def gs_tick_def tick_def quiet_def split: if_split_asm)

lemma clear_error:
  "clear_connector_error rt c s = (c', s') \<Longrightarrow> row_tokens c' = row_tokens c \<and> cn_status c' = cn_status c \<and> quiet s s'"
  by (auto simp: clear_connector_error_def Let_def gs_tick_def tick_def quiet_def split: if_split_asm)

lemma saved_rows [simp]:
  "gs_connector (save_connector c s) = Some c" "oauth_states (save_connector c s) = oauth_states s"
  "google_state.more (save_connector c s) = google_state.more s" "gs_world (save_connector c s) = gs_world s"
  by (simp_all add: save_connector_def)

section \<open>Sealing\<close>

lemma seal_opens:
  assumes "sound_keys rt g" "seal rt g p s = Inr (sealed, s')"
  shows "unseal rt g (encryption_key_version g) sealed = Inr p"
proof -
  from assms(1) obtain c where c:
    "from_config (service_crypto rt) (encryption_key_version g) (encryption_keys g) (encryption_secret g) = Inr c"
    "CHR '':'' \<notin> set (active_key_version c)"
    and n: "\<And>n. length (nonce_at rt n) = 12"
    and a: "\<And>k n p a. aes_decrypt (service_crypto rt) k n (aes_encrypt (service_crypto rt) k n p a) a = Some p"
    unfolding sound_keys_def by blast
  from sealed_opens [OF c(1) c(1) refl c(2) n a, of "fst (gs_serial s)" p] assms(2) show ?thesis
    by (auto simp: seal_def unseal_def Let_def split_beta)
qed

lemma seal_tokens_readable:
  assumes "seal_tokens rt g access refresh c s = Inr (c', s')"
  shows "row_readable rt g c' \<and> quiet s s'"
proof -
  from assms obtain a s1 r where "seal rt g access s = Inr (a, s1)" "seal rt g refresh s1 = Inr (r, s')"
    and c': "c' = c\<lparr>access_token_enc := Some a, refresh_token_enc := Some r, cn_key_version := encryption_key_version g\<rparr>"
    by (auto simp: seal_tokens_def)
  note opened = seal_opens [OF _ this(1)] seal_opens [OF _ this(2)]
  show ?thesis
    using opened quiet_trans [OF quiet_seal [OF \<open>seal rt g access s = Inr (a, s1)\<close>]
        quiet_seal [OF \<open>seal rt g refresh s1 = Inr (r, s')\<close>]]
    by (simp add: c' row_readable_def token_opens_def)
qed

text \<open>What a step keeps: the states, what extends the state, the actions, and the tokens readable.\<close>

definition keeps :: "services \<Rightarrow> 'b google_runtime_scheme \<Rightarrow> 'a google_state_scheme \<Rightarrow> 'a google_state_scheme \<Rightarrow> bool" where
  "keeps rt g s s' \<longleftrightarrow> oauth_states s' = oauth_states s \<and> google_state.more s' = google_state.more s
     \<and> attempts (gs_world s') = attempts (gs_world s) \<and> (tokens_readable rt g s \<longrightarrow> tokens_readable rt g s')"

lemma keeps_refl [simp]: "keeps rt g s s"
  by (simp add: keeps_def)

lemma keeps_trans: "keeps rt g s s' \<Longrightarrow> keeps rt g s' s'' \<Longrightarrow> keeps rt g s s''"
  by (simp add: keeps_def)

lemma quiet_keeps: "quiet s s' \<Longrightarrow> keeps rt g s s'"
  by (simp add: keeps_def quiet_def tokens_readable_def)

lemma keeps_row:
  assumes "oauth_states s' = oauth_states s" "google_state.more s' = google_state.more s"
    "attempts (gs_world s') = attempts (gs_world s)" "gs_connector s' = Some c'"
    "tokens_readable rt g s \<Longrightarrow> row_readable rt g c'"
  shows "keeps rt g s s'"
  using assms by (simp add: keeps_def tokens_readable_def)

lemma stored_readable: "gs_connector s = Some c \<Longrightarrow> tokens_readable rt g s \<Longrightarrow> row_readable rt g c"
  by (simp add: tokens_readable_def)

section \<open>The operations\<close>

lemma save_keeps:
  assumes "quiet s s'" "tokens_readable rt g s \<Longrightarrow> row_readable rt g c"
  shows "keeps rt g s (save_connector c s')"
  using assms by (simp add: keeps_def quiet_def tokens_readable_def)

lemma event_keeps: "keeps rt g s s' \<Longrightarrow> keeps rt g s (append_connector_event rt ty payload s')"
  using keeps_trans quiet_keeps quiet_event by blast

lemma error_keeps:
  assumes "set_connector_error rt e c s = (c', s')" "tokens_readable rt g s \<Longrightarrow> row_readable rt g c"
  shows "keeps rt g s (save_connector c' s')"
proof -
  from set_error [OF assms(1)] have e: "row_tokens c' = row_tokens c" "quiet s s'" by auto
  show ?thesis by (rule save_keeps [OF e(2)]) (use assms(2) row_readable_cong [OF e(1), of rt g] in simp)
qed

lemma failure_keeps:
  assumes "tokens_readable rt g s \<Longrightarrow> row_readable rt g c"
  shows "keeps rt g s (record_refresh_failure rt e c s)"
proof -
  let ?c = "if e = ''access_revoked'' then c\<lparr>cn_status := Revoked\<rparr> else c"
  obtain c' s' where e: "set_connector_error rt e ?c s = (c', s')" by force
  have "row_tokens ?c = row_tokens c" by simp
  then have "tokens_readable rt g s \<Longrightarrow> row_readable rt g ?c" using assms row_readable_cong by blast
  from error_keeps [OF e this] e show ?thesis
    by (simp add: record_refresh_failure_def Let_def event_keeps)
qed

lemma capability_failure_keeps: "keeps rt g s (record_capability_failure rt r s)"
proof (cases "pr_auth_failure r")
  case None
  then show ?thesis by (simp add: record_capability_failure_def split: option.split)
next
  case (Some f)
  show ?thesis
  proof (cases "gs_connector s")
    case None
    then show ?thesis using Some by (simp add: record_capability_failure_def split: prod.split)
  next
    case row: (Some c)
    let ?c = "if fst f = ''access_revoked'' then c\<lparr>cn_status := Revoked\<rparr> else c"
    obtain c' s' where e: "set_connector_error rt (fst f) ?c s = (c', s')" by force
    have "row_tokens ?c = row_tokens c" by simp
    then have "tokens_readable rt g s \<Longrightarrow> row_readable rt g ?c"
      using stored_readable [OF row] row_readable_cong by blast
    from error_keeps [OF e this] show ?thesis
      using Some row e by (simp add: record_capability_failure_def Let_def split_beta)
  qed
qed

lemma ensured: "ensure_connector rt g s = (c, s') \<Longrightarrow> gs_connector s' = Some c \<and> keeps rt g s s'
    \<and> (gs_connector s = None \<longrightarrow> access_token_enc c = None \<and> refresh_token_enc c = None)
    \<and> (gs_connector s \<noteq> None \<longrightarrow> s' = s)"
  by (auto simp: ensure_connector_def Let_def gs_tick_def tick_def keeps_def tokens_readable_def row_readable_def
      token_opens_def split: option.split_asm)

lemma announce_keeps:
  assumes "quiet s s'" "row_readable rt g c"
  shows "keeps rt g s (announce_refresh rt c s')"
proof -
  obtain c' s'' where e: "clear_connector_error rt c s' = (c', s'')" by force
  from clear_error [OF e] have t: "row_tokens c' = row_tokens c" "quiet s' s''" by auto
  have "keeps rt g s (save_connector c' s'')"
    by (rule save_keeps [OF quiet_trans [OF assms(1) t(2)]]) (use assms(2) row_readable_cong [OF t(1), of rt g] in simp)
  then show ?thesis using e by (simp add: announce_refresh_def Let_def event_keeps)
qed

lemma sealed_keeps:
  assumes "seal_tokens rt g access refresh c s = Inr (c', s')" "quiet s' s''"
    "row_tokens c'' = row_tokens c'"
  shows "keeps rt g s (announce_refresh rt c'' s'')"
proof -
  from seal_tokens_readable [OF assms(1)] have t: "row_readable rt g c'" "quiet s s'" by auto
  show ?thesis
    by (rule announce_keeps [OF quiet_trans [OF t(2) assms(2)]]) (use t(1) row_readable_cong [OF assms(3), of rt g] in simp)
qed

lemma used_refresh_keeps:
  assumes "use_refresh_token rt g client enc c s = Inr (r, s')"
    "tokens_readable rt g s \<Longrightarrow> row_readable rt g c"
  shows "keeps rt g s s'"
proof -
  note failed = failure_keeps [of rt g s c, OF assms(2)]
  from assms(1) obtain t where t: "(case refresh_access_token client t of
       Inl error \<Rightarrow> refresh_failed rt error c s
     | Inr payload \<Rightarrow>
        (case stripped_text (jget payload ''access_token'') of
           None \<Rightarrow> refresh_failed rt ''provider_invalid_payload'' c s
         | Some access \<Rightarrow>
             proceed (seal_tokens rt g access (or_else (stripped_text (jget payload ''refresh_token'')) t) c s)
               (\<lambda>(c, s).
             let (now, s) = gs_tick rt s
             in proceed (expiry_after (refreshed_lifetime payload) now) (\<lambda>due.
                Inr (Inr access, announce_refresh rt
                  (c\<lparr>access_token_expires_at := Some due, token_obtained_at := Some now\<rparr>) s))))) = Inr (r, s')"
    by (auto simp: use_refresh_token_def)
  show ?thesis
  proof (cases "refresh_access_token client t")
    case (Inl error)
    with t failed [of error] show ?thesis by (auto simp: refresh_failed_def)
  next
    case (Inr payload)
    show ?thesis
    proof (cases "stripped_text (jget payload ''access_token'')")
      case None
      with t Inr failed [of "''provider_invalid_payload''"] show ?thesis by (auto simp: refresh_failed_def)
    next
      case (Some access)
      with t Inr obtain c1 s1 due where
        e: "seal_tokens rt g access (or_else (stripped_text (jget payload ''refresh_token'')) t) c s = Inr (c1, s1)"
        and s': "s' = announce_refresh rt (c1\<lparr>access_token_expires_at := Some due,
          token_obtained_at := Some (fst (gs_tick rt s1))\<rparr>) (snd (gs_tick rt s1))"
        by (auto simp: split_beta)
      have "quiet s1 (snd (gs_tick rt s1))" by (rule quiet_tick) (rule prod.collapse [symmetric])
      from sealed_keeps [OF e this] show ?thesis unfolding s' by simp
    qed
  qed
qed

lemma missing_keeps:
  assumes "tokens_readable rt g s \<Longrightarrow> row_readable rt g c"
  shows "keeps rt g s (snd (refresh_missing rt c s))"
proof -
  obtain c' s' where e: "set_connector_error rt ''refresh_missing'' c s = (c', s')" by force
  from error_keeps [OF e assms] show ?thesis using e by (simp add: refresh_missing_def Let_def event_keeps)
qed

lemma refreshed_keeps:
  assumes "refresh_access_token_if_needed rt g client c s = Inr (r, s')" "gs_connector s = Some c"
  shows "keeps rt g s s'"
proof (cases "access_token_enc c")
  case None
  obtain c' s1 where e: "set_connector_error rt ''token_missing'' c s = (c', s1)" by force
  with assms(1) None error_keeps [OF e stored_readable [OF assms(2)]] show ?thesis
    by (auto simp: refresh_access_token_if_needed_def)
next
  case (Some sealed)
  obtain now s1 where t: "gs_tick rt s = (now, s1)" by force
  from quiet_keeps [OF quiet_tick [OF t], of rt g] have q: "keeps rt g s s1" .
  have q2: "gs_connector s1 = Some c" using quiet_tick [OF t] assms(2) by (simp add: quiet_def)
  from stored_readable [OF q2] have row: "tokens_readable rt g s1 \<Longrightarrow> row_readable rt g c" .
  have "s' = s1 \<or> s' = snd (refresh_missing rt c s1)
      \<or> (\<exists>enc. use_refresh_token rt g client enc c s1 = Inr (r, s'))"
    using assms(1) Some t
    by (auto simp: refresh_access_token_if_needed_def prod_eq_iff split: option.split_asm if_split_asm)
  then show ?thesis
    using used_refresh_keeps [OF _ row] missing_keeps [of rt g s1 c, OF row]
      keeps_trans [OF q] q by blast
qed

lemma expired_keeps:
  assumes "expired_refresh_token rt g required s = Inr (r, s')"
  shows "keeps rt g s s'"
proof (cases "gs_connector s")
  case None
  then show ?thesis using assms by (simp add: expired_refresh_token_def)
next
  case (Some c)
  have stop: "keeps rt g s1 (save_connector (fst (set_connector_error rt e c s1)) (snd (set_connector_error rt e c s1)))"
    if "gs_connector s1 = Some c" for e s1
    using error_keeps [of rt e c s1 _ _ g, OF prod.collapse [symmetric] stored_readable [OF that]] .
  have q: "keeps rt g s (snd (gs_tick rt s))" "gs_connector (snd (gs_tick rt s)) = Some c"
    using Some by (auto simp: gs_tick_def tick_def keeps_def tokens_readable_def)
  show ?thesis
    using assms Some stop [OF Some] stop [OF q(2)] q(1) keeps_trans [OF q(1)]
    by (auto simp: expired_refresh_token_def Let_def split_beta split: option.split_asm if_split_asm)
qed

lemma noted_keeps: "keeps rt g s (note_refresh_failure rt e s)"
  by (auto simp: note_refresh_failure_def intro!: failure_keeps dest: stored_readable split: option.split)

lemma stored_keeps:
  assumes "store_refreshed rt g access refresh lifetime s = Inr s'"
  shows "keeps rt g s s'"
proof -
  have store: "keeps rt g s1 s'"
    if e: "proceed (seal_tokens rt g access refresh c s1) (\<lambda>(c, s).
        let (from_now, s) = gs_tick rt s
        in proceed (expiry_after lifetime from_now) (\<lambda>due.
           let (now, s) = gs_tick rt s
           in Inr (announce_refresh rt (c\<lparr>access_token_expires_at := Some due, token_obtained_at := Some now\<rparr>) s)))
      = Inr s'" for c s1
  proof -
    from e obtain c1 s2 due where e1: "seal_tokens rt g access refresh c s1 = Inr (c1, s2)"
      and s': "s' = announce_refresh rt (c1\<lparr>access_token_expires_at := Some due,
          token_obtained_at := Some (fst (gs_tick rt (snd (gs_tick rt s2))))\<rparr>) (snd (gs_tick rt (snd (gs_tick rt s2))))"
      by (auto simp: split_beta Let_def)
    have "quiet s2 (snd (gs_tick rt (snd (gs_tick rt s2))))" by (simp add: gs_tick_def tick_def quiet_def)
    from sealed_keeps [OF e1 this] show ?thesis unfolding s' by simp
  qed
  have q: "keeps rt g s (snd (gs_tick rt s))"
    by (auto simp: gs_tick_def tick_def keeps_def tokens_readable_def)
  show ?thesis
  proof (cases "gs_connector s")
    case None
    then show ?thesis using assms by (simp add: store_refreshed_def)
  next
    case (Some c)
    show ?thesis
      using assms Some store [of c s] store [of c "snd (gs_tick rt s)"] q keeps_trans [OF q]
      by (simp add: store_refreshed_def Let_def split_beta split: option.split_asm if_split_asm)
  qed
qed

lemma capability_refresh_keeps:
  assumes "refresh_access_token_for_capability rt g client cid s = (s', r)"
  shows "keeps rt g s s'"
proof (cases "map_of GOOGLE_CAPABILITY_SCOPES cid")
  case None
  then show ?thesis using assms by (simp add: refresh_access_token_for_capability_def)
next
  case (Some required)
  show ?thesis
  proof (cases "expired_refresh_token rt g required s")
    case (Inl e)
    then show ?thesis using assms Some by (simp add: refresh_access_token_for_capability_def)
  next
    case (Inr p)
    obtain token s1 where p: "p = (token, s1)" by force
    from expired_keeps [OF Inr [unfolded p]] have k: "keeps rt g s s1" .
    have "s' = s1 \<or> (\<exists>e. s' = note_refresh_failure rt e s1)
        \<or> (\<exists>access refresh lifetime. store_refreshed rt g access refresh lifetime s1 = Inr s')"
      using assms Some Inr p
      by (auto simp: refresh_access_token_for_capability_def split: option.split_asm sum.split_asm)
    then show ?thesis using k keeps_trans [OF k] noted_keeps stored_keeps by blast
  qed
qed

text \<open>Access, for a continuation that keeps what it is given.\<close>

lemma access_keeps:
  assumes "with_connected rt cid k s = Inr (a, s')"
    and "\<And>c account scopes. gs_connector s = Some c \<Longrightarrow> k c account scopes s = Inr (a, s') \<Longrightarrow> keeps rt g s s'"
  shows "keeps rt g s s'"
proof (cases "gs_connector s")
  case None
  then show ?thesis using assms(1) by (auto simp: with_connected_def split: option.split_asm)
next
  case (Some c)
  obtain c' s1 where e: "set_connector_error rt ''consent_required'' c s = (c', s1)" by force
  show ?thesis
    using assms(1) Some e error_keeps [OF e stored_readable [OF Some]] assms(2) [OF Some]
    by (auto simp: with_connected_def split: option.split_asm if_split_asm)
qed

lemma case_sum_pair:
  "(case v of Inl x \<Rightarrow> (f x, s) | Inr y \<Rightarrow> (h y, s)) = (a, s') \<longleftrightarrow> s = s' \<and> (case v of Inl x \<Rightarrow> f x | Inr y \<Rightarrow> h y) = a"
  by (cases v) auto

lemma prepared_keeps:
  assumes "prepare_capability_access rt g client cid s = Inr (a, s')"
  shows "keeps rt g s s'"
  using assms unfolding prepare_capability_access_def
proof (rule access_keeps, goal_cases)
  case (1 c account scopes)
  then obtain r where "refresh_access_token_if_needed rt g client c s = Inr (r, s')"
    by (auto simp: case_sum_pair)
  from refreshed_keeps [OF this 1(1)] show ?case .
qed

lemma prepared_without_keeps:
  assumes "prepare_capability_access_without_refresh rt g cid s = Inr (a, s')"
  shows "keeps rt g s s'"
  using assms unfolding prepare_capability_access_without_refresh_def
proof (rule access_keeps, goal_cases)
  case (1 c account scopes)
  have stop: "keeps rt g s1 (save_connector (fst (set_connector_error rt e c s1)) (snd (set_connector_error rt e c s1)))"
    if "gs_connector s1 = Some c" for e s1
    using error_keeps [of rt e c s1 _ _ g, OF prod.collapse [symmetric] stored_readable [OF that]] .
  have q: "keeps rt g s (snd (gs_tick rt s))" "gs_connector (snd (gs_tick rt s)) = Some c"
    using 1 by (auto simp: gs_tick_def tick_def keeps_def tokens_readable_def)
  show ?case
    using 1 stop [OF 1(1)] stop [OF q(2)] q(1) keeps_trans [OF q(1)]
    by (auto simp: Let_def split_beta split: option.split_asm if_split_asm)
qed

lemma synced_keeps:
  assumes "access_token_for_background_sync rt g client s = Inr (r, s')"
  shows "keeps rt g s s'"
proof (cases "gs_connector s")
  case None
  then show ?thesis using assms by (simp add: access_token_for_background_sync_def)
next
  case (Some c)
  then have "s' = s \<or> (\<exists>result. refresh_access_token_if_needed rt g client c s = Inr (result, s'))"
    using assms by (auto simp: access_token_for_background_sync_def case_sum_pair split: if_split_asm)
  then show ?thesis using refreshed_keeps [OF _ Some] by auto
qed

lemma synced_without_keeps:
  assumes "access_token_for_background_sync_without_refresh rt g s = Inr (r, s')"
  shows "keeps rt g s s'"
proof (cases "gs_connector s")
  case None
  then show ?thesis using assms by (simp add: access_token_for_background_sync_without_refresh_def)
next
  case (Some c)
  have stop: "keeps rt g s1 (save_connector (fst (set_connector_error rt e c s1)) (snd (set_connector_error rt e c s1)))"
    if "gs_connector s1 = Some c" for e s1
    using error_keeps [of rt e c s1 _ _ g, OF prod.collapse [symmetric] stored_readable [OF that]] .
  have q: "keeps rt g s (snd (gs_tick rt s))" "gs_connector (snd (gs_tick rt s)) = Some c"
    using Some by (auto simp: gs_tick_def tick_def keeps_def tokens_readable_def)
  show ?thesis
    using assms Some stop [OF Some] stop [OF q(2)] q(1) keeps_trans [OF q(1)]
    by (auto simp: access_token_for_background_sync_without_refresh_def Let_def split_beta
        split: option.split_asm if_split_asm)
qed

end
