(* ===== verification/Receipt_Rows.thy ===== *)
theory Receipt_Rows
  imports Reconcile Connector_Rows
begin

text \<open>
  What the operations leave of the table of provider writes: no row goes, none changes its key, and the
  ids stay distinct.
\<close>

interpretation receipt_table: keyed_table rc_id receipts find_receipt save_receipt
  by unfold_locales (simp_all add: find_receipt_def save_receipt_def)

definition write_key :: "write_receipt \<Rightarrow> string \<times> string \<times> string" where
  "write_key r = (rc_provider r, rc_account r, rc_key r)"

definition write_keys :: "write_store \<Rightarrow> (string \<times> string \<times> string) set" where
  "write_keys s = write_key ` set (receipts s)"

definition ids_distinct :: "write_store \<Rightarrow> bool" where
  "ids_distinct s \<longleftrightarrow> distinct (map rc_id (receipts s))"

definition ledger :: "write_store \<Rightarrow> write_store \<Rightarrow> bool" where
  "ledger s s' \<longleftrightarrow> (ids_distinct s \<longrightarrow> ids_distinct s' \<and> write_keys s \<subseteq> write_keys s')"

lemma ledger_refl [simp]: "ledger s s"
  by (simp add: ledger_def)

lemma ledger_trans: "ledger s s' \<Longrightarrow> ledger s' s'' \<Longrightarrow> ledger s s''"
  by (auto simp: ledger_def)

lemma ledger_same: "receipts s' = receipts s \<Longrightarrow> ledger s s'"
  by (simp add: ledger_def ids_distinct_def write_keys_def)

lemma ledger_then: "ledger s s1 \<Longrightarrow> receipts s' = receipts s1 \<Longrightarrow> ledger s s'"
  by (simp add: ledger_def ids_distinct_def write_keys_def)

lemma ledger_cong: "receipts s' = receipts s \<Longrightarrow> ledger s' s'' = ledger s s''"
  by (simp add: ledger_def ids_distinct_def write_keys_def)

section \<open>Steps that leave the table\<close>

lemma more_receipts: "google_state.more s' = google_state.more (s :: write_store) \<Longrightarrow> receipts s' = receipts s"
  by (cases s, cases s') (simp only: google_state.simps write_store.simps)

lemma keeps_receipts: "keeps rt g (s :: write_store) (s' :: write_store) \<Longrightarrow> receipts s' = receipts s"
  by (rule more_receipts) (simp add: keeps_def)

lemma plain_receipts [simp]:
  "receipts (on_gw f s) = receipts (s :: write_store)" "receipts (snd (gs_tick rt s)) = receipts s"
  "receipts (snd (gs_fresh rt p s)) = receipts s" "receipts (snd (gs_serial s)) = receipts s"
  "receipts (save_gw_attempt a s) = receipts s" "receipts (s\<lparr>gs_world := w\<rparr>) = receipts s"
  by (simp_all add: on_gw_def gs_tick_def gs_fresh_def gs_serial_def save_gw_attempt_def)

lemma tick_receipts: "gs_tick rt (s :: write_store) = (t, s') \<Longrightarrow> receipts s' = receipts s"
  using plain_receipts(2) [of rt s] by simp

lemma find_receipt_cong: "receipts s' = receipts s \<Longrightarrow> find_receipt s' i = find_receipt s i"
  by (simp add: find_receipt_def)

lemma by_key_found:
  "receipt_by_key s provider account k = Some r \<Longrightarrow> r \<in> set (receipts s) \<and> write_key r = (provider, account, k)"
  by (auto simp: receipt_by_key_def write_key_def find_Some_iff)

lemma by_key_none:
  "receipt_by_key s provider account k = None \<longleftrightarrow> (provider, account, k) \<notin> write_keys s"
  by (auto simp: receipt_by_key_def write_keys_def write_key_def find_None_iff image_iff)

section \<open>Changing a row\<close>

lemma insert_ledger:
  assumes "insert_receipt r s = Inr s'"
  shows "ledger s s' \<and> r \<in> set (receipts s')"
proof -
  from assms have s': "receipts s' = receipts s @ [r]" "\<not> list_ex (receipt_clash r) (receipts s)"
    by (auto simp: insert_receipt_def split: if_split_asm)
  then have "rc_id r \<notin> set (map rc_id (receipts s))"
    by (auto simp: receipt_clash_def list_ex_iff)
  with s' show ?thesis by (auto simp: ledger_def ids_distinct_def write_keys_def)
qed

lemma update_ledger:
  assumes "update_receipt r s = Inr s'" "q \<in> set (receipts s)" "rc_id q = rc_id r" "write_key q = write_key r"
  shows "ledger s s' \<and> r \<in> set (receipts s')"
proof -
  from assms(1) have s': "receipts s' = map (\<lambda>q. if rc_id q = rc_id r then r else q) (receipts s)"
    by (auto simp: update_receipt_def save_receipt_def split: if_split_asm)
  have "ledger s s'"
    unfolding ledger_def
  proof (intro impI conjI subsetI)
    assume d: "ids_distinct s"
    have "map rc_id (receipts s') = map rc_id (receipts s)" by (simp add: s')
    with d show "ids_distinct s'" by (simp add: ids_distinct_def)
    fix k assume "k \<in> write_keys s"
    then obtain p where p: "p \<in> set (receipts s)" "k = write_key p" by (auto simp: write_keys_def)
    show "k \<in> write_keys s'"
    proof (cases "rc_id p = rc_id r")
      case True
      with d p(1) assms(2,3) have "p = q" by (auto simp: ids_distinct_def distinct_map inj_on_def)
      with assms(2-4) p show ?thesis by (force simp: write_keys_def s')
    next
      case False
      with p show ?thesis by (force simp: write_keys_def s')
    qed
  qed
  moreover have "r \<in> set (receipts s')" using assms(2,3) by (force simp: s')
  ultimately show ?thesis ..
qed

text \<open>Filling a row leaves what identifies it.\<close>

lemma filled [simp]:
  "rc_id (fill_receipt c st reason now r) = rc_id r" "write_key (fill_receipt c st reason now r) = write_key r"
  "rc_status (fill_receipt c st reason now r) = st"
  by (simp_all add: fill_receipt_def write_key_def)

lemma new_row [simp]:
  "write_key (new_receipt i provider account a k now) = (provider, account, k)"
  by (simp add: new_receipt_def write_key_def)

lemma record_at_ledger:
  assumes "record_receipt_at rt provider a st input account output error reason now s = Inr (r, s')"
    "provider_write_account_id provider account s = Inr acc"
  shows "ledger s s' \<and> r \<in> set (receipts s')
    \<and> write_key r = (provider, acc, provider_write_idempotency_key rt a provider acc input)"
proof -
  let ?k = "provider_write_idempotency_key rt a provider acc input"
  from assms obtain content where c: "(case receipt_by_key s provider acc ?k of
          None \<Rightarrow>
            let (new_id, s) = gs_fresh rt ''pwr'' s;
                r = fill_receipt content st reason now (new_receipt new_id provider acc a ?k now)
            in proceed (insert_receipt r s) (\<lambda>s. Inr (r, s))
        | Some r \<Rightarrow>
            if rc_capability_id r \<noteq> at_capability_id a \<or> request_digest r \<noteq> at_payload_hash a
            then Inl (RuntimeError ''idempotency_key_input_mismatch'')
            else if rc_status r = SucceededWrite then Inr (r, s)
            else let r = fill_receipt content st reason now r
                 in proceed (update_receipt r s) (\<lambda>s. Inr (r, s))) = Inr (r, s')"
    by (auto simp: record_receipt_at_def Let_def)
  show ?thesis
  proof (cases "receipt_by_key s provider acc ?k")
    case None
    with c obtain new_id where "insert_receipt r (snd (gs_fresh rt ''pwr'' s)) = Inr s'"
      "r = fill_receipt content st reason now (new_receipt new_id provider acc a ?k now)"
      by (auto simp: Let_def split_beta)
    with insert_ledger [of r "snd (gs_fresh rt ''pwr'' s)" s'] show ?thesis
      by (simp add: ledger_cong [of "snd (gs_fresh rt ''pwr'' s)" s])
  next
    case (Some q)
    from by_key_found [OF Some] have q: "q \<in> set (receipts s)" "write_key q = (provider, acc, ?k)" by auto
    from c Some have "r = q \<and> s' = s \<or> r = fill_receipt content st reason now q \<and> update_receipt r s = Inr s'"
      by (auto simp: Let_def split: if_split_asm)
    then show ?thesis using q update_ledger [of r s s' q] by auto
  qed
qed

lemma account_known:
  "record_receipt_at rt provider a st input account output error reason now s = Inr (r, s')
    \<Longrightarrow> \<exists>acc. provider_write_account_id provider account s = Inr acc"
  by (auto simp: record_receipt_at_def)

lemma account_cong: "gs_connector s' = gs_connector s \<Longrightarrow>
    provider_write_account_id provider account s' = provider_write_account_id provider account s"
  by (simp add: provider_write_account_id_def current_google_provider_account_id_def)

lemma recorded_at: "record_receipt_at rt provider a st input account output error reason now s = Inr (r, s')
    \<Longrightarrow> ledger s s' \<and> r \<in> set (receipts s')"
  by (frule account_known, elim exE) (drule record_at_ledger, assumption, simp)

lemma recorded:
  assumes "record_provider_write_receipt rt provider a st input account output error reason s = Inr (r, s')"
  shows "ledger s s' \<and> r \<in> set (receipts s')"
proof -
  from assms have "record_receipt_at rt provider a st input account output error reason (fst (gs_tick rt s))
      (snd (gs_tick rt s)) = Inr (r, s')" by (simp add: record_provider_write_receipt_def split_beta)
  from recorded_at [OF this] show ?thesis by (simp add: ledger_cong [of "snd (gs_tick rt s)" s])
qed

lemma recorded_key:
  assumes "record_provider_write_receipt rt provider a st input account output error reason s = Inr (r, s')"
    "provider_write_account_id provider account s = Inr acc"
  shows "write_key r = (provider, acc, provider_write_idempotency_key rt a provider acc input)"
proof -
  from assms(1) have "record_receipt_at rt provider a st input account output error reason (fst (gs_tick rt s))
      (snd (gs_tick rt s)) = Inr (r, s')" by (simp add: record_provider_write_receipt_def split_beta)
  moreover have "provider_write_account_id provider account (snd (gs_tick rt s)) = Inr acc"
    using assms(2) account_cong [of "snd (gs_tick rt s)" s] by (simp add: gs_tick_def)
  ultimately show ?thesis using record_at_ledger by blast
qed

section \<open>Before the call\<close>

lemma and_then_ended:
  "and_then r k = Inr (s', v) \<Longrightarrow>
     (\<exists>b. r = Inr (s', Inl b) \<and> v = Inl b) \<or> (\<exists>d s1. r = Inr (s1, Inr d) \<and> k d s1 = Inr (s', v))"
proof -
  assume "and_then r k = Inr (s', v)"
  then obtain s1 w where r: "r = Inr (s1, w)" and k: "(case w of Inl b \<Rightarrow> Inr (s1, Inl b) | Inr d \<Rightarrow> k d s1) = Inr (s', v)"
    by (auto simp: and_then_def)
  show ?thesis using r k by (cases w) auto
qed

lemma stopped:
  "fail_with rt a e s = Inr (s', v) \<Longrightarrow> receipts s' = receipts s"
  "succeed_with rt a out s = Inr (s', v) \<Longrightarrow> receipts s' = receipts s"
  "replay_receipt rt a r shown s = Inr (s', v) \<Longrightarrow> receipts s' = receipts s"
  "go_on d s = Inr (s', v) \<Longrightarrow> receipts s' = receipts s"
  by (auto simp: fail_with_def succeed_with_def replay_receipt_def go_on_def)

lemma left_here:
  "fail_with rt a e s = Inr (s', v) \<Longrightarrow> receipts s' = receipts s \<and> v = Inl True"
  "replay_receipt rt a r shown s = Inr (s', v) \<Longrightarrow> receipts s' = receipts s \<and> v = Inl True"
  "succeed_with rt a out s = Inr (s', v) \<Longrightarrow> receipts s' = receipts s \<and> v = Inl True"
  by (auto simp: fail_with_def replay_receipt_def succeed_with_def)

lemmas stopped_ledger = stopped [THEN ledger_same]

lemma unavailable_receipts:
  "append_provider_write_reconcile_unavailable_event rt a r reason s = Inr s' \<Longrightarrow> receipts s' = receipts s"
  by (auto simp: append_provider_write_reconcile_unavailable_event_def split_beta)

lemma gave_up: "give_up_unknown rt a r e s = Inr (s', v) \<Longrightarrow> receipts s' = receipts s"
  by (auto simp: give_up_unknown_def dest!: unavailable_receipts stopped)

lemma marked_ledger:
  assumes "mark_provider_write_reconcile_indeterminate rt a r reason s = Inr s'" "r \<in> set (receipts s)"
  shows "ledger s s'"
proof -
  let ?s = "snd (gs_tick rt s)"
  from assms(1) obtain r' s1 where u: "update_receipt r' ?s = Inr s1" "rc_id r' = rc_id r" "write_key r' = write_key r"
    and s': "receipts s' = receipts s1"
    by (auto simp: mark_provider_write_reconcile_indeterminate_def Let_def split_beta write_key_def)
  from update_ledger [OF u(1), of r] assms(2) u have "ledger ?s s1" by simp
  then have "ledger s s1" using ledger_cong [of ?s s] by simp
  then show ?thesis using ledger_trans [OF _ ledger_same [OF s']] by blast
qed

lemma unknown_recorded:
  "record_unknown rt provider a account input output s = Inr (r, s') \<Longrightarrow> ledger s s' \<and> r \<in> set (receipts s')"
  unfolding record_unknown_def by (rule recorded)

lemma receipt_of_attempt:
  "provider_write_receipt_for_attempt rt provider a account input s = Inr (Some r) \<Longrightarrow> r \<in> set (receipts s)"
  by (auto simp: provider_write_receipt_for_attempt_def dest: by_key_found)

lemma unknown_ledger:
  assumes "proceed (record_unknown rt provider a account input output s) (\<lambda>(r, s). give_up_unknown rt a r e s) = Inr (s', v)"
  shows "ledger s s'"
  using assms by (auto dest!: unknown_recorded gave_up intro: ledger_then ledger_same)

lemma resumed_google:
  assumes "resume_google rt a account input s = Inr (s', v)"
  shows "ledger s s'"
proof -
  let ?unknown = "proceed (record_unknown rt ''google'' a account input None s)
    (\<lambda>(r, s). give_up_unknown rt a r ''provider_result_unknown'' s) = Inr (s', v)"
  from assms obtain known where k: "provider_write_receipt_for_attempt rt ''google'' a account input s = Inr known"
    by (auto simp: resume_google_def)
  have "?unknown \<or> receipts s' = receipts s"
  proof (cases known)
    case None
    with assms k show ?thesis by (simp add: resume_google_def)
  next
    case (Some r)
    show ?thesis
    proof (cases "request_digest r \<noteq> at_payload_hash a \<or> rc_status r = SucceededWrite \<or> rc_status r = UndoneWrite
        \<or> retry_failed_email a known \<or> rc_status r = FailedWrite \<and> receipt_error r \<noteq> None \<or> rc_status r = AmbiguousWrite")
      case True
      with assms k Some stopped(1,3,4) gave_up show ?thesis
        unfolding resume_google_def by (fastforce split: if_split_asm)
    next
      case False
      with assms k Some show ?thesis by (auto simp: resume_google_def)
    qed
  qed
  then show ?thesis using unknown_ledger ledger_same by blast
qed

lemma made_ambiguous:
  assumes "make_ambiguous rt r s = Inr (r', s')" "r \<in> set (receipts s)"
  shows "ledger s s' \<and> r' \<in> set (receipts s')"
proof (cases "rc_status r = AmbiguousWrite")
  case True
  with assms show ?thesis by (auto simp: make_ambiguous_def)
next
  case False
  let ?s = "snd (gs_tick rt s)"
  from assms(1) False have "update_receipt r' ?s = Inr s'" "rc_id r' = rc_id r" "write_key r' = write_key r"
    by (auto simp: make_ambiguous_def Let_def split_beta write_key_def)
  with update_ledger [OF this(1), of r] assms(2) show ?thesis using ledger_cong [of ?s s] by simp
qed

lemma agency_receipt_stored: "agency_receipt rt a account input s = Inr (Some r) \<Longrightarrow> r \<in> set (receipts s)"
  by (auto simp: agency_receipt_def Let_def split: if_split_asm option.split_asm
      dest: receipt_of_attempt receipt_table.lookup_Some)

lemma resumed_agency:
  assumes "resume_agency rt a account input s = Inr (s', v)"
  shows "ledger s s'"
proof -
  from assms obtain known where k: "agency_receipt rt a account input s = Inr known"
    by (auto simp: resume_agency_def)
  show ?thesis
  proof (cases known)
    case None
    with assms k show ?thesis
      by (auto simp: resume_agency_def dest!: unknown_recorded gave_up intro: ledger_then ledger_same)
  next
    case (Some r)
    from agency_receipt_stored k Some have "r \<in> set (receipts s)" by blast
    with assms k Some show ?thesis
      by (auto simp: resume_agency_def split: if_split_asm
          dest!: made_ambiguous gave_up stopped intro: ledger_then ledger_same)
  qed
qed

lemma resumed: "resume rt ex a s = Inr (s', v) \<Longrightarrow> ledger s s'"
  by (auto simp: resume_def Let_def split: if_split_asm dest!: stopped resumed_google resumed_agency intro: ledger_same)

lemma accessed_receipts:
  assumes "with_access rt ex a s k = Inr (s', v)"
  shows "receipts s' = receipts s \<and> v = Inl True \<or> (\<exists>token scopes account s1. receipts s1 = receipts s
    \<and> strip account = account \<and> account \<noteq> [] \<and> k token scopes account s1 = Inr (s', v))"
proof (cases "ex_google ex")
  case None
  with assms show ?thesis by (auto simp: with_access_def dest!: left_here)
next
  case (Some g)
  with assms obtain acc s1 where p: "prepare_capability_access_without_refresh rt g (at_capability_id a) s = Inr (acc, s1)"
    by (auto simp: with_access_def)
  from keeps_receipts [OF prepared_without_keeps [OF p]] have s1: "receipts s1 = receipts s" .
  have named: "strip account = account \<and> account \<noteq> []" if "ac_account acc = Some account" "ac_failure acc = None" for account
    using p that
    by (auto simp: prepare_capability_access_without_refresh_def with_connected_def no_access_def
        google_connected_account_subject_def google_account_subject_def Let_def split_beta
        split: option.split_asm if_split_asm)
  from assms Some p show ?thesis
    using s1 named by (auto simp: with_access_def split: option.split_asm dest!: left_here)
qed

lemma mark_started_receipts [simp]: "receipts (mark_started rt a output s) = receipts s"
  by (simp add: mark_started_def split_beta)

lemma undoable_receipts: "undoable rt token account s = (found, s') \<Longrightarrow> receipts s' = receipts s"
  by (auto simp: undoable_def split_beta Let_def split: option.split_asm if_split_asm)

lemma mutation_input_receipts:
  assumes "mutation_input rt a input account known s = Inr (s', found)"
  shows "receipts s' = receipts s"
proof (cases "at_capability_id a = ''cap.email.undo''")
  case False
  with assms show ?thesis by (simp add: mutation_input_def)
next
  case True
  with assms obtain token where t: "(case undoable rt token account s of
          (None, s) \<Rightarrow> Inr (s, None)
        | (Some (prior, messages), s) \<Rightarrow>
            dict_item input ''idempotency_key'' (\<lambda>k.
            Inr (s, Some ([(''message_ids'', JArr (map JStr (email_message_ids messages))),
              (''before_state'', JArr messages), (''idempotency_key'', k)], Some (rc_id prior))))) = Inr (s', found)"
    by (auto simp: mutation_input_def dict_item_def split: option.split_asm)
  obtain u s1 where u: "undoable rt token account s = (u, s1)" by force
  have "s' = s1" using t u by (cases u) (auto simp: dict_item_def split: option.split_asm)
  then show ?thesis using undoable_receipts [OF u] by simp
qed

definition mails :: "bool + dispatch \<Rightarrow> bool" where
  "mails v \<longleftrightarrow> (case v of Inr (EmailCall i cid input token scopes account prior) \<Rightarrow> True | Inr _ \<Rightarrow> False | Inl _ \<Rightarrow> True)"

lemma begun:
  assumes "begin_mutation rt a input token scopes account known s = Inr (s', v)"
  shows "ledger s s' \<and> mails v"
proof -
  from assms obtain s1 found where m: "mutation_input rt a input account known s = Inr (s1, found)"
    by (auto simp: begin_mutation_def)
  note same = mutation_input_receipts [OF m]
  have "ledger s1 s' \<and> mails v"
  proof (cases found)
    case None
    with assms m show ?thesis by (auto simp: begin_mutation_def mails_def dest!: left_here intro: ledger_same)
  next
    case (Some p)
    with assms m obtain r s2 where r: "record_started rt ''google'' a input account [] s1 = Inr (r, s2)"
      "receipts s' = receipts s2" "mails v"
      by (auto simp: begin_mutation_def go_on_def split_beta mails_def)
    from r(1) have "ledger s1 s2" unfolding record_started_def using recorded by blast
    from ledger_then [OF this r(2)] r(3) show ?thesis by blast
  qed
  then show ?thesis using ledger_cong [OF same] by simp
qed

lemma started_email:
  assumes "start_email rt ex a input s = Inr (s', v)"
  shows "ledger s s' \<and> mails v"
proof -
  from accessed_receipts [OF assms [unfolded start_email_def]] show ?thesis
  proof (elim disjE exE conjE)
    assume "receipts s' = receipts s" "v = Inl True"
    then show ?thesis by (simp add: ledger_same mails_def)
  next
    fix token scopes account s1
    assume same: "receipts s1 = receipts s"
      and c: "(case provider_write_authority_payload s1 a (Some input) account of
       Inl e \<Rightarrow> fail_with rt a e s1
     | Inr _ \<Rightarrow>
         proceed (provider_write_receipt_for_attempt rt ''google'' a (Some account) (Some input) s1) (\<lambda>known.
         case known of
           None \<Rightarrow> begin_mutation rt a input token scopes account known s1
         | Some r \<Rightarrow>
             if request_digest r \<noteq> at_payload_hash a then fail_with rt a ''idempotency_key_input_mismatch'' s1
             else if rc_status r = SucceededWrite \<or> rc_status r = UndoneWrite
             then replay_receipt rt a r (response_payload r) s1
             else if rc_status r = ExecutingWrite then fail_with rt a ''provider_write_in_progress'' s1
             else if \<not> retry_failed_email a known
             then fail_with rt a (or_else (receipt_error r) ''provider_write_failed'') s1
             else begin_mutation rt a input token scopes account known s1)) = Inr (s', v)"
    have "receipts s' = receipts s1 \<and> v = Inl True \<or> (\<exists>known. begin_mutation rt a input token scopes account known s1 = Inr (s', v))"
      using c by (auto simp: split_option_ex split: sum.split_asm if_split_asm dest!: left_here)
    then have "ledger s1 s' \<and> mails v" using begun ledger_same by (auto simp: mails_def)
    then show ?thesis using ledger_cong [OF same] by simp
  qed
qed

text \<open>The write of another Google capability: the key is new to the table, and in it from then on.\<close>

definition google_write :: "services \<Rightarrow> action_attempt \<Rightarrow> dispatch \<Rightarrow> (string \<times> string \<times> string) option" where
  "google_write rt a d =
     (case d of
        GoogleCall cid input token scopes account \<Rightarrow>
          if List.member GOOGLE_RECEIPT_CAPABILITY_IDS cid
          then Some (''google'', account, provider_write_idempotency_key rt a ''google'' account (Some input))
          else None
      | _ \<Rightarrow> None)"

definition sends_once :: "services \<Rightarrow> action_attempt \<Rightarrow> write_store \<Rightarrow> write_store \<Rightarrow> bool + dispatch \<Rightarrow> bool" where
  "sends_once rt a s s' v \<longleftrightarrow>
     ledger s s' \<and> (\<forall>d k. ids_distinct s \<longrightarrow> v = Inr d \<longrightarrow> google_write rt a d = Some k \<longrightarrow> k \<notin> write_keys s \<and> k \<in> write_keys s')"

lemma sends_nothing: "ledger s s' \<Longrightarrow> (\<And>d. v = Inr d \<Longrightarrow> google_write rt a d = None) \<Longrightarrow> sends_once rt a s s' v"
  by (simp add: sends_once_def)

lemma sends_cong: "receipts s1 = receipts s \<Longrightarrow> sends_once rt a s1 s' v = sends_once rt a s s' v"
  by (simp add: sends_once_def ledger_def ids_distinct_def write_keys_def)

lemma sends_after: "ledger s s1 \<Longrightarrow> sends_once rt a s1 s' v \<Longrightarrow> sends_once rt a s s' v"
  by (auto simp: sends_once_def ledger_def)

lemma left_sends: "receipts s' = receipts s \<and> v = Inl b \<Longrightarrow> sends_once rt a s s' v"
  by (auto intro: sends_nothing ledger_same)

lemma key_free:
  "provider_write_receipt_for_attempt rt provider a (Some account) input s = Inr None \<Longrightarrow> strip account = account \<Longrightarrow>
     account \<noteq> [] \<Longrightarrow> (provider, account, provider_write_idempotency_key rt a provider account input) \<notin> write_keys s"
  by (auto simp: provider_write_receipt_for_attempt_def provider_write_account_id_def by_key_none)

lemma record_started_key:
  assumes "record_started rt provider a input account extra s = Inr (r, s')" "strip account = account" "account \<noteq> []"
  shows "ledger s s' \<and> r \<in> set (receipts s')
    \<and> (provider, account, provider_write_idempotency_key rt a provider account (Some input)) \<in> write_keys s'"
proof -
  have "provider_write_account_id provider (Some account) s = Inr account"
    using assms(2,3) by (simp add: provider_write_account_id_def)
  from recorded_key [OF assms(1) [unfolded record_started_def] this] recorded [OF assms(1) [unfolded record_started_def]]
  show ?thesis unfolding write_keys_def by (metis imageI)
qed

lemma started_google:
  assumes "start_google rt ex a input s = Inr (s', v)"
  shows "sends_once rt a s s' v"
proof -
  from accessed_receipts [OF assms [unfolded start_google_def Let_def]] show ?thesis
  proof (elim disjE exE conjE)
    assume "receipts s' = receipts s" "v = Inl True"
    then show ?thesis by (simp add: left_sends)
  next
    fix token scopes account s1
    assume same: "receipts s1 = receipts s" and named: "strip account = account" "account \<noteq> []"
      and c: "(if \<not> List.member GOOGLE_RECEIPT_CAPABILITY_IDS (at_capability_id a)
        then go_on (GoogleCall (at_capability_id a) input token scopes account) (mark_started rt a (started_output account) s1)
        else proceed (provider_write_receipt_for_attempt rt ''google'' a (Some account) (Some input) s1) (\<lambda>known.
          case known of
            None \<Rightarrow>
             (case provider_write_authority_payload s1 a (Some input) account of
                Inl e \<Rightarrow> fail_with rt a e s1
              | Inr _ \<Rightarrow>
                  proceed (record_started rt ''google'' a input account [] s1) (\<lambda>(r, s).
                  go_on (GoogleCall (at_capability_id a) input token scopes account)
                    (mark_started rt a (started_output account) s)))
          | Some r \<Rightarrow>
              if request_digest r \<noteq> at_payload_hash a then fail_with rt a ''idempotency_key_input_mismatch'' s1
              else if rc_status r = SucceededWrite
              then replay_receipt rt a r (redact_undo_token (response_payload r)) s1
              else if rc_status r = ExecutingWrite then fail_with rt a ''provider_write_in_progress'' s1
              else fail_with rt a
                (if truthy (jget (response_payload r) ''error'') then py_str (service_env rt) (jget (response_payload r) ''error'')
                 else ''provider_write_failed'') s1)) = Inr (s', v)"
    let ?call = "GoogleCall (at_capability_id a) input token scopes account"
    have "sends_once rt a s1 s' v"
    proof (cases "List.member GOOGLE_RECEIPT_CAPABILITY_IDS (at_capability_id a)")
      case False
      with c have "receipts s' = receipts s1" "v = Inr ?call" by (auto simp: go_on_def)
      with False show ?thesis by (auto intro!: sends_nothing ledger_same simp: google_write_def)
    next
      case True
      from c True obtain known where k:
        "provider_write_receipt_for_attempt rt ''google'' a (Some account) (Some input) s1 = Inr known" by auto
      show ?thesis
      proof (cases known)
        case (Some r)
        with c k True show ?thesis by (auto intro!: left_sends dest!: left_here split: if_split_asm)
      next
        case None
        show ?thesis
        proof (cases "provider_write_authority_payload s1 a (Some input) account")
          case (Inl e)
          with c k True None show ?thesis by (auto intro!: left_sends dest!: left_here)
        next
          case (Inr _)
          with c k True None obtain r s2 where r: "record_started rt ''google'' a input account [] s1 = Inr (r, s2)"
            "receipts s' = receipts s2" "v = Inr ?call"
            by (auto simp: go_on_def)
          have "write_keys s' = write_keys s2" using r(2) by (simp add: write_keys_def)
          with record_started_key [OF r(1) named] key_free [OF k [unfolded None] named] r(2,3) True show ?thesis
            by (auto simp: sends_once_def google_write_def intro: ledger_then)
        qed
      qed
    qed
    then show ?thesis using sends_cong [OF same] by simp
  qed
qed

lemma no_write [simp]: "google_write rt a (AgencyCall cid input named) = None" "google_write rt a (LocalCall c input) = None"
  "google_write rt a (EmailCall i cid input token scopes account prior) = None"
  by (simp_all add: google_write_def)

lemma named_requests:
  assumes "name_requests rt input prepared r s = Inr s'" "r \<in> set (receipts s)"
  shows "ledger s s'"
proof -
  let ?s = "snd (gs_tick rt s)"
  from assms(1) obtain r' where u: "update_receipt r' ?s = Inr s'" "rc_id r' = rc_id r" "write_key r' = write_key r"
    by (auto simp: name_requests_def Let_def split_beta write_key_def)
  from update_ledger [OF u(1), of r] assms(2) u show ?thesis using ledger_cong [of ?s s] by simp
qed

lemma started_agency:
  assumes "start_agency rt ex a input s = Inr (s', v)"
  shows "sends_once rt a s s' v"
proof -
  have call: "sends_once rt a s s' v"
    if "ledger s s1" "receipts s' = receipts s1" "v = Inr (AgencyCall cid input named)" for s1 cid named
    using that by (auto intro!: sends_nothing intro: ledger_then)
  have "v = Inl True \<and> receipts s' = receipts s \<or> (\<exists>s1 cid named. ledger s s1 \<and> receipts s' = receipts s1
      \<and> v = Inr (AgencyCall cid input named))"
  proof (cases "ex_agency ex \<and> at_capability_id a = ''cap.agency.request_pr''")
    case False
    with assms have "v = Inl True \<and> receipts s' = receipts s
        \<or> receipts s' = receipts s \<and> v = Inr (AgencyCall (at_capability_id a) input None)"
      by (auto simp: start_agency_def Let_def go_on_def split: if_split_asm dest!: left_here)
    then show ?thesis using ledger_refl by blast
  next
    case True
    with assms obtain p where p: "prepare_request_pr ex input (at_id a) = Inr p" by (auto simp: start_agency_def Let_def)
    show ?thesis
    proof (cases p)
      case (Inl error)
      with assms True p show ?thesis
        by (auto simp: start_agency_def Let_def split: if_split_asm dest!: left_here)
    next
      case (Inr prepared)
      with assms True p obtain known where k:
        "provider_write_receipt_for_attempt rt ''agency'' a (Some (pp_repo_id prepared)) (Some input) s = Inr known"
        by (auto simp: start_agency_def Let_def)
      have "v = Inl True \<and> receipts s' = receipts s
        \<or> (\<exists>r s1 s2. record_started rt ''agency'' a input (pp_repo_id prepared)
              [(''client_request_id'', JStr (pp_client_request_id prepared))] s = Inr (r, s1)
            \<and> name_requests rt input prepared r s1 = Inr s2 \<and> receipts s' = receipts s2
            \<and> v = Inr (AgencyCall (at_capability_id a) input (Some (request_under prepared (rc_id r), rc_id r))))"
        using assms True p Inr k
        by (auto simp: start_agency_def Let_def go_on_def split: if_split_asm dest!: left_here)
      then show ?thesis
      proof (elim disjE exE conjE)
        fix r s1 s2
        assume r: "record_started rt ''agency'' a input (pp_repo_id prepared)
              [(''client_request_id'', JStr (pp_client_request_id prepared))] s = Inr (r, s1)"
          and n: "name_requests rt input prepared r s1 = Inr s2" "receipts s' = receipts s2"
          and v: "v = Inr (AgencyCall (at_capability_id a) input (Some (request_under prepared (rc_id r), rc_id r)))"
        from recorded [OF r [unfolded record_started_def]] named_requests [OF n(1)] ledger_trans
        have "ledger s s2" by blast
        with n(2) v show ?thesis by blast
      qed simp
    qed
  qed
  then show ?thesis using call by (auto intro: sends_nothing ledger_same)
qed

lemma started_action:
  assumes "start_action rt ex a c input s = Inr (s', v)"
  shows "sends_once rt a s s' v"
proof -
  let ?cid = "at_capability_id a"
  have world: "sends_once rt a s s' v" if "succeed_with rt a out (s\<lparr>gs_world := w\<rparr>) = Inr (s', v)" for out w
    using left_here(3) [OF that] by (auto intro: left_sends)
  have "sends_once rt a s s' v
      \<or> start_email rt ex a input s = Inr (s', v) \<or> start_google rt ex a input s = Inr (s', v)
      \<or> start_agency rt ex a input s = Inr (s', v) \<or> go_on (LocalCall c input) s = Inr (s', v)"
    using assms world
    by (auto simp: start_action_def Let_def split_sum_ex split: if_split_asm dest!: left_here intro!: left_sends)
  then show ?thesis
  proof (elim disjE)
    assume e: "start_email rt ex a input s = Inr (s', v)"
    show ?thesis
      using started_email [OF e]
      by (intro sends_nothing) (auto simp: mails_def google_write_def split: dispatch.split_asm)
  qed (auto simp: go_on_def intro: started_google started_agency sends_nothing)
qed

lemma checked_starts:
  assumes "checked_action rt ex a s = Inr (s', v)"
  shows "(\<exists>e. fail_with rt a e s = Inr (s', v)) \<or> (\<exists>c input. start_action rt ex a c input s = Inr (s', v))"
proof -
  from assms obtain capability where c:
    "get_capability (service_env rt) (service_providers rt) (at_capability_id a) = Inr capability"
    by (auto simp: checked_action_def)
  show ?thesis
  proof (cases capability)
    case None
    with assms c show ?thesis by (auto simp: checked_action_def)
  next
    case (Some c)
    show ?thesis
    proof (cases "execution_integrity_error rt a c")
      case (Some e)
      with assms c \<open>capability = Some c\<close> show ?thesis by (auto simp: checked_action_def)
    next
      case None
      with assms c Some obtain full where f: "full_action_input_payload rt (gs_world s) a (google_keys ex) = Inr full"
        by (auto simp: checked_action_def)
      show ?thesis
      proof (cases full)
        case (Inl e)
        with assms c Some None f show ?thesis by (auto simp: checked_action_def)
      next
        case (Inr full_input)
        with assms c Some None f show ?thesis
          by (cases "validate_input c full_input")
            (auto simp: checked_action_def split: verror.split_asm sum.split_asm)
      qed
    qed
  qed
qed

lemma checked:
  assumes "checked_action rt ex a s = Inr (s', v)"
  shows "sends_once rt a s s' v"
  using checked_starts [OF assms] left_here(1) started_action by (blast intro: left_sends)

lemma began:
  assumes "begin_execution rt ex i refresh s = Inr (s', v)" "find_attempt (gs_world s) i = Some a"
  shows "sends_once rt a s s' v"
proof (cases "ended (at_status a) \<or> at_status a \<noteq> Executing")
  case True
  with assms show ?thesis
    by (auto simp: begin_execution_def split: if_split_asm dest!: left_here intro: left_sends)
next
  case False
  let ?r = "if dispatch_started a then resume rt ex a s else go_on () s"
  let ?k = "\<lambda>_ s. case refresh of Some failure \<Rightarrow> fail_with rt a (failure_code ''google_refresh_failed'' failure) s
    | None \<Rightarrow> checked_action rt ex a s"
  from False assms have "and_then ?r ?k = Inr (s', v)"
    unfolding begin_execution_def by (simp del: if_split add: ended_def if_split [of _ "dispatch_started a"])
  from and_then_ended [OF this] show ?thesis
  proof (elim disjE exE conjE)
    fix b assume "?r = Inr (s', Inl b)" "v = Inl b"
    then show ?thesis by (auto split: if_split_asm simp: go_on_def dest!: resumed intro: sends_nothing)
  next
    fix u :: unit and s1
    assume r: "?r = Inr (s1, Inr u)" and k: "?k u s1 = Inr (s', v)"
    from r have l: "ledger s s1" by (auto split: if_split_asm dest: resumed simp: go_on_def)
    from k have "sends_once rt a s1 s' v"
      by (auto split: option.split_asm dest!: left_here checked intro: left_sends)
    with l show ?thesis by (rule sends_after)
  qed
qed

end
