(* ===== verification/Connector_Laws.thy ===== *)
theory Connector_Laws
  imports Connector_Rows
begin

text \<open>
  The Google connector over its life: an OAuth state connects at most once, the stored tokens stay
  readable, and a disconnection leaves nothing behind and fails in one way only.
\<close>

interpretation oauth_table: keyed_table state_handle oauth_states find_oauth_state save_oauth_state
  by unfold_locales (simp_all add: find_oauth_state_def save_oauth_state_def)

section \<open>Spent states\<close>

definition spent :: "'a google_state_scheme \<Rightarrow> string \<Rightarrow> bool" where
  "spent s h \<longleftrightarrow> (case find_oauth_state s h of None \<Rightarrow> False | Some p \<Rightarrow> consumed_at p \<noteq> None)"

definition advances :: "services \<Rightarrow> 'b google_runtime_scheme \<Rightarrow> 'a google_state_scheme \<Rightarrow> 'a google_state_scheme \<Rightarrow> bool" where
  "advances rt g s s' \<longleftrightarrow>
     (tokens_readable rt g s \<longrightarrow> tokens_readable rt g s') \<and> (\<forall>h. spent s h \<longrightarrow> spent s' h)"

lemma advances_refl [simp]: "advances rt g s s"
  by (simp add: advances_def)

lemma advances_trans: "advances rt g s s' \<Longrightarrow> advances rt g s' s'' \<Longrightarrow> advances rt g s s''"
  by (simp add: advances_def)

lemma spent_cong: "oauth_states s' = oauth_states s \<Longrightarrow> spent s' h = spent s h"
  by (simp add: spent_def find_oauth_state_def)

lemma keeps_advances: "keeps rt g s s' \<Longrightarrow> advances rt g s s'"
  using spent_cong [of s' s] by (simp add: keeps_def advances_def)

lemma saved_state_spent: "consumed_at p \<noteq> None \<Longrightarrow> spent s h \<Longrightarrow> spent (save_oauth_state p s) h"
  by (auto simp: spent_def oauth_table.lookup_save split: option.split_asm if_split_asm)

lemma saved_state_advances: "consumed_at p \<noteq> None \<Longrightarrow> advances rt g s (save_oauth_state p s)"
  by (simp add: advances_def saved_state_spent) (simp add: tokens_readable_def save_oauth_state_def)

lemma inserted_state_advances:
  assumes "insert_oauth_state p s = Inr s'"
  shows "advances rt g s s'"
proof -
  from assms have s': "s' = s\<lparr>oauth_states := oauth_states s @ [p]\<rparr>"
    and new: "\<And>q. q \<in> set (oauth_states s) \<Longrightarrow> state_handle q \<noteq> state_handle p"
    by (auto simp: insert_oauth_state_def list_ex_iff split: if_split_asm)
  have "find P (xs @ [p]) = (case find P xs of None \<Rightarrow> find P [p] | Some q \<Rightarrow> Some q)" for P and xs :: "oauth_state list"
    by (induction xs) auto
  then have "spent s h \<Longrightarrow> spent s' h" for h
    by (auto simp: spent_def find_oauth_state_def s' split: option.split_asm)
  then show ?thesis by (simp add: advances_def tokens_readable_def s')
qed

section \<open>Starting\<close>

lemma opened_advances:
  assumes "open_oauth_state rt g reconnect scopes s = Inr (p, s')"
  shows "advances rt g s s' \<and> gs_connector s' = gs_connector s"
proof -
  let ?s = "snd (gs_fresh rt ''gos'' (snd (gs_tick rt (snd (gs_serial (snd (gs_serial s)))))))"
  have q: "quiet s ?s" by (simp add: gs_fresh_def gs_tick_def gs_serial_def quiet_def)
  from assms obtain v enc s1 where e: "seal rt g v ?s = Inr (enc, s1)" "insert_oauth_state p s1 = Inr s'"
    by (auto simp: open_oauth_state_def Let_def split_beta)
  from quiet_trans [OF q quiet_seal [OF e(1)]] e(2)
  have s1: "quiet s s1" "insert_oauth_state p s1 = Inr s'" by auto
  have "advances rt g s s1" by (rule keeps_advances [OF quiet_keeps [OF s1(1)]])
  moreover have "advances rt g s1 s'" by (rule inserted_state_advances [OF s1(2)])
  moreover have "gs_connector s' = gs_connector s"
    using s1 by (auto simp: quiet_def insert_oauth_state_def split: if_split_asm)
  ultimately show ?thesis using advances_trans by blast
qed

lemma event_advances: "advances rt g s s' \<Longrightarrow> advances rt g s (append_connector_event rt ty payload s')"
  using advances_trans keeps_advances [OF quiet_keeps [OF quiet_event]] by blast

lemma start_failed_advances:
  assumes "gs_connector s = Some c"
  shows "advances rt g s (fst (start_failed rt reason c p intents s))"
proof -
  obtain c' s' where e: "set_connector_error rt ''oauth_start_failed'' c s = (c', s')" by force
  from event_advances [OF keeps_advances [OF error_keeps [OF e stored_readable [OF assms]]]] e show ?thesis
    by (simp add: start_failed_def Let_def)
qed

lemma started_advances:
  assumes "start_oauth rt g client reconnect intent s = Inr (s', r)"
  shows "advances rt g s s'"
proof -
  obtain c s1 where c: "ensure_connector rt g s = (c, s1)" by force
  from ensured [OF c] keeps_advances have k: "advances rt g s s1" "gs_connector s1 = Some c" by auto
  show ?thesis
  proof (cases "(\<exists>e. oauth_request reconnect c intent = Inl e) \<or> (\<exists>e. oauth_request reconnect c intent = Inr (Inl e))")
    case True
    then show ?thesis using assms c k by (auto simp: start_oauth_def)
  next
    case False
    then obtain scopes intents where q: "oauth_request reconnect c intent = Inr (Inr (scopes, intents))"
      by (metis sum.exhaust surj_pair)
    with assms c obtain p s2 where o: "open_oauth_state rt g reconnect scopes s1 = Inr (p, s2)"
      by (auto simp: start_oauth_def)
    let ?payload = "connector_event_payload c scopes @ [(''requested_scopes'', JArr (map JStr scopes)),
       (''state_expires_at'', JStr (to_rfc3339 (os_expires_at p)))] @ intent_fields intents"
    let ?s = "append_connector_event rt (flow_event (os_flow p) ''.started'') ?payload s2"
    have r: "s' = ?s \<or> (\<exists>reason e. start_failed rt reason c p intents ?s = (s', e))"
      using assms c q o
      by (cases "build_authorization_url client (state_handle p) (os_pkce_challenge p) scopes (redirect_uri g) reconnect")
        (auto simp: start_oauth_def Let_def)
    from opened_advances [OF o] k(2) have s2: "advances rt g s1 s2" "gs_connector s2 = Some c" by auto
    have e: "advances rt g s ?s" by (rule event_advances [OF advances_trans [OF k(1) s2(1)]])
    from r show ?thesis
    proof (elim disjE exE)
      assume "s' = ?s"
      with e show ?thesis by simp
    next
      fix reason e assume "start_failed rt reason c p intents ?s = (s', e)"
      then have "s' = fst (start_failed rt reason c p intents ?s)" by simp
      with advances_trans [OF e start_failed_advances [of ?s c]] s2(2) show ?thesis by simp
    qed
  qed
qed

section \<open>The callback\<close>

lemma event_only_keeps: "keeps rt g s (fst (callback_invalid_event_only rt flow reason c s))"
  by (simp add: callback_invalid_event_only_def append_callback_failed_event_def event_keeps)

lemma recorded_keeps:
  assumes "tokens_readable rt g s \<Longrightarrow> row_readable rt g c"
  shows "keeps rt g s (fst (callback_invalid_recorded rt flow reason c s))"
proof -
  obtain c' s' where e: "set_connector_error rt reason c s = (c', s')" by force
  from error_keeps [OF e assms] show ?thesis
    using e by (simp add: callback_invalid_recorded_def Let_def keeps_trans [OF _ event_only_keeps])
qed

lemma failed_keeps:
  assumes "tokens_readable rt g s \<Longrightarrow> row_readable rt g c"
  shows "keeps rt g s (fst (callback_failed rt flow error reason extra c s))"
proof -
  obtain c' s' where e: "set_connector_error rt error (c\<lparr>cn_status := ErrorStatus\<rparr>) s = (c', s')" by force
  have "row_readable rt g (c\<lparr>cn_status := ErrorStatus\<rparr>) = row_readable rt g c"
    by (rule row_readable_cong) simp
  then have "keeps rt g s (save_connector c' s')" by (intro error_keeps [OF e]) (use assms in simp)
  then show ?thesis using e by (simp add: callback_failed_def Let_def event_keeps)
qed

lemma adopted_keeps:
  assumes "row_readable rt g c" "quiet s0 s"
  shows "keeps rt g s0 (fst (adopted rt g client p scopes access subject c s))"
proof -
  let ?c = "c\<lparr>last_error_code := None, last_error_at := None, cn_updated_at := fst (gs_tick rt s)\<rparr>"
  let ?s = "save_connector ?c (snd (gs_tick rt s))"
  have "row_readable rt g ?c = row_readable rt g c" by (rule row_readable_cong) simp
  with assms(1) have row: "row_readable rt g ?c" by simp
  have k: "keeps rt g s0 ?s"
    by (rule save_keeps) (use assms(2) row in \<open>simp_all add: gs_tick_def quiet_def\<close>)
  show ?thesis
    using k keeps_trans [OF k failed_keeps [OF row]] event_keeps [OF k]
    by (simp add: adopted_def Let_def split_beta split: option.split)
qed

lemma adopt_keeps:
  assumes "adopt_tokens rt g client p now payload c s = Inr (s', r)"
    "tokens_readable rt g s \<Longrightarrow> row_readable rt g c"
  shows "keeps rt g s s'"
proof -
  have "(\<exists>reason. s' = fst (callback_invalid_recorded rt (os_flow p) reason c s))
      \<or> (\<exists>access refresh c0 c1 s1 scopes subject due.
          seal_tokens rt g access refresh c0 s = Inr (c1, s1)
          \<and> s' = fst (adopted rt g client p scopes access subject
              (c1\<lparr>access_token_expires_at := Some due, token_obtained_at := Some now\<rparr>) s1))"
    using assms(1) by (auto simp: adopt_tokens_def Let_def split: option.split_asm) (metis fst_conv)+
  then show ?thesis
  proof (elim disjE exE conjE)
    fix reason assume "s' = fst (callback_invalid_recorded rt (os_flow p) reason c s)"
    with recorded_keeps [OF assms(2)] show ?thesis by simp
  next
    fix access refresh c0 c1 s1 scopes subject due
    assume e: "seal_tokens rt g access refresh c0 s = Inr (c1, s1)"
      and s': "s' = fst (adopted rt g client p scopes access subject
        (c1\<lparr>access_token_expires_at := Some due, token_obtained_at := Some now\<rparr>) s1)"
    from seal_tokens_readable [OF e] have t: "row_readable rt g c1" "quiet s s1" by auto
    have "row_readable rt g (c1\<lparr>access_token_expires_at := Some due, token_obtained_at := Some now\<rparr>)
        = row_readable rt g c1" by (rule row_readable_cong) simp
    with adopted_keeps [OF _ t(2)] t(1) show ?thesis unfolding s' by simp
  qed
qed

lemma exchanged_advances:
  assumes "exchange_code rt g client p now code c s = Inr (s', r)" "gs_connector s = Some c"
    "find_oauth_state s (state_handle p) = Some p"
  shows "advances rt g s s' \<and> spent s' (state_handle p)"
proof -
  let ?p = "p\<lparr>consumed_at := Some now, os_updated_at := now\<rparr>"
  let ?s = "save_oauth_state ?p s"
  have row: "gs_connector ?s = Some c" using assms(2) by (simp add: save_oauth_state_def)
  then have readable: "tokens_readable rt g ?s \<Longrightarrow> row_readable rt g c" by (rule stored_readable)
  have k: "keeps rt g ?s s'"
  proof -
    have "(\<exists>reason e. (s', e) = callback_invalid_recorded rt (os_flow p) reason c ?s)
        \<or> (\<exists>reason e. (s', e) = callback_failed rt (os_flow p) ''oauth_exchange_failed'' reason [] c ?s)
        \<or> (\<exists>payload. adopt_tokens rt g client p now payload c ?s = Inr (s', r))"
      using assms(1) unfolding exchange_code_def Let_def proceed_Inr
    proof (elim exE conjE)
      fix opened
      assume "(case opened of Inl reason \<Rightarrow> Inr (callback_invalid_recorded rt (os_flow p) reason c ?s)
         | Inr verifier \<Rightarrow>
            (case exchange_code_for_tokens client code verifier (os_redirect_uri p) (state_handle p) of
               Inl reason \<Rightarrow> Inr (callback_failed rt (os_flow p) ''oauth_exchange_failed'' reason [] c ?s)
             | Inr payload \<Rightarrow> adopt_tokens rt g client p now payload c ?s)) = Inr (s', r)"
      then show ?thesis by (auto split: sum.split_asm) metis+
    qed
    then show ?thesis
      using recorded_keeps [OF readable] failed_keeps [OF readable] adopt_keeps [OF _ readable]
      by (metis fst_conv)
  qed
  have "advances rt g s ?s" by (rule saved_state_advances) simp
  from advances_trans [OF this keeps_advances [OF k]] have "advances rt g s s'" .
  moreover have "spent ?s (state_handle p)"
    using assms(3) by (simp add: spent_def oauth_table.lookup_save)
  ultimately show ?thesis using k spent_cong [of s' ?s "state_handle p"] by (simp add: keeps_def)
qed

text \<open>What a callback leaves; one that reached Google has spent its state.\<close>

lemma called_back:
  assumes "complete_oauth_callback rt g client h code error s = Inr (s', r)"
  shows "advances rt g s s' \<and> ((\<exists>payload. r = Inr payload) \<or> (\<exists>e. r = Inl e \<and> status_code e = 502)
      \<longrightarrow> h \<noteq> None \<and> spent s' (strip (the h)))"
proof -
  obtain c s1 where c: "ensure_connector rt g s = (c, s1)" by force
  from ensured [OF c] have k: "advances rt g s s1" "gs_connector s1 = Some c" by (auto intro: keeps_advances)
  have quick: "advances rt g s (fst (callback_invalid_event_only rt flow reason c s1))" for flow reason
    by (rule advances_trans [OF k(1) keeps_advances [OF event_only_keeps]])
  have recorded: "advances rt g s (fst (callback_invalid_recorded rt flow reason c s2))"
    if "advances rt g s s2" "gs_connector s2 = Some c" for flow reason s2
    using advances_trans [OF that(1) keeps_advances [OF recorded_keeps [OF stored_readable [OF that(2)]]]] .
  have bad: "\<exists>e. snd (callback_invalid_event_only rt flow reason c' s2) = Inl e \<and> status_code e = 400"
      "\<exists>e. snd (callback_invalid_recorded rt flow reason c' s2) = Inl e \<and> status_code e = 400" for flow reason c' s2
    by (simp_all add: callback_invalid_recorded_def callback_invalid_event_only_def callback_invalid_error_def
        connector_error_def split_beta)
  let ?now = "fst (gs_tick rt s1)" and ?s = "snd (gs_tick rt s1)"
  have t: "advances rt g s ?s" "gs_connector ?s = Some c"
    using advances_trans [OF k(1) keeps_advances [OF quiet_keeps [of s1 ?s]]] k(2)
    by (auto simp: gs_tick_def quiet_def)
  have rej: "\<exists>e. r = Inl e \<and> status_code e = 400 \<and> advances rt g s s'"
    if "(s', r) = X" "advances rt g s (fst X)" "\<exists>e. snd X = Inl e \<and> status_code e = 400" for X
    using that by (cases X) auto
  consider (rejected) e where "r = Inl e" "status_code e = 400" "advances rt g s s'"
    | (exchanged) p where "h \<noteq> None" "find_oauth_state ?s (strip (the h)) = Some p"
        "exchange_code rt g client p ?now (strip (the code)) c ?s = Inr (s', r)"
  proof (cases "h = None \<or> strip (the h) = []")
    case True
    with assms c have "(s', r) = callback_invalid_event_only rt ''connect'' ''missing_state'' c s1"
      by (auto simp: complete_oauth_callback_def)
    from rej [OF this quick bad(1)] show ?thesis using that(1) by blast
  next
    case False
    show ?thesis
    proof (cases "find_oauth_state s1 (strip (the h))")
      case None
      with assms c False have "(s', r) = callback_invalid_event_only rt ''connect'' ''invalid_state'' c s1"
        by (auto simp: complete_oauth_callback_def)
      from rej [OF this quick bad(1)] show ?thesis using that(1) by blast
    next
      case (Some p)
      show ?thesis
      proof (cases "consumed_at p")
        case None
        have f: "find_oauth_state ?s (strip (the h)) = Some p" using Some by (simp add: gs_tick_def find_oauth_state_def)
        show ?thesis
        proof (cases "callback_fault p ?now code error")
          case fault: None
          with assms c False Some None f show ?thesis
            by (intro that(2) [of p]) (auto simp: complete_oauth_callback_def split_beta)
        next
          case (Some reason)
          with assms c False None \<open>find_oauth_state s1 (strip (the h)) = Some p\<close>
          have "(s', r) = callback_invalid_recorded rt (os_flow p) reason c ?s"
            by (auto simp: complete_oauth_callback_def split_beta)
          from rej [OF this recorded [OF t] bad(2)] show ?thesis using that(1) by blast
        qed
      next
        case used: (Some at)
        with assms c False Some
        have "(s', r) = callback_invalid_event_only rt (os_flow p) ''state_replayed'' c s1
            \<or> (s', r) = callback_invalid_recorded rt (os_flow p) ''state_replayed'' c s1"
          by (auto simp: complete_oauth_callback_def split: if_split_asm)
        then show ?thesis
          using rej [OF _ quick bad(1)] rej [OF _ recorded [OF k] bad(2)] that(1) by blast
      qed
    qed
  qed
  then show ?thesis
  proof cases
    case rejected
    then show ?thesis by simp
  next
    case (exchanged p)
    have h: "state_handle p = strip (the h)" using oauth_table.lookup_Some [OF exchanged(2)] by simp
    from exchanged_advances [OF exchanged(3) t(2)] exchanged(2) h
    have "advances rt g ?s s' \<and> spent s' (state_handle p)" by simp
    then show ?thesis using advances_trans [OF t(1)] exchanged(1) h by simp
  qed
qed

section \<open>Disconnecting\<close>

lemma decrypt_error: "decrypt cy c x = Inl e \<Longrightarrow> \<exists>code. e = RuntimeError code"
  by (auto simp: decrypt_def Let_def split: option.split_asm if_split_asm)

lemma try_unseal_cases:
  "try_unseal rt g v sealed = Inl e \<longleftrightarrow>
     from_config (service_crypto rt) v (encryption_keys g) (encryption_secret g) = Inl e"
proof (cases "from_config (service_crypto rt) v (encryption_keys g) (encryption_secret g)")
  case (Inl a)
  then show ?thesis by (simp add: try_unseal_def)
next
  case (Inr c)
  then show ?thesis
    using decrypt_error [of "service_crypto rt" c sealed]
    by (auto simp: try_unseal_def split: sum.split_asm exn.split_asm)
qed

lemma unsealed_config:
  "unseal rt g v sealed = Inr t \<Longrightarrow>
     \<exists>c. from_config (service_crypto rt) v (encryption_keys g) (encryption_secret g) = Inr c"
  by (auto simp: unseal_def decrypt_secret_def split: sum.split_asm)

lemma slot_error:
  "revoke_slot rt g client c (slot, enc) = Inl e \<longleftrightarrow>
     enc \<noteq> None \<and> from_config (service_crypto rt) (cn_key_version c) (encryption_keys g) (encryption_secret g) = Inl e"
proof (cases enc)
  case None
  then show ?thesis by (simp add: revoke_slot_def)
next
  case (Some sealed)
  show ?thesis
    using try_unseal_cases [of rt g "cn_key_version c" sealed e] Some
    by (cases "try_unseal rt g (cn_key_version c) sealed") (simp_all add: revoke_slot_def Let_def)
qed

lemma watch_token_error:
  "token_for_watches rt g c = Inl e \<longleftrightarrow>
     access_token_enc c \<noteq> None
     \<and> from_config (service_crypto rt) (cn_key_version c) (encryption_keys g) (encryption_secret g) = Inl e"
proof (cases "access_token_enc c")
  case None
  then show ?thesis by (simp add: token_for_watches_def)
next
  case (Some sealed)
  show ?thesis
    using try_unseal_cases [of rt g "cn_key_version c" sealed e] Some
    by (cases "try_unseal rt g (cn_key_version c) sealed") (simp_all add: token_for_watches_def)
qed

lemma cleared_rows:
  "clear_disconnected_provider_state s = (counts, s') \<Longrightarrow>
     gs_connector s' = gs_connector s \<and> oauth_states s' = oauth_states s
     \<and> connector_events s' = connector_events s
     \<and> list_all (\<lambda>c. sc_provider c \<noteq> ''google'') (sync_cursors s')
     \<and> list_all (\<lambda>e. pe_provider e = ''google'' \<longrightarrow> pe_status e \<noteq> ''accepted'') (provider_events s')
     \<and> map pe_id (provider_events s') = map pe_id (provider_events s)
     \<and> list_all (\<lambda>t. \<not> provider_task (map pe_id (filter (\<lambda>e. pe_provider e = ''google'') (provider_events s'))) t)
         (tasks (gs_world s'))"
proof -
  assume c: "clear_disconnected_provider_state s = (counts, s')"
  let ?fail = "\<lambda>e. if pe_provider e = ''google'' \<and> pe_status e = ''accepted''
    then e\<lparr>pe_status := ''failed'', pe_error := Some ''google_connector_disconnected''\<rparr> else e"
  have kept: "pe_provider (?fail e) = pe_provider e" "pe_id (?fail e) = pe_id e" for e by simp_all
  have ids: "map pe_id (filter (\<lambda>e. pe_provider e = ''google'') (map ?fail es))
    = map pe_id (filter (\<lambda>e. pe_provider e = ''google'') es)" for es
    by (simp only: filter_map comp_def kept map_map)
  from c have s': "gs_connector s' = gs_connector s" "oauth_states s' = oauth_states s"
      "connector_events s' = connector_events s" "provider_events s' = map ?fail (provider_events s)"
      "sync_cursors s' = filter (\<lambda>c. sc_provider c \<noteq> ''google'') (sync_cursors s)"
      "tasks (gs_world s') = filter (\<lambda>t. \<not> provider_task
         (map pe_id (filter (\<lambda>e. pe_provider e = ''google'') (provider_events s))) t) (tasks (gs_world s))"
    by (auto simp: clear_disconnected_provider_state_def Let_def)
  show ?thesis
    unfolding s' ids by (auto simp: list_all_iff)
qed

lemma disconnect_error:
  assumes "disconnect rt g client s = Inl e"
  shows "\<exists>c. gs_connector s = Some c \<and> (access_token_enc c \<noteq> None \<or> refresh_token_enc c \<noteq> None)
    \<and> from_config (service_crypto rt) (cn_key_version c) (encryption_keys g) (encryption_secret g) = Inl e"
proof -
  obtain c s1 where c: "ensure_connector rt g s = (c, s1)" by force
  from ensured [OF c] have row: "gs_connector s = Some c \<or> access_token_enc c = None \<and> refresh_token_enc c = None"
    by (cases "gs_connector s") auto
  from assms c have "token_for_watches rt g c = Inl e \<or> revoke_slot rt g client c (''refresh_token'', refresh_token_enc c) = Inl e
      \<or> revoke_slot rt g client c (''access_token'', access_token_enc c) = Inl e"
    by (auto simp: disconnect_def Let_def split_beta proceed_def split: sum.split_asm)
  with row show ?thesis by (auto simp: watch_token_error slot_error)
qed


lemma disconnected_advances:
  assumes "disconnect rt g client s = Inr (payload, s')"
  shows "advances rt g s s'"
proof -
  obtain c s1 where c: "ensure_connector rt g s = (c, s1)" by force
  let ?s = "snd (gs_tick rt s1)"
  obtain counts s2 where s2: "clear_disconnected_provider_state ?s = (counts, s2)" by force
  from assms c s2 have "gs_connector s' = Some (disconnected (fst (gs_tick rt s1)) c)" "oauth_states s' = oauth_states s2"
    by (auto simp: disconnect_def Let_def split_beta gs_fresh_def save_connector_def)
  with cleared_rows [OF s2] spent_cong [of s' s1] have "advances rt g s1 s'"
    by (simp add: advances_def tokens_readable_def row_readable_def token_opens_def disconnected_def gs_tick_def)
  with ensured [OF c] show ?thesis using advances_trans keeps_advances by blast
qed

section \<open>The connector's life\<close>

text \<open>
  Any sequence of its operations, over clients that answer as they like; the rest of the program may
  change the world, the provider events and the cursors in between.
\<close>

inductive connector_step :: "services \<Rightarrow> google_settings \<Rightarrow> google_state \<Rightarrow> google_state \<Rightarrow> bool"
  for rt :: services and g :: google_settings where
  shown: "status_payload rt g s = (payload, s') \<Longrightarrow> connector_step rt g s s'"
| started: "start_oauth rt g client reconnect intent s = Inr (s', r) \<Longrightarrow> connector_step rt g s s'"
| completed: "complete_oauth_callback rt g client h code error s = Inr (s', r) \<Longrightarrow> connector_step rt g s s'"
| disconnected: "disconnect rt g client s = Inr (payload, s') \<Longrightarrow> connector_step rt g s s'"
| refreshed: "refresh_access_token_for_capability rt g client cid s = (s', r) \<Longrightarrow> connector_step rt g s s'"
| accessed: "prepare_capability_access_without_refresh rt g cid s = Inr (a, s') \<Longrightarrow> connector_step rt g s s'"
| executed: "execute_google_capability rt g client provider cid input s = Inr (result, s')
    \<Longrightarrow> connector_step rt g s s'"
| synced: "access_token_for_background_sync rt g client s = Inr (token, s') \<Longrightarrow> connector_step rt g s s'"
| synced_without: "access_token_for_background_sync_without_refresh rt g s = Inr (token, s') \<Longrightarrow> connector_step rt g s s'"
| failed: "record_capability_failure rt result s = s' \<Longrightarrow> connector_step rt g s s'"
| elsewhere: "s' = s\<lparr>gs_world := w, provider_events := es, sync_cursors := cs\<rparr> \<Longrightarrow> connector_step rt g s s'"

lemma executed_keeps:
  "execute_google_capability rt g client provider cid input s = Inr (result, s') \<Longrightarrow> keeps rt g s s'"
  by (auto simp: execute_google_capability_def dest!: prepared_keeps split: option.split_asm)

lemma step_advances: "connector_step rt g s s' \<Longrightarrow> advances rt g s s'"
proof (induction rule: connector_step.induct)
  case (shown s payload s')
  obtain c s1 where "ensure_connector rt g s = (c, s1)" by force
  with shown ensured [OF this] show ?case by (auto simp: status_payload_def intro!: keeps_advances)
next
  case elsewhere
  then show ?case by (simp add: advances_def tokens_readable_def spent_def find_oauth_state_def)
next
  case (failed result s s')
  then show ?case using capability_failure_keeps keeps_advances by blast
qed (auto intro: started_advances called_back [THEN conjunct1] disconnected_advances
    keeps_advances capability_refresh_keeps prepared_without_keeps executed_keeps synced_keeps synced_without_keeps)

lemma steps_advance: "(connector_step rt g)\<^sup>*\<^sup>* s s' \<Longrightarrow> advances rt g s s'"
  by (induction rule: rtranclp_induct) (auto intro: step_advances advances_trans)

lemma set_error_row:
  assumes "set_connector_error rt e c s = (c', s')"
  shows "\<exists>failure seen upd. c' = c\<lparr>last_error_code := failure, last_error_at := seen, cn_updated_at := upd\<rparr>"
proof -
  from assms consider "c' = c" | t where "c' = c\<lparr>cn_updated_at := t\<rparr>"
    | f u t where "c' = c\<lparr>last_error_code := f, last_error_at := u, cn_updated_at := t\<rparr>"
    by (auto simp: set_connector_error_def Let_def split_beta split: if_split_asm)
  then show ?thesis
  proof cases
    case 1
    then have "c' = c\<lparr>last_error_code := last_error_code c, last_error_at := last_error_at c, cn_updated_at := cn_updated_at c\<rparr>"
      by simp
    then show ?thesis by blast
  next
    case (2 t)
    then have "c' = c\<lparr>last_error_code := last_error_code c, last_error_at := last_error_at c, cn_updated_at := t\<rparr>" by simp
    then show ?thesis by blast
  qed blast
qed

text \<open>A callback with a spent state.\<close>

lemma replayed:
  assumes "spent s (strip h)" "strip h \<noteq> []" "gs_connector s = Some c"
  shows "\<exists>s' e failure seen upd. complete_oauth_callback rt g client (Some h) code error s = Inr (s', Inl e)
    \<and> status_code e = 400 \<and> error_details e = [(''reason'', JStr ''state_replayed'')]
    \<and> gs_connector s' = Some (c\<lparr>last_error_code := failure, last_error_at := seen, cn_updated_at := upd\<rparr>)"
proof -
  from assms(1) obtain p where p: "find_oauth_state s (strip h) = Some p" "consumed_at p \<noteq> None"
    by (auto simp: spent_def split: option.split_asm)
  obtain c1 s1 where e: "set_connector_error rt ''state_replayed'' c s = (c1, s1)" by force
  from set_error_row [OF this] have c1:
    "\<exists>failure seen upd. c1 = c\<lparr>last_error_code := failure, last_error_at := seen, cn_updated_at := upd\<rparr>" .
  have same: "\<exists>failure seen upd. c = c\<lparr>last_error_code := failure, last_error_at := seen, cn_updated_at := upd\<rparr>"
    by (rule exI [of _ "last_error_code c"], rule exI [of _ "last_error_at c"], rule exI [of _ "cn_updated_at c"]) simp
  show ?thesis
  proof (cases "cn_status c = Connected")
    case True
    with assms(2,3) p same show ?thesis
      by (auto simp: complete_oauth_callback_def ensure_connector_def callback_invalid_event_only_def
        append_callback_failed_event_def callback_invalid_error_def connector_error_def)
  next
    case False
    with assms(2,3) p e c1 show ?thesis
      by (auto simp: complete_oauth_callback_def ensure_connector_def callback_invalid_event_only_def
        callback_invalid_recorded_def append_callback_failed_event_def callback_invalid_error_def connector_error_def)
  qed
qed

text \<open>
  C22. An OAuth state reaches Google once: after a callback that connected the account, or that Google or
  the watches refused (502), every later callback with its handle, whatever the connector did in between,
  is answered as a replay and leaves the account, its tokens and its scopes as they are.
\<close>

theorem oauth_state_connects_once:
  assumes "complete_oauth_callback rt g client h code error s = Inr (s1, r)"
    "(\<exists>payload. r = Inr payload) \<or> (\<exists>e. r = Inl e \<and> status_code e = 502)"
    "(connector_step rt g)\<^sup>*\<^sup>* s1 s2" "gs_connector s2 = Some c" "strip h' = strip (the h)"
  shows "\<exists>s3 e failure seen upd. complete_oauth_callback rt g client' (Some h') code' error' s2 = Inr (s3, Inl e)
    \<and> status_code e = 400 \<and> error_details e = [(''reason'', JStr ''state_replayed'')]
    \<and> gs_connector s3 = Some (c\<lparr>last_error_code := failure, last_error_at := seen, cn_updated_at := upd\<rparr>)"
proof -
  from called_back [OF assms(1)] assms(2) have sp: "spent s1 (strip (the h))" "h \<noteq> None" by auto
  moreover have "strip (the h) \<noteq> []"
  proof
    assume n: "strip (the h) = []"
    from assms(1) n have "\<exists>e. r = Inl e \<and> status_code e = 400"
      by (auto simp: complete_oauth_callback_def split_beta callback_invalid_event_only_def callback_invalid_error_def
          connector_error_def Let_def)
    with assms(2) show False by auto
  qed
  ultimately show ?thesis
    using steps_advance [OF assms(3)] assms(4,5) replayed [of s2 h' c] by (simp add: advances_def)
qed

text \<open>
  C23. With a sound key ring, no operation of the connector, from the first on, leaves a token it cannot
  open again: both stored tokens open under the key version of the row, and so a disconnection does not
  fail.
\<close>

theorem stored_tokens_stay_readable:
  assumes "sound_keys rt g" "gs_connector s0 = None" "(connector_step rt g)\<^sup>*\<^sup>* s0 s" "gs_connector s = Some c"
  shows "token_opens rt g c (access_token_enc c) \<and> token_opens rt g c (refresh_token_enc c)
    \<and> (\<exists>payload s'. disconnect rt g client s = Inr (payload, s'))"
proof -
  have "tokens_readable rt g s0" using assms(2) by (simp add: tokens_readable_def)
  with steps_advance [OF assms(3)] have "tokens_readable rt g s" by (simp add: advances_def)
  with assms(1,4) have o: "token_opens rt g c (access_token_enc c)" "token_opens rt g c (refresh_token_enc c)"
    by (auto simp: tokens_readable_def row_readable_def)
  have "\<exists>k. from_config (service_crypto rt) (cn_key_version c) (encryption_keys g) (encryption_secret g) = Inr k"
    if "access_token_enc c \<noteq> None \<or> refresh_token_enc c \<noteq> None"
    using that o unsealed_config by (fastforce simp: token_opens_def)
  then have "\<exists>r. disconnect rt g client s = Inr r"
    using disconnect_error [of rt g client s] assms(4) by (cases "disconnect rt g client s") fastforce+
  with o show ?thesis by force
qed

section \<open>A sample account\<close>

definition sample_google :: google_settings where
  "sample_google = \<lparr>encryption_secret = [], encryption_key_version = ''v1'',
     encryption_keys = Some ''v1:AAAAAAAAAAAAAAAAAAAAAA'', redirect_uri = ''https://a.example/cb'',
     oauth_state_ttl_seconds = 600, random_token = (\<lambda>n size. replicate n (CHR ''r''))\<rparr>"

definition sample_client :: google_client where
  "sample_client = \<lparr>build_authorization_url = (\<lambda>h ch scopes uri again. Inr uri),
     exchange_code_for_tokens = (\<lambda>code verifier uri h. Inr [(''granted_scopes'', JArr []), (''expires_in_seconds'', JInt 60),
       (''account_subject'', JStr ''s1''), (''account_email'', JStr ''a@b.example''),
       (''access_token'', JStr ''ya29''), (''refresh_token'', JStr ''1//r'')]),
     refresh_access_token = (\<lambda>t. Inl ''access_revoked''), revoke_token = (\<lambda>t. None),
     register_watches = (\<lambda>t scopes account. None), stop_watches = (\<lambda>t e. [])\<rparr>"

definition sample_clocked :: services where
  "sample_clocked = sample_services\<lparr>now_at := (\<lambda>n. 86400000000 + int n)\<rparr>"

definition sample_waiting :: "string \<Rightarrow> google_state" where
  "sample_waiting sealed = \<lparr>gs_world = empty_world, gs_connector = None,
     oauth_states = [\<lparr>os_id = ''gos1'', state_handle = ''st_1'', os_flow = ''connect'', requested_scopes = [],
       pkce_verifier_enc = sealed, os_pkce_challenge = ''c'', os_redirect_uri = ''https://a.example/cb'',
       os_expires_at = 86400000600, consumed_at = None, os_created_at = 0, os_updated_at = 0\<rparr>],
     connector_events = [], provider_events = [], sync_cursors = []\<rparr>"

lemma sample_ring:
  "from_config sample_crypto ''v1'' (Some ''v1:AAAAAAAAAAAAAAAAAAAAAA'') []
    = Inr \<lparr>active_key_version = ''v1'', keys_by_version = [(''v1'', replicate 16 CHR 0x00)],
        single_secret_key = None\<rparr>"
  by code_simp

lemma sample_sound: "sound_keys sample_clocked sample_google"
  using sample_ring by (simp add: sound_keys_def sample_clocked_def sample_services_def sample_google_def sample_crypto_def)

lemma seal_total:
  assumes "sound_keys rt g"
  shows "\<exists>sealed. seal rt g p s = Inr (sealed, snd (gs_serial s))"
proof -
  from assms obtain c where c:
    "from_config (service_crypto rt) (encryption_key_version g) (encryption_keys g) (encryption_secret g) = Inr c"
    "CHR '':'' \<notin> set (active_key_version c)"
    and n: "\<And>n. length (nonce_at rt n) = 12"
    and a: "\<And>k n p a. aes_decrypt (service_crypto rt) k n (aes_encrypt (service_crypto rt) k n p a) a = Some p"
    unfolding sound_keys_def by blast
  from sealed_opens [OF c(1) c(1) refl c(2) n a, of "fst (gs_serial s)" p] show ?thesis
    by (auto simp: seal_def Let_def split_beta)
qed

lemma seal_tokens_total:
  assumes "sound_keys rt g"
  shows "\<exists>a r. seal_tokens rt g access refresh c s = Inr (c\<lparr>access_token_enc := Some a,
    refresh_token_enc := Some r, cn_key_version := encryption_key_version g\<rparr>, snd (gs_serial (snd (gs_serial s))))"
proof -
  obtain a r where "seal rt g access s = Inr (a, snd (gs_serial s))"
    "seal rt g refresh (snd (gs_serial s)) = Inr (r, snd (gs_serial (snd (gs_serial s))))"
    using seal_total [OF assms] by blast
  then show ?thesis by (intro exI [of _ a] exI [of _ r]) (simp add: seal_tokens_def)
qed

lemma try_unseal_opens: "unseal rt g v sealed = Inr t \<Longrightarrow> try_unseal rt g v sealed = Inr (Inr t)"
  by (auto simp: unseal_def decrypt_secret_def try_unseal_def split: sum.split_asm)

lemma sample_connected:
  "\<exists>sealed s' c payload. complete_oauth_callback sample_clocked sample_google sample_client (Some ''st_1'') (Some ''c'') None
      (sample_waiting sealed) = Inr (s', Inr payload) \<and> gs_connector s' = Some c \<and> access_token_enc c \<noteq> None"
proof -
  let ?rt = sample_clocked and ?g = sample_google
  obtain sealed where e: "seal ?rt ?g ''v'' (sample_waiting []) = Inr (sealed, snd (gs_serial (sample_waiting [])))"
    using seal_total [OF sample_sound] by blast
  from try_unseal_opens [OF seal_opens [OF sample_sound e]] have t:
    "try_unseal ?rt ?g ''v1'' sealed = Inr (Inr ''v'')" by (simp add: sample_google_def)
  let ?payload = "[(''granted_scopes'', JArr []), (''expires_in_seconds'', JInt 60), (''account_subject'', JStr ''s1''),
    (''account_email'', JStr ''a@b.example''), (''access_token'', JStr ''ya29''), (''refresh_token'', JStr ''1//r'')]"
  have p: "google_account_subject (as_str (jget ?payload ''account_subject'')) = Some ''s1''"
      "google_account_email (as_str (jget ?payload ''account_email'')) = Some ''a@b.example''"
      "stripped_text (jget ?payload ''access_token'') = Some ''ya29''"
      "stripped_text (jget ?payload ''refresh_token'') = Some ''1//r''"
      "max 0 (int_or 3600 (jget ?payload ''expires_in_seconds'')) = 60"
      "expiry_after 60 86400000001 = Inr 86460000001" by code_simp+
  have st: "strip ''st_1'' = ''st_1''" "strip ''c'' = ''c''" by code_simp+
  have adopt: "\<exists>s' c' y. adopt_tokens ?rt ?g sample_client q 86400000001 ?payload c s = Inr (s', Inr y)
      \<and> gs_connector s' = Some c' \<and> access_token_enc c' \<noteq> None" for q c and s :: google_state
  proof -
    obtain a r where st: "seal_tokens ?rt ?g ''ya29'' ''1//r'' (c\<lparr>cn_status := Connected, account_subject := Some ''s1'', account_email := Some ''a@b.example'',
                     cn_granted_scopes := normalize_scope_list (JArr [])\<rparr>) s =
       Inr ((c\<lparr>cn_status := Connected, account_subject := Some ''s1'', account_email := Some ''a@b.example'',
                     cn_granted_scopes := normalize_scope_list (JArr [])\<rparr>)\<lparr>access_token_enc := Some a,
      refresh_token_enc := Some r, cn_key_version := encryption_key_version ?g\<rparr>, snd (gs_serial (snd (gs_serial s))))"
      using seal_tokens_total [OF sample_sound] by blast
    show ?thesis
      unfolding adopt_tokens_def Let_def p kept_refresh_token_def
      by (simp add: p st adopted_def Let_def split_beta sample_client_def)
  qed
  show ?thesis
    using t adopt st
    by (intro exI [of _ sealed])
      (simp add: complete_oauth_callback_def ensure_connector_def sample_waiting_def Let_def gs_tick_def find_oauth_state_def
        save_connector_def callback_fault_def exchange_code_def save_oauth_state_def tick_def empty_world_def
        sample_google_def sample_clocked_def sample_client_def)
qed

theorem oauth_state_connects_once_witness:
  "\<exists>(s1 :: google_state) c s3 e failure seen upd. gs_connector s1 = Some c \<and> access_token_enc c \<noteq> None
    \<and> complete_oauth_callback sample_clocked sample_google sample_client (Some '' st_1'') (Some ''again'') None s1
        = Inr (s3, Inl e)
    \<and> status_code e = 400 \<and> error_details e = [(''reason'', JStr ''state_replayed'')]
    \<and> gs_connector s3 = Some (c\<lparr>last_error_code := failure, last_error_at := seen, cn_updated_at := upd\<rparr>)"
proof -
  obtain sealed s1 c payload where w: "complete_oauth_callback sample_clocked sample_google sample_client
      (Some ''st_1'') (Some ''c'') None (sample_waiting sealed) = Inr (s1, Inr payload)"
    "gs_connector s1 = Some c" "access_token_enc c \<noteq> None"
    using sample_connected by blast
  have "strip '' st_1'' = strip (the (Some ''st_1''))" by code_simp
  from oauth_state_connects_once [OF w(1) disjI1 rtranclp.rtrancl_refl w(2) this, of sample_client "Some ''again''" None]
  obtain s3 e failure seen upd where "complete_oauth_callback sample_clocked sample_google sample_client
      (Some '' st_1'') (Some ''again'') None s1 = Inr (s3, Inl e)"
    "status_code e = 400" "error_details e = [(''reason'', JStr ''state_replayed'')]"
    "gs_connector s3 = Some (c\<lparr>last_error_code := failure, last_error_at := seen, cn_updated_at := upd\<rparr>)"
    by blast
  with w(2,3) show ?thesis by blast
qed

theorem stored_tokens_stay_readable_witness:
  "\<exists>(s :: google_state) c sealed r. gs_connector s = Some c \<and> access_token_enc c = Some sealed
    \<and> token_opens sample_clocked sample_google c (access_token_enc c)
    \<and> disconnect sample_clocked sample_google sample_client s = Inr r"
proof -
  obtain sealed s1 c payload where w: "complete_oauth_callback sample_clocked sample_google sample_client
      (Some ''st_1'') (Some ''c'') None (sample_waiting sealed) = Inr (s1, Inr payload)"
    "gs_connector s1 = Some c" "access_token_enc c \<noteq> None"
    using sample_connected by blast
  have n: "gs_connector (sample_waiting sealed) = None" by (simp add: sample_waiting_def)
  from completed [OF w(1)] have "(connector_step sample_clocked sample_google)\<^sup>*\<^sup>* (sample_waiting sealed) s1"
    by (rule r_into_rtranclp)
  from stored_tokens_stay_readable [OF sample_sound n this w(2), of sample_client] w(2,3)
  show ?thesis by auto
qed

end
