(* ===== verification/Write_Samples.thy ===== *)
theory Write_Samples
  imports Receipt_Rows Connector_Laws
begin

text \<open>A connected account, and an approved share of a file that waits to be executed.\<close>

definition share_input :: dict where
  "share_input = [(''file_id'', JStr ''f1''), (''grantee_email'', JStr ''b@c.example''), (''role'', JStr ''reader''),
     (''idempotency_key'', JStr ''k1''), (''user_instruction_ref'', JStr ''turn:trn1'')]"

definition share_action :: action_attempt where
  "share_action = \<lparr>at_id = ''aat1'', at_turn_id = ''trn1'', proposal_index = 1,
     at_capability_id = ''cap.drive.share'', at_capability_version = ''1.0'', at_contract_hash = [],
     at_impact_level = ExternalSend, proposed_input = JObj share_input, at_payload_hash = [],
     at_policy_decision = RequiresApproval, policy_reason = None, at_status = Executing, approval_required = True,
     execution_output = JNull, execution_error = None, at_created_at = 0, at_updated_at = 0\<rparr>"

definition share_connector :: "string \<Rightarrow> connector" where
  "share_connector sealed = \<lparr>cn_status = Connected, account_subject = Some ''s1'', account_email = Some ''a@b.example'',
     cn_granted_scopes = [GOOGLE_DRIVE_SHARE_SCOPE], access_token_enc = Some sealed, refresh_token_enc = None,
     access_token_expires_at = None, token_obtained_at = None, cn_key_version = ''v1'', last_error_code = None,
     last_error_at = None, cn_created_at = 0, cn_updated_at = 0\<rparr>"

definition share_store :: "string \<Rightarrow> write_store" where
  "share_store sealed = \<lparr>gs_world = empty_world\<lparr>attempts := [share_action]\<rparr>,
     gs_connector = Some (share_connector sealed), oauth_states = [], connector_events = [], provider_events = [],
     sync_cursors = [], receipts = [], evidence_rows = [], turn_ids = [''trn1'']\<rparr>"

definition share_env :: exec_env where
  "share_env = \<lparr>ex_google = Some sample_google, ex_client = sample_client,
     provider_call = (\<lambda>cid input token scopes account. Inr (inline_failure ''provider_timeout'')),
     message_label_state = (\<lambda>token ids. Inr []), memory_call = (\<lambda>cid input. Inr (Inl ''memory_runtime_not_bound'')),
     ex_agency = False, prepare_request_pr = (\<lambda>input i. Inr (Inl [])), start_run = (\<lambda>input i. Inr (Inl [])),
     request_pr = (\<lambda>p. Inr (Inl [])), record_run_started = (\<lambda>answer input a. Inr []),
     record_request_pr = (\<lambda>p answer. Inr []), new_undo_token = (\<lambda>n. replicate n (CHR ''u''))\<rparr>"

abbreviation share_capability :: capability where
  "share_capability \<equiv> cap_drive_share sample_env sample_providers"

lemma share_sealed: "\<exists>sealed. unseal sample_clocked sample_google ''v1'' sealed = Inr ''ya29''"
proof -
  obtain sealed where e: "seal sample_clocked sample_google ''ya29'' (sample_waiting []) = Inr (sealed, snd (gs_serial (sample_waiting [])))"
    using seal_total [OF sample_sound] by blast
  from seal_opens [OF sample_sound e] show ?thesis by (auto simp: sample_google_def)
qed

lemma share_checks:
  "validate_input share_capability share_input = Inr share_input"
  "preflight_capability_execution share_capability share_input = Inr ()"
proof -
  show "validate_input share_capability share_input = Inr share_input"
    unfolding cap_drive_share_def capability.simps by code_simp
  have "detect_pattern (JObj share_input) UNSAFE_INPUT_PATTERNS = None" by code_simp
  moreover have "case preflight_egress_requests share_capability share_input of Inl e \<Rightarrow> False | Inr requests \<Rightarrow> True"
    unfolding preflight_egress_requests_def cap_drive_share_def capability.simps by code_simp
  ultimately show "preflight_capability_execution share_capability share_input = Inr ()"
    by (simp add: preflight_capability_execution_def pre_execution_guardrail_error_def split: sum.split_asm)
qed

lemma share_ids:
  "get_capability (service_env sample_clocked) (service_providers sample_clocked) ''cap.drive.share'' = Inr (Some share_capability)"
  "map_of GOOGLE_CAPABILITY_SCOPES ''cap.drive.share'' = Some [GOOGLE_DRIVE_SHARE_SCOPE]"
  "List.member GOOGLE_CAPABILITY_IDS ''cap.drive.share''"
  "List.member GOOGLE_RECEIPT_CAPABILITY_IDS ''cap.drive.share''"
  "\<not> List.member (MEMORY_CAPABILITY_IDS @ PROACTIVE_CAPABILITY_IDS @ RESEARCH_CAPABILITY_IDS
     @ EMAIL_MUTATION_CAPABILITY_IDS) ''cap.drive.share''"
proof -
  show "get_capability (service_env sample_clocked) (service_providers sample_clocked) ''cap.drive.share'' = Inr (Some share_capability)"
    by (simp add: get_capability_def capability_registry_def sample_clocked_def sample_services_def)
qed code_simp+

lemma share_account:
  "google_connected_account_subject (share_connector sealed) = Inr ''s1''"
  "scopes_of (share_connector sealed) = [GOOGLE_DRIVE_SHARE_SCOPE]"
  "covers [GOOGLE_DRIVE_SHARE_SCOPE] [GOOGLE_DRIVE_SHARE_SCOPE]"
proof -
  have "google_account_subject (Some ''s1'') = Some ''s1''" "google_account_email (Some ''a@b.example'') = Some ''a@b.example''"
    by code_simp+
  then show "google_connected_account_subject (share_connector sealed) = Inr ''s1''"
    by (simp add: google_connected_account_subject_def share_connector_def)
  have "normalize_scope_list (JArr [JStr GOOGLE_DRIVE_SHARE_SCOPE]) = [GOOGLE_DRIVE_SHARE_SCOPE]" by code_simp
  then show "scopes_of (share_connector sealed) = [GOOGLE_DRIVE_SHARE_SCOPE]"
    by (simp add: scopes_of_def share_connector_def)
qed code_simp

lemma share_refreshed:
  "refresh_before sample_clocked share_env ''aat1'' (share_store sealed) = (share_store sealed, Inr None)"
  using share_ids share_account
  by (simp add: refresh_before_def refresh_access_token_for_capability_def expired_refresh_token_def share_env_def
      share_store_def find_attempt_def share_action_def) (simp add: share_connector_def)

lemma share_accessed:
  assumes "unseal sample_clocked sample_google ''v1'' sealed = Inr ''ya29''"
  shows "prepare_capability_access_without_refresh sample_clocked sample_google ''cap.drive.share'' (share_store sealed)
    = Inr (\<lparr>ac_token = Some ''ya29'', ac_scopes = [GOOGLE_DRIVE_SHARE_SCOPE], ac_account = Some ''s1'', ac_failure = None\<rparr>,
        share_store sealed)"
  using share_ids(2) share_account assms
  by (simp add: prepare_capability_access_without_refresh_def with_connected_def share_store_def)
    (simp add: share_connector_def)

lemma share_authority:
  "case provider_write_authority_payload (share_store sealed) share_action (Some share_input) ''s1'' of
     Inl e \<Rightarrow> False | Inr p \<Rightarrow> True"
  by code_simp

lemma share_new:
  "provider_write_receipt_for_attempt sample_clocked ''google'' share_action (Some ''s1'') (Some share_input) (share_store sealed)
     = Inr None"
  by code_simp

lemma share_shown:
  "case shown_response sample_clocked ''google'' share_action (Some share_input) ''s1''
      [(''dispatch_state'', JStr ''provider_call_started'')] (snd (gs_tick sample_clocked (share_store sealed))) of
     Inl e \<Rightarrow> False | Inr p \<Rightarrow> True"
  by code_simp

lemma share_stamp:
  "provider_write_response_timestamp [(''dispatch_state'', JStr ''provider_call_started'')] = Inr None"
  by code_simp

lemma share_recorded:
  "\<exists>r s'. record_started sample_clocked ''google'' share_action share_input ''s1'' [] (share_store sealed) = Inr (r, s')"
proof -
  let ?s = "snd (gs_tick sample_clocked (share_store sealed))"
  let ?raw = "[(''dispatch_state'', JStr ''provider_call_started'')]"
  have a: "provider_write_account_id ''google'' (Some ''s1'') ?s = Inr ''s1''"
  proof -
    have "strip ''s1'' = ''s1''" by code_simp
    then show ?thesis by (simp add: provider_write_account_id_def)
  qed
  obtain content where "receipt_content_of sample_clocked ''google'' share_action (Some share_input) ''s1'' ?raw ?s = Inr content"
    using share_shown [of sealed] share_stamp
    by (auto simp: receipt_content_of_def Let_def split: sum.split_asm)
  moreover have "receipts ?s = []" by (simp add: share_store_def)
  moreover have "at_capability_id share_action = ''cap.drive.share''" by (simp add: share_action_def)
  ultimately show ?thesis
    using a share_ids(4)
    by (simp add: record_started_def record_provider_write_receipt_def record_receipt_at_def or_else_def Let_def split_beta
        receipt_by_key_def insert_receipt_def receipt_ok_def fill_receipt_def new_receipt_def)
qed

lemma share_begun:
  assumes "unseal sample_clocked sample_google ''v1'' sealed = Inr ''ya29''"
  shows "\<exists>s'. begin_execution sample_clocked share_env ''aat1'' None (share_store sealed)
    = Inr (s', Inr (GoogleCall ''cap.drive.share'' share_input ''ya29'' [GOOGLE_DRIVE_SHARE_SCOPE] ''s1''))"
proof -
  obtain r s1 where r: "record_started sample_clocked ''google'' share_action share_input ''s1'' [] (share_store sealed) = Inr (r, s1)"
    using share_recorded by blast
  obtain authority where au: "provider_write_authority_payload (share_store sealed) share_action (Some share_input) ''s1'' = Inr authority"
    using share_authority [of sealed] by (auto split: sum.split_asm)
  have g: "ex_google share_env = Some sample_google" by (simp add: share_env_def)
  have cid: "at_capability_id share_action = ''cap.drive.share''" "at_status share_action = Executing"
    "\<not> dispatch_started share_action" by (simp_all add: share_action_def dispatch_started_def)
  have start: "start_google sample_clocked share_env share_action share_input (share_store sealed)
    = Inr (mark_started sample_clocked share_action (started_output ''s1'') s1,
        Inr (GoogleCall ''cap.drive.share'' share_input ''ya29'' [GOOGLE_DRIVE_SHARE_SCOPE] ''s1''))"
    using share_accessed [OF assms] share_ids(4) share_new [of sealed] r au cid g
    by (simp add: start_google_def with_access_def Let_def go_on_def)
  have f: "find_attempt (gs_world (share_store sealed)) ''aat1'' = Some share_action"
    by (simp add: find_attempt_def share_store_def share_action_def)
  have i: "execution_integrity_error sample_clocked share_action share_capability = None"
    by (simp add: execution_integrity_error_def share_action_def cap_drive_share_def contract_hash_of_def
        capability_contract_hash_def sample_clocked_def sample_services_def)
  have full: "full_action_input_payload sample_clocked (gs_world (share_store sealed)) share_action google = Inr (Inr share_input)" for google
    by (simp add: full_action_input_payload_def share_action_def google_private_input_keys_def)
  have e: "\<not> ended Executing" by code_simp
  show ?thesis
    using start f i full e share_ids share_checks cid
    by (simp add: begin_execution_def and_then_def go_on_def checked_action_def start_action_def Let_def)
qed

end
