(* ===== verification/Write_Laws.thy ===== *)
theory Write_Laws
  imports Write_Samples
begin

text \<open>
  Writes over any sequence of executions, cut short or not, and of reconciliations: the key of a write to
  Google is sent once, a call whose worker died is not made again, and a reconciliation changes an action
  only on evidence.
\<close>

lemma ledger_plain [simp]:
  "ledger s (on_gw f s') = ledger s s'" "ledger (on_gw f s) s' = ledger s s'"
  "ledger s (save_gw_attempt a s') = ledger s s'" "ledger (save_gw_attempt a s) s' = ledger s s'"
  "ledger s (snd (gs_tick rt s')) = ledger s s'" "ledger (snd (gs_tick rt s)) s' = ledger s s'"
  by (simp_all add: ledger_def ids_distinct_def write_keys_def)

section \<open>After the call\<close>

lemma stored_before:
  assumes "store_before_state rt i messages s = Inr s'"
  shows "ledger s s'"
proof (cases "find_receipt s i")
  case None
  with assms show ?thesis by (simp add: store_before_state_def)
next
  case (Some r)
  let ?s = "snd (gs_tick rt s)"
  from assms Some obtain r' where u: "update_receipt r' ?s = Inr s'" "rc_id r' = rc_id r" "write_key r' = write_key r"
    by (auto simp: store_before_state_def Let_def split_beta write_key_def)
  from update_ledger [OF u(1), of r] receipt_table.lookup_Some [OF Some] u show ?thesis
    using ledger_cong [of ?s s] by simp
qed

lemma captured:
  "capture_before_state rt ex i cid input token s = Inr (input', s') \<Longrightarrow> ledger s s'"
  by (auto simp: capture_before_state_def dict_item_def split: if_split_asm option.split_asm dest!: stored_before)

lemma performed: "perform rt ex i d s = (s', r) \<Longrightarrow> ledger s s'"
  by (cases d) (auto simp: perform_def split: sum.split_asm dest!: captured)

lemma undo_settled:
  assumes "settle_undo rt ex cid prior r s = Inr (p, s')" "r \<in> set (receipts s)"
  shows "ledger s s'"
proof (cases "cid = ''cap.email.undo''")
  case False
  let ?s = "snd (gs_tick rt (snd (gs_serial s)))"
  from assms(1) False obtain r' where u: "update_receipt r' ?s = Inr s'" "rc_id r' = rc_id r" "write_key r' = write_key r"
    by (auto simp: settle_undo_def Let_def split_beta write_key_def)
  from update_ledger [OF u(1), of r] assms(2) u show ?thesis using ledger_cong [of ?s s] by simp
next
  case True
  show ?thesis
  proof (cases "case prior of None \<Rightarrow> None | Some i \<Rightarrow> find_receipt s i")
    case None
    with assms(1) True show ?thesis by (auto simp: settle_undo_def)
  next
    case (Some q)
    then have q: "q \<in> set (receipts s)" by (auto split: option.split_asm dest: receipt_table.lookup_Some)
    let ?s = "snd (gs_tick rt s)"
    from assms(1) True Some have "s' = s \<or> (\<exists>q'. update_receipt q' ?s = Inr s' \<and> rc_id q' = rc_id q \<and> write_key q' = write_key q)"
      by (auto simp: settle_undo_def Let_def split_beta write_key_def split: if_split_asm)
    then show ?thesis
      using update_ledger [of _ ?s s' q] q ledger_cong [of ?s s] by auto
  qed
qed

lemma email_settled:
  assumes "settle_email rt ex i cid input prior result s = Inr (st, s')"
  shows "ledger s s'"
proof (cases "find_receipt s i")
  case None
  with assms show ?thesis by (simp add: settle_email_def)
next
  case (Some r)
  show ?thesis
  proof (cases "pr_succeeded result \<and> pr_output result \<noteq> None")
    case False
    with assms Some show ?thesis by (auto simp: settle_email_def Let_def split: bool.split_asm option.split_asm)
  next
    case True
    then obtain out where out: "pr_succeeded result" "pr_output result = Some out" by auto
    let ?s = "snd (gs_tick rt s)"
    from assms Some out obtain r' s1 error where
      u: "update_receipt r' ?s = Inr s1" "rc_id r' = rc_id r" "write_key r' = write_key r"
      and d: "s' = s1 \<or> (\<exists>p. settle_undo rt ex cid prior r' s1 = Inr (p, s'))"
      by (auto simp: settle_email_def Let_def split_beta write_key_def split_option_ex)
    from update_ledger [OF u(1), of r] receipt_table.lookup_Some [OF Some] u
    have "ledger s s1" "r' \<in> set (receipts s1)" using ledger_cong [of ?s s] by simp_all
    with d show ?thesis using undo_settled ledger_trans by blast
  qed
qed

lemma ambiguous_recorded:
  "record_ambiguous rt provider a input account out e s = Inr s' \<Longrightarrow> ledger s s'"
  by (auto simp: record_ambiguous_def dest!: recorded unavailable_receipts intro: ledger_then)

lemma agency_settled: "settle_agency rt ex a input named answer s = Inr (r, s') \<Longrightarrow> ledger s s'"
  by (auto simp: settle_agency_def Let_def split_beta split: option.split_asm if_split_asm dest!: recorded
      intro: ledger_then)

lemma retry_settled: "settle_retry rt a d st e s = Inr (s', r) \<Longrightarrow> ledger s s'"
  by (auto simp: settle_retry_def Let_def split_beta split: if_split_asm dest!: recorded ambiguous_recorded)

lemma success_settled: "settle_success rt a d out s = Inr s' \<Longrightarrow> ledger s s'"
  by (auto simp: settle_success_def Let_def split_beta split: option.split_asm if_split_asm
      dest!: recorded ambiguous_recorded)

lemma failure_recorded_receipts: "receipts (record_capability_failure rt r s) = receipts (s :: write_store)"
  by (rule keeps_receipts [of rt "undefined :: google_runtime", OF capability_failure_keeps])

lemma failure_recorded: "record_failure rt provider a status input account out e s = Inr s' \<Longrightarrow> ledger s s'"
  by (auto simp: record_failure_def split: if_split_asm dest!: recorded ambiguous_recorded)

lemma failure_settled:
  assumes "settle_failure rt ex a d st s = Inr s'"
  shows "ledger s s'"
proof -
  let ?s = "if pr_auth_failure (se_result st) \<noteq> None \<and> ex_google ex \<noteq> None
    then record_capability_failure rt (se_result st) s else s"
  have same: "receipts ?s = receipts s" by (simp add: failure_recorded_receipts)
  from assms obtain known provider status input account out e s1 where
    "(if known then Inr ?s else record_failure rt provider a status input account out e ?s) = Inr s1"
    "s' = on_gw (fail_action_execution rt a e JNull) s1"
    unfolding settle_failure_def Let_def split_beta proceed_Inr by blast
  then have "ledger ?s s'" using failure_recorded by (auto split: if_split_asm)
  then show ?thesis using ledger_cong [OF same] by simp
qed

lemma answer_read: "read_answer rt ex a d answer s = Inr (st, s') \<Longrightarrow> ledger s s'"
  by (cases answer; cases d) (auto simp: read_answer_def dest: email_settled agency_settled)

lemma concluded: "conclude rt ex a d st s = Inr (s', r) \<Longrightarrow> ledger s s'"
  by (cases "pr_succeeded (se_result st)"; cases "pr_output (se_result st)"; cases "retry_error st")
    (auto simp: conclude_def dest: retry_settled success_settled failure_settled)

lemma settled: "settle rt ex i d answer s = Inr (s', r) \<Longrightarrow> ledger s s'"
  by (auto simp: settle_def split: option.split_asm if_split_asm dest!: answer_read concluded intro: ledger_trans)

lemma refreshed_receipts: "refresh_before rt ex i s = (s', r) \<Longrightarrow> receipts s' = receipts s"
  by (auto simp: refresh_before_def split: option.split_asm if_split_asm
      dest!: keeps_receipts [OF capability_refresh_keeps])

section \<open>Reconciling\<close>

lemma ambiguous_found:
  "ambiguous_receipt s i = Inr (Some (r, a)) \<Longrightarrow> r \<in> set (receipts s) \<and> rc_status r = AmbiguousWrite \<and> rc_id r = i"
  by (auto simp: ambiguous_receipt_def split: option.split_asm if_split_asm dest: receipt_table.lookup_Some)

lemma marked_by_id: "mark_indeterminate_by_id rt i reason s = Inr s' \<Longrightarrow> ledger s s'"
  by (auto simp: mark_indeterminate_by_id_def split_option_ex dest: marked_ledger ambiguous_found)

lemma reconciled_receipts [simp]: "receipts (reconciled rt a r updated at_event s) = receipts s"
  by (simp add: reconciled_def Let_def)

lemma calendar_settled: "settle_calendar rt i cid input account event s = Inr (s', b) \<Longrightarrow> ledger s s'"
  by (auto simp: settle_calendar_def split_beta split_option_ex dest!: recorded_at intro: ledger_then)

lemma agency_probe_settled: "settle_agency_probe rt rx i p answer s = Inr (s', b) \<Longrightarrow> ledger s s'"
  by (auto simp: settle_agency_probe_def Let_def split_beta split_option_ex dest!: recorded intro: ledger_then)

lemma calendar_probed:
  assumes "calendar_probe rt rx r a s = Inr (p, s')"
  shows "s' = s \<and> (\<exists>reason. p = Inl reason) \<or> (\<exists>g input. calendar_access rt g (rx_client rx) r input s = Inr (p, s'))"
proof (cases "rx_google rx")
  case None
  with assms show ?thesis by (auto simp: calendar_probe_def)
next
  case (Some g)
  with assms obtain full capability where f:
    "full_action_input_payload rt (gs_world s) a (Some (google_runtime.truncate g)) = Inr full"
    "get_capability (service_env rt) (service_providers rt) (rc_capability_id r) = Inr capability"
    by (auto simp: calendar_probe_def)
  show ?thesis
  proof (cases full)
    case (Inl e)
    with assms Some f show ?thesis by (auto simp: calendar_probe_def)
  next
    case (Inr full_input)
    show ?thesis
    proof (cases capability)
      case None
      with assms Some f Inr show ?thesis by (auto simp: calendar_probe_def)
    next
      case c: (Some c)
      show ?thesis
      proof (cases "validate_input c full_input")
        case (Inl e)
        with assms Some f Inr c show ?thesis
          using \<open>full = Inr full_input\<close> by (cases e) (auto simp: calendar_probe_def)
      next
        case (Inr input)
        with assms Some f \<open>full = Inr full_input\<close> c show ?thesis by (auto simp: calendar_probe_def)
      qed
    qed
  qed
qed

lemma accessed_calendar:
  assumes "calendar_access rt g client r input s = Inr (p, s')"
  shows "receipts s' = receipts s"
proof (cases "prepare_capability_access rt g client (rc_capability_id r) s")
  case (Inl e)
  with assms show ?thesis by (auto simp: calendar_access_def Let_def split: option.split_asm)
next
  case (Inr q)
  with assms have "s' = s \<or> s' = snd q" by (cases q) (auto simp: calendar_access_def Let_def split: option.split_asm)
  moreover have "receipts (snd q) = receipts s" using keeps_receipts [OF prepared_keeps] Inr by (cases q) auto
  ultimately show ?thesis by auto
qed

lemma chosen_receipts:
  assumes "choose_probe rt rx r a s = Inr (p, s')"
  shows "receipts s' = receipts s"
proof -
  from assms have "s' = s \<or> (\<exists>g input. calendar_access rt g (rx_client rx) r input s = Inr (p, s'))"
    by (auto simp: choose_probe_def split: if_split_asm dest!: calendar_probed)
  then show ?thesis using accessed_calendar by auto
qed

lemma probed:
  assumes "run_probe rt rx i p s = (s', r)"
  shows "ledger s s'"
proof -
  show ?thesis
  proof (cases p)
    case (CalendarProbe cid input token account calendar event)
    then show ?thesis
      using assms
      by (cases "calendar_get_event rx token calendar event")
        (auto simp: run_probe_def Let_def split: sum.split_asm if_split_asm dest: calendar_settled marked_by_id)
  next
    case (AgencyProbe asked)
    then show ?thesis
      using assms
      by (cases "rx_request_pr rx asked"; cases "ambiguous_receipt s i")
        (auto simp: run_probe_def Let_def split: sum.split_asm option.split_asm dest: agency_probe_settled marked_by_id)
  qed
qed

lemma looked_into:
  assumes "process_provider_write_reconcile_due rt rx payload s = (s', r)"
  shows "ledger s s'"
proof (cases "nonempty_text (jget payload ''provider_write_receipt_id'')")
  case None
  with assms show ?thesis by (simp add: process_provider_write_reconcile_due_def)
next
  case id: (Some i)
  show ?thesis
  proof (cases "ambiguous_receipt s i")
    case (Inl e)
    with assms id show ?thesis by (simp add: process_provider_write_reconcile_due_def)
  next
    case (Inr found)
    show ?thesis
    proof (cases found)
      case None
      with assms id Inr show ?thesis by (simp add: process_provider_write_reconcile_due_def)
    next
      case (Some ra)
      obtain row a where ra: "ra = (row, a)" by force
      show ?thesis
      proof (cases "choose_probe rt rx row a s")
        case (Inl e)
        with assms id Inr Some ra show ?thesis by (simp add: process_provider_write_reconcile_due_def)
      next
        case chosen: (Inr ps)
        obtain p s1 where ps: "ps = (p, s1)" by force
        note same = chosen_receipts [OF chosen [unfolded ps]]
        have row: "row \<in> set (receipts s1)"
          using ambiguous_found [OF Inr [unfolded Some ra]] same by simp
        have "s' = s \<or> (\<exists>reason. mark_provider_write_reconcile_indeterminate rt a row reason s1 = Inr s')
            \<or> (\<exists>p. run_probe rt rx i p s1 = (s', r))"
          using assms id Inr Some ra chosen ps
          by (cases p) (auto simp: process_provider_write_reconcile_due_def split: sum.split_asm)
        then have "s' = s \<or> ledger s1 s'" using marked_ledger [OF _ row] probed by blast
        then show ?thesis using ledger_cong [OF same, of s'] ledger_refl by blast
      qed
    qed
  qed
qed

section \<open>Once\<close>

text \<open>A trace of labelled steps, with its labels.\<close>

inductive trace :: "('s \<Rightarrow> 'l option \<Rightarrow> 's \<Rightarrow> bool) \<Rightarrow> 's \<Rightarrow> 'l list \<Rightarrow> 's \<Rightarrow> bool" for step where
  start: "trace step s [] s"
| quiet: "trace step s ls s1 \<Longrightarrow> step s1 None s2 \<Longrightarrow> trace step s ls s2"
| emits: "trace step s ls s1 \<Longrightarrow> step s1 (Some l) s2 \<Longrightarrow> trace step s (ls @ [l]) s2"

text \<open>A label that is new when it is emitted, and used from then on, is emitted once.\<close>

locale emit_once =
  fixes step :: "'s \<Rightarrow> 'l option \<Rightarrow> 's \<Rightarrow> bool" and used :: "'s \<Rightarrow> 'l set" and sane :: "'s \<Rightarrow> bool"
  assumes grows: "sane s \<Longrightarrow> step s l s' \<Longrightarrow> sane s' \<and> used s \<subseteq> used s'"
    and new: "sane s \<Longrightarrow> step s (Some k) s' \<Longrightarrow> k \<notin> used s \<and> k \<in> used s'"
begin

lemma emitted_once:
  "trace step s ls s' \<Longrightarrow> sane s \<Longrightarrow>
     sane s' \<and> used s \<subseteq> used s' \<and> distinct ls \<and> set ls \<inter> used s = {} \<and> set ls \<subseteq> used s'"
proof (induction rule: trace.induct)
  case (quiet s ls s1 s2)
  then show ?case using grows by blast
next
  case (emits s ls s1 l s2)
  from emits have "sane s1" by simp
  from grows [OF this emits(2)] new [OF this emits(2)] emits show ?case by auto
qed simp

end

text \<open>The write an execution may have sent, and the steps; a worker can die before or after its call.\<close>

definition sent :: "services \<Rightarrow> write_store \<Rightarrow> string \<Rightarrow> dispatch option \<Rightarrow> (string \<times> string \<times> string) option" where
  "sent rt s i d =
     (case (find_attempt (gs_world s) i, d) of (Some a, Some d) \<Rightarrow> google_write rt a d | _ \<Rightarrow> None)"

inductive write_step :: "services \<Rightarrow> write_store \<Rightarrow> (string \<times> string \<times> string) option \<Rightarrow> write_store \<Rightarrow> bool"
  for rt :: services where
  executed: "process_action_execution_task rt ex i s = (s', d, r) \<Longrightarrow> write_step rt s (sent rt s i d) s'"
| cut_off: "refresh_before rt ex i s = (s1, Inr refresh) \<Longrightarrow> begin_execution rt ex i refresh s1 = Inr (s', Inr d)
    \<Longrightarrow> write_step rt s (sent rt s i (Some d)) s'"
| unsettled: "refresh_before rt ex i s = (s1, Inr refresh) \<Longrightarrow> begin_execution rt ex i refresh s1 = Inr (s2, Inr d)
    \<Longrightarrow> perform rt ex i d s2 = (s', r) \<Longrightarrow> write_step rt s (sent rt s i (Some d)) s'"
| reconciled: "process_provider_write_reconcile_due rt rx payload s = (s', result) \<Longrightarrow> write_step rt s None s'"
| elsewhere: "receipts s' = receipts s \<Longrightarrow> write_step rt s None s'"

lemma sent_none [simp]: "sent rt s i None = None"
  by (simp add: sent_def split: option.split)

lemma refreshed_attempts:
  "refresh_before rt ex i s = (s', r) \<Longrightarrow> attempts (gs_world s') = attempts (gs_world s)"
  by (auto simp: refresh_before_def keeps_def split: option.split_asm if_split_asm
      dest!: capability_refresh_keeps)

lemma begun_sends:
  assumes "refresh_before rt ex i s = (s1, Inr refresh)" "begin_execution rt ex i refresh s1 = Inr (s', v)"
  shows "ledger s s' \<and> (\<forall>d k. v = Inr d \<longrightarrow> ids_distinct s \<longrightarrow> sent rt s i (Some d) = Some k
    \<longrightarrow> k \<notin> write_keys s \<and> k \<in> write_keys s')"
proof (cases "find_attempt (gs_world s1) i")
  case None
  with assms show ?thesis by (simp add: begin_execution_def)
next
  case (Some a)
  have "find_attempt (gs_world s) i = Some a"
    using Some refreshed_attempts [OF assms(1)] by (simp add: find_attempt_def)
  with began [OF assms(2) Some] sends_cong [OF refreshed_receipts [OF assms(1)], of rt a s' v] show ?thesis
    by (auto simp: sends_once_def sent_def)
qed

lemma performed_call: "perform rt ex i d s = (s', Inr (d', answer)) \<Longrightarrow> google_write rt a d' = google_write rt a d"
  by (cases d) (auto simp: perform_def split: sum.split_asm)

lemma executed_sends:
  assumes "process_action_execution_task rt ex i s = (s', d, r)"
  shows "ledger s s' \<and> (\<forall>k. ids_distinct s \<longrightarrow> sent rt s i d = Some k \<longrightarrow> k \<notin> write_keys s \<and> k \<in> write_keys s')"
proof -
  obtain s1 fr where f: "refresh_before rt ex i s = (s1, fr)" by force
  note same = refreshed_receipts [OF f]
  show ?thesis
  proof (cases fr)
    case (Inl e)
    with assms f show ?thesis
      using ledger_same [OF same] by (simp add: process_action_execution_task_def)
  next
    case refresh: (Inr refresh)
    show ?thesis
    proof (cases "begin_execution rt ex i refresh s1")
      case (Inl e)
      with assms f refresh show ?thesis
        using ledger_same [OF same] by (simp add: process_action_execution_task_def)
    next
      case (Inr sv)
      obtain s2 v where sv: "sv = (s2, v)" by force
      note b = begun_sends [OF f [unfolded refresh] Inr [unfolded sv]]
      show ?thesis
      proof (cases v)
        case (Inl b)
        with assms f refresh Inr sv b show ?thesis
          by (simp add: process_action_execution_task_def)
      next
        case call: (Inr d0)
        obtain s3 ans where p: "perform rt ex i d0 s2 = (s3, ans)" by force
        note l3 = performed [OF p]
        have "ledger s3 s' \<and> (\<exists>d1. d = Some d1 \<and> (\<forall>a. google_write rt a d1 = google_write rt a d0))"
        proof (cases ans)
          case (Inl e)
          with assms f refresh Inr sv call p show ?thesis by (auto simp: process_action_execution_task_def)
        next
          case answered: (Inr da)
          obtain d1 answer where da: "da = (d1, answer)" by force
          have "ledger s3 s' \<and> d = Some d1"
            using assms f refresh Inr sv call p answered da
            by (auto simp: process_action_execution_task_def split: sum.split_asm dest: settled)
          then show ?thesis using performed_call p answered da by blast
        qed
        with ledger_trans [OF l3] have l: "ledger s2 s'" and d: "sent rt s i d = sent rt s i (Some d0)"
          by (auto simp: sent_def split: option.split)
        from b call l d show ?thesis
          by (auto simp: ledger_def)
      qed
    qed
  qed
qed

interpretation google_writes: emit_once "write_step rt" write_keys ids_distinct for rt
proof unfold_locales
  fix s l s' assume d: "ids_distinct s" and w: "write_step rt s l s'"
  from w have "ledger s s'"
  proof (cases rule: write_step.cases)
    case (unsettled ex i s1 refresh s2 d r)
    with begun_sends [OF unsettled(2,3)] performed [OF unsettled(4)] show ?thesis using ledger_trans by blast
  qed (auto dest!: executed_sends begun_sends looked_into ledger_same)
  with d show "ids_distinct s' \<and> write_keys s \<subseteq> write_keys s'" by (simp add: ledger_def)
next
  fix s k s' assume d: "ids_distinct s" and w: "write_step rt s (Some k) s'"
  from w show "k \<notin> write_keys s \<and> k \<in> write_keys s'"
  proof (cases rule: write_step.cases)
    case (executed ex i d r)
    with executed_sends [OF executed(2)] d show ?thesis by (cases k) auto
  next
    case (cut_off ex i s1 refresh d)
    with begun_sends [OF cut_off(2,3)] d show ?thesis by (cases k) auto
  next
    case (unsettled ex i s1 refresh s2 d r)
    with begun_sends [OF unsettled(2,3)] performed [OF unsettled(4)] d show ?thesis by (cases k) (auto simp: ledger_def)
  qed
qed

text \<open>
  C12. A write to Google that is no mail mutation is sent at most once under its key: over any sequence of
  executions, of workers that die before, during or after a call, of reconciliations and of other changes,
  no key of an account is sent twice, none is sent that has a receipt, and what was sent has one.
\<close>

theorem google_writes_are_sent_once:
  assumes "ids_distinct s" "trace (write_step rt) s ks s'"
  shows "distinct ks \<and> set ks \<inter> write_keys s = {} \<and> set ks \<subseteq> write_keys s'"
  using google_writes.emitted_once [OF assms(2,1)] by simp

theorem google_writes_are_sent_once_witness:
  "\<exists>(s :: write_store) k s'. trace (write_step sample_clocked) s [k] s' \<and> k \<notin> write_keys s \<and> k \<in> write_keys s'"
proof -
  obtain sealed s' where w: "begin_execution sample_clocked share_env ''aat1'' None (share_store sealed)
    = Inr (s', Inr (GoogleCall ''cap.drive.share'' share_input ''ya29'' [GOOGLE_DRIVE_SHARE_SCOPE] ''s1''))"
    using share_sealed share_begun by blast
  from cut_off [OF share_refreshed w] share_ids(4) obtain k where
    "write_step sample_clocked (share_store sealed) (Some k) s'"
    by (auto simp: sent_def google_write_def find_attempt_def share_store_def share_action_def)
  from emits [where step = "write_step sample_clocked", OF start this]
  have t: "trace (write_step sample_clocked) (share_store sealed) [k] s'" by simp
  have "ids_distinct (share_store sealed)" by (simp add: ids_distinct_def share_store_def)
  from google_writes_are_sent_once [OF this t] have "k \<notin> write_keys (share_store sealed)" "k \<in> write_keys s'"
    by simp_all
  with t show ?thesis by blast
qed

section \<open>A call that was cut off\<close>

text \<open>The attempt of a started call says so.\<close>

definition acts :: "write_store \<Rightarrow> action_attempt list" where
  "acts s = attempts (gs_world s)"

lemma acts_plain [simp]:
  "acts (snd (gs_tick rt s)) = acts s" "acts (snd (gs_fresh rt p s)) = acts s" "acts (save_receipt r s) = acts s"
  "acts (s\<lparr>receipts := rs\<rparr>) = acts s"
  by (simp_all add: acts_def gs_tick_def tick_def gs_fresh_def fresh_id_def save_receipt_def)

lemma keeps_acts: "keeps rt g s s' \<Longrightarrow> acts s' = acts s"
  by (simp add: keeps_def acts_def)

lemma updated_acts: "update_receipt r s = Inr s' \<Longrightarrow> acts s' = acts s"
  by (auto simp: update_receipt_def split: if_split_asm)

lemma recorded_acts:
  assumes "record_provider_write_receipt rt provider a st input account out error reason s = Inr (r, s')"
  shows "acts s' = acts s"
proof -
  from assms have "s' = snd (gs_tick rt s) \<or> (\<exists>r. update_receipt r (snd (gs_tick rt s)) = Inr s')
      \<or> (\<exists>r. insert_receipt r (snd (gs_fresh rt ''pwr'' (snd (gs_tick rt s)))) = Inr s')"
    by (auto simp: record_provider_write_receipt_def record_receipt_at_def split_beta Let_def
        split: option.split_asm if_split_asm)
  then show ?thesis by (auto simp: insert_receipt_def dest!: updated_acts split: if_split_asm)
qed

lemma marked_started:
  assumes "find_attempt (gs_world s) i = Some a" "at_id a = i" "acts s1 = acts s"
    "output = JObj ((''dispatch_state'', JStr ''provider_call_started'') # rest)"
  shows "\<exists>a'. find_attempt (gs_world (mark_started rt a output s1)) i = Some a' \<and> dispatch_started a'
    \<and> at_status a' = at_status a \<and> at_capability_id a' = at_capability_id a"
proof -
  let ?a = "a\<lparr>execution_output := output, at_updated_at := fst (gs_tick rt s1)\<rparr>"
  have "find_attempt (gs_world s1) i = Some a"
    using assms(1,3) by (simp add: find_attempt_def acts_def)
  then have "find_attempt (gs_world (mark_started rt a output s1)) i = Some ?a"
    using assms(2) attempt_table.lookup_save [of ?a "gs_world (snd (gs_tick rt s1))" i]
    by (simp add: mark_started_def save_gw_attempt_def on_gw_def split_beta gs_tick_def tick_def find_attempt_def)
  then show ?thesis using assms(4) by (simp add: dispatch_started_def jget_def)
qed

lemma resumed_stops:
  assumes "resume rt ex a s = Inr (s', v)" "\<not> List.member EMAIL_MUTATION_CAPABILITY_IDS (at_capability_id a)"
  shows "v = Inl True"
proof -
  have unknown: "v = Inl True" if "give_up_unknown rt a r e s1 = Inr (s', v)" for r e and s1 and v :: "bool + unit"
    using that by (auto simp: give_up_unknown_def dest!: left_here)
  have google: "v = Inl True" if g: "resume_google rt a account input s = Inr (s', v)" for account input
  proof -
    from g obtain known where k: "provider_write_receipt_for_attempt rt ''google'' a account input s = Inr known"
      by (auto simp: resume_google_def)
    have "\<not> retry_failed_email a known" using assms(2) by (simp add: retry_failed_email_def split: option.split)
    then show ?thesis
      using g k by (cases known) (auto simp: resume_google_def split: if_split_asm dest!: left_here unknown)
  qed
  have agency: "v = Inl True" if g: "resume_agency rt a account input s = Inr (s', v)" for account input
  proof -
    from g obtain known where "agency_receipt rt a account input s = Inr known" by (auto simp: resume_agency_def)
    with g show ?thesis
      by (cases known) (auto simp: resume_agency_def split: if_split_asm dest!: left_here unknown)
  qed
  from assms show ?thesis
    by (auto simp: resume_def Let_def split: if_split_asm dest!: left_here google agency)
qed

lemma accessed_acts:
  assumes "with_access rt ex a s k = Inr (s', Inr d)"
  shows "\<exists>token scopes account s1. acts s1 = acts s \<and> k token scopes account s1 = Inr (s', Inr d)"
proof (cases "ex_google ex")
  case None
  with assms show ?thesis by (auto simp: with_access_def dest!: left_here)
next
  case (Some g)
  with assms obtain acc s1 where p: "prepare_capability_access_without_refresh rt g (at_capability_id a) s = Inr (acc, s1)"
    by (auto simp: with_access_def)
  from assms Some p show ?thesis
    using keeps_acts [OF prepared_without_keeps [OF p]]
    by (auto simp: with_access_def split: option.split_asm dest!: left_here)
qed

definition marks :: "services \<Rightarrow> action_attempt \<Rightarrow> write_store \<Rightarrow> write_store \<Rightarrow> bool" where
  "marks rt a s s' \<longleftrightarrow> (\<exists>s1 rest. acts s1 = acts s
     \<and> s' = mark_started rt a (JObj ((''dispatch_state'', JStr ''provider_call_started'') # rest)) s1)"

lemma marksI: "acts s1 = acts s \<Longrightarrow> marks rt a s (mark_started rt a (started_output account) s1)"
  by (auto simp: marks_def started_output_def)

lemma started_google_marks:
  assumes "start_google rt ex a input s = Inr (s', Inr d)"
  shows "marks rt a s s'"
proof -
  from accessed_acts [OF assms [unfolded start_google_def Let_def]] obtain token scopes account s1 where
    same: "acts s1 = acts s" and
    c: "(if \<not> List.member GOOGLE_RECEIPT_CAPABILITY_IDS (at_capability_id a)
        then go_on (GoogleCall (at_capability_id a) input token scopes account) (mark_started rt a (started_output account) s1)
        else proceed (provider_write_receipt_for_attempt rt ''google'' a (Some account) (Some input) s1) (\<lambda>known.
          case known of
            None \<Rightarrow>
             (case provider_write_authority_payload s1 a (Some input) account of
                Inl e \<Rightarrow> fail_with rt a e s1
              | Inr _ \<Rightarrow>
                  proceed (record_started rt ''google'' a input account [] s1) (\<lambda>(r, s).
                  go_on (GoogleCall (at_capability_id a) input token scopes account)
                    (mark_started rt a (started_output account) s)))
          | Some r \<Rightarrow>
              if request_digest r \<noteq> at_payload_hash a then fail_with rt a ''idempotency_key_input_mismatch'' s1
              else if rc_status r = SucceededWrite
              then replay_receipt rt a r (redact_undo_token (response_payload r)) s1
              else if rc_status r = ExecutingWrite then fail_with rt a ''provider_write_in_progress'' s1
              else fail_with rt a
                (if truthy (jget (response_payload r) ''error'') then py_str (service_env rt) (jget (response_payload r) ''error'')
                 else ''provider_write_failed'') s1)) = Inr (s', Inr d)" by auto
  show ?thesis
  proof (cases "List.member GOOGLE_RECEIPT_CAPABILITY_IDS (at_capability_id a)")
    case False
    with c same show ?thesis by (auto simp: go_on_def intro: marksI)
  next
    case True
    from c True obtain known where k:
      "provider_write_receipt_for_attempt rt ''google'' a (Some account) (Some input) s1 = Inr known" by auto
    show ?thesis
    proof (cases known)
      case (Some r)
      with c k True show ?thesis by (auto dest!: left_here split: if_split_asm)
    next
      case None
      show ?thesis
      proof (cases "provider_write_authority_payload s1 a (Some input) account")
        case (Inl e)
        with c k True None show ?thesis by (auto dest!: left_here)
      next
        case (Inr _)
        with c k True None obtain r s2 where r: "record_started rt ''google'' a input account [] s1 = Inr (r, s2)"
          "s' = mark_started rt a (started_output account) s2"
          by (auto simp: go_on_def)
        from recorded_acts [OF r(1) [unfolded record_started_def]] same r(2) show ?thesis by (auto intro: marksI)
      qed
    qed
  qed
qed

lemma started_agency_marks:
  assumes "start_agency rt ex a input s = Inr (s', Inr d)"
  shows "marks rt a s s'"
proof (cases "ex_agency ex \<and> at_capability_id a = ''cap.agency.request_pr''")
  case False
  with assms show ?thesis
    by (auto simp: start_agency_def Let_def go_on_def marks_def split: if_split_asm dest!: left_here)
next
  case True
  with assms obtain p where p: "prepare_request_pr ex input (at_id a) = Inr p" by (auto simp: start_agency_def Let_def)
  show ?thesis
  proof (cases p)
    case (Inl error)
    with assms True p show ?thesis by (auto simp: start_agency_def Let_def split: if_split_asm dest!: left_here)
  next
    case (Inr prepared)
    with assms True p obtain known where k:
      "provider_write_receipt_for_attempt rt ''agency'' a (Some (pp_repo_id prepared)) (Some input) s = Inr known"
      by (auto simp: start_agency_def Let_def)
    from assms True p Inr k obtain r s1 s2 rest where
      r: "record_started rt ''agency'' a input (pp_repo_id prepared)
              [(''client_request_id'', JStr (pp_client_request_id prepared))] s = Inr (r, s1)"
      and n: "name_requests rt input prepared r s1 = Inr s2"
      and s': "s' = mark_started rt a (JObj ((''dispatch_state'', JStr ''provider_call_started'') # rest)) s2"
      by (auto simp: start_agency_def Let_def go_on_def split: if_split_asm dest!: left_here)
    from n have "acts s2 = acts s1" by (auto simp: name_requests_def Let_def split_beta dest!: updated_acts)
    with recorded_acts [OF r [unfolded record_started_def]] s' show ?thesis by (auto simp: marks_def)
  qed
qed

text \<open>A call to Google that is no mail mutation, or to the agency.\<close>

definition once_only :: "dispatch \<Rightarrow> bool" where
  "once_only d =
     (case d of GoogleCall cid input token scopes account \<Rightarrow> True | AgencyCall cid input named \<Rightarrow> True | _ \<Rightarrow> False)"

lemma started_action_marks:
  assumes "start_action rt ex a c input s = Inr (s', Inr d)" "once_only d"
  shows "marks rt a s s' \<and> \<not> List.member EMAIL_MUTATION_CAPABILITY_IDS (at_capability_id a)"
proof (cases "List.member EMAIL_MUTATION_CAPABILITY_IDS (at_capability_id a)")
  case True
  have "\<not> once_only d" if "start_email rt ex a input s = Inr (s', Inr d)"
    using started_email [OF that] by (auto simp: mails_def once_only_def split: dispatch.split_asm)
  with assms True show ?thesis
    by (auto simp: start_action_def Let_def split_sum_ex split: if_split_asm dest!: left_here)
next
  case False
  with assms show ?thesis
    by (auto simp: start_action_def Let_def split_sum_ex go_on_def once_only_def split: if_split_asm
        dest!: left_here intro: started_google_marks started_agency_marks)
qed

lemma checked_marks:
  assumes "checked_action rt ex a s = Inr (s', Inr d)" "once_only d"
  shows "marks rt a s s' \<and> \<not> List.member EMAIL_MUTATION_CAPABILITY_IDS (at_capability_id a)"
  using checked_starts [OF assms(1)] started_action_marks [OF _ assms(2)] by (auto dest!: left_here)

lemma begun_marks:
  assumes "begin_execution rt ex i refresh s = Inr (s', Inr d)" "once_only d" "find_attempt (gs_world s) i = Some a"
  shows "marks rt a s s' \<and> at_status a = Executing \<and> \<not> List.member EMAIL_MUTATION_CAPABILITY_IDS (at_capability_id a)"
proof -
  from assms(1,3) have e: "at_status a = Executing" "\<not> ended (at_status a)"
    by (auto simp: begin_execution_def split: if_split_asm dest!: left_here)
  let ?r = "if dispatch_started a then resume rt ex a s else go_on () s"
  let ?k = "\<lambda>_ s. case refresh of Some failure \<Rightarrow> fail_with rt a (failure_code ''google_refresh_failed'' failure) s
    | None \<Rightarrow> checked_action rt ex a s"
  from assms(1,3) e have "and_then ?r ?k = Inr (s', Inr d)"
    unfolding begin_execution_def by (simp del: if_split add: if_split [of _ "dispatch_started a"])
  from and_then_ended [OF this] obtain u s1 where r: "?r = Inr (s1, Inr u)" and k: "?k u s1 = Inr (s', Inr d)" by auto
  from k have m: "marks rt a s1 s' \<and> \<not> List.member EMAIL_MUTATION_CAPABILITY_IDS (at_capability_id a)"
    using assms(2) by (auto split: option.split_asm dest!: left_here checked_marks)
  have "s1 = s" using r m resumed_stops [of rt ex a s s1 "Inr u"] by (auto simp: go_on_def split: if_split_asm)
  with m e show ?thesis by simp
qed

lemma started_is_not_repeated:
  assumes "find_attempt (gs_world s) i = Some a" "at_status a = Executing" "dispatch_started a"
    "\<not> List.member EMAIL_MUTATION_CAPABILITY_IDS (at_capability_id a)"
    "process_action_execution_task rt ex i s = (s', d, r)"
  shows "d = None"
proof -
  obtain s1 fr where f: "refresh_before rt ex i s = (s1, fr)" by force
  have a: "find_attempt (gs_world s1) i = Some a"
    using assms(1) refreshed_attempts [OF f] by (simp add: find_attempt_def)
  have b: "\<exists>b. v = Inl b" if "begin_execution rt ex i refresh s1 = Inr (s2, v)" for refresh s2 v
  proof -
    from that a assms(2,3) obtain k where "and_then (resume rt ex a s1) k = Inr (s2, v)"
      by (auto simp: begin_execution_def ended_def)
    from and_then_ended [OF this] resumed_stops [OF _ assms(4)] show ?thesis by blast
  qed
  show ?thesis
  proof (cases fr)
    case (Inl e)
    with assms(5) f show ?thesis by (simp add: process_action_execution_task_def)
  next
    case (Inr refresh)
    with assms(5) f show ?thesis
      by (cases "begin_execution rt ex i refresh s1")
        (auto simp: process_action_execution_task_def split: sum.split_asm dest: b)
  qed
qed



section \<open>Looking into a result\<close>

lemma acts_world [simp]: "acts (on_gw (add_event_at rt a e payload now) s) = acts s"
  by (simp add: acts_def on_gw_def add_event_at_def fresh_id_def Let_def)

lemma marked_acts: "mark_provider_write_reconcile_indeterminate rt a r reason s = Inr s' \<Longrightarrow> acts s' = acts s"
  by (auto simp: mark_provider_write_reconcile_indeterminate_def Let_def split_beta dest!: updated_acts)

lemma marked_by_id_acts: "mark_indeterminate_by_id rt i reason s = Inr s' \<Longrightarrow> acts s' = acts s"
  by (auto simp: mark_indeterminate_by_id_def split_option_ex dest: marked_acts)

lemma accessed_probe:
  assumes "calendar_access rt g client r input s = Inr (p, s')"
  shows "acts s' = acts s \<and> (\<forall>q. p = Inr q \<longrightarrow> (\<exists>token calendar event.
    q = CalendarProbe (rc_capability_id r) input token (rc_account r) calendar event \<and> jget input ''event_id'' = JStr event))"
proof (cases "nonempty_text (jget input ''event_id'')")
  case None
  with assms show ?thesis by (auto simp: calendar_access_def Let_def)
next
  case id: (Some event)
  then have event: "jget input ''event_id'' = JStr event"
    by (cases "jget input ''event_id''") (auto simp: nonempty_text_def split: if_split_asm)
  show ?thesis
  proof (cases "if truthy (jget input ''calendar_id'') then nonempty_text (jget input ''calendar_id'') else Some ''primary''")
    case None
    with assms id show ?thesis by (auto simp: calendar_access_def Let_def)
  next
    case (Some calendar)
    with assms id obtain acc where
      acc: "prepare_capability_access rt g client (rc_capability_id r) s = Inr (acc, s')" and
      p: "p = (case ac_failure acc of
                    Some failure \<Rightarrow> Inl (failure_code ''calendar_reconcile_access_failed'' failure)
                  | None \<Rightarrow>
                     (case (ac_token acc, ac_account acc) of
                        (Some token, Some account) \<Rightarrow>
                          if account \<noteq> rc_account r then Inl ''calendar_reconcile_account_mismatch''
                          else Inr (CalendarProbe (rc_capability_id r) input token account calendar event)
                      | _ \<Rightarrow> Inl ''calendar_reconcile_access_failed''))"
      by (auto simp: calendar_access_def Let_def)
    from p event keeps_acts [OF prepared_keeps [OF acc]] show ?thesis
      by (auto split: option.split_asm if_split_asm)
  qed
qed

text \<open>The event that was read back, or the request that the daemon answered, of an ambiguous receipt.\<close>

definition confirmed :: "reconcile_env \<Rightarrow> write_receipt \<Rightarrow> action_attempt \<Rightarrow> bool" where
  "confirmed rx row a \<longleftrightarrow>
     (\<exists>input token calendar event found. jget input ''event_id'' = JStr event
        \<and> calendar_get_event rx token calendar event = Inr (Inr found)
        \<and> google_calendar_reconcile_matches (rc_capability_id row) input found)
     \<or> (\<exists>asked answer. agency_probe row a = Some asked \<and> rx_request_pr rx asked = Inr (Inr answer))"

lemma chosen_probe:
  assumes "choose_probe rt rx r a s = Inr (p, s')"
  shows "acts s' = acts s \<and> (\<forall>q. p = Inr q \<longrightarrow>
    (\<exists>input token account calendar event. q = CalendarProbe (rc_capability_id r) input token account calendar event
        \<and> jget input ''event_id'' = JStr event)
    \<or> (\<exists>asked. q = AgencyProbe asked \<and> agency_probe r a = Some asked))"
proof -
  have "calendar_probe rt rx r a s = Inr (p, s') \<or> s' = s \<and> (\<forall>q. p = Inr q \<longrightarrow> (\<exists>asked. q = AgencyProbe asked \<and> agency_probe r a = Some asked))"
    using assms by (auto simp: choose_probe_def split: if_split_asm option.split_asm)
  then show ?thesis
  proof (elim disjE)
    assume "calendar_probe rt rx r a s = Inr (p, s')"
    from calendar_probed [OF this] show ?thesis
    proof (elim disjE exE)
      fix g input assume "calendar_access rt g (rx_client rx) r input s = Inr (p, s')"
      from accessed_probe [OF this] show ?thesis by blast
    qed auto
  qed blast
qed

lemma probed_acts:
  assumes "run_probe rt rx i p s = (s', r)" "acts s' \<noteq> acts s"
  shows "(\<exists>cid input token account calendar event found. p = CalendarProbe cid input token account calendar event
      \<and> calendar_get_event rx token calendar event = Inr (Inr found) \<and> google_calendar_reconcile_matches cid input found)
    \<or> (\<exists>asked answer. p = AgencyProbe asked \<and> rx_request_pr rx asked = Inr (Inr answer))"
proof (cases p)
  case (CalendarProbe cid input token account calendar event)
  then show ?thesis
    using assms
    by (cases "calendar_get_event rx token calendar event")
      (auto simp: run_probe_def Let_def split: sum.split_asm if_split_asm dest: marked_by_id_acts)
next
  case (AgencyProbe asked)
  then show ?thesis
    using assms
    by (cases "rx_request_pr rx asked"; cases "ambiguous_receipt s i")
      (auto simp: run_probe_def Let_def split: sum.split_asm option.split_asm dest: marked_by_id_acts)
qed


end
