(* ===== verification/Spec2Isabelle.thy ===== *)
theory Spec2Isabelle
  imports Egress_Laws Registry_Laws Callables Program_Laws Task_Laws Discord_Delivery Write_Laws
begin

text \<open>
  Ariel is a personal agent. A turn runs a program that a language model wrote, in a sandbox; the program
  reaches the world only through capabilities. Every call of a capability is validated, judged by a policy
  from its impact and from where its input came from, and then answered inline, refused, or parked behind
  an approval of the user. An approved action is executed by a worker, outside of the turn. What is
  modelled is this path, from the message of the sandbox to the receipt of the write, with the connector
  and the queue it uses.

  \<^bold>\<open>Parts and theories\<close>, in the order of a call. Files are those of \<open>src/ariel/\<close>; the definitions keep the
  names of the code, without a leading underscore.

  \<^item> \<open>Ariel_Prelude\<close>, \<open>Ariel_Datetime\<close>, \<open>Urls\<close>: the parts of Python the code uses: strings, JSON values,
    dictionaries as association lists in insertion order, \<open>datetime\<close>, \<open>urllib.parse\<close>, \<open>ipaddress\<close>. An
    exception is a value of \<open>exn\<close>; a validator returns \<open>Rejected\<close> (its error code) or \<open>Raised\<close> (an
    exception it does not catch).
  \<^item> \<open>Sandbox_Channel\<close> (\<open>sandbox_runtime.py\<close>) and \<open>Run_Program\<close> (\<open>run_runtime.py\<close>): every line of the
    guest, the syscalls, the scratch store, the outcome. The guest is an arbitrary list of messages.
    \<open>Run_Laws\<close> and \<open>Program_Laws\<close> state what no program can do.
  \<^item> \<open>Cap_Reads\<close>, \<open>Cap_Writes\<close>, \<open>Cap_Egress\<close>, \<open>Web_Extract\<close>, \<open>Registry\<close>, \<open>Callables\<close>
    (\<open>capability_registry.py\<close>): one validator and one egress intent per capability, the table, the names
    a program may call. \<open>Registry_Laws\<close>, \<open>Egress_Laws\<close>: laws of the whole table.
  \<^item> \<open>Policy\<close> (\<open>policy_engine.py\<close>), \<open>Executor\<close> (\<open>executor.py\<close>), \<open>Redaction\<close> (\<open>redaction.py\<close>),
    \<open>Secret_Cipher\<close> (\<open>secret_cipher.py\<close>), \<open>Evidence_Surface\<close> (\<open>provider_evidence_surface.py\<close>),
    \<open>Weather_State\<close> (\<open>weather_state.py\<close>), \<open>Discord_Actions\<close> (\<open>discord_actions.py\<close>), \<open>Google_Scopes\<close>
    (the tables of \<open>google_connector.py\<close>).
  \<^item> \<open>Actions\<close>, \<open>Proposals\<close>, \<open>Approvals\<close> (\<open>action_runtime.py\<close>, with the tables of \<open>persistence.py\<close>): the
    rows of an action, \<open>process_one_call\<close>, \<open>resolve_approval_decision\<close>, \<open>reconcile_expired_approvals\<close>. The
    state is the record \<open>world\<close>, with one list per table, a clock and a counter of ids.
    \<open>Proposal_Laws\<close>, \<open>Approval_Laws\<close>, \<open>Expiry_Laws\<close> say what each operation leaves; \<open>Lifecycle\<close> and
    \<open>Store_Laws\<close> follow them over every reachable store.
  \<^item> \<open>Google_Connector\<close> (\<open>google_connector.py\<close>): the connected account, readiness, refresh, access, the
    OAuth flow, the disconnection. Its state \<open>google_state\<close> holds a \<open>world\<close>. \<open>Connector_Rows\<close> and
    \<open>Connector_Laws\<close>: what the operations keep, over the life of a connection.
  \<^item> \<open>Write_Receipts\<close>, \<open>Execution\<close>, \<open>Reconcile\<close> (\<open>action_runtime.py\<close>): the receipt of a provider write,
    \<open>process_action_execution_task\<close> in its three stages, and the task that looks into an unknown result.
    The state \<open>write_store\<close> extends \<open>google_state\<close> with the receipts. \<open>Receipt_Rows\<close> and \<open>Write_Laws\<close>: what
    holds when workers die at any point.
  \<^item> \<open>Task_Queue\<close>, \<open>Wake_Context\<close>, \<open>Discord_Delivery\<close> (\<open>worker.py\<close>, with pieces of \<open>agent_loop.py\<close>,
    \<open>research_runtime.py\<close> and \<open>app.py\<close>): the rounds of the worker, what wakes the agent, what is sent to
    the user. \<open>Task_Rows\<close> and \<open>Task_Laws\<close>: the queue over its rounds.

  \<^bold>\<open>Interfaces.\<close> Each is a locale with an interpretation on the definitions of the model: tables whose rows
  are found by a key and saved over it (\<open>keyed_table\<close>, of attempts and of receipts), normalizers whose results they accept again (\<open>normalizing\<close>),
  and emission at most once under a key (\<open>emit_once\<close>).

  \<^bold>\<open>Parameters.\<close> What is not code of the repository is an argument: the records \<open>services\<close> (clock, ids,
  nonces, SHA-256, AES-GCM, JSON encoding, the environment), \<open>executors\<close>, \<open>google_client\<close>, \<open>exec_env\<close>,
  \<open>reconcile_env\<close> (provider calls, the coding agency, memory), and the guest of a program. A property that
  needs a law of one of them, such as that decryption inverts encryption, names it as a hypothesis and has
  a witness with a concrete instance.

  \<^bold>\<open>Bounds and termination.\<close> Every function of the model is total. A conversation with a guest is a
  recursion over its messages, of any length; a deadline is the end of the list. The scanners of strings
  recurse over the text. Reachability is a reflexive transitive closure or the inductive \<open>trace\<close>, without
  a bound on the number of steps.

  \<^bold>\<open>What the properties say\<close>: no action is executed that was not approved, or allowed inline, as it was
  judged; untrusted input cannot write; requests are decided once, in time, by their user; every call is
  answered once; programs stay within their limits; every accepted input stays within the allowlist of its
  capability; sealed secrets open again, and fail in known ways only; an account connects once per OAuth
  state and disconnects completely; writes are sent once, whatever dies; the worker loses no recurring
  task and gives up one that fails; what the user sees carries the buttons of what is pending.

  \<^bold>\<open>Not modelled.\<close>
  \<^item> Characters above U+00FF, the column widths of PostgreSQL, its locks and isolation: one transaction runs
    at a time, and one that fails leaves no trace. Concurrency appears as interleaved steps.
  \<^item> The HTTP exchanges with Google, the model, Discord, the search and weather providers, and the
    container of the sandbox: they are I/O around the decisions that are modelled. The validators of
    Google's typed outputs and the watch channels are bound to those exchanges.
  \<^item> The bodies of the provider synchronization (\<open>sync_runtime.py\<close>), of memory and of the coding agency: the
    worker's handlers for them are parameters.
  \<^item> The HTTP service (\<open>app.py\<close>), its typed responses, the prompts, and the loop around the model
    (\<open>agent_loop.py\<close>): transport and text, but for the wake contexts and the numbering of events.
  \<^item> Configuration, deployment checks, scripts and migrations: they run before the program or beside it.
\<close>

end
